(* ===== verification/Prelude.thy ===== *)
theory Prelude
  imports Main "HOL-Library.Multiset" "HOL-Library.Char_ord" "HOL-Library.List_Lexorder"
    "HOL-Library.Word"
begin

text \<open>
  What every theory of the development shares.

  \<^item> A Go function that can panic (a nil dereference, an index out of range) returns
    \<open>'a go\<close>, an option whose \<open>None\<close> is the panic; \<open>go_bind\<close> sequences two
    such computations and \<open>for_go\<close> is a loop whose body can panic.
  \<^item> A Go loop that appends to a result slice, with \<open>continue\<close> as "append nothing", is
    \<open>for_append\<close>; a loop that returns true at the first hit is \<open>list_ex\<close>.
  \<^item> \<open>sort_slice\<close> is Go's \<open>sort.Slice\<close> for a given comparator. Go's sort is not
    stable, so nothing may rest on the order of elements the comparator ties; the locale
    \<open>go_order\<close> states what a comparator must satisfy for the result to be determined,
    and proves that it then does not depend on the order of the input.
  \<^item> Strings are lists of bytes, and \<open><\<close> on them is the bytewise lexicographic order that
    Go's \<open><\<close> and \<open>sort.Strings\<close> use.
\<close>

named_theorems model_simps "definitions the component proofs unfold together"

type_synonym 'a go = "'a option"
type_synonym int32 = "32 word"
type_synonym str = "char list"

abbreviation panics :: "'a go \<Rightarrow> bool" where
  "panics r \<equiv> r = None"

section \<open>Loops\<close>

abbreviation for_append :: "'a list \<Rightarrow> ('a \<Rightarrow> 'b list) \<Rightarrow> 'b list" where
  "for_append xs f \<equiv> concat (map f xs)"

abbreviation go_bind :: "'a go \<Rightarrow> ('a \<Rightarrow> 'b go) \<Rightarrow> 'b go" where
  "go_bind \<equiv> Option.bind"

fun for_go :: "'a list \<Rightarrow> ('a \<Rightarrow> 'b list go) \<Rightarrow> 'b list go" where
  "for_go [] f = Some []"
| "for_go (x # xs) f =
     go_bind (f x) (\<lambda>ys. go_bind (for_go xs f) (\<lambda>zs. Some (ys @ zs)))"

lemma for_go_total:
  "(\<And>x. x \<in> set xs \<Longrightarrow> f x = Some (g x)) \<Longrightarrow> for_go xs f = Some (for_append xs g)"
  by (induction xs) auto

lemma for_go_Some_iff:
  "(\<exists>ys. for_go xs f = Some ys) \<longleftrightarrow> (\<forall>x \<in> set xs. \<exists>ys. f x = Some ys)"
  by (induction xs) (auto simp: bind_eq_Some_conv)

lemma for_go_cong [fundef_cong]:
  "xs = ys \<Longrightarrow> (\<And>x. x \<in> set ys \<Longrightarrow> f x = g x) \<Longrightarrow> for_go xs f = for_go ys g"
  by (induction ys arbitrary: xs) auto

lemma for_append_Nil_iff: "for_append xs f = [] \<longleftrightarrow> (\<forall>x \<in> set xs. f x = [])"
  by (induction xs) auto

lemma for_append_if:
  "for_append xs (\<lambda>x. if P x then [] else [g x]) = map g (filter (\<lambda>x. \<not> P x) xs)"
  by (induction xs) auto

lemma for_append_if':
  "for_append xs (\<lambda>x. if P x then [g x] else []) = map g (filter P xs)"
  by (induction xs) auto

lemma for_append_guarded:
  "(\<And>x. f x = (if P x then [g x] else [])) \<Longrightarrow> for_append xs f = map g (filter P xs)"
  by (induction xs) simp_all

lemma for_append_singleton: "for_append xs (\<lambda>x. [g x]) = map g xs"
  by (induction xs) auto

lemma for_append_append: "for_append (xs @ ys) f = for_append xs f @ for_append ys f"
  by simp

lemma filter_for_append:
  "filter P (for_append xs f) = for_append xs (\<lambda>x. filter P (f x))"
  by (induction xs) auto

lemma map_for_append: "map g (for_append xs f) = for_append xs (\<lambda>x. map g (f x))"
  by (induction xs) auto

section \<open>Sorting with a comparator\<close>

fun insert_by :: "('a \<Rightarrow> 'a \<Rightarrow> bool) \<Rightarrow> 'a \<Rightarrow> 'a list \<Rightarrow> 'a list" where
  "insert_by lt x [] = [x]"
| "insert_by lt x (y # ys) =
     (if lt y x then y # insert_by lt x ys else x # y # ys)"

definition sort_slice :: "('a \<Rightarrow> 'a \<Rightarrow> bool) \<Rightarrow> 'a list \<Rightarrow> 'a list" where
  "sort_slice lt xs = foldr (insert_by lt) xs []"

lemma mset_insert_by [simp]: "mset (insert_by lt x ys) = add_mset x (mset ys)"
  by (induction ys) auto

lemma mset_sort_slice [simp]: "mset (sort_slice lt xs) = mset xs"
  by (induction xs) (auto simp: sort_slice_def)

lemma set_sort_slice [simp]: "set (sort_slice lt xs) = set xs"
  by (metis mset_sort_slice set_mset_mset)

lemma length_sort_slice [simp]: "length (sort_slice lt xs) = length xs"
  by (metis mset_sort_slice size_mset)

lemma sort_slice_Nil [simp]: "sort_slice lt [] = []"
  by (simp add: sort_slice_def)

lemma sort_slice_Cons: "sort_slice lt (x # xs) = insert_by lt x (sort_slice lt xs)"
  by (simp add: sort_slice_def)

locale go_order =
  fixes lt :: "'a \<Rightarrow> 'a \<Rightarrow> bool"
  assumes less_irrefl: "\<not> lt x x"
    and less_trans: "lt x y \<Longrightarrow> lt y z \<Longrightarrow> lt x z"
    and less_total: "x \<noteq> y \<Longrightarrow> lt x y \<or> lt y x"
begin

lemma less_asym: "lt x y \<Longrightarrow> \<not> lt y x"
  using less_irrefl less_trans by blast

lemma sorted_insert_by:
  "sorted_wrt (\<lambda>a b. \<not> lt b a) ys \<Longrightarrow> sorted_wrt (\<lambda>a b. \<not> lt b a) (insert_by lt x ys)"
proof (induction ys)
  case Nil
  then show ?case by simp
next
  case (Cons y ys)
  have set_ins: "set (insert_by lt x ys) = insert x (set ys)"
    by (metis mset_insert_by set_mset_add_mset_insert set_mset_mset)
  show ?case
  proof (cases "lt y x")
    case True
    with Cons set_ins show ?thesis by (auto dest: less_asym)
  next
    case False
    have "\<not> lt z x" if "z \<in> set ys" for z
    proof
      assume zx: "lt z x"
      from Cons.prems that have "\<not> lt z y" by simp
      with less_total [of y z] have "y = z \<or> lt y z" by blast
      with zx False less_trans show False by blast
    qed
    with Cons.prems False show ?thesis by auto
  qed
qed

lemma sorted_sort_slice: "sorted_wrt (\<lambda>a b. \<not> lt b a) (sort_slice lt xs)"
  by (induction xs) (auto simp: sort_slice_Cons intro: sorted_insert_by)

lemma sorted_perm_unique:
  assumes "mset xs = mset ys"
    and "sorted_wrt (\<lambda>a b. \<not> lt b a) xs" and "sorted_wrt (\<lambda>a b. \<not> lt b a) ys"
  shows "xs = ys"
  using assms
proof (induction xs arbitrary: ys)
  case Nil
  then show ?case by simp
next
  case (Cons x xs)
  then obtain y ys' where ys: "ys = y # ys'" by (cases ys) auto
  have "x \<in> set ys" and "y \<in> set (x # xs)"
    using Cons.prems(1) ys by (metis list.set_intros(1) mset_eq_setD)+
  with Cons.prems(2,3) ys have "x = y \<or> \<not> lt x y" and "x = y \<or> \<not> lt y x" by auto
  then have "x = y" using less_total by blast
  with Cons ys show ?case by simp
qed

lemma sort_slice_perm:
  "mset xs = mset ys \<Longrightarrow> sort_slice lt xs = sort_slice lt ys"
  by (rule sorted_perm_unique) (simp_all add: sorted_sort_slice)

end

interpretation linear: go_order "(<) :: 'a::linorder \<Rightarrow> 'a \<Rightarrow> bool"
  by unfold_locales auto

definition sort_strings :: "str list \<Rightarrow> str list" where
  "sort_strings = sort_slice (<)"

lemma set_sort_strings [simp]: "set (sort_strings xs) = set xs"
  by (simp add: sort_strings_def)

lemma mset_sort_strings [simp]: "mset (sort_strings xs) = mset xs"
  by (simp add: sort_strings_def)

lemma length_sort_strings [simp]: "length (sort_strings xs) = length xs"
  by (simp add: sort_strings_def)

lemma sort_strings_perm: "mset xs = mset ys \<Longrightarrow> sort_strings xs = sort_strings ys"
  unfolding sort_strings_def by (rule linear.sort_slice_perm)

lemma sort_strings_sorted: "sorted (sort_strings xs)"
  using linear.sorted_sort_slice [of xs] by (simp add: sort_strings_def not_less)

lemma sort_strings_eq_sort: "sort_strings xs = sort xs"
  by (metis mset_sort mset_sort_strings properties_for_sort sort_strings_sorted)

end
