(* ===== verification/Go_Lib.thy ===== *)
theory Go_Lib
  imports Prelude "HOL-Library.AList"
begin

text \<open>
  The parts of Go's standard library the checks use, and the parameters that stand for what
  is not in the repository.

  The record \<open>runtime\<close> holds those parameters: the Unicode tables behind
  \<open>strconv.IsPrint\<close> (for code points above U+00FF) and \<open>unicode.ToLower\<close> (above
  U+007F), apimachinery's \<open>metav1.LabelSelectorAsSelector\<close>, and the order in which Go
  ranges over a map. Go leaves that order open, so every \<open>range\<close> over a map asks
  \<open>range_order\<close> for one, naming the loop; \<open>range_ok\<close> says that what it returns is an
  enumeration of the map, whatever its order. No theorem assumes more about the parameters.

  A Go map that the code ranges over is an association list with distinct keys; a map that is
  only looked up is a HOL map, and a \<open>map[K]struct{}\<close> that is only asked for membership
  is a set.
\<close>

section \<open>Parameters\<close>

record label_requirement =
  req_Key :: str
  req_Operator :: str
  req_Values :: "str list"

type_synonym label_map = "(str \<times> str) list"

record runtime =
  is_print_table :: "nat \<Rightarrow> bool"
  lower_table :: "nat \<Rightarrow> nat"
  LabelSelectorAsSelector :: "label_map \<Rightarrow> label_requirement list \<Rightarrow> (label_map \<Rightarrow> bool) option"
  range_order :: "str \<Rightarrow> nat \<Rightarrow> nat list"

definition range_ok :: "runtime \<Rightarrow> bool" where
  "range_ok R \<longleftrightarrow> (\<forall>site n. mset (range_order R site n) = mset [0..<n])"

definition same_tables :: "runtime \<Rightarrow> runtime \<Rightarrow> bool" where
  "same_tables R S \<longleftrightarrow>
     is_print_table R = is_print_table S \<and> lower_table R = lower_table S \<and>
     LabelSelectorAsSelector R = LabelSelectorAsSelector S"

text \<open>Two concrete runtimes, which range over maps in opposite orders.\<close>

definition forward_runtime :: runtime where
  "forward_runtime =
     \<lparr>is_print_table = (\<lambda>_. True), lower_table = (\<lambda>r. r),
      LabelSelectorAsSelector = (\<lambda>want reqs.
        if reqs = [] then Some (\<lambda>have. list_all (\<lambda>kv. kv \<in> set have) want) else None),
      range_order = (\<lambda>_ n. [0..<n])\<rparr>"

definition backward_runtime :: runtime where
  "backward_runtime = forward_runtime\<lparr>range_order := (\<lambda>_ n. rev [0..<n])\<rparr>"

lemma range_ok_forward: "range_ok forward_runtime"
  by (simp add: range_ok_def forward_runtime_def)

lemma range_ok_backward: "range_ok backward_runtime"
  by (simp add: range_ok_def forward_runtime_def backward_runtime_def)

lemma same_tables_backward: "same_tables forward_runtime backward_runtime"
  by (simp add: same_tables_def backward_runtime_def)

section \<open>Maps\<close>

definition go_range :: "runtime \<Rightarrow> str \<Rightarrow> 'a list \<Rightarrow> 'a list" where
  "go_range R site xs = map (\<lambda>i. xs ! i) (range_order R site (length xs))"

lemma mset_go_range: "range_ok R \<Longrightarrow> mset (go_range R site xs) = mset xs"
proof -
  assume "range_ok R"
  then have "mset (range_order R site (length xs)) = mset [0..<length xs]"
    by (simp add: range_ok_def)
  then have "mset (go_range R site xs) = mset (map (\<lambda>i. xs ! i) [0..<length xs])"
    by (simp add: go_range_def)
  then show ?thesis by (simp only: map_nth)
qed

lemma set_go_range: "range_ok R \<Longrightarrow> set (go_range R site xs) = set xs"
  by (metis mset_go_range set_mset_mset)

lemma length_go_range: "range_ok R \<Longrightarrow> length (go_range R site xs) = length xs"
  by (metis mset_go_range size_mset)

lemma distinct_go_range: "range_ok R \<Longrightarrow> distinct xs \<Longrightarrow> distinct (go_range R site xs)"
  by (metis mset_go_range distinct_count_atmost_1 mset_eq_setD)

text \<open>\<open>m[key(x)] = append(m[key(x)], x)\<close> for every \<open>x\<close>, and \<open>m[key(x)]++\<close>.\<close>

definition group_add :: "'k \<Rightarrow> 'v \<Rightarrow> ('k \<times> 'v list) list \<Rightarrow> ('k \<times> 'v list) list" where
  "group_add k v m = AList.update k ((case map_of m k of None \<Rightarrow> [] | Some vs \<Rightarrow> vs) @ [v]) m"

fun group_by :: "('v \<Rightarrow> 'k) \<Rightarrow> ('k \<times> 'v list) list \<Rightarrow> 'v list \<Rightarrow> ('k \<times> 'v list) list" where
  "group_by key m [] = m"
| "group_by key m (x # xs) = group_by key (group_add (key x) x m) xs"

definition count_add :: "'k \<Rightarrow> ('k \<times> nat) list \<Rightarrow> ('k \<times> nat) list" where
  "count_add k m = AList.update k (Suc (case map_of m k of None \<Rightarrow> 0 | Some n \<Rightarrow> n)) m"

fun count_keys :: "('k \<times> nat) list \<Rightarrow> 'k list \<Rightarrow> ('k \<times> nat) list" where
  "count_keys m [] = m"
| "count_keys m (k # ks) = count_keys (count_add k m) ks"

text \<open>Reading a missing key yields the zero value.\<close>

definition lookup0 :: "('k \<times> nat) list \<Rightarrow> 'k \<Rightarrow> nat" where
  "lookup0 m k = (case map_of m k of None \<Rightarrow> 0 | Some n \<Rightarrow> n)"

definition lookup_nil :: "('k \<times> 'v list) list \<Rightarrow> 'k \<Rightarrow> 'v list" where
  "lookup_nil m k = (case map_of m k of None \<Rightarrow> [] | Some vs \<Rightarrow> vs)"

lemma keys_update: "fst ` set (AList.update k v m) = insert k (fst ` set m)"
  by (induction m) auto

lemma group_by_map_of:
  "map_of (group_by key m xs) k =
     (case map_of m k of
        None \<Rightarrow> (if filter (\<lambda>x. key x = k) xs = [] then None else Some (filter (\<lambda>x. key x = k) xs))
      | Some vs \<Rightarrow> Some (vs @ filter (\<lambda>x. key x = k) xs))"
  by (induction xs arbitrary: m)
    (auto simp: group_add_def update_conv' split: option.splits)

lemma lookup_nil_group_by: "lookup_nil (group_by key [] xs) k = filter (\<lambda>x. key x = k) xs"
  by (simp add: lookup_nil_def group_by_map_of)

lemma keys_group_by: "fst ` set (group_by key m xs) = fst ` set m \<union> key ` set xs"
proof (induction xs arbitrary: m)
  case Nil
  then show ?case by simp
next
  case (Cons x xs)
  have "fst ` set (group_add (key x) x m) = insert (key x) (fst ` set m)"
    by (simp add: group_add_def keys_update)
  with Cons show ?case by simp
qed

lemma distinct_group_by: "distinct (map fst m) \<Longrightarrow> distinct (map fst (group_by key m xs))"
  by (induction xs arbitrary: m) (auto simp: group_add_def distinct_update)

lemma group_by_entry:
  "(k, vs) \<in> set (group_by key [] xs) \<longleftrightarrow> vs = filter (\<lambda>x. key x = k) xs \<and> vs \<noteq> []"
proof -
  have "(k, vs) \<in> set (group_by key [] xs) \<longleftrightarrow> map_of (group_by key [] xs) k = Some vs"
    using distinct_group_by [of "[]" key xs] by simp
  then show ?thesis by (auto simp: group_by_map_of)
qed

lemma count_keys_map_of:
  "map_of (count_keys m ks) k =
     (case map_of m k of
        None \<Rightarrow> (if k \<in> set ks then Some (count_list ks k) else None)
      | Some n \<Rightarrow> Some (n + count_list ks k))"
  by (induction ks arbitrary: m)
    (auto simp: count_add_def update_conv' split: option.splits)

lemma lookup0_count_keys: "lookup0 (count_keys [] ks) k = count_list ks k"
  by (simp add: lookup0_def count_keys_map_of count_list_0_iff)

lemma keys_count_keys: "fst ` set (count_keys m ks) = fst ` set m \<union> set ks"
proof (induction ks arbitrary: m)
  case Nil
  then show ?case by simp
next
  case (Cons x xs)
  have "fst ` set (count_add x m) = insert x (fst ` set m)"
    by (simp add: count_add_def keys_update)
  with Cons show ?case by simp
qed

lemma distinct_count_keys: "distinct (map fst m) \<Longrightarrow> distinct (map fst (count_keys m ks))"
  by (induction ks arbitrary: m) (auto simp: count_add_def distinct_update)

lemma count_keys_entry:
  "(k, n) \<in> set (count_keys [] ks) \<longleftrightarrow> k \<in> set ks \<and> n = count_list ks k"
proof -
  have "(k, n) \<in> set (count_keys [] ks) \<longleftrightarrow> map_of (count_keys [] ks) k = Some n"
    using distinct_count_keys [of "[]" ks] by simp
  then show ?thesis by (auto simp: count_keys_map_of)
qed

lemma sum_counts:
  "sum_list (map snd (count_keys m ks)) = sum_list (map snd m) + length ks"
  if "distinct (map fst m)"
  using that
proof (induction ks arbitrary: m)
  case Nil
  then show ?case by simp
next
  case (Cons k ks)
  have upd: "sum_list (map snd (AList.update k (Suc (case map_of m k of None \<Rightarrow> 0 | Some n \<Rightarrow> n)) m))
      = Suc (sum_list (map snd m))"
    using Cons.prems by (induction m) auto
  have "distinct (map fst (count_add k m))"
    using Cons.prems by (simp add: count_add_def distinct_update)
  from Cons.IH [OF this] upd show ?case by (simp add: count_add_def)
qed

end
