(* ===== verification/Go_Strings.thy ===== *)
theory Go_Strings
  imports Go_Lib
begin

text \<open>
  The string operations the diagnostics are built with: \<open>%d\<close>, \<open>%q\<close> (that is,
  \<open>strconv.Quote\<close>), \<open>strings.Join\<close> and \<open>strings.ToLower\<close>. A Go string is a list
  of bytes; \<open>%q\<close> and \<open>ToLower\<close> decode it as UTF-8, with an invalid byte as a rune of
  width one. Only the Unicode tables above U+00FF (\<open>%q\<close>) and U+007F (\<open>ToLower\<close>) are
  left to the runtime parameter.
\<close>

section \<open>Decimal numbers\<close>

definition digit_char :: "nat \<Rightarrow> char" where
  "digit_char d = char_of (48 + d)"

fun fmt_nat :: "nat \<Rightarrow> str" where
  "fmt_nat n = (if n < 10 then [digit_char n] else fmt_nat (n div 10) @ [digit_char (n mod 10)])"

declare fmt_nat.simps [simp del]

definition fmt_int :: "int \<Rightarrow> str" where
  "fmt_int i = (if i < 0 then ''-'' @ fmt_nat (nat (- i)) else fmt_nat (nat i))"

definition fmt_int32 :: "int32 \<Rightarrow> str" where
  "fmt_int32 w = fmt_int (sint w)"

section \<open>UTF-8\<close>

definition byte_of :: "char \<Rightarrow> nat" where
  "byte_of c = of_char c"

definition cont_byte :: "nat \<Rightarrow> bool" where
  "cont_byte b \<longleftrightarrow> 128 \<le> b \<and> b \<le> 191"

text \<open>\<open>utf8.DecodeRune\<close>: the rune and its width; an invalid prefix is U+FFFD of width one.\<close>

definition rune_error :: nat where
  "rune_error = 65533"

definition decode2 :: "nat \<Rightarrow> nat list \<Rightarrow> nat \<times> nat" where
  "decode2 b bs = (case bs of
     c # _ \<Rightarrow> if cont_byte c then ((b - 192) * 64 + (c - 128), 2) else (rune_error, 1)
   | _ \<Rightarrow> (rune_error, 1))"

definition decode3 :: "nat \<Rightarrow> nat list \<Rightarrow> nat \<times> nat" where
  "decode3 b bs = (case bs of
     c # d # _ \<Rightarrow>
       if (if b = 224 then 160 else 128) \<le> c \<and> c \<le> (if b = 237 then 159 else 191) \<and> cont_byte d
       then ((b - 224) * 4096 + (c - 128) * 64 + (d - 128), 3) else (rune_error, 1)
   | _ \<Rightarrow> (rune_error, 1))"

definition decode4 :: "nat \<Rightarrow> nat list \<Rightarrow> nat \<times> nat" where
  "decode4 b bs = (case bs of
     c # d # e # _ \<Rightarrow>
       if (if b = 240 then 144 else 128) \<le> c \<and> c \<le> (if b = 244 then 143 else 191)
          \<and> cont_byte d \<and> cont_byte e
       then ((b - 240) * 262144 + (c - 128) * 4096 + (d - 128) * 64 + (e - 128), 4)
       else (rune_error, 1)
   | _ \<Rightarrow> (rune_error, 1))"

definition decode_rune :: "nat \<Rightarrow> nat list \<Rightarrow> nat \<times> nat" where
  "decode_rune b bs =
     (if b < 128 then (b, 1)
      else if 194 \<le> b \<and> b \<le> 223 then decode2 b bs
      else if 224 \<le> b \<and> b \<le> 239 then decode3 b bs
      else if 240 \<le> b \<and> b \<le> 244 then decode4 b bs
      else (rune_error, 1))"

text \<open>\<open>utf8.AppendRune\<close>.\<close>

definition encode_rune :: "nat \<Rightarrow> nat list" where
  "encode_rune r =
     (if r < 128 then [r]
      else if r < 2048 then [192 + r div 64, 128 + r mod 64]
      else if r > 1114111 \<or> (55296 \<le> r \<and> r \<le> 57343) then [239, 191, 189]
      else if r < 65536 then [224 + r div 4096, 128 + r div 64 mod 64, 128 + r mod 64]
      else [240 + r div 262144, 128 + r div 4096 mod 64, 128 + r div 64 mod 64, 128 + r mod 64])"

definition encode_str :: "nat \<Rightarrow> str" where
  "encode_str r = map char_of (encode_rune r)"

section \<open>Quoting\<close>

definition hex_char :: "nat \<Rightarrow> char" where
  "hex_char d = (if d < 10 then char_of (48 + d) else char_of (87 + d))"

definition hex2 :: "nat \<Rightarrow> str" where
  "hex2 r = [hex_char (r div 16 mod 16), hex_char (r mod 16)]"

definition hex4 :: "nat \<Rightarrow> str" where
  "hex4 r = hex2 (r div 256 mod 256) @ hex2 (r mod 256)"

definition hex8 :: "nat \<Rightarrow> str" where
  "hex8 r = hex4 (r div 65536) @ hex4 (r mod 65536)"

definition IsPrint :: "runtime \<Rightarrow> nat \<Rightarrow> bool" where
  "IsPrint R r =
     (if r \<le> 255 then 32 \<le> r \<and> r < 127 \<or> 161 \<le> r \<and> r \<noteq> 173 else is_print_table R r)"

text \<open>The bytes 92 and 34 are the backslash and the double quote.\<close>

definition escape_rune :: "runtime \<Rightarrow> nat \<Rightarrow> str" where
  "escape_rune R r =
     (let bs = CHR 0x5C in
      if r = 34 \<or> r = 92 then [bs, char_of r]
      else if IsPrint R r then encode_str r
      else if r = 7 then [bs, CHR ''a'']
      else if r = 8 then [bs, CHR ''b'']
      else if r = 12 then [bs, CHR ''f'']
      else if r = 10 then [bs, CHR ''n'']
      else if r = 13 then [bs, CHR ''r'']
      else if r = 9 then [bs, CHR ''t'']
      else if r = 11 then [bs, CHR ''v'']
      else if r < 32 \<or> r = 127 then [bs, CHR ''x''] @ hex2 r
      else if r < 65536 then [bs, CHR ''u''] @ hex4 r
      else [bs, CHR ''U''] @ hex8 r)"

fun quote_body :: "runtime \<Rightarrow> str \<Rightarrow> str" where
  "quote_body R [] = []"
| "quote_body R (c # cs) =
     (let (r, w) = decode_rune (byte_of c) (map byte_of cs)
      in (if w = 1 \<and> r = rune_error then [CHR 0x5C, CHR ''x''] @ hex2 (byte_of c)
          else escape_rune R r)
         @ quote_body R (drop (w - 1) cs))"

definition quote :: "runtime \<Rightarrow> str \<Rightarrow> str" where
  "quote R s = [CHR 0x22] @ quote_body R s @ [CHR 0x22]"

section \<open>Joining and case folding\<close>

fun Join :: "str list \<Rightarrow> str \<Rightarrow> str" where
  "Join [] sep = []"
| "Join [x] sep = x"
| "Join (x # y # ys) sep = x @ sep @ Join (y # ys) sep"

definition lower_rune :: "runtime \<Rightarrow> nat \<Rightarrow> nat" where
  "lower_rune R r =
     (if r < 128 then (if 65 \<le> r \<and> r \<le> 90 then r + 32 else r) else lower_table R r)"

fun ToLower :: "runtime \<Rightarrow> str \<Rightarrow> str" where
  "ToLower R [] = []"
| "ToLower R (c # cs) =
     (let (r, w) = decode_rune (byte_of c) (map byte_of cs)
      in encode_str (lower_rune R r) @ ToLower R (drop (w - 1) cs))"

text \<open>
  \<open>strings.Join(xs[:len(xs)-1], sep) + last + xs[len(xs)-1]\<close>, the list the messages end in:
  slicing an empty list panics.
\<close>

definition join_last :: "str list \<Rightarrow> str \<Rightarrow> str \<Rightarrow> str go" where
  "join_last xs sep lst =
     (if xs = [] then None else Some (Join (butlast xs) sep @ lst @ last xs))"

lemma join_last_total: "xs \<noteq> [] \<Longrightarrow> \<exists>s. join_last xs sep lst = Some s"
  by (simp add: join_last_def)

section \<open>What the components use of them\<close>

definition ascii :: "str \<Rightarrow> bool" where
  "ascii s \<longleftrightarrow> list_all (\<lambda>c. byte_of c < 128) s"

definition lower_char :: "char \<Rightarrow> char" where
  "lower_char c = (if 65 \<le> byte_of c \<and> byte_of c \<le> 90 then char_of (byte_of c + 32) else c)"

lemma decode_rune_ascii [simp]: "b < 128 \<Longrightarrow> decode_rune b bs = (b, 1)"
  by (simp add: decode_rune_def)

lemma char_of_byte_of [simp]: "char_of (byte_of c) = c"
  by (simp add: byte_of_def)

lemma encode_str_ascii: "b < 128 \<Longrightarrow> encode_str b = [char_of b]"
  by (simp add: encode_str_def encode_rune_def)

lemma ToLower_ascii: "ascii s \<Longrightarrow> ToLower R s = map lower_char s"
proof (induction s)
  case Nil
  then show ?case by simp
next
  case (Cons c cs)
  then show ?case
    by (auto simp: ascii_def lower_rune_def lower_char_def encode_str_ascii)
qed

text \<open>A printable ASCII string without quote or backslash is quoted as it stands.\<close>

definition plain :: "str \<Rightarrow> bool" where
  "plain s \<longleftrightarrow> list_all (\<lambda>c. 32 \<le> byte_of c \<and> byte_of c < 127 \<and> byte_of c \<noteq> 34 \<and> byte_of c \<noteq> 92) s"

lemma quote_body_plain: "plain s \<Longrightarrow> quote_body R s = s"
  by (induction s)
    (auto simp: plain_def escape_rune_def Let_def IsPrint_def rune_error_def encode_str_ascii)

lemma quote_plain: "plain s \<Longrightarrow> quote R s = [CHR 0x22] @ s @ [CHR 0x22]"
  by (simp add: quote_def quote_body_plain)

lemma quote_body_same_tables:
  "escape_rune R = escape_rune S \<Longrightarrow> quote_body R s = quote_body S s"
proof (induction s rule: length_induct)
  case (1 s)
  show ?case
  proof (cases s)
    case (Cons c cs)
    with 1 show ?thesis by (auto split: prod.splits)
  qed simp
qed

lemma escape_rune_cong:
  assumes "IsPrint R r = IsPrint S r"
  shows "escape_rune R r = escape_rune S r"
  unfolding escape_rune_def assms by (rule refl)

lemma quote_same_tables:
  assumes "is_print_table R = is_print_table S"
  shows "quote R s = quote S s"
proof -
  have "IsPrint R = IsPrint S" using assms by (simp add: IsPrint_def fun_eq_iff)
  then have "escape_rune R = escape_rune S" by (intro ext) (rule escape_rune_cong, simp)
  then show ?thesis unfolding quote_def using quote_body_same_tables by metis
qed

lemma ToLower_same_tables:
  assumes "lower_table R = lower_table S"
  shows "ToLower R s = ToLower S s"
proof (induction s rule: length_induct)
  case (1 s)
  have low: "lower_rune R = lower_rune S" using assms by (simp add: lower_rune_def fun_eq_iff)
  show ?case
  proof (cases s)
    case (Cons c cs)
    with 1 show ?thesis by (auto simp: low split: prod.splits)
  qed simp
qed

end
