(* ===== verification/Objects.thy ===== *)
theory Objects
  imports Go_Strings
begin

text \<open>
  The objects the checks read: the Gateway API, Envoy Gateway and core types, each reduced to
  the fields some function under \<open>pkg/\<close> reads, and kube-linter's lint context. A Go
  pointer field is an option; a slice is a list, and no function of the program tells a nil
  slice from an empty one (\<open>AcceptsKind\<close> compares with nil a slice that is nil exactly
  when it is empty). Ports, weights and \<open>numRetries\<close> are 32-bit words, read with
  \<open>sint\<close>. The constants are the strings the manifests under \<open>examples/\<close> and the
  tests carry.
\<close>

section \<open>Constants of the API packages\<close>

definition gateway_group :: str where "gateway_group = ''gateway.networking.k8s.io''"
definition envoy_group :: str where "envoy_group = ''gateway.envoyproxy.io''"
definition KindBackend :: str where "KindBackend = ''Backend''"
definition KindBackendTrafficPolicy :: str where
  "KindBackendTrafficPolicy = ''BackendTrafficPolicy''"
definition HTTPProtocolType :: str where "HTTPProtocolType = ''HTTP''"
definition HTTPSProtocolType :: str where "HTTPSProtocolType = ''HTTPS''"
definition TLSProtocolType :: str where "TLSProtocolType = ''TLS''"
definition TCPProtocolType :: str where "TCPProtocolType = ''TCP''"
definition UDPProtocolType :: str where "UDPProtocolType = ''UDP''"
definition TLSModeTerminate :: str where "TLSModeTerminate = ''Terminate''"
definition NamespacesFromAll :: str where "NamespacesFromAll = ''All''"
definition NamespacesFromSelector :: str where "NamespacesFromSelector = ''Selector''"
definition NamespacesFromSame :: str where "NamespacesFromSame = ''Same''"
definition PathMatchPathPrefix :: str where "PathMatchPathPrefix = ''PathPrefix''"
definition MatchExact :: str where "MatchExact = ''Exact''"
definition FilterRequestRedirect :: str where "FilterRequestRedirect = ''RequestRedirect''"
definition FilterExtensionRef :: str where "FilterExtensionRef = ''ExtensionRef''"
definition BackendTypeEndpoints :: str where "BackendTypeEndpoints = ''Endpoints''"
definition BackendTypeDynamicResolver :: str where "BackendTypeDynamicResolver = ''DynamicResolver''"

lemmas api_constants =
  gateway_group_def envoy_group_def KindBackend_def KindBackendTrafficPolicy_def
  HTTPProtocolType_def HTTPSProtocolType_def
  TLSProtocolType_def TCPProtocolType_def UDPProtocolType_def TLSModeTerminate_def
  NamespacesFromAll_def NamespacesFromSelector_def NamespacesFromSame_def
  PathMatchPathPrefix_def MatchExact_def FilterRequestRedirect_def FilterExtensionRef_def
  BackendTypeEndpoints_def BackendTypeDynamicResolver_def

section \<open>Metadata\<close>

text \<open>
  \<open>meta_Created\<close> is \<open>metadata.creationTimestamp\<close> in Unix seconds, \<open>None\<close> for the
  zero time.
\<close>

record object_meta =
  meta_Name :: str
  meta_Namespace :: str
  meta_Labels :: label_map
  meta_Created :: "int option"

section \<open>Routes\<close>

record backend_object =
  bo_Group :: "str option"
  bo_Kind :: "str option"
  bo_Namespace :: "str option"
  bo_Name :: str
  bo_Port :: "int32 option"
  bo_Weight :: "int32 option"

text \<open>HTTP and gRPC rules wrap a backendRef together with filters of its own.\<close>

record wrapped_backend =
  wb_BackendRef :: backend_object

record route_filter =
  rf_Type :: str

record parent_reference =
  pr_Group :: "str option"
  pr_Kind :: "str option"
  pr_Namespace :: "str option"
  pr_Name :: str
  pr_SectionName :: "str option"

record path_match =
  pm_Type :: "str option"
  pm_Value :: "str option"

record value_match =
  vm_Type :: "str option"
  vm_Name :: str
  vm_Value :: str

record http_route_match =
  hm_Path :: "path_match option"
  hm_Method :: "str option"
  hm_Headers :: "value_match list"
  hm_QueryParams :: "value_match list"

record http_rule =
  hr_Name :: "str option"
  hr_Matches :: "http_route_match list"
  hr_Filters :: "route_filter list"
  hr_BackendRefs :: "wrapped_backend list"

record grpc_rule =
  gr_Name :: "str option"
  gr_Filters :: "route_filter list"
  gr_BackendRefs :: "wrapped_backend list"

text \<open>The six TCP, TLS and UDP rule types carry these same two fields.\<close>

record stream_rule =
  sr_Name :: "str option"
  sr_BackendRefs :: "backend_object list"

record http_route =
  http_Meta :: object_meta
  http_Hostnames :: "str list"
  http_ParentRefs :: "parent_reference list"
  http_Rules :: "http_rule list"

record grpc_route =
  grpc_Meta :: object_meta
  grpc_Hostnames :: "str list"
  grpc_ParentRefs :: "parent_reference list"
  grpc_Rules :: "grpc_rule list"

record stream_route =
  str_Meta :: object_meta
  str_ParentRefs :: "parent_reference list"
  str_Rules :: "stream_rule list"

record tls_route =
  tls_Meta :: object_meta
  tls_Hostnames :: "str list"
  tls_ParentRefs :: "parent_reference list"
  tls_Rules :: "stream_rule list"

section \<open>Gateways, ListenerSets, GatewayClasses, grants\<close>

record secret_reference =
  sec_Group :: "str option"
  sec_Kind :: "str option"
  sec_Namespace :: "str option"
  sec_Name :: str

record tls_config =
  tlc_Mode :: "str option"
  tlc_CertificateRefs :: "secret_reference list"
  tlc_Options :: label_map

record group_kind =
  gk_Group :: "str option"
  gk_Kind :: str

text \<open>\<open>ar_Namespaces\<close> is \<open>allowedRoutes.namespaces\<close>, whose only field read is \<open>from\<close>.\<close>

record allowed_routes =
  ar_Namespaces :: "str option option"
  ar_Kinds :: "group_kind list"

record listener_spec =
  lis_Name :: str
  lis_Hostname :: "str option"
  lis_Port :: int32
  lis_Protocol :: str
  lis_TLS :: "tls_config option"
  lis_AllowedRoutes :: "allowed_routes option"

record gateway =
  gw_Meta :: object_meta
  gw_ClassName :: str
  gw_Listeners :: "listener_spec list"

record parent_gateway =
  pg_Group :: "str option"
  pg_Kind :: "str option"
  pg_Namespace :: "str option"
  pg_Name :: str

record listener_set =
  ls_Meta :: object_meta
  ls_ParentRef :: parent_gateway
  ls_Listeners :: "listener_spec list"

record grant_from =
  gf_Group :: str
  gf_Kind :: str
  gf_Namespace :: str

record grant_to =
  gt_Group :: str
  gt_Kind :: str
  gt_Name :: "str option"

record grant_spec =
  gs_From :: "grant_from list"
  gs_To :: "grant_to list"

record reference_grant =
  rg_Meta :: object_meta
  rg_Spec :: grant_spec

section \<open>Envoy Gateway\<close>

record policy_ref =
  pol_Group :: str
  pol_Kind :: str
  pol_Name :: str
  pol_SectionName :: "str option"

text \<open>\<open>sel_Namespaces\<close> is the selector's \<open>namespaces\<close> block, read for its \<open>from\<close>.\<close>

record target_selector =
  sel_Group :: "str option"
  sel_Kind :: str
  sel_MatchLabels :: label_map
  sel_MatchExpressions :: "label_requirement list"
  sel_Namespaces :: "str option"

text \<open>Of the active and passive blocks only their presence is read.\<close>

record health_check =
  hc_Active :: bool
  hc_Passive :: bool

record back_off =
  bk_BaseInterval :: "str option"
  bk_MaxInterval :: "str option"

record per_retry =
  per_Timeout :: "str option"
  per_BackOff :: "back_off option"

record retry =
  ret_NumRetries :: "int32 option"
  ret_PerRetry :: "per_retry option"

record traffic_policy =
  btp_Meta :: object_meta
  btp_TargetRef :: "policy_ref option"
  btp_TargetRefs :: "policy_ref list"
  btp_TargetSelectors :: "target_selector list"
  btp_HealthCheck :: "health_check option"
  btp_Retry :: "retry option"

record fqdn_endpoint =
  fqdn_Hostname :: str
  fqdn_Port :: int32

record ip_endpoint =
  ip_Address :: str
  ip_Port :: int32

record backend_endpoint =
  ep_FQDN :: "fqdn_endpoint option"
  ep_IP :: "ip_endpoint option"
  ep_Unix :: "str option"

record backend =
  be_Meta :: object_meta
  be_Type :: "str option"
  be_Endpoints :: "backend_endpoint list"

text \<open>
  An object of a kind the decoder does not know. \<open>un_SecretName\<close> is the outcome of
  apimachinery's \<open>unstructured.NestedString(obj.Object, "spec", "secretName")\<close>: a string
  when the field is there, nothing when it is absent, an error when it is not a string.
\<close>

datatype nested_string = NestedError | NestedAbsent | NestedFound str

record unstructured =
  un_Meta :: object_meta
  un_Group :: str
  un_Kind :: str
  un_SecretName :: nested_string

section \<open>Objects and contexts\<close>

text \<open>One constructor per Go type the type switches name, and one for every other type.\<close>

datatype k8s_object =
    HTTPRoute_v1 http_route
  | HTTPRoute_v1beta1 http_route
  | GRPCRoute_v1 grpc_route
  | GRPCRoute_v1alpha2 grpc_route
  | TCPRoute_v1 stream_route
  | TCPRoute_v1alpha2 stream_route
  | TLSRoute_v1 tls_route
  | TLSRoute_v1alpha3 tls_route
  | TLSRoute_v1alpha2 tls_route
  | UDPRoute_v1 stream_route
  | UDPRoute_v1alpha2 stream_route
  | Gateway_v1 gateway
  | Gateway_v1beta1 gateway
  | ListenerSet_v1 listener_set
  | GatewayClass_v1 object_meta
  | GatewayClass_v1beta1 object_meta
  | ReferenceGrant_v1 reference_grant
  | ReferenceGrant_v1beta1 reference_grant
  | ReferenceGrant_v1alpha2 reference_grant
  | BackendTrafficPolicy_v1alpha1 traffic_policy
  | Backend_v1alpha1 backend
  | Service_v1 object_meta
  | Secret_v1 object_meta
  | Unstructured unstructured
  | OtherObject object_meta

fun meta_of :: "k8s_object \<Rightarrow> object_meta" where
  "meta_of (HTTPRoute_v1 r) = http_Meta r"
| "meta_of (HTTPRoute_v1beta1 r) = http_Meta r"
| "meta_of (GRPCRoute_v1 r) = grpc_Meta r"
| "meta_of (GRPCRoute_v1alpha2 r) = grpc_Meta r"
| "meta_of (TCPRoute_v1 r) = str_Meta r"
| "meta_of (TCPRoute_v1alpha2 r) = str_Meta r"
| "meta_of (TLSRoute_v1 r) = tls_Meta r"
| "meta_of (TLSRoute_v1alpha3 r) = tls_Meta r"
| "meta_of (TLSRoute_v1alpha2 r) = tls_Meta r"
| "meta_of (UDPRoute_v1 r) = str_Meta r"
| "meta_of (UDPRoute_v1alpha2 r) = str_Meta r"
| "meta_of (Gateway_v1 g) = gw_Meta g"
| "meta_of (Gateway_v1beta1 g) = gw_Meta g"
| "meta_of (ListenerSet_v1 l) = ls_Meta l"
| "meta_of (GatewayClass_v1 m) = m"
| "meta_of (GatewayClass_v1beta1 m) = m"
| "meta_of (ReferenceGrant_v1 g) = rg_Meta g"
| "meta_of (ReferenceGrant_v1beta1 g) = rg_Meta g"
| "meta_of (ReferenceGrant_v1alpha2 g) = rg_Meta g"
| "meta_of (BackendTrafficPolicy_v1alpha1 p) = btp_Meta p"
| "meta_of (Backend_v1alpha1 b) = be_Meta b"
| "meta_of (Service_v1 m) = m"
| "meta_of (Secret_v1 m) = m"
| "meta_of (Unstructured u) = un_Meta u"
| "meta_of (OtherObject m) = m"

abbreviation GetName :: "k8s_object \<Rightarrow> str" where
  "GetName k \<equiv> meta_Name (meta_of k)"

abbreviation GetNamespace :: "k8s_object \<Rightarrow> str" where
  "GetNamespace k \<equiv> meta_Namespace (meta_of k)"

record group_version_kind =
  gvk_Group :: str
  gvk_Version :: str
  gvk_Kind :: str

text \<open>
  \<open>obj_Ptr\<close> is the identity of the pointer in \<open>K8sObject\<close>: the checks on policies
  compare pointers, so two equal policies loaded twice are different objects.
\<close>

record lint_object =
  obj_Ptr :: nat
  obj_FilePath :: str
  obj_GVK :: group_version_kind
  K8sObject :: k8s_object

record invalid_object =
  inv_FilePath :: str
  inv_LoadErr :: str

record lint_context =
  Objects :: "lint_object list"
  InvalidObjects :: "invalid_object list"

record diagnostic =
  Message :: str

type_synonym check_func = "runtime \<Rightarrow> lint_context \<Rightarrow> lint_object \<Rightarrow> diagnostic list go"

text \<open>An object named by kind, namespace and name (\<open>gatewayapi.ObjectRef\<close>).\<close>

record ObjectRef =
  ref_Kind :: str
  ref_Namespace :: str
  ref_Name :: str

definition mk_ref :: "str \<Rightarrow> str \<Rightarrow> str \<Rightarrow> ObjectRef" where
  "mk_ref kind ns name = \<lparr>ref_Kind = kind, ref_Namespace = ns, ref_Name = name\<rparr>"

lemma mk_ref_sel [simp]:
  "ref_Kind (mk_ref k ns n) = k" "ref_Namespace (mk_ref k ns n) = ns" "ref_Name (mk_ref k ns n) = n"
  by (simp_all add: mk_ref_def)

lemma mk_ref_eq [simp]: "mk_ref k ns n = mk_ref k' ns' n' \<longleftrightarrow> k = k' \<and> ns = ns' \<and> n = n'"
  by (simp add: mk_ref_def)

lemma mk_ref_surj: "mk_ref (ref_Kind r) (ref_Namespace r) (ref_Name r) = r"
  by (cases r) (simp add: mk_ref_def)

end
