(* ===== verification/Object_Kinds.thy ===== *)
theory Object_Kinds
  imports Objects
begin

text \<open>
  The object kinds of \<open>pkg/objectkinds\<close> and kube-linter's registry of them. Registering a
  kind binds its name to a matcher on group, version and kind; the engine runs a check on an
  object when one of the kinds the check is scoped to matches the object.
\<close>

definition Gateway :: str where "Gateway = ''Gateway''"
definition ListenerSet :: str where "ListenerSet = ''ListenerSet''"
definition HTTPRoute :: str where "HTTPRoute = ''HTTPRoute''"
definition GRPCRoute :: str where "GRPCRoute = ''GRPCRoute''"
definition TCPRoute :: str where "TCPRoute = ''TCPRoute''"
definition TLSRoute :: str where "TLSRoute = ''TLSRoute''"
definition UDPRoute :: str where "UDPRoute = ''UDPRoute''"
definition ReferenceGrant :: str where "ReferenceGrant = ''ReferenceGrant''"
definition GatewayClass :: str where "GatewayClass = ''GatewayClass''"
definition Backend :: str where "Backend = ''Backend''"
definition BackendTrafficPolicy :: str where "BackendTrafficPolicy = ''BackendTrafficPolicy''"

lemmas kind_names =
  Gateway_def ListenerSet_def HTTPRoute_def GRPCRoute_def TCPRoute_def TLSRoute_def UDPRoute_def
  ReferenceGrant_def GatewayClass_def Backend_def BackendTrafficPolicy_def

lemma envoy_kind_names: "KindBackend = Backend" "KindBackendTrafficPolicy = BackendTrafficPolicy"
  by (simp_all add: KindBackend_def Backend_def KindBackendTrafficPolicy_def BackendTrafficPolicy_def)

definition RouteKinds :: "str list" where
  "RouteKinds = [HTTPRoute, GRPCRoute, TCPRoute, TLSRoute, UDPRoute]"

section \<open>Matchers and their registry\<close>

type_synonym matcher = "group_version_kind \<Rightarrow> bool"

definition gatewayAPIMatcher :: "str \<Rightarrow> matcher" where
  "gatewayAPIMatcher kind gvk \<longleftrightarrow> gvk_Group gvk = gateway_group \<and> gvk_Kind gvk = kind"

definition backendGVK :: group_version_kind where
  "backendGVK = \<lparr>gvk_Group = envoy_group, gvk_Version = ''v1alpha1'', gvk_Kind = KindBackend\<rparr>"

definition backendTrafficPolicyGVK :: group_version_kind where
  "backendTrafficPolicyGVK =
     \<lparr>gvk_Group = envoy_group, gvk_Version = ''v1alpha1'', gvk_Kind = KindBackendTrafficPolicy\<rparr>"

definition backendMatcher :: matcher where
  "backendMatcher gvk \<longleftrightarrow> gvk = backendGVK"

definition backendTrafficPolicyMatcher :: matcher where
  "backendTrafficPolicyMatcher gvk \<longleftrightarrow> gvk = backendTrafficPolicyGVK"

text \<open>The registrations the four \<open>init\<close> functions make.\<close>

definition gatewayapi_registrations :: "(str \<times> matcher) list" where
  "gatewayapi_registrations =
     map (\<lambda>kind. (kind, gatewayAPIMatcher kind))
       [Gateway, ListenerSet, HTTPRoute, GRPCRoute, TCPRoute, TLSRoute, UDPRoute, ReferenceGrant]"

definition gatewayclass_registration :: "str \<times> matcher" where
  "gatewayclass_registration = (GatewayClass, gatewayAPIMatcher GatewayClass)"

definition backend_registration :: "str \<times> matcher" where
  "backend_registration = (Backend, backendMatcher)"

definition backendtrafficpolicy_registration :: "str \<times> matcher" where
  "backendtrafficpolicy_registration = (BackendTrafficPolicy, backendTrafficPolicyMatcher)"

definition registered_kinds :: "(str \<times> matcher) list" where
  "registered_kinds =
     gatewayapi_registrations @
     [gatewayclass_registration, backend_registration, backendtrafficpolicy_registration]"

text \<open>kube-linter's matcher for a scope: some kind of the scope matches.\<close>

definition scope_matches :: "str list \<Rightarrow> matcher" where
  "scope_matches kinds gvk \<longleftrightarrow>
     list_ex (\<lambda>kind. case map_of registered_kinds kind of None \<Rightarrow> False | Some m \<Rightarrow> m gvk) kinds"

text \<open>
  The decoder gives an object the type its group, version and kind name. \<open>kind_of\<close> is the
  kind of each typed object, \<open>group_of\<close> its group; \<open>decoded\<close> says an object carries the
  group and kind of its type. The decoder is client-go's, so this is a documented property of
  it and a hypothesis of the theorems that need it.
\<close>

fun kind_of :: "k8s_object \<Rightarrow> str option" where
  "kind_of (HTTPRoute_v1 r) = Some HTTPRoute"
| "kind_of (HTTPRoute_v1beta1 r) = Some HTTPRoute"
| "kind_of (GRPCRoute_v1 r) = Some GRPCRoute"
| "kind_of (GRPCRoute_v1alpha2 r) = Some GRPCRoute"
| "kind_of (TCPRoute_v1 r) = Some TCPRoute"
| "kind_of (TCPRoute_v1alpha2 r) = Some TCPRoute"
| "kind_of (TLSRoute_v1 r) = Some TLSRoute"
| "kind_of (TLSRoute_v1alpha3 r) = Some TLSRoute"
| "kind_of (TLSRoute_v1alpha2 r) = Some TLSRoute"
| "kind_of (UDPRoute_v1 r) = Some UDPRoute"
| "kind_of (UDPRoute_v1alpha2 r) = Some UDPRoute"
| "kind_of (Gateway_v1 g) = Some Gateway"
| "kind_of (Gateway_v1beta1 g) = Some Gateway"
| "kind_of (ListenerSet_v1 l) = Some ListenerSet"
| "kind_of (GatewayClass_v1 m) = Some GatewayClass"
| "kind_of (GatewayClass_v1beta1 m) = Some GatewayClass"
| "kind_of (ReferenceGrant_v1 g) = Some ReferenceGrant"
| "kind_of (ReferenceGrant_v1beta1 g) = Some ReferenceGrant"
| "kind_of (ReferenceGrant_v1alpha2 g) = Some ReferenceGrant"
| "kind_of (BackendTrafficPolicy_v1alpha1 p) = Some BackendTrafficPolicy"
| "kind_of (Backend_v1alpha1 b) = Some Backend"
| "kind_of (Service_v1 m) = None"
| "kind_of (Secret_v1 m) = None"
| "kind_of (Unstructured u) = None"
| "kind_of (OtherObject m) = None"

definition is_envoy :: "k8s_object \<Rightarrow> bool" where
  "is_envoy k \<longleftrightarrow> (case k of BackendTrafficPolicy_v1alpha1 _ \<Rightarrow> True | Backend_v1alpha1 _ \<Rightarrow> True | _ \<Rightarrow> False)"

definition decoded :: "lint_object \<Rightarrow> bool" where
  "decoded obj \<longleftrightarrow>
     (case kind_of (K8sObject obj) of
        None \<Rightarrow> True
      | Some kind \<Rightarrow>
          gvk_Kind (obj_GVK obj) = kind \<and>
          (if is_envoy (K8sObject obj)
           then gvk_Group (obj_GVK obj) = envoy_group \<and> gvk_Version (obj_GVK obj) = ''v1alpha1''
           else gvk_Group (obj_GVK obj) = gateway_group))"

lemma lookup_registered_gateway_kind:
  "kind \<in> {Gateway, ListenerSet, HTTPRoute, GRPCRoute, TCPRoute, TLSRoute, UDPRoute,
     ReferenceGrant, GatewayClass} \<Longrightarrow> map_of registered_kinds kind = Some (gatewayAPIMatcher kind)"
  by (auto simp: registered_kinds_def gatewayapi_registrations_def gatewayclass_registration_def
      backend_registration_def backendtrafficpolicy_registration_def kind_names)

lemma lookup_registered_envoy_kind:
  "map_of registered_kinds Backend = Some backendMatcher"
  "map_of registered_kinds BackendTrafficPolicy = Some backendTrafficPolicyMatcher"
  by (auto simp: registered_kinds_def gatewayapi_registrations_def gatewayclass_registration_def
      backend_registration_def backendtrafficpolicy_registration_def kind_names)

text \<open>The engine hands a check every decoded object of a kind in its scope.\<close>

lemma decoded_in_scope:
  assumes dec: "decoded obj" and kind: "kind_of (K8sObject obj) = Some kind" and scope: "kind \<in> set kinds"
  shows "scope_matches kinds (obj_GVK obj)"
proof -
  have "case map_of registered_kinds kind of None \<Rightarrow> False | Some m \<Rightarrow> m (obj_GVK obj)"
    using dec kind
    by (cases "K8sObject obj")
      (auto simp: decoded_def is_envoy_def lookup_registered_gateway_kind
        lookup_registered_envoy_kind gatewayAPIMatcher_def backendMatcher_def
        backendTrafficPolicyMatcher_def backendGVK_def backendTrafficPolicyGVK_def
        envoy_kind_names)
  with scope show ?thesis
    unfolding scope_matches_def list_ex_iff by blast
qed

end
