(* ===== verification/Routes.thy ===== *)
theory Routes
  imports Object_Kinds
begin

text \<open>
  \<open>pkg/gatewayapi/route.go\<close>, \<open>rules.go\<close> and \<open>rulenames.go\<close>: the three views of a
  route object the checks work on. \<open>AsRoute\<close> flattens the backendRefs of every rule,
  \<open>RulesOf\<close> keeps the rule boundaries, \<open>RuleNamesOf\<close> keeps only the names. The source
  asks that they keep covering the same types; \<open>route_views_agree\<close> shows they do, and that
  one view determines the others.
\<close>

section \<open>Backend references\<close>

record BackendRef =
  br_Rule :: "str option"
  br_Ref :: backend_object

definition backendref_Namespace :: "BackendRef \<Rightarrow> str \<Rightarrow> str" where
  "backendref_Namespace b routeNamespace =
     (case bo_Namespace (br_Ref b) of Some ns \<Rightarrow> ns | None \<Rightarrow> routeNamespace)"

definition backendref_Group :: "BackendRef \<Rightarrow> str" where
  "backendref_Group b = (case bo_Group (br_Ref b) of None \<Rightarrow> '''' | Some g \<Rightarrow> g)"

definition backendref_Kind :: "BackendRef \<Rightarrow> str" where
  "backendref_Kind b = (case bo_Kind (br_Ref b) of None \<Rightarrow> ''Service'' | Some k \<Rightarrow> k)"

section \<open>Routes\<close>

record Route =
  rt_Kind :: str
  rt_Namespace :: str
  rt_Name :: str
  rt_Labels :: label_map
  rt_Hostnames :: "str list"
  rt_ParentRefs :: "parent_reference list"
  rt_BackendRefs :: "BackendRef list"

definition named :: "str option \<Rightarrow> backend_object list \<Rightarrow> BackendRef list" where
  "named rule backendRefs = map (\<lambda>br. \<lparr>br_Rule = rule, br_Ref = br\<rparr>) backendRefs"

definition newRoute ::
  "str \<Rightarrow> object_meta \<Rightarrow> str list \<Rightarrow> parent_reference list \<Rightarrow> BackendRef list \<Rightarrow> Route" where
  "newRoute kind m hostnames parentRefs backendRefs =
     \<lparr>rt_Kind = kind, rt_Namespace = meta_Namespace m, rt_Name = meta_Name m,
      rt_Labels = meta_Labels m, rt_Hostnames = hostnames, rt_ParentRefs = parentRefs,
      rt_BackendRefs = backendRefs\<rparr>"

definition httpRoute :: "http_route \<Rightarrow> Route" where
  "httpRoute route =
     newRoute HTTPRoute (http_Meta route) (http_Hostnames route) (http_ParentRefs route)
       (for_append (http_Rules route) (\<lambda>rule.
          for_append (hr_BackendRefs rule) (\<lambda>br. [\<lparr>br_Rule = hr_Name rule, br_Ref = wb_BackendRef br\<rparr>])))"

definition grpcRoute :: "grpc_route \<Rightarrow> Route" where
  "grpcRoute route =
     newRoute GRPCRoute (grpc_Meta route) (grpc_Hostnames route) (grpc_ParentRefs route)
       (for_append (grpc_Rules route) (\<lambda>rule.
          for_append (gr_BackendRefs rule) (\<lambda>br. [\<lparr>br_Rule = gr_Name rule, br_Ref = wb_BackendRef br\<rparr>])))"

definition tcpRoute :: "stream_route \<Rightarrow> Route" where
  "tcpRoute route =
     newRoute TCPRoute (str_Meta route) [] (str_ParentRefs route)
       (for_append (str_Rules route) (\<lambda>rule. named (sr_Name rule) (sr_BackendRefs rule)))"

definition tlsRoute :: "tls_route \<Rightarrow> Route" where
  "tlsRoute route =
     newRoute TLSRoute (tls_Meta route) (tls_Hostnames route) (tls_ParentRefs route)
       (for_append (tls_Rules route) (\<lambda>rule. named (sr_Name rule) (sr_BackendRefs rule)))"

definition udpRoute :: "stream_route \<Rightarrow> Route" where
  "udpRoute route =
     newRoute UDPRoute (str_Meta route) [] (str_ParentRefs route)
       (for_append (str_Rules route) (\<lambda>rule. named (sr_Name rule) (sr_BackendRefs rule)))"

definition alpha2TCPBackendRefs :: "stream_rule list \<Rightarrow> BackendRef list" where
  "alpha2TCPBackendRefs rules = for_append rules (\<lambda>rule. named (sr_Name rule) (sr_BackendRefs rule))"

definition alpha2TLSBackendRefs :: "stream_rule list \<Rightarrow> BackendRef list" where
  "alpha2TLSBackendRefs rules = for_append rules (\<lambda>rule. named (sr_Name rule) (sr_BackendRefs rule))"

definition alpha2UDPBackendRefs :: "stream_rule list \<Rightarrow> BackendRef list" where
  "alpha2UDPBackendRefs rules = for_append rules (\<lambda>rule. named (sr_Name rule) (sr_BackendRefs rule))"

fun AsRoute :: "k8s_object \<Rightarrow> Route option" where
  "AsRoute (HTTPRoute_v1 route) = Some (httpRoute route)"
| "AsRoute (HTTPRoute_v1beta1 route) = Some (httpRoute route)"
| "AsRoute (GRPCRoute_v1 route) = Some (grpcRoute route)"
| "AsRoute (GRPCRoute_v1alpha2 route) = Some (grpcRoute route)"
| "AsRoute (TCPRoute_v1 route) = Some (tcpRoute route)"
| "AsRoute (TCPRoute_v1alpha2 route) =
     Some (newRoute TCPRoute (str_Meta route) [] (str_ParentRefs route)
       (alpha2TCPBackendRefs (str_Rules route)))"
| "AsRoute (TLSRoute_v1 route) = Some (tlsRoute route)"
| "AsRoute (TLSRoute_v1alpha3 route) = Some (tlsRoute route)"
| "AsRoute (TLSRoute_v1alpha2 route) =
     Some (newRoute TLSRoute (tls_Meta route) (tls_Hostnames route) (tls_ParentRefs route)
       (alpha2TLSBackendRefs (tls_Rules route)))"
| "AsRoute (UDPRoute_v1 route) = Some (udpRoute route)"
| "AsRoute (UDPRoute_v1alpha2 route) =
     Some (newRoute UDPRoute (str_Meta route) [] (str_ParentRefs route)
       (alpha2UDPBackendRefs (str_Rules route)))"
| "AsRoute _ = None"

definition Routes_of :: "lint_context \<Rightarrow> Route list" where
  "Routes_of lintCtx =
     for_append (Objects lintCtx) (\<lambda>obj.
       case AsRoute (K8sObject obj) of Some route \<Rightarrow> [route] | None \<Rightarrow> [])"

section \<open>Rules\<close>

record Rule =
  ru_Index :: nat
  ru_Name :: "str option"
  ru_BackendRefs :: "backend_object list"
  ru_Filters :: "str list"

definition rule_Describe :: "runtime \<Rightarrow> Rule \<Rightarrow> str" where
  "rule_Describe R r =
     (case ru_Name r of
        Some name \<Rightarrow>
          if name \<noteq> '''' then ''rule '' @ quote R name else ''rule '' @ fmt_nat (ru_Index r)
      | None \<Rightarrow> ''rule '' @ fmt_nat (ru_Index r))"

definition httpRules :: "http_rule list \<Rightarrow> Rule list" where
  "httpRules rules =
     map (\<lambda>(i, r). \<lparr>ru_Index = i, ru_Name = hr_Name r,
                    ru_BackendRefs = map wb_BackendRef (hr_BackendRefs r),
                    ru_Filters = map rf_Type (hr_Filters r)\<rparr>) (enumerate 0 rules)"

definition grpcRules :: "grpc_rule list \<Rightarrow> Rule list" where
  "grpcRules rules =
     map (\<lambda>(i, r). \<lparr>ru_Index = i, ru_Name = gr_Name r,
                    ru_BackendRefs = map wb_BackendRef (gr_BackendRefs r),
                    ru_Filters = map rf_Type (gr_Filters r)\<rparr>) (enumerate 0 rules)"

text \<open>The six stream rule loops have the same body, over six Go types of the same two fields.\<close>

definition tcpRules :: "stream_rule list \<Rightarrow> Rule list" where
  "tcpRules rules =
     map (\<lambda>(i, r). \<lparr>ru_Index = i, ru_Name = sr_Name r, ru_BackendRefs = sr_BackendRefs r,
                    ru_Filters = []\<rparr>) (enumerate 0 rules)"

definition alpha2TCPRules :: "stream_rule list \<Rightarrow> Rule list" where
  "alpha2TCPRules rules =
     map (\<lambda>(i, r). \<lparr>ru_Index = i, ru_Name = sr_Name r, ru_BackendRefs = sr_BackendRefs r,
                    ru_Filters = []\<rparr>) (enumerate 0 rules)"

definition tlsRules :: "stream_rule list \<Rightarrow> Rule list" where
  "tlsRules rules =
     map (\<lambda>(i, r). \<lparr>ru_Index = i, ru_Name = sr_Name r, ru_BackendRefs = sr_BackendRefs r,
                    ru_Filters = []\<rparr>) (enumerate 0 rules)"

definition alpha2TLSRules :: "stream_rule list \<Rightarrow> Rule list" where
  "alpha2TLSRules rules =
     map (\<lambda>(i, r). \<lparr>ru_Index = i, ru_Name = sr_Name r, ru_BackendRefs = sr_BackendRefs r,
                    ru_Filters = []\<rparr>) (enumerate 0 rules)"

definition udpRules :: "stream_rule list \<Rightarrow> Rule list" where
  "udpRules rules =
     map (\<lambda>(i, r). \<lparr>ru_Index = i, ru_Name = sr_Name r, ru_BackendRefs = sr_BackendRefs r,
                    ru_Filters = []\<rparr>) (enumerate 0 rules)"

definition alpha2UDPRules :: "stream_rule list \<Rightarrow> Rule list" where
  "alpha2UDPRules rules =
     map (\<lambda>(i, r). \<lparr>ru_Index = i, ru_Name = sr_Name r, ru_BackendRefs = sr_BackendRefs r,
                    ru_Filters = []\<rparr>) (enumerate 0 rules)"

fun RulesOf :: "k8s_object \<Rightarrow> Rule list" where
  "RulesOf (HTTPRoute_v1 route) = httpRules (http_Rules route)"
| "RulesOf (HTTPRoute_v1beta1 route) = httpRules (http_Rules route)"
| "RulesOf (GRPCRoute_v1 route) = grpcRules (grpc_Rules route)"
| "RulesOf (GRPCRoute_v1alpha2 route) = grpcRules (grpc_Rules route)"
| "RulesOf (TCPRoute_v1 route) = tcpRules (str_Rules route)"
| "RulesOf (TCPRoute_v1alpha2 route) = alpha2TCPRules (str_Rules route)"
| "RulesOf (TLSRoute_v1 route) = tlsRules (tls_Rules route)"
| "RulesOf (TLSRoute_v1alpha3 route) = tlsRules (tls_Rules route)"
| "RulesOf (TLSRoute_v1alpha2 route) = alpha2TLSRules (tls_Rules route)"
| "RulesOf (UDPRoute_v1 route) = udpRules (str_Rules route)"
| "RulesOf (UDPRoute_v1alpha2 route) = alpha2UDPRules (str_Rules route)"
| "RulesOf _ = []"

section \<open>Rule names\<close>

definition ruleNames :: "'r list \<Rightarrow> ('r \<Rightarrow> str option) \<Rightarrow> str option list" where
  "ruleNames rules nameOf = map nameOf rules"

fun RuleNamesOf :: "k8s_object \<Rightarrow> str option list" where
  "RuleNamesOf (HTTPRoute_v1 route) = ruleNames (http_Rules route) hr_Name"
| "RuleNamesOf (HTTPRoute_v1beta1 route) = ruleNames (http_Rules route) hr_Name"
| "RuleNamesOf (GRPCRoute_v1 route) = ruleNames (grpc_Rules route) gr_Name"
| "RuleNamesOf (GRPCRoute_v1alpha2 route) = ruleNames (grpc_Rules route) gr_Name"
| "RuleNamesOf (TCPRoute_v1 route) = ruleNames (str_Rules route) sr_Name"
| "RuleNamesOf (TCPRoute_v1alpha2 route) = ruleNames (str_Rules route) sr_Name"
| "RuleNamesOf (TLSRoute_v1 route) = ruleNames (tls_Rules route) sr_Name"
| "RuleNamesOf (TLSRoute_v1alpha3 route) = ruleNames (tls_Rules route) sr_Name"
| "RuleNamesOf (TLSRoute_v1alpha2 route) = ruleNames (tls_Rules route) sr_Name"
| "RuleNamesOf (UDPRoute_v1 route) = ruleNames (str_Rules route) sr_Name"
| "RuleNamesOf (UDPRoute_v1alpha2 route) = ruleNames (str_Rules route) sr_Name"
| "RuleNamesOf _ = []"

section \<open>What the views agree on\<close>

fun_cases AsRoute_SomeE: "AsRoute obj = Some route"

lemmas route_builders =
  httpRoute_def grpcRoute_def tcpRoute_def tlsRoute_def udpRoute_def newRoute_def named_def
  alpha2TCPBackendRefs_def alpha2TLSBackendRefs_def alpha2UDPBackendRefs_def

lemmas rule_builders =
  httpRules_def grpcRules_def tcpRules_def alpha2TCPRules_def tlsRules_def alpha2TLSRules_def
  udpRules_def alpha2UDPRules_def

lemma enumerate_map_snd: "map (\<lambda>(i, r). f r) (enumerate n xs) = map f xs"
  by (induction xs arbitrary: n) auto

lemma enumerate_map_fst: "map (\<lambda>(i, r). i) (enumerate n xs) = [n..<n + length xs]"
  by (induction xs arbitrary: n) (auto simp: upt_rec)

lemma map_rule_fields [simp]:
  "map (f \<circ> (\<lambda>(i, r). g r)) ys = map (\<lambda>(i, r). f (g r)) ys"
  by (simp add: case_prod_beta)

lemma flatten_rules:
  "for_append (map (\<lambda>(i, r). \<lparr>ru_Index = i, ru_Name = nm r, ru_BackendRefs = refs r, ru_Filters = fs r\<rparr>)
      (enumerate n rules)) (\<lambda>rule. map (\<lambda>br. \<lparr>br_Rule = ru_Name rule, br_Ref = br\<rparr>) (ru_BackendRefs rule))
   = for_append rules (\<lambda>r. map (\<lambda>br. \<lparr>br_Rule = nm r, br_Ref = br\<rparr>) (refs r))"
  by (induction rules arbitrary: n) auto

lemma rule_names_indices:
  "map ru_Name (map (\<lambda>(i, r). \<lparr>ru_Index = i, ru_Name = nm r, ru_BackendRefs = refs r, ru_Filters = fs r\<rparr>)
      (enumerate n rules)) = map nm rules"
  "map ru_Index (map (\<lambda>(i, r). \<lparr>ru_Index = i, ru_Name = nm r, ru_BackendRefs = refs r, ru_Filters = fs r\<rparr>)
      (enumerate n rules)) = [n..<n + length rules]"
  by (induction rules arbitrary: n) (auto simp: upt_rec)

lemma AsRoute_backendRefs:
  "AsRoute obj = Some route \<Longrightarrow>
     rt_BackendRefs route =
       for_append (RulesOf obj) (\<lambda>rule. map (\<lambda>br. \<lparr>br_Rule = ru_Name rule, br_Ref = br\<rparr>) (ru_BackendRefs rule))"
  by (erule AsRoute_SomeE)
    (simp_all only: RulesOf.simps rule_builders flatten_rules,
     simp_all add: route_builders for_append_singleton comp_def)

lemma RuleNamesOf_RulesOf: "RuleNamesOf obj = map ru_Name (RulesOf obj)"
  by (cases obj) (simp_all only: RuleNamesOf.simps RulesOf.simps rule_builders ruleNames_def
      rule_names_indices list.map)

lemma RulesOf_index: "map ru_Index (RulesOf obj) = [0..<length (RulesOf obj)]"
  by (cases obj) (simp_all only: RulesOf.simps rule_builders rule_names_indices, simp_all)

lemma AsRoute_kind: "AsRoute obj = Some route \<Longrightarrow> kind_of obj = Some (rt_Kind route)"
  by (erule AsRoute_SomeE) (simp_all add: route_builders)

lemma AsRoute_None_iff: "AsRoute obj = None \<longleftrightarrow> kind_of obj \<notin> Some ` set RouteKinds"
  by (cases obj) (simp_all add: RouteKinds_def kind_names)

lemma AsRoute_meta:
  "AsRoute obj = Some route \<Longrightarrow>
     rt_Namespace route = GetNamespace obj \<and> rt_Name route = GetName obj \<and>
     rt_Labels route = meta_Labels (meta_of obj)"
  by (erule AsRoute_SomeE) (simp_all add: route_builders)

lemma RulesOf_not_route: "AsRoute obj = None \<Longrightarrow> RulesOf obj = []"
  by (cases obj) simp_all

lemma set_Routes_of: "route \<in> set (Routes_of ctx) \<longleftrightarrow> (\<exists>obj \<in> set (Objects ctx). AsRoute (K8sObject obj) = Some route)"
  by (force simp: Routes_of_def split: option.splits)

lemma AsRoute_RouteKinds: "AsRoute obj = Some route \<Longrightarrow> rt_Kind route \<in> set RouteKinds"
  by (erule AsRoute_SomeE) (simp_all add: route_builders RouteKinds_def)

text \<open>The backendRefs a check on references walks.\<close>

definition route_backends :: "k8s_object \<Rightarrow> BackendRef list" where
  "route_backends k = (case AsRoute k of None \<Rightarrow> [] | Some route \<Rightarrow> rt_BackendRefs route)"

lemma route_backends_scope: "kind_of k \<notin> Some ` set RouteKinds \<Longrightarrow> route_backends k = []"
  by (simp add: route_backends_def AsRoute_None_iff [symmetric])

text \<open>
  C39: the three views of a route cover the same object types and agree. An object is a route
  exactly when its kind is one of the five route kinds; the flattened backendRefs are the
  rules' backendRefs in spec order, each with the name of its rule; the names are the rules'
  names; rule indices are the positions; and anything that is not a route has no rules and no
  names.
\<close>

theorem route_views_agree:
  "(case AsRoute obj of
      None \<Rightarrow> kind_of obj \<notin> Some ` set RouteKinds \<and> RulesOf obj = [] \<and> RuleNamesOf obj = []
    | Some route \<Rightarrow>
        rt_Kind route \<in> set RouteKinds \<and> kind_of obj = Some (rt_Kind route) \<and>
        rt_BackendRefs route =
          for_append (RulesOf obj) (\<lambda>rule.
            map (\<lambda>br. \<lparr>br_Rule = ru_Name rule, br_Ref = br\<rparr>) (ru_BackendRefs rule)))
   \<and> RuleNamesOf obj = map ru_Name (RulesOf obj)
   \<and> map ru_Index (RulesOf obj) = [0..<length (RulesOf obj)]"
  using AsRoute_None_iff [of obj] RulesOf_not_route [of obj]
  by (cases "AsRoute obj")
    (simp_all add: RuleNamesOf_RulesOf RulesOf_index AsRoute_backendRefs AsRoute_kind AsRoute_RouteKinds)

end
