(* ===== verification/Parents.thy ===== *)
theory Parents
  imports Routes
begin

text \<open>
  \<open>pkg/gatewayapi/parent.go\<close>, \<open>listenerselect.go\<close>, \<open>gateway.go\<close>, \<open>gatewayclass.go\<close>
  and \<open>gatewaylistener.go\<close>: resolving a route's parentRefs, and the indexes of the context
  a reference is resolved in.

  The locale \<open>object_index\<close> is the contract every such index satisfies: what it holds is
  the union of what each object contributes, so it neither depends on the order of the objects
  nor shrinks when objects are added. The locale \<open>listener_index\<close> is the contract of
  \<open>ListenersByOwner\<close>, which the attachment checks rely on.
\<close>

section \<open>Parents\<close>

record Parent =
  par_Group :: str
  par_Kind :: str
  par_Namespace :: str
  par_Name :: str
  par_Section :: "str option"

definition resolve_parent :: "Route \<Rightarrow> parent_reference \<Rightarrow> Parent" where
  "resolve_parent route ref =
     \<lparr>par_Group = (case pr_Group ref of Some g \<Rightarrow> g | None \<Rightarrow> gateway_group),
      par_Kind = (case pr_Kind ref of Some k \<Rightarrow> k | None \<Rightarrow> Gateway),
      par_Namespace = (case pr_Namespace ref of Some ns \<Rightarrow> ns | None \<Rightarrow> rt_Namespace route),
      par_Name = pr_Name ref,
      par_Section = pr_SectionName ref\<rparr>"

definition ParentsOf :: "Route \<Rightarrow> Parent list" where
  "ParentsOf route = map (resolve_parent route) (rt_ParentRefs route)"

definition parent_Matches :: "Parent \<Rightarrow> str \<Rightarrow> str \<Rightarrow> str \<Rightarrow> bool" where
  "parent_Matches p kind namespace name \<longleftrightarrow>
     par_Group p = gateway_group \<and> par_Kind p = kind \<and> par_Namespace p = namespace \<and> par_Name p = name"

definition CoversListener :: "Parent \<Rightarrow> str option \<Rightarrow> bool" where
  "CoversListener p listener \<longleftrightarrow>
     listener = None \<or> par_Section p = None \<or> par_Section p = listener"

abbreviation parent_ref :: "Parent \<Rightarrow> ObjectRef" where
  "parent_ref p \<equiv> mk_ref (par_Kind p) (par_Namespace p) (par_Name p)"

section \<open>Gateways and GatewayClasses at every served version\<close>

fun AsGateway :: "k8s_object \<Rightarrow> gateway option" where
  "AsGateway (Gateway_v1 g) = Some g"
| "AsGateway (Gateway_v1beta1 g) = Some g"
| "AsGateway _ = None"

definition gateways_of :: "k8s_object \<Rightarrow> gateway list" where
  "gateways_of k = (case AsGateway k of None \<Rightarrow> [] | Some gw \<Rightarrow> [gw])"

lemma AsGateway_scope: "AsGateway k = None \<longleftrightarrow> kind_of k \<notin> Some ` set [Gateway]"
  by (cases k) (simp_all add: kind_names)

definition GatewayClasses :: "lint_context \<Rightarrow> str set" where
  "GatewayClasses lintCtx =
     foldl (\<lambda>found obj.
       case K8sObject obj of
         GatewayClass_v1 _ \<Rightarrow> insert (GetName (K8sObject obj)) found
       | GatewayClass_v1beta1 _ \<Rightarrow> insert (GetName (K8sObject obj)) found
       | _ \<Rightarrow> found) {} (Objects lintCtx)"

record GatewayListener =
  gl_Name :: str
  gl_Hostname :: "str option"
  gl_Port :: int32
  gl_Protocol :: str
  gl_TLS :: "tls_config option"

definition GatewayListenersOf :: "k8s_object \<Rightarrow> GatewayListener list option" where
  "GatewayListenersOf obj =
     (case (case obj of Gateway_v1 g \<Rightarrow> Some g | Gateway_v1beta1 g \<Rightarrow> Some g | _ \<Rightarrow> None) of
        None \<Rightarrow> None
      | Some gw \<Rightarrow> Some (map (\<lambda>l.
          \<lparr>gl_Name = lis_Name l, gl_Hostname = lis_Hostname l, gl_Port = lis_Port l,
           gl_Protocol = lis_Protocol l, gl_TLS = lis_TLS l\<rparr>) (gw_Listeners gw)))"

definition TLSMode :: "GatewayListener \<Rightarrow> str" where
  "TLSMode l =
     (case gl_TLS l of
        None \<Rightarrow> TLSModeTerminate
      | Some tls \<Rightarrow>
          (case tlc_Mode tls of
             None \<Rightarrow> TLSModeTerminate
           | Some mode \<Rightarrow> if mode = '''' then TLSModeTerminate else mode))"

section \<open>Indexes of the context\<close>

definition GatewaysAndListenerSets :: "lint_context \<Rightarrow> ObjectRef set" where
  "GatewaysAndListenerSets lintCtx =
     foldl (\<lambda>found obj.
       (case (case K8sObject obj of
                Gateway_v1 _ \<Rightarrow> Some Gateway
              | ListenerSet_v1 _ \<Rightarrow> Some ListenerSet
              | _ \<Rightarrow> None) of
          None \<Rightarrow> found
        | Some kind \<Rightarrow>
            insert (mk_ref kind (GetNamespace (K8sObject obj)) (GetName (K8sObject obj))) found))
       {} (Objects lintCtx)"

definition ListenerSetParent :: "listener_set \<Rightarrow> ObjectRef" where
  "ListenerSetParent ls =
     mk_ref Gateway
       (case pg_Namespace (ls_ParentRef ls) of Some ns \<Rightarrow> ns | None \<Rightarrow> meta_Namespace (ls_Meta ls))
       (pg_Name (ls_ParentRef ls))"

definition BackendTargets :: "lint_context \<Rightarrow> ObjectRef set" where
  "BackendTargets lintCtx =
     foldl (\<lambda>found obj.
       (case (case K8sObject obj of
                Service_v1 _ \<Rightarrow> Some ''Service''
              | Backend_v1alpha1 _ \<Rightarrow> Some KindBackend
              | _ \<Rightarrow> None) of
          None \<Rightarrow> found
        | Some kind \<Rightarrow>
            insert (mk_ref kind (GetNamespace (K8sObject obj)) (GetName (K8sObject obj))) found))
       {} (Objects lintCtx)"

definition ResolvableBackendKind :: "str \<Rightarrow> str \<Rightarrow> bool" where
  "ResolvableBackendKind grp kind \<longleftrightarrow>
     (if grp = '''' \<and> kind = ''Service'' then True
      else if grp = envoy_group \<and> kind = KindBackend then True
      else False)"

section \<open>Listeners\<close>

record Listener =
  li_Owner :: ObjectRef
  li_Name :: str
  li_Hostname :: "str option"
  li_Port :: int32
  li_Protocol :: str
  li_Allowed :: "allowed_routes option"
  li_OwnerKind :: str

definition mk_listener :: "ObjectRef \<Rightarrow> str \<Rightarrow> listener_spec \<Rightarrow> Listener" where
  "mk_listener owner ownerKind l =
     \<lparr>li_Owner = owner, li_Name = lis_Name l, li_Hostname = lis_Hostname l, li_Port = lis_Port l,
      li_Protocol = lis_Protocol l, li_Allowed = lis_AllowedRoutes l, li_OwnerKind = ownerKind\<rparr>"

fun ListenersOf :: "k8s_object \<Rightarrow> Listener list" where
  "ListenersOf (Gateway_v1 parent) =
     map (mk_listener (mk_ref Gateway (meta_Namespace (gw_Meta parent)) (meta_Name (gw_Meta parent))) Gateway)
       (gw_Listeners parent)"
| "ListenersOf (ListenerSet_v1 parent) =
     map (mk_listener (mk_ref ListenerSet (meta_Namespace (ls_Meta parent)) (meta_Name (ls_Meta parent))) ListenerSet)
       (ls_Listeners parent)"
| "ListenersOf _ = []"

type_synonym owner_index = "ObjectRef \<Rightarrow> Listener list option"

text \<open>\<open>byOwner[l.Owner] = append(byOwner[l.Owner], l)\<close>\<close>

definition add_listener :: "owner_index \<Rightarrow> Listener \<Rightarrow> owner_index" where
  "add_listener byOwner l =
     byOwner(li_Owner l \<mapsto> (case byOwner (li_Owner l) of None \<Rightarrow> [] | Some ls \<Rightarrow> ls) @ [l])"

definition ListenersByOwner :: "lint_context \<Rightarrow> owner_index" where
  "ListenersByOwner lintCtx =
     foldl (\<lambda>byOwner obj. foldl add_listener byOwner (ListenersOf (K8sObject obj)))
       Map.empty (Objects lintCtx)"

text \<open>Indexing a Go map with a missing key yields the nil slice.\<close>

definition owned_by :: "owner_index \<Rightarrow> ObjectRef \<Rightarrow> Listener list" where
  "owned_by byOwner k = (case byOwner k of None \<Rightarrow> [] | Some ls \<Rightarrow> ls)"

definition ListenersFor :: "owner_index \<Rightarrow> Parent \<Rightarrow> Listener list" where
  "ListenersFor byOwner parent =
     (let listeners = owned_by byOwner (parent_ref parent) in
      case par_Section parent of
        None \<Rightarrow> listeners
      | Some section \<Rightarrow>
          (case List.find (\<lambda>l. li_Name l = section) listeners of Some l \<Rightarrow> [l] | None \<Rightarrow> []))"

section \<open>Contracts of the indexes\<close>

lemma foldl_insert_some:
  "foldl (\<lambda>found x. case f x of None \<Rightarrow> found | Some k \<Rightarrow> insert k found) s xs =
     s \<union> (\<Union>x\<in>set xs. set_option (f x))"
  by (induction xs arbitrary: s) (auto split: option.splits)

locale object_index =
  fixes index :: "lint_context \<Rightarrow> 'k set"
    and entries :: "k8s_object \<Rightarrow> 'k set"
  assumes index_eq: "index ctx = (\<Union>obj\<in>set (Objects ctx). entries (K8sObject obj))"
begin

lemma index_iff: "k \<in> index ctx \<longleftrightarrow> (\<exists>obj\<in>set (Objects ctx). k \<in> entries (K8sObject obj))"
  by (auto simp: index_eq)

lemma index_mono: "set (Objects ctx) \<subseteq> set (Objects ctx') \<Longrightarrow> index ctx \<subseteq> index ctx'"
  by (auto simp: index_eq)

lemma index_order: "set (Objects ctx) = set (Objects ctx') \<Longrightarrow> index ctx = index ctx'"
  by (simp add: index_eq)

lemma index_add:
  "index (ctx\<lparr>Objects := Objects ctx @ [obj]\<rparr>) = index ctx \<union> entries (K8sObject obj)"
  by (auto simp: index_eq)

lemma index_empty_iff: "index ctx = {} \<longleftrightarrow> (\<forall>obj\<in>set (Objects ctx). entries (K8sObject obj) = {})"
  by (auto simp: index_eq)

end

definition parent_entries :: "k8s_object \<Rightarrow> ObjectRef set" where
  "parent_entries k =
     (case k of
        Gateway_v1 g \<Rightarrow> {mk_ref Gateway (meta_Namespace (gw_Meta g)) (meta_Name (gw_Meta g))}
      | ListenerSet_v1 l \<Rightarrow> {mk_ref ListenerSet (meta_Namespace (ls_Meta l)) (meta_Name (ls_Meta l))}
      | _ \<Rightarrow> {})"

definition backend_entries :: "k8s_object \<Rightarrow> ObjectRef set" where
  "backend_entries k =
     (case k of
        Service_v1 m \<Rightarrow> {mk_ref ''Service'' (meta_Namespace m) (meta_Name m)}
      | Backend_v1alpha1 b \<Rightarrow> {mk_ref KindBackend (meta_Namespace (be_Meta b)) (meta_Name (be_Meta b))}
      | _ \<Rightarrow> {})"

definition class_entries :: "k8s_object \<Rightarrow> str set" where
  "class_entries k =
     (case k of GatewayClass_v1 m \<Rightarrow> {meta_Name m} | GatewayClass_v1beta1 m \<Rightarrow> {meta_Name m} | _ \<Rightarrow> {})"

lemma foldl_union:
  "(\<And>s x. x \<in> set xs \<Longrightarrow> f s x = s \<union> g x) \<Longrightarrow> foldl f s xs = s \<union> (\<Union>x\<in>set xs. g x)"
  by (induction xs arbitrary: s) auto

interpretation parents_index: object_index GatewaysAndListenerSets parent_entries
proof
  fix ctx
  show "GatewaysAndListenerSets ctx = (\<Union>obj\<in>set (Objects ctx). parent_entries (K8sObject obj))"
    unfolding GatewaysAndListenerSets_def
    by (subst foldl_union [where g = "\<lambda>obj. parent_entries (K8sObject obj)"])
      (auto simp: parent_entries_def split: k8s_object.splits)
qed

interpretation backends_index: object_index BackendTargets backend_entries
proof
  fix ctx
  show "BackendTargets ctx = (\<Union>obj\<in>set (Objects ctx). backend_entries (K8sObject obj))"
    unfolding BackendTargets_def
    by (subst foldl_union [where g = "\<lambda>obj. backend_entries (K8sObject obj)"])
      (auto simp: backend_entries_def split: k8s_object.splits)
qed

interpretation classes_index: object_index GatewayClasses class_entries
proof
  fix ctx
  show "GatewayClasses ctx = (\<Union>obj\<in>set (Objects ctx). class_entries (K8sObject obj))"
    unfolding GatewayClasses_def
    by (subst foldl_union [where g = "\<lambda>obj. class_entries (K8sObject obj)"])
      (auto simp: class_entries_def split: k8s_object.splits)
qed

section \<open>The listener index\<close>

definition all_listeners :: "lint_context \<Rightarrow> Listener list" where
  "all_listeners ctx = for_append (Objects ctx) (\<lambda>obj. ListenersOf (K8sObject obj))"

lemma foldl_add_listener:
  "foldl add_listener m ls k =
     (case m k of
        None \<Rightarrow> (if filter (\<lambda>l. li_Owner l = k) ls = [] then None else Some (filter (\<lambda>l. li_Owner l = k) ls))
      | Some ls' \<Rightarrow> Some (ls' @ filter (\<lambda>l. li_Owner l = k) ls))"
  by (induction ls arbitrary: m) (auto simp: add_listener_def split: option.splits)

lemma foldl_foldl_concat:
  "foldl (\<lambda>m x. foldl f m (g x)) m xs = foldl f m (for_append xs g)"
  by (induction xs arbitrary: m) auto

lemma ListenersByOwner_lookup:
  "ListenersByOwner ctx k =
     (if filter (\<lambda>l. li_Owner l = k) (all_listeners ctx) = [] then None
      else Some (filter (\<lambda>l. li_Owner l = k) (all_listeners ctx)))"
  by (simp only: ListenersByOwner_def foldl_foldl_concat foldl_add_listener all_listeners_def) simp

lemma ListenersFor_section:
  "par_Section parent = Some section \<Longrightarrow>
     ListenersFor byOwner parent =
       take 1 (filter (\<lambda>l. li_Name l = section) (owned_by byOwner (parent_ref parent)))"
proof -
  have "(case List.find P xs of Some l \<Rightarrow> [l] | None \<Rightarrow> []) = take 1 (filter P xs)"
    for P :: "Listener \<Rightarrow> bool" and xs
    by (induction xs) auto
  then show "par_Section parent = Some section \<Longrightarrow> ?thesis" by (simp add: ListenersFor_def)
qed

lemma ListenersFor_subset: "set (ListenersFor byOwner parent) \<subseteq> set (owned_by byOwner (parent_ref parent))"
  by (cases "par_Section parent")
    (auto simp: ListenersFor_section, auto simp: ListenersFor_def dest: in_set_takeD)

locale listener_index =
  fixes byOwner :: "lint_context \<Rightarrow> owner_index"
    and listeners :: "lint_context \<Rightarrow> Listener list"
  assumes lookup_eq: "byOwner ctx k =
     (if filter (\<lambda>l. li_Owner l = k) (listeners ctx) = [] then None
      else Some (filter (\<lambda>l. li_Owner l = k) (listeners ctx)))"
begin

lemma owned_by_eq: "owned_by (byOwner ctx) k = filter (\<lambda>l. li_Owner l = k) (listeners ctx)"
  by (simp add: owned_by_def lookup_eq)

lemma present_iff: "byOwner ctx k = None \<longleftrightarrow> owned_by (byOwner ctx) k = []"
  by (simp add: owned_by_def lookup_eq)

lemma lookup_Some: "byOwner ctx k = Some ls \<Longrightarrow> ls = owned_by (byOwner ctx) k \<and> ls \<noteq> []"
  by (auto simp: owned_by_def lookup_eq split: if_splits)

lemma owned_owner: "l \<in> set (owned_by (byOwner ctx) k) \<Longrightarrow> li_Owner l = k"
  by (simp add: owned_by_eq)

lemma ListenersFor_owner: "l \<in> set (ListenersFor (byOwner ctx) parent) \<Longrightarrow> li_Owner l = parent_ref parent"
  using ListenersFor_subset owned_owner by blast

end

interpretation li: listener_index ListenersByOwner all_listeners
  by unfold_locales (rule ListenersByOwner_lookup)

lemma ListenersOf_owner:
  "l \<in> set (ListenersOf k) \<Longrightarrow> li_Owner l \<in> parent_entries k \<and> li_OwnerKind l = ref_Kind (li_Owner l)"
  by (cases k) (auto simp: mk_listener_def parent_entries_def)

lemma present_known:
  assumes "ListenersByOwner ctx k = Some ls"
  shows "k \<in> GatewaysAndListenerSets ctx"
proof -
  from li.lookup_Some [OF assms] obtain l where l: "l \<in> set (owned_by (ListenersByOwner ctx) k)"
    by (metis last_in_set)
  then have "li_Owner l = k" and "l \<in> set (all_listeners ctx)" by (auto simp: li.owned_by_eq)
  then obtain obj where "obj \<in> set (Objects ctx)" "l \<in> set (ListenersOf (K8sObject obj))"
    by (auto simp: all_listeners_def)
  with \<open>li_Owner l = k\<close> show ?thesis
    by (auto simp: parents_index.index_iff dest: ListenersOf_owner)
qed

end
