(* ===== verification/Attach.thy ===== *)
theory Attach
  imports Parents
begin

text \<open>
  \<open>pkg/gatewayapi/attach.go\<close>: whether a listener admits a route's kind and namespace and
  whether their hostnames can meet. The abstract specification of the hostname test is
  \<open>covers_host\<close>, the set of concrete hostnames a pattern stands for: two patterns overlap
  exactly when some concrete hostname is covered by both.
\<close>

section \<open>Kinds and namespaces\<close>

definition RouteKindsFor :: "str \<Rightarrow> str list" where
  "RouteKindsFor protocol =
     (if protocol = HTTPProtocolType \<or> protocol = HTTPSProtocolType then [HTTPRoute, GRPCRoute]
      else if protocol = TLSProtocolType then [TLSRoute]
      else if protocol = TCPProtocolType then [TCPRoute]
      else if protocol = UDPProtocolType then [UDPRoute]
      else [])"

definition HasExplicitKinds :: "Listener \<Rightarrow> bool" where
  "HasExplicitKinds l \<longleftrightarrow>
     (case li_Allowed l of None \<Rightarrow> False | Some a \<Rightarrow> 0 < length (ar_Kinds a))"

text \<open>
  \<open>accepted\<close> is nil exactly when it is the empty list: the protocol default returns nil for
  the protocols gwlint does not model, and the explicit list starts from nil.
\<close>

definition AcceptsKind :: "Listener \<Rightarrow> str \<Rightarrow> bool \<times> str list" where
  "AcceptsKind l kind =
     (let accepted =
        (case li_Allowed l of
           None \<Rightarrow> RouteKindsFor (li_Protocol l)
         | Some a \<Rightarrow>
             if 0 < length (ar_Kinds a)
             then for_append (ar_Kinds a) (\<lambda>k.
                    if gk_Group k \<noteq> None \<and> gk_Group k \<noteq> Some gateway_group then [] else [gk_Kind k])
             else RouteKindsFor (li_Protocol l))
      in if accepted = [] then (True, [])
         else if list_ex (\<lambda>k. k = kind) accepted then (True, accepted)
         else (False, accepted))"

definition allowed_from :: "Listener \<Rightarrow> str option" where
  "allowed_from l =
     (case li_Allowed l of
        None \<Rightarrow> None
      | Some a \<Rightarrow> (case ar_Namespaces a of None \<Rightarrow> None | Some from \<Rightarrow> from))"

definition AcceptsNamespace :: "Listener \<Rightarrow> str \<Rightarrow> bool" where
  "AcceptsNamespace l routeNamespace =
     (case allowed_from l of
        None \<Rightarrow> routeNamespace = ref_Namespace (li_Owner l)
      | Some from \<Rightarrow>
          if from = NamespacesFromAll then True
          else if from = NamespacesFromSelector then True
          else if from = NamespacesFromSame then routeNamespace = ref_Namespace (li_Owner l)
          else True)"

definition NamespacePolicy :: "Listener \<Rightarrow> str" where
  "NamespacePolicy l = (case allowed_from l of None \<Rightarrow> NamespacesFromSame | Some from \<Rightarrow> from)"

section \<open>Hostnames\<close>

definition hasDNSSuffix :: "str \<Rightarrow> str \<Rightarrow> bool" where
  "hasDNSSuffix host suff \<longleftrightarrow>
     length host \<ge> length suff \<and> drop (length host - length suff) host = suff"

definition isWildcard :: "str \<Rightarrow> bool" where
  "isWildcard h \<longleftrightarrow> length h > 2 \<and> h ! 0 = CHR ''*'' \<and> h ! 1 = CHR ''.''"

definition wildcardMatches :: "str \<Rightarrow> str \<Rightarrow> bool" where
  "wildcardMatches wildcard host \<longleftrightarrow>
     (let suff = drop 1 wildcard in length host > length suff \<and> hasDNSSuffix host suff)"

definition hostnamesOverlap :: "str \<Rightarrow> str \<Rightarrow> bool" where
  "hostnamesOverlap a b \<longleftrightarrow>
     (let aWild = isWildcard a; bWild = isWildcard b in
      if aWild \<and> bWild then
        hasDNSSuffix (drop 1 a) (drop 1 b) \<or> hasDNSSuffix (drop 1 b) (drop 1 a)
      else if aWild then wildcardMatches a b
      else if bWild then wildcardMatches b a
      else a = b)"

definition HostnamesIntersect :: "Listener \<Rightarrow> str list \<Rightarrow> bool" where
  "HostnamesIntersect l routeHostnames \<longleftrightarrow>
     (case li_Hostname l of
        None \<Rightarrow> True
      | Some h \<Rightarrow> h = '''' \<or> routeHostnames = [] \<or> list_ex (\<lambda>r. hostnamesOverlap h r) routeHostnames)"

section \<open>The specification of a hostname pattern\<close>

text \<open>
  A concrete hostname is one that is not a wildcard. A wildcard pattern \<open>*.suffix\<close> stands
  for every concrete hostname that has at least one character before \<open>.suffix\<close>; any other
  pattern stands for itself.
\<close>

definition covers_host :: "str \<Rightarrow> str \<Rightarrow> bool" where
  "covers_host pat host \<longleftrightarrow>
     \<not> isWildcard host \<and>
     (if isWildcard pat then \<exists>label. label \<noteq> '''' \<and> host = label @ tl pat else host = pat)"

lemma hasDNSSuffix_iff: "hasDNSSuffix host suff \<longleftrightarrow> (\<exists>p. host = p @ suff)"
proof
  assume h: "hasDNSSuffix host suff"
  then have "host = take (length host - length suff) host @ suff"
    by (metis append_take_drop_id hasDNSSuffix_def)
  then show "\<exists>p. host = p @ suff" by blast
qed (auto simp: hasDNSSuffix_def)

lemma wildcardMatches_iff:
  "wildcardMatches w host \<longleftrightarrow> (\<exists>label. label \<noteq> '''' \<and> host = label @ tl w)"
  by (auto simp: wildcardMatches_def hasDNSSuffix_iff Let_def drop_Suc)

lemma covers_host_wild:
  "isWildcard pat \<Longrightarrow> covers_host pat host \<longleftrightarrow> \<not> isWildcard host \<and> wildcardMatches pat host"
  by (simp add: covers_host_def wildcardMatches_iff)

lemma covers_host_exact: "\<not> isWildcard pat \<Longrightarrow> covers_host pat host \<longleftrightarrow> host = pat"
  by (auto simp: covers_host_def)

lemma hostnamesOverlap_sym: "hostnamesOverlap a b \<longleftrightarrow> hostnamesOverlap b a"
  by (auto simp: hostnamesOverlap_def Let_def)

lemma not_wildcard_x: "\<not> isWildcard (CHR ''x'' # s)"
  by (simp add: isWildcard_def)

lemma overlap_wild_wild:
  assumes "isWildcard a" and "isWildcard b"
  shows "(hasDNSSuffix (tl a) (tl b) \<or> hasDNSSuffix (tl b) (tl a)) \<longleftrightarrow>
    (\<exists>host. covers_host a host \<and> covers_host b host)"
proof
  have ex: "\<exists>host. covers_host a host \<and> covers_host b host"
    if "isWildcard a" and "isWildcard b" and "tl a = p @ tl b" for a b p :: str
  proof -
    have "covers_host a (''x'' @ tl a)" and "covers_host b (''x'' @ tl a)"
      using that not_wildcard_x [of "tl a"] by (auto simp: covers_host_def intro!: exI [of _ "''x'' @ p"] exI [of _ "''x''"])
    then show ?thesis by blast
  qed
  assume "hasDNSSuffix (tl a) (tl b) \<or> hasDNSSuffix (tl b) (tl a)"
  then show "\<exists>host. covers_host a host \<and> covers_host b host"
    using ex [of a b] ex [of b a] assms by (auto simp: hasDNSSuffix_iff)
next
  assume "\<exists>host. covers_host a host \<and> covers_host b host"
  then obtain p q where "p @ tl a = q @ tl b"
    using assms by (auto simp: covers_host_def)
  then show "hasDNSSuffix (tl a) (tl b) \<or> hasDNSSuffix (tl b) (tl a)"
    unfolding hasDNSSuffix_iff append_eq_append_conv2 by metis
qed

lemma overlap_spec:
  "hostnamesOverlap a b \<longleftrightarrow> (\<exists>host. covers_host a host \<and> covers_host b host)"
proof (cases "isWildcard a"; cases "isWildcard b")
  assume "isWildcard a" "isWildcard b"
  then show ?thesis by (simp add: hostnamesOverlap_def overlap_wild_wild drop_Suc)
next
  assume "isWildcard a" "\<not> isWildcard b"
  then show ?thesis
    by (simp add: hostnamesOverlap_def covers_host_exact covers_host_wild)
next
  assume "\<not> isWildcard a" "isWildcard b"
  then show ?thesis
    by (auto simp: hostnamesOverlap_def covers_host_exact covers_host_wild)
next
  assume "\<not> isWildcard a" "\<not> isWildcard b"
  then show ?thesis by (auto simp: hostnamesOverlap_def covers_host_exact)
qed

section \<open>What a listener accepts\<close>

definition explicit_kinds :: "Listener \<Rightarrow> str list" where
  "explicit_kinds l =
     (case li_Allowed l of
        None \<Rightarrow> []
      | Some a \<Rightarrow> map gk_Kind (filter (\<lambda>k. gk_Group k \<in> {None, Some gateway_group}) (ar_Kinds a)))"

lemma AcceptsKind_explicit:
  "HasExplicitKinds l \<Longrightarrow>
     AcceptsKind l kind = (explicit_kinds l = [] \<or> kind \<in> set (explicit_kinds l), explicit_kinds l)"
proof -
  have "for_append ks (\<lambda>k. if gk_Group k \<noteq> None \<and> gk_Group k \<noteq> Some gateway_group then [] else [gk_Kind k])
      = map gk_Kind (filter (\<lambda>k. gk_Group k \<in> {None, Some gateway_group}) ks)" for ks :: "group_kind list"
    by (induction ks) auto
  then show "HasExplicitKinds l \<Longrightarrow> ?thesis"
    by (auto simp: AcceptsKind_def HasExplicitKinds_def explicit_kinds_def Let_def list_ex_iff
        split: option.splits)
qed

lemma AcceptsKind_default:
  "\<not> HasExplicitKinds l \<Longrightarrow>
     AcceptsKind l kind =
       (RouteKindsFor (li_Protocol l) = [] \<or> kind \<in> set (RouteKindsFor (li_Protocol l)),
        RouteKindsFor (li_Protocol l))"
  by (auto simp: AcceptsKind_def HasExplicitKinds_def Let_def list_ex_iff split: option.splits)

lemma AcceptsKind_refuses_nonempty: "\<not> fst (AcceptsKind l kind) \<Longrightarrow> snd (AcceptsKind l kind) \<noteq> []"
  by (auto simp: AcceptsKind_def Let_def split: if_splits)

lemma AcceptsNamespace_refuses:
  "\<not> AcceptsNamespace l ns \<longleftrightarrow>
     allowed_from l \<in> {None, Some NamespacesFromSame} \<and> ns \<noteq> ref_Namespace (li_Owner l)"
  by (auto simp: AcceptsNamespace_def api_constants split: option.splits)

lemma HostnamesIntersect_fails:
  "\<not> HostnamesIntersect l hs \<Longrightarrow> \<exists>h. li_Hostname l = Some h \<and> h \<noteq> ''''"
  by (auto simp: HostnamesIntersect_def split: option.splits)

lemma HostnamesIntersect_eq:
  "HostnamesIntersect l hs \<longleftrightarrow>
     li_Hostname l \<in> {None, Some []} \<or> hs = [] \<or>
     (\<exists>pat host r. li_Hostname l = Some pat \<and> r \<in> set hs \<and> covers_host pat host \<and> covers_host r host)"
  by (auto simp: HostnamesIntersect_def list_ex_iff overlap_spec split: option.splits)

text \<open>
  C4: a listener and a route can meet exactly when one of them leaves hostnames unset or some
  concrete hostname is covered by the listener's pattern and by one of the route's.
\<close>

theorem HostnamesIntersect_spec:
  "HostnamesIntersect l hs \<longleftrightarrow>
     li_Hostname l \<in> {None, Some ''''} \<or> hs = [] \<or>
     (\<exists>pat host r. li_Hostname l = Some pat \<and> r \<in> set hs \<and> covers_host pat host \<and> covers_host r host)"
  by (rule HostnamesIntersect_eq)

text \<open>
  What \<open>AcceptsKind\<close> decides. A listener with explicit \<open>allowedRoutes.kinds\<close> accepts the
  kinds it lists under the Gateway API group, one without accepts what its protocol carries;
  and in either case an empty list accepts everything. The list it returns is the one it
  judged by.
\<close>

lemma AcceptsKind_spec:
  "AcceptsKind l kind =
     (let judged = (if HasExplicitKinds l then explicit_kinds l else RouteKindsFor (li_Protocol l))
      in (judged = [] \<or> kind \<in> set judged, judged))"
  by (simp add: AcceptsKind_explicit AcceptsKind_default Let_def)

text \<open>
  A wildcard covers several labels: \<open>*.example.com\<close> overlaps \<open>a.b.example.com\<close>, and
  does not overlap \<open>example.com\<close> itself. (The comment on \<open>HostnamesIntersect\<close> says exactly
  one label, the one on \<open>wildcardMatches\<close> one or more.)
\<close>

lemma wildcard_covers_many_labels:
  "hostnamesOverlap ''*.example.com'' ''a.b.example.com'' \<and>
   hostnamesOverlap ''*.example.com'' ''a.example.com'' \<and>
   \<not> hostnamesOverlap ''*.example.com'' ''example.com''"
  by code_simp

text \<open>
  A listener whose explicit \<open>allowedRoutes.kinds\<close> all name another API group accepts
  every route kind, although the explicit list is meant to replace the default entirely.
\<close>

lemma foreign_kinds_accept_everything:
  "(let l = \<lparr>li_Owner = mk_ref Gateway ''infra'' ''edge'', li_Name = ''tcp'', li_Hostname = None,
             li_Port = 9000, li_Protocol = TCPProtocolType,
             li_Allowed = Some \<lparr>ar_Namespaces = None,
                                ar_Kinds = [\<lparr>gk_Group = Some ''example.org'', gk_Kind = ''CustomRoute''\<rparr>]\<rparr>,
             li_OwnerKind = Gateway\<rparr>
    in HasExplicitKinds l \<and> AcceptsKind l HTTPRoute = (True, []) \<and> AcceptsKind l UDPRoute = (True, []))"
  by (simp add: HasExplicitKinds_def AcceptsKind_def gateway_group_def)

end
