(* ===== verification/Check_Contract.thy ===== *)
theory Check_Contract
  imports Attach
begin

text \<open>
  What a check is to the engine: a template (key, texts, the object kinds it supports and the
  function it instantiates to), registered by the \<open>init\<close> of its package.

  \<open>check_contract\<close> is what the engine relies on: a check reports nothing on an object whose
  type is outside the kinds it declares, never panics, and its findings do not depend on the
  order in which Go ranges over maps. From it follows that running the check on just the objects
  its scope matches loses no finding. \<open>route_check\<close> and \<open>parent_check\<close> are the shapes most
  checks on routes have: a loop over the route's parentRefs whose body reports or not.
\<close>

record check_template =
  tm_HumanName :: str
  tm_Key :: str
  tm_Description :: str
  tm_ObjectKinds :: "str list"
  tm_Check :: check_func

definition quoted_list :: "runtime \<Rightarrow> str list \<Rightarrow> str list" where
  "quoted_list R xs = map (quote R) xs"

lemma same_tables_quote: "same_tables R S \<Longrightarrow> quote R = quote S"
  by (intro ext quote_same_tables) (simp add: same_tables_def)

lemma same_tables_lower: "same_tables R S \<Longrightarrow> ToLower R = ToLower S"
  by (intro ext ToLower_same_tables) (simp add: same_tables_def)

lemma same_tables_selector:
  "same_tables R S \<Longrightarrow> LabelSelectorAsSelector R = LabelSelectorAsSelector S"
  by (simp add: same_tables_def)

lemma same_tables_Describe: "same_tables R S \<Longrightarrow> rule_Describe R = rule_Describe S"
  by (intro ext) (simp only: rule_Describe_def same_tables_quote [of R S])

lemma same_tablesE:
  assumes "same_tables R S"
  obtains "quote R = quote S" and "ToLower R = ToLower S"
    and "LabelSelectorAsSelector R = LabelSelectorAsSelector S" and "rule_Describe R = rule_Describe S"
  using assms same_tables_quote same_tables_lower same_tables_selector same_tables_Describe by blast

locale check_contract =
  fixes check :: check_func
    and kinds :: "str list"
  assumes off_scope: "kind_of (K8sObject obj) \<notin> Some ` set kinds \<Longrightarrow> check R ctx obj = Some []"
    and total: "range_ok R \<Longrightarrow> \<exists>ds. check R ctx obj = Some ds"
    and deterministic: "same_tables R S \<Longrightarrow> range_ok R \<Longrightarrow> range_ok S \<Longrightarrow> check R ctx obj = check S ctx obj"
begin

lemma scope_suffices:
  assumes "list_all decoded objs"
  shows "for_go objs (check R ctx) =
    for_go (filter (\<lambda>obj. scope_matches kinds (obj_GVK obj)) objs) (check R ctx)"
  using assms
proof (induction objs)
  case Nil
  then show ?case by simp
next
  case (Cons obj objs)
  show ?case
  proof (cases "scope_matches kinds (obj_GVK obj)")
    case True
    with Cons show ?thesis by simp
  next
    case False
    with Cons.prems have "kind_of (K8sObject obj) \<notin> Some ` set kinds"
      by (auto dest: decoded_in_scope)
    then have "check R ctx obj = Some []" by (rule off_scope)
    with Cons False show ?thesis by (cases "for_go objs (check R ctx)") simp_all
  qed
qed

lemma run_total: "range_ok R \<Longrightarrow> \<exists>ds. for_go objs (check R ctx) = Some ds"
  by (simp add: for_go_Some_iff total)

end

locale route_check =
  fixes check :: check_func
    and findings :: "runtime \<Rightarrow> lint_context \<Rightarrow> k8s_object \<Rightarrow> Route \<Rightarrow> diagnostic list"
  assumes check_route: "check R ctx obj =
      Some (case AsRoute (K8sObject obj) of
              None \<Rightarrow> [] | Some route \<Rightarrow> findings R ctx (K8sObject obj) route)"
    and findings_tables: "same_tables R S \<Longrightarrow> findings R = findings S"

sublocale route_check \<subseteq> check_contract check RouteKinds
  by unfold_locales
    (auto simp: check_route findings_tables AsRoute_None_iff [symmetric] split: option.splits)

locale parent_check =
  fixes check :: check_func
    and reports :: "lint_context \<Rightarrow> Route \<Rightarrow> Parent \<Rightarrow> bool"
    and message :: "runtime \<Rightarrow> lint_context \<Rightarrow> Route \<Rightarrow> Parent \<Rightarrow> str"
  assumes check_parents: "check R ctx obj =
      Some (case AsRoute (K8sObject obj) of
              None \<Rightarrow> []
            | Some route \<Rightarrow>
                map (\<lambda>p. \<lparr>Message = message R ctx route p\<rparr>)
                  (filter (reports ctx route) (ParentsOf route)))"
    and message_tables: "same_tables R S \<Longrightarrow> message R = message S"
begin

lemma silent_iff:
  "AsRoute (K8sObject obj) = Some route \<Longrightarrow>
     check R ctx obj = Some [] \<longleftrightarrow> (\<forall>p\<in>set (ParentsOf route). \<not> reports ctx route p)"
  by (simp add: check_parents filter_empty_conv)

lemma reports_iff:
  "check R ctx obj \<noteq> Some [] \<longleftrightarrow>
    (\<exists>route p. AsRoute (K8sObject obj) = Some route \<and> p \<in> set (ParentsOf route) \<and> reports ctx route p)"
  by (auto simp: check_parents filter_empty_conv split: option.split)

lemma one_per_parent:
  "AsRoute (K8sObject obj) = Some route \<Longrightarrow> check R ctx obj = Some ds \<Longrightarrow>
     length ds = length (filter (reports ctx route) (ParentsOf route)) \<and>
     length ds \<le> length (rt_ParentRefs route)"
  by (auto simp: check_parents ParentsOf_def intro: order_trans [OF length_filter_le])

end

sublocale parent_check \<subseteq> route_check check
  "\<lambda>R ctx k route. map (\<lambda>p. \<lparr>Message = message R ctx route p\<rparr>) (filter (reports ctx route) (ParentsOf route))"
  by unfold_locales (simp_all add: check_parents message_tables fun_eq_iff)

text \<open>
  \<open>ref_check\<close> is the shape of a check that walks the references of one object, and
  \<open>dangling_check\<close> the contract of those among them that report a reference to something the
  context does not hold: it is judged only where the context describes the scope the target
  would live in, so a finding never rests on a part of the cluster the manifests leave out.
\<close>

locale ref_check =
  fixes check :: check_func
    and kinds :: "str list"
    and refs :: "k8s_object \<Rightarrow> 'r list"
    and reports :: "lint_context \<Rightarrow> k8s_object \<Rightarrow> 'r \<Rightarrow> bool"
    and message :: "runtime \<Rightarrow> lint_context \<Rightarrow> k8s_object \<Rightarrow> 'r \<Rightarrow> str"
  assumes check_refs: "check R ctx obj =
      Some (map (\<lambda>r. \<lparr>Message = message R ctx (K8sObject obj) r\<rparr>)
              (filter (reports ctx (K8sObject obj)) (refs (K8sObject obj))))"
    and refs_scope: "kind_of k \<notin> Some ` set kinds \<Longrightarrow> refs k = []"
    and ref_message_tables: "same_tables R S \<Longrightarrow> message R = message S"
begin

lemma ref_reports_iff:
  "check R ctx obj \<noteq> Some [] \<longleftrightarrow>
     (\<exists>r. r \<in> set (refs (K8sObject obj)) \<and> reports ctx (K8sObject obj) r)"
  by (auto simp: check_refs filter_empty_conv)

end

sublocale ref_check \<subseteq> check_contract check kinds
  by unfold_locales (auto simp: check_refs refs_scope ref_message_tables)

locale dangling_check = ref_check check kinds refs reports message + object_index known entries
  for check kinds and refs :: "k8s_object \<Rightarrow> 'r list" and reports message
    and known :: "lint_context \<Rightarrow> 'k set" and entries +
  fixes judged :: "k8s_object \<Rightarrow> 'r \<Rightarrow> bool"
    and target :: "k8s_object \<Rightarrow> 'r \<Rightarrow> 'k"
    and scope :: "'k \<Rightarrow> 'g"
  assumes reports_eq: "reports ctx k r \<longleftrightarrow>
      judged k r \<and> scope (target k r) \<in> scope ` known ctx \<and> target k r \<notin> known ctx"
begin

lemma dangling_iff:
  "check R ctx obj \<noteq> Some [] \<longleftrightarrow>
     (\<exists>r. r \<in> set (refs (K8sObject obj)) \<and> judged (K8sObject obj) r \<and>
        scope (target (K8sObject obj) r) \<in> scope ` \<Union> (entries ` K8sObject ` set (Objects ctx)) \<and>
        target (K8sObject obj) r \<notin> \<Union> (entries ` K8sObject ` set (Objects ctx)))"
  unfolding ref_reports_iff reports_eq by (simp add: index_eq image_image)

text \<open>More manifests of scopes the context already describes only take findings away.\<close>

lemma findings_antitone:
  assumes "set (Objects ctx) \<subseteq> set (Objects ctx')" and "scope ` known ctx' \<subseteq> scope ` known ctx"
    and "check R ctx obj = Some []"
  shows "check R ctx' obj = Some []"
proof (rule ccontr)
  assume "check R ctx' obj \<noteq> Some []"
  then obtain r where r: "r \<in> set (refs (K8sObject obj))" "reports ctx' (K8sObject obj) r"
    unfolding ref_reports_iff by blast
  then have "reports ctx (K8sObject obj) r"
    using assms(2) index_mono [OF assms(1)] by (auto simp: reports_eq)
  with r(1) assms(3) show False by (auto simp: check_refs filter_empty_conv)
qed

text \<open>A set that holds no target at all gives no finding.\<close>

lemma silent_without_targets: "known ctx = {} \<Longrightarrow> check R ctx obj = Some []"
  by (simp add: check_refs reports_eq filter_empty_conv)

end

end
