(* ===== verification/Fixtures.thy ===== *)
theory Fixtures
  imports Check_Contract
begin

text \<open>
  Small concrete manifests the witnesses run the checks on, in the shape of the ones under
  \<open>examples/\<close>: builders that fill in the fields a manifest leaves out, and a few objects.
\<close>

definition meta :: "str \<Rightarrow> str \<Rightarrow> object_meta" where
  "meta ns name = \<lparr>meta_Name = name, meta_Namespace = ns, meta_Labels = [], meta_Created = None\<rparr>"

definition gvk :: "str \<Rightarrow> str \<Rightarrow> str \<Rightarrow> group_version_kind" where
  "gvk grp ver kind = \<lparr>gvk_Group = grp, gvk_Version = ver, gvk_Kind = kind\<rparr>"

definition load :: "nat \<Rightarrow> k8s_object \<Rightarrow> lint_object" where
  "load ptr k =
     \<lparr>obj_Ptr = ptr, obj_FilePath = ''manifests.yaml'',
      obj_GVK = (case kind_of k of
          None \<Rightarrow> gvk '''' ''v1'' ''Other''
        | Some kind \<Rightarrow> if is_envoy k then gvk envoy_group ''v1alpha1'' kind else gvk gateway_group ''v1'' kind),
      K8sObject = k\<rparr>"

definition context_of :: "k8s_object list \<Rightarrow> lint_context" where
  "context_of ks = \<lparr>Objects = map (\<lambda>(i, k). load i k) (enumerate 0 ks), InvalidObjects = []\<rparr>"

lemma decoded_load: "decoded (load ptr k)"
  by (cases k) (simp_all add: decoded_def load_def is_envoy_def gvk_def)

definition to_parent :: "str \<Rightarrow> str option \<Rightarrow> parent_reference" where
  "to_parent name sect = \<lparr>pr_Group = None, pr_Kind = None, pr_Namespace = None, pr_Name = name, pr_SectionName = sect\<rparr>"

definition to_backend :: "str \<Rightarrow> int32 option \<Rightarrow> int32 option \<Rightarrow> backend_object" where
  "to_backend name port weight =
     \<lparr>bo_Group = None, bo_Kind = None, bo_Namespace = None, bo_Name = name, bo_Port = port, bo_Weight = weight\<rparr>"

definition to_envoy_backend :: "str \<Rightarrow> backend_object" where
  "to_envoy_backend name =
     \<lparr>bo_Group = Some envoy_group, bo_Kind = Some KindBackend, bo_Namespace = None, bo_Name = name,
      bo_Port = None, bo_Weight = None\<rparr>"

definition simple_rule :: "str option \<Rightarrow> backend_object list \<Rightarrow> http_rule" where
  "simple_rule name refs =
     \<lparr>hr_Name = name, hr_Matches = [], hr_Filters = [],
      hr_BackendRefs = map (\<lambda>r. \<lparr>wb_BackendRef = r\<rparr>) refs\<rparr>"

definition http :: "str \<Rightarrow> str \<Rightarrow> str list \<Rightarrow> parent_reference list \<Rightarrow> http_rule list \<Rightarrow> http_route" where
  "http ns name hosts parents rules =
     \<lparr>http_Meta = meta ns name, http_Hostnames = hosts, http_ParentRefs = parents, http_Rules = rules\<rparr>"

definition listener :: "str \<Rightarrow> str option \<Rightarrow> int32 \<Rightarrow> str \<Rightarrow> listener_spec" where
  "listener name host port proto =
     \<lparr>lis_Name = name, lis_Hostname = host, lis_Port = port, lis_Protocol = proto, lis_TLS = None,
      lis_AllowedRoutes = None\<rparr>"

definition gateway_with :: "str \<Rightarrow> str \<Rightarrow> listener_spec list \<Rightarrow> gateway" where
  "gateway_with ns name ls = \<lparr>gw_Meta = meta ns name, gw_ClassName = ''envoy'', gw_Listeners = ls\<rparr>"

text \<open>A Gateway \<open>edge\<close> with one HTTP listener \<open>http\<close>, and a route \<open>web\<close> in its namespace.\<close>

definition edge :: k8s_object where
  "edge = Gateway_v1 (gateway_with ''infra'' ''edge'' [listener ''http'' (Some ''*.example.com'') 80 HTTPProtocolType])"

definition web :: "str \<Rightarrow> str option \<Rightarrow> k8s_object" where
  "web name sect =
     HTTPRoute_v1 (http ''infra'' name [''www.example.com''] [to_parent ''edge'' sect]
       [simple_rule None [to_backend ''web'' (Some 8080) None]])"

lemmas fixture_simps =
  meta_def gvk_def load_def context_of_def to_parent_def to_backend_def to_envoy_backend_def
  simple_rule_def http_def listener_def gateway_with_def edge_def web_def

end
