(* ===== verification/Checks_Attachment.thy ===== *)
theory Checks_Attachment
  imports Fixtures
begin

text \<open>
  The five checks of tier 1, silent non-attachment: \<open>listener-not-found\<close>,
  \<open>route-not-permitted\<close>, \<open>hostname-never-matches\<close>, \<open>protocol-mismatch\<close> and
  \<open>dangling-parent-ref\<close>. Each walks the route's parentRefs; the body of the loop is a
  definition of its own (\<open>..._parent\<close>), and a predicate (\<open>..._reports\<close>) says when the body
  reports, through an interpretation of \<open>parent_check\<close>.
\<close>

section \<open>listener-not-found\<close>

definition hasListener :: "Listener list \<Rightarrow> str \<Rightarrow> bool" where
  "hasListener listeners name = list_ex (\<lambda>l. li_Name l = name) listeners"

definition lnf_describe :: "runtime \<Rightarrow> Listener list \<Rightarrow> str" where
  "lnf_describe R listeners =
     (if length listeners = 0 then ''no listeners''
      else let names = sort_strings (map (\<lambda>l. quote R (li_Name l)) listeners)
           in if length names = 1 then ''only '' @ names ! 0
              else Join (butlast names) '', '' @ '' and '' @ last names)"

definition lnf_message :: "runtime \<Rightarrow> Route \<Rightarrow> Parent \<Rightarrow> str \<Rightarrow> Listener list \<Rightarrow> str" where
  "lnf_message R route parent section listeners =
     rt_Kind route @ '' '' @ quote R (rt_Name route) @ '' attaches to listener '' @ quote R section @
     '' on '' @ par_Kind parent @ '' '' @ quote R (par_Name parent) @
     '', which declares no such listener (it has '' @ lnf_describe R listeners @ ''); '' @
     ''the route is not accepted onto that parent and its traffic is not served''"

definition lnf_parent :: "runtime \<Rightarrow> owner_index \<Rightarrow> Route \<Rightarrow> Parent \<Rightarrow> diagnostic list" where
  "lnf_parent R byOwner route parent =
     (case par_Section parent of
        None \<Rightarrow> []
      | Some section \<Rightarrow>
          if par_Group parent \<noteq> gateway_group then []
          else (case byOwner (parent_ref parent) of
                  None \<Rightarrow> []
                | Some listeners \<Rightarrow>
                    if hasListener listeners section then []
                    else [\<lparr>Message = lnf_message R route parent section listeners\<rparr>]))"

definition lnf_checkFunc :: check_func where
  "lnf_checkFunc R lintCtx object =
     Some (case AsRoute (K8sObject object) of
             None \<Rightarrow> []
           | Some route \<Rightarrow>
               let byOwner = ListenersByOwner lintCtx
               in for_append (ParentsOf route) (\<lambda>parent. lnf_parent R byOwner route parent))"

section \<open>route-not-permitted\<close>

definition listenersNamed :: "Listener list \<Rightarrow> Parent \<Rightarrow> Listener list" where
  "listenersNamed listeners parent =
     (case par_Section parent of
        None \<Rightarrow> listeners
      | Some section \<Rightarrow>
          (case List.find (\<lambda>l. li_Name l = section) listeners of Some l \<Rightarrow> [l] | None \<Rightarrow> []))"

fun whyNoneAdmit_loop :: "runtime \<Rightarrow> Listener list \<Rightarrow> Route \<Rightarrow> str list \<Rightarrow> str" where
  "whyNoneAdmit_loop R [] route reasons = (if length reasons = 0 then '''' else Join reasons ''; '')"
| "whyNoneAdmit_loop R (l # ls) route reasons =
     (if \<not> AcceptsNamespace l (rt_Namespace route) then
        whyNoneAdmit_loop R ls route (reasons @
          [''listener '' @ quote R (li_Name l) @ '' admits routes from '' @ quote R (NamespacePolicy l) @
           '' namespaces and the route is in '' @ quote R (rt_Namespace route)])
      else if \<not> HasExplicitKinds l then ''''
      else let (accepted, kinds) = AcceptsKind l (rt_Kind route) in
        if \<not> accepted then
          whyNoneAdmit_loop R ls route (reasons @
            [''listener '' @ quote R (li_Name l) @ '' accepts '' @ Join kinds '' or '' @
             '' and the route is a '' @ rt_Kind route])
        else '''')"

definition whyNoneAdmit :: "runtime \<Rightarrow> Listener list \<Rightarrow> Route \<Rightarrow> str" where
  "whyNoneAdmit R listeners route = whyNoneAdmit_loop R listeners route []"

definition rnp_message :: "runtime \<Rightarrow> Route \<Rightarrow> Parent \<Rightarrow> str \<Rightarrow> str" where
  "rnp_message R route parent reason =
     rt_Kind route @ '' '' @ quote R (rt_Name route) @ '' attaches to '' @ par_Kind parent @ '' '' @
     quote R (par_Name parent) @ '', which will not admit it: '' @ reason @ ''; '' @
     ''the route never attaches and its traffic is not served''"

definition rnp_parent :: "runtime \<Rightarrow> owner_index \<Rightarrow> Route \<Rightarrow> Parent \<Rightarrow> diagnostic list" where
  "rnp_parent R byOwner route parent =
     (if par_Group parent \<noteq> gateway_group then []
      else (case byOwner (parent_ref parent) of
              None \<Rightarrow> []
            | Some listeners \<Rightarrow>
                let candidates = listenersNamed listeners parent in
                if length candidates = 0 then []
                else let reason = whyNoneAdmit R candidates route in
                  if reason \<noteq> '''' then [\<lparr>Message = rnp_message R route parent reason\<rparr>] else []))"

definition rnp_checkFunc :: check_func where
  "rnp_checkFunc R lintCtx object =
     Some (case AsRoute (K8sObject object) of
             None \<Rightarrow> []
           | Some route \<Rightarrow>
               let byOwner = ListenersByOwner lintCtx
               in for_append (ParentsOf route) (\<lambda>parent. rnp_parent R byOwner route parent))"

section \<open>hostname-never-matches\<close>

definition hostnameList :: "runtime \<Rightarrow> str list \<Rightarrow> str" where
  "hostnameList R hostnames =
     (let quoted = map (quote R) hostnames
      in if length quoted = 1 then ''hostname '' @ quoted ! 0
         else ''hostnames '' @ Join quoted '', '')"

text \<open>\<open>*l.Hostname\<close> panics when the listener sets no hostname.\<close>

fun whyNoListenerMatches_loop :: "runtime \<Rightarrow> Listener list \<Rightarrow> Route \<Rightarrow> str list \<Rightarrow> str go" where
  "whyNoListenerMatches_loop R [] route offered =
     Some (if length offered = 0 then '''' else Join offered '' and '')"
| "whyNoListenerMatches_loop R (l # ls) route offered =
     (if \<not> AcceptsNamespace l (rt_Namespace route) then whyNoListenerMatches_loop R ls route offered
      else if \<not> fst (AcceptsKind l (rt_Kind route)) then whyNoListenerMatches_loop R ls route offered
      else if HostnamesIntersect l (rt_Hostnames route) then Some ''''
      else go_bind (li_Hostname l) (\<lambda>h.
             whyNoListenerMatches_loop R ls route (offered @
               [''listener '' @ quote R (li_Name l) @ '' serves '' @ quote R h])))"

definition whyNoListenerMatches :: "runtime \<Rightarrow> Listener list \<Rightarrow> Route \<Rightarrow> str go" where
  "whyNoListenerMatches R listeners route = whyNoListenerMatches_loop R listeners route []"

definition hnm_message :: "runtime \<Rightarrow> Route \<Rightarrow> Parent \<Rightarrow> str \<Rightarrow> str" where
  "hnm_message R route parent offered =
     rt_Kind route @ '' '' @ quote R (rt_Name route) @ '' asks for '' @ hostnameList R (rt_Hostnames route) @
     '' on '' @ par_Kind parent @ '' '' @ quote R (par_Name parent) @ '', where '' @ offered @
     ''; the hostnames cannot intersect, so no request can ever match the route''"

definition hnm_parent :: "runtime \<Rightarrow> owner_index \<Rightarrow> Route \<Rightarrow> Parent \<Rightarrow> diagnostic list go" where
  "hnm_parent R byOwner route parent =
     (if par_Group parent \<noteq> gateway_group then Some []
      else go_bind (whyNoListenerMatches R (ListenersFor byOwner parent) route) (\<lambda>offered.
             if offered = '''' then Some []
             else Some [\<lparr>Message = hnm_message R route parent offered\<rparr>]))"

definition hnm_checkFunc :: check_func where
  "hnm_checkFunc R lintCtx object =
     (case AsRoute (K8sObject object) of
        None \<Rightarrow> Some []
      | Some route \<Rightarrow>
          if length (rt_Hostnames route) = 0 then Some []
          else let byOwner = ListenersByOwner lintCtx
               in for_go (ParentsOf route) (\<lambda>parent. hnm_parent R byOwner route parent))"

section \<open>protocol-mismatch\<close>

definition setsRouteKinds :: "Listener \<Rightarrow> bool" where
  "setsRouteKinds l \<longleftrightarrow>
     (case li_Allowed l of None \<Rightarrow> False | Some a \<Rightarrow> 0 < length (ar_Kinds a))"

fun whyNoListenerCarries_loop :: "runtime \<Rightarrow> Listener list \<Rightarrow> Route \<Rightarrow> str list \<Rightarrow> str" where
  "whyNoListenerCarries_loop R [] route reasons =
     (if length reasons = 0 then '''' else Join reasons ''; '')"
| "whyNoListenerCarries_loop R (l # ls) route reasons =
     (if \<not> AcceptsNamespace l (rt_Namespace route) then whyNoListenerCarries_loop R ls route reasons
      else let carried = RouteKindsFor (li_Protocol l); kind = rt_Kind route in
        if length carried = 0 \<or> kind \<in> set carried then ''''
        else if setsRouteKinds l then
          (if \<not> fst (AcceptsKind l kind) then whyNoListenerCarries_loop R ls route reasons
           else whyNoListenerCarries_loop R ls route (reasons @
             [''listener '' @ quote R (li_Name l) @ '' allows '' @ kind @ '' but speaks '' @ li_Protocol l @
              '', which carries '' @ Join carried '' and '']))
        else whyNoListenerCarries_loop R ls route (reasons @
             [''listener '' @ quote R (li_Name l) @ '' speaks '' @ li_Protocol l @
              '', which carries '' @ Join carried '' and '']))"

definition whyNoListenerCarries :: "runtime \<Rightarrow> Listener list \<Rightarrow> Route \<Rightarrow> str" where
  "whyNoListenerCarries R listeners route = whyNoListenerCarries_loop R listeners route []"

definition pm_message :: "runtime \<Rightarrow> Route \<Rightarrow> Parent \<Rightarrow> str \<Rightarrow> str" where
  "pm_message R route parent reason =
     rt_Kind route @ '' '' @ quote R (rt_Name route) @ '' attaches to '' @ par_Kind parent @ '' '' @
     quote R (par_Name parent) @ '', whose protocol cannot carry it: '' @ reason @ ''; '' @
     ''the route is never programmed and its traffic is not served''"

definition pm_parent :: "runtime \<Rightarrow> owner_index \<Rightarrow> Route \<Rightarrow> Parent \<Rightarrow> diagnostic list" where
  "pm_parent R byOwner route parent =
     (if par_Group parent \<noteq> gateway_group then []
      else let reason = whyNoListenerCarries R (ListenersFor byOwner parent) route in
        if reason = '''' then [] else [\<lparr>Message = pm_message R route parent reason\<rparr>])"

definition pm_checkFunc :: check_func where
  "pm_checkFunc R lintCtx object =
     Some (case AsRoute (K8sObject object) of
             None \<Rightarrow> []
           | Some route \<Rightarrow>
               let byOwner = ListenersByOwner lintCtx
               in for_append (ParentsOf route) (\<lambda>parent. pm_parent R byOwner route parent))"

section \<open>dangling-parent-ref\<close>

definition dpr_message :: "runtime \<Rightarrow> Route \<Rightarrow> Parent \<Rightarrow> str" where
  "dpr_message R route parent =
     rt_Kind route @ '' '' @ quote R (rt_Name route) @ '' attaches to '' @ par_Kind parent @ '' '' @
     quote R (par_Name parent) @ '' in namespace '' @ quote R (par_Namespace parent) @
     '', which is not present; '' @
     ''the route will never be programmed and its traffic will not be served''"

definition dpr_parent :: "runtime \<Rightarrow> ObjectRef set \<Rightarrow> Route \<Rightarrow> Parent \<Rightarrow> diagnostic list" where
  "dpr_parent R known route parent =
     (if par_Group parent \<noteq> gateway_group then []
      else if parent_ref parent \<in> known then []
      else [\<lparr>Message = dpr_message R route parent\<rparr>])"

definition dpr_checkFunc :: check_func where
  "dpr_checkFunc R lintCtx object =
     Some (case AsRoute (K8sObject object) of
             None \<Rightarrow> []
           | Some route \<Rightarrow>
               let known = GatewaysAndListenerSets lintCtx in
               if known = {} then []
               else for_append (ParentsOf route) (\<lambda>parent. dpr_parent R known route parent))"

section \<open>When a listener refuses, and what that makes each loop return\<close>

definition refuses :: "Route \<Rightarrow> Listener \<Rightarrow> bool" where
  "refuses route l \<longleftrightarrow>
     \<not> AcceptsNamespace l (rt_Namespace route) \<or>
     HasExplicitKinds l \<and> \<not> fst (AcceptsKind l (rt_Kind route))"

definition admits :: "Route \<Rightarrow> Listener \<Rightarrow> bool" where
  "admits route l \<longleftrightarrow> AcceptsNamespace l (rt_Namespace route) \<and> fst (AcceptsKind l (rt_Kind route))"

definition carries :: "Route \<Rightarrow> Listener \<Rightarrow> bool" where
  "carries route l \<longleftrightarrow>
     RouteKindsFor (li_Protocol l) = [] \<or> rt_Kind route \<in> set (RouteKindsFor (li_Protocol l))"

lemma Join_nonempty: "x \<noteq> [] \<Longrightarrow> Join (x # xs) sep \<noteq> []"
  by (cases xs) auto

lemma whyNoneAdmit_loop_iff:
  "reasons = [] \<or> hd reasons \<noteq> [] \<Longrightarrow>
   whyNoneAdmit_loop R ls route reasons \<noteq> [] \<longleftrightarrow>
     (reasons \<noteq> [] \<or> ls \<noteq> []) \<and> (\<forall>l\<in>set ls. refuses route l)"
proof (induction ls arbitrary: reasons)
  case Nil
  then show ?case by (cases reasons) (auto dest: Join_nonempty)
next
  case (Cons l ls)
  show ?case
  proof (cases "refuses route l")
    case True
    have hd: "hd (reasons @ [''listener '' @ s]) \<noteq> []" for s
      using Cons.prems by (cases reasons) auto
    from True hd Cons.IH show ?thesis
      by (auto simp: refuses_def split: prod.splits)
  next
    case False
    then show ?thesis by (auto simp: refuses_def split: prod.splits)
  qed
qed

lemma whyNoneAdmit_iff:
  "whyNoneAdmit R ls route \<noteq> [] \<longleftrightarrow> ls \<noteq> [] \<and> (\<forall>l\<in>set ls. refuses route l)"
  by (simp add: whyNoneAdmit_def whyNoneAdmit_loop_iff)

lemma whyNoListenerMatches_loop_iff:
  "offered = [] \<or> hd offered \<noteq> [] \<Longrightarrow>
   \<exists>s. whyNoListenerMatches_loop R ls route offered = Some s \<and>
     (s \<noteq> [] \<longleftrightarrow>
        (offered \<noteq> [] \<or> (\<exists>l\<in>set ls. admits route l)) \<and>
        (\<forall>l\<in>set ls. admits route l \<longrightarrow> \<not> HostnamesIntersect l (rt_Hostnames route)))"
proof (induction ls arbitrary: offered)
  case Nil
  then show ?case by (cases offered) (auto dest: Join_nonempty)
next
  case (Cons l ls)
  show ?case
  proof (cases "admits route l \<and> \<not> HostnamesIntersect l (rt_Hostnames route)")
    case True
    then obtain h where h: "li_Hostname l = Some h" using HostnamesIntersect_fails by blast
    have "offered @ [''listener '' @ quote R (li_Name l) @ '' serves '' @ quote R h] = [] \<or>
        hd (offered @ [''listener '' @ quote R (li_Name l) @ '' serves '' @ quote R h]) \<noteq> []"
      using Cons.prems by (cases offered) auto
    from Cons.IH [OF this] True h show ?thesis
      by (simp add: admits_def)
  next
    case False
    with Cons.IH [OF Cons.prems] show ?thesis by (auto simp: admits_def)
  qed
qed

lemma whyNoListenerMatches_total:
  "\<exists>s. whyNoListenerMatches R ls route = Some s \<and>
     (s \<noteq> [] \<longleftrightarrow> (\<exists>l\<in>set ls. admits route l) \<and>
        (\<forall>l\<in>set ls. admits route l \<longrightarrow> \<not> HostnamesIntersect l (rt_Hostnames route)))"
  using whyNoListenerMatches_loop_iff [of "[]" R ls route] by (simp add: whyNoListenerMatches_def)

lemma setsRouteKinds_eq: "setsRouteKinds l = HasExplicitKinds l"
  by (simp add: setsRouteKinds_def HasExplicitKinds_def)

lemma whyNoListenerCarries_loop_iff:
  "reasons = [] \<or> hd reasons \<noteq> [] \<Longrightarrow>
   whyNoListenerCarries_loop R ls route reasons \<noteq> [] \<longleftrightarrow>
     (reasons \<noteq> [] \<or> (\<exists>l\<in>set ls. \<not> refuses route l)) \<and>
     (\<forall>l\<in>set ls. AcceptsNamespace l (rt_Namespace route) \<longrightarrow> \<not> carries route l)"
proof (induction ls arbitrary: reasons)
  case Nil
  then show ?case by (cases reasons) (auto dest: Join_nonempty)
next
  case (Cons l ls)
  have hd: "hd (reasons @ [''listener '' @ s]) \<noteq> []" for s
    using Cons.prems by (cases reasons) auto
  show ?case
  proof (cases "refuses route l")
    case True
    with Cons show ?thesis
      by (auto simp: refuses_def carries_def setsRouteKinds_eq Let_def)
  next
    case False
    with hd Cons.IH show ?thesis
      by (auto simp: refuses_def carries_def setsRouteKinds_eq Let_def)
  qed
qed

lemma whyNoListenerCarries_iff:
  "whyNoListenerCarries R ls route \<noteq> [] \<longleftrightarrow>
     (\<exists>l\<in>set ls. \<not> refuses route l) \<and>
     (\<forall>l\<in>set ls. AcceptsNamespace l (rt_Namespace route) \<longrightarrow> \<not> carries route l)"
  by (simp add: whyNoListenerCarries_def whyNoListenerCarries_loop_iff)

lemma listenersNamed_ListenersFor:
  "listenersNamed (owned_by byOwner (parent_ref parent)) parent = ListenersFor byOwner parent"
  by (simp add: listenersNamed_def ListenersFor_def Let_def)

section \<open>When each check reports on a parentRef\<close>

abbreviation selected :: "lint_context \<Rightarrow> Parent \<Rightarrow> Listener set" where
  "selected ctx p \<equiv> set (ListenersFor (ListenersByOwner ctx) p)"

definition lnf_reports :: "lint_context \<Rightarrow> Route \<Rightarrow> Parent \<Rightarrow> bool" where
  "lnf_reports ctx route p \<longleftrightarrow>
     par_Group p = gateway_group \<and> owned_by (ListenersByOwner ctx) (parent_ref p) \<noteq> [] \<and>
     par_Section p \<noteq> None \<and> selected ctx p = {}"

definition rnp_reports :: "lint_context \<Rightarrow> Route \<Rightarrow> Parent \<Rightarrow> bool" where
  "rnp_reports ctx route p \<longleftrightarrow>
     par_Group p = gateway_group \<and> selected ctx p \<noteq> {} \<and> selected ctx p \<subseteq> Collect (refuses route)"

definition hnm_reports :: "lint_context \<Rightarrow> Route \<Rightarrow> Parent \<Rightarrow> bool" where
  "hnm_reports ctx route p \<longleftrightarrow>
     par_Group p = gateway_group \<and> selected ctx p \<inter> Collect (admits route) \<noteq> {} \<and>
     selected ctx p \<inter> Collect (admits route) \<inter>
       {l. HostnamesIntersect l (rt_Hostnames route)} = {}"

definition pm_reports :: "lint_context \<Rightarrow> Route \<Rightarrow> Parent \<Rightarrow> bool" where
  "pm_reports ctx route p \<longleftrightarrow>
     par_Group p = gateway_group \<and> selected ctx p - Collect (refuses route) \<noteq> {} \<and>
     selected ctx p \<inter> {l. AcceptsNamespace l (rt_Namespace route)} \<inter> Collect (carries route) = {}"

definition dpr_reports :: "lint_context \<Rightarrow> Route \<Rightarrow> Parent \<Rightarrow> bool" where
  "dpr_reports ctx route p \<longleftrightarrow>
     par_Group p = gateway_group \<and> GatewaysAndListenerSets ctx \<noteq> {} \<and>
     parent_ref p \<notin> GatewaysAndListenerSets ctx"

lemma hasListener_iff: "hasListener ls section \<longleftrightarrow> filter (\<lambda>l. li_Name l = section) ls \<noteq> []"
  by (auto simp: hasListener_def list_ex_iff filter_empty_conv)

lemma lnf_parent_eq:
  "lnf_parent R (ListenersByOwner ctx) route p =
     (if lnf_reports ctx route p
      then [\<lparr>Message = lnf_message R route p (the (par_Section p))
              (owned_by (ListenersByOwner ctx) (parent_ref p))\<rparr>] else [])"
proof (cases "par_Section p")
  case None
  then show ?thesis by (simp add: lnf_parent_def lnf_reports_def)
next
  case (Some sect)
  note section_eq = this
  show ?thesis
  proof (cases "ListenersByOwner ctx (parent_ref p)")
    case None
    with section_eq show ?thesis by (simp add: lnf_parent_def lnf_reports_def owned_by_def)
  next
    case (Some ls)
    note owned = this
    then have "ls = owned_by (ListenersByOwner ctx) (parent_ref p)" "ls \<noteq> []"
      by (auto dest: li.lookup_Some)
    with section_eq owned show ?thesis
      by (simp add: lnf_parent_def lnf_reports_def hasListener_iff ListenersFor_section)
  qed
qed

lemma rnp_parent_eq:
  "rnp_parent R (ListenersByOwner ctx) route p =
     (if rnp_reports ctx route p
      then [\<lparr>Message = rnp_message R route p
              (whyNoneAdmit R (ListenersFor (ListenersByOwner ctx) p) route)\<rparr>] else [])"
proof (cases "ListenersByOwner ctx (parent_ref p)")
  case None
  then have "owned_by (ListenersByOwner ctx) (parent_ref p) = []" by (simp add: owned_by_def)
  then have "selected ctx p = {}" using ListenersFor_subset [of "ListenersByOwner ctx" p] by simp
  with None show ?thesis by (simp add: rnp_parent_def rnp_reports_def)
next
  case (Some ls)
  then have "ls = owned_by (ListenersByOwner ctx) (parent_ref p)" by (auto dest: li.lookup_Some)
  then have "listenersNamed ls p = ListenersFor (ListenersByOwner ctx) p"
    by (simp add: listenersNamed_ListenersFor)
  with Some show ?thesis
    by (auto simp: rnp_parent_def rnp_reports_def whyNoneAdmit_iff Let_def)
qed

lemma hnm_parent_eq:
  "hnm_parent R (ListenersByOwner ctx) route p =
     Some (if hnm_reports ctx route p
           then [\<lparr>Message = hnm_message R route p
                   (the (whyNoListenerMatches R (ListenersFor (ListenersByOwner ctx) p) route))\<rparr>] else [])"
proof -
  obtain s where s: "whyNoListenerMatches R (ListenersFor (ListenersByOwner ctx) p) route = Some s"
    and cond: "s \<noteq> [] \<longleftrightarrow> (\<exists>l\<in>selected ctx p. admits route l) \<and>
        (\<forall>l\<in>selected ctx p. admits route l \<longrightarrow> \<not> HostnamesIntersect l (rt_Hostnames route))"
    using whyNoListenerMatches_total [of R "ListenersFor (ListenersByOwner ctx) p" route]
    by (elim exE conjE)
  have "hnm_reports ctx route p \<longleftrightarrow> par_Group p = gateway_group \<and> s \<noteq> []"
    unfolding hnm_reports_def cond by blast
  then show ?thesis
    by (cases "par_Group p = gateway_group"; cases "s = []") (simp_all add: hnm_parent_def s)
qed

lemma pm_parent_eq:
  "pm_parent R (ListenersByOwner ctx) route p =
     (if pm_reports ctx route p
      then [\<lparr>Message = pm_message R route p
              (whyNoListenerCarries R (ListenersFor (ListenersByOwner ctx) p) route)\<rparr>] else [])"
proof -
  have "whyNoListenerCarries R (ListenersFor (ListenersByOwner ctx) p) route \<noteq> [] \<and>
      par_Group p = gateway_group \<longleftrightarrow> pm_reports ctx route p"
    by (auto simp: whyNoListenerCarries_iff pm_reports_def)
  then show ?thesis by (auto simp: pm_parent_def pm_reports_def)
qed

lemma dpr_parent_eq:
  "GatewaysAndListenerSets ctx \<noteq> {} \<Longrightarrow>
   dpr_parent R (GatewaysAndListenerSets ctx) route p =
     (if dpr_reports ctx route p then [\<lparr>Message = dpr_message R route p\<rparr>] else [])"
  by (simp add: dpr_parent_def dpr_reports_def)

section \<open>The checks keep the contract\<close>

lemma whyNoneAdmit_loop_tables:
  "quote R = quote S \<Longrightarrow> whyNoneAdmit_loop R ls route rs = whyNoneAdmit_loop S ls route rs"
  by (induction ls arbitrary: rs) (simp_all split: prod.splits)

lemma whyNoListenerMatches_loop_tables:
  "quote R = quote S \<Longrightarrow> whyNoListenerMatches_loop R ls route rs = whyNoListenerMatches_loop S ls route rs"
  by (induction ls arbitrary: rs) simp_all

lemma whyNoListenerCarries_loop_tables:
  "quote R = quote S \<Longrightarrow> whyNoListenerCarries_loop R ls route rs = whyNoListenerCarries_loop S ls route rs"
  by (induction ls arbitrary: rs) (simp_all add: Let_def)

lemma attachment_messages_tables:
  assumes "same_tables R S"
  shows "lnf_message R = lnf_message S" and "rnp_message R = rnp_message S"
    and "hnm_message R = hnm_message S" and "pm_message R = pm_message S"
    and "dpr_message R = dpr_message S" and "whyNoneAdmit R = whyNoneAdmit S"
    and "whyNoListenerMatches R = whyNoListenerMatches S"
    and "whyNoListenerCarries R = whyNoListenerCarries S"
proof -
  from assms have q: "quote R = quote S" by (rule same_tables_quote)
  have d: "lnf_describe R = lnf_describe S" and h: "hostnameList R = hostnameList S"
    by (intro ext, simp only: lnf_describe_def hostnameList_def q)+
  show "lnf_message R = lnf_message S" and "rnp_message R = rnp_message S"
    and "hnm_message R = hnm_message S" and "pm_message R = pm_message S"
    and "dpr_message R = dpr_message S" and "whyNoneAdmit R = whyNoneAdmit S"
    and "whyNoListenerMatches R = whyNoListenerMatches S"
    and "whyNoListenerCarries R = whyNoListenerCarries S"
    by (intro ext, simp only: q d h lnf_message_def rnp_message_def hnm_message_def pm_message_def
        dpr_message_def whyNoneAdmit_def whyNoListenerMatches_def whyNoListenerCarries_def
        whyNoneAdmit_loop_tables [OF q] whyNoListenerMatches_loop_tables [OF q]
        whyNoListenerCarries_loop_tables [OF q])+
qed

interpretation lnf: parent_check lnf_checkFunc lnf_reports
  "\<lambda>R ctx route p. lnf_message R route p (the (par_Section p))
     (owned_by (ListenersByOwner ctx) (parent_ref p))"
  by unfold_locales
    (simp_all add: lnf_checkFunc_def Let_def for_append_guarded [OF lnf_parent_eq]
      attachment_messages_tables
      split: option.split)

interpretation rnp: parent_check rnp_checkFunc rnp_reports
  "\<lambda>R ctx route p. rnp_message R route p
     (whyNoneAdmit R (ListenersFor (ListenersByOwner ctx) p) route)"
  by unfold_locales
    (simp_all add: rnp_checkFunc_def Let_def for_append_guarded [OF rnp_parent_eq]
      attachment_messages_tables
      split: option.split)

interpretation pm: parent_check pm_checkFunc pm_reports
  "\<lambda>R ctx route p. pm_message R route p
     (whyNoListenerCarries R (ListenersFor (ListenersByOwner ctx) p) route)"
  by unfold_locales
    (simp_all add: pm_checkFunc_def Let_def for_append_guarded [OF pm_parent_eq]
      attachment_messages_tables
      split: option.split)

interpretation hnm: parent_check hnm_checkFunc
  "\<lambda>ctx route p. rt_Hostnames route \<noteq> [] \<and> hnm_reports ctx route p"
  "\<lambda>R ctx route p. hnm_message R route p
     (the (whyNoListenerMatches R (ListenersFor (ListenersByOwner ctx) p) route))"
  by unfold_locales
    (simp_all add: hnm_checkFunc_def Let_def for_go_total [OF hnm_parent_eq] for_append_if'
      attachment_messages_tables split: option.split)

interpretation dpr: parent_check dpr_checkFunc dpr_reports
  "\<lambda>R ctx route p. dpr_message R route p"
proof
  fix R ctx obj
  show "dpr_checkFunc R ctx obj = Some (case AsRoute (K8sObject obj) of None \<Rightarrow> []
      | Some route \<Rightarrow> map (\<lambda>p. \<lparr>Message = dpr_message R route p\<rparr>)
          (filter (dpr_reports ctx route) (ParentsOf route)))"
    by (cases "GatewaysAndListenerSets ctx = {}")
      (simp_all add: dpr_checkFunc_def for_append_guarded [OF dpr_parent_eq]
        dpr_reports_def [abs_def]
        split: option.split)
qed (simp add: attachment_messages_tables)

section \<open>Templates\<close>

definition lnf_template :: check_template where
  "lnf_template = \<lparr>tm_HumanName = ''Route Names a Missing Listener'', tm_Key = ''listener-not-found'',
     tm_Description =
       ''Flag routes whose parentRefs sectionName names a listener the Gateway does not declare, '' @
       ''so the route is never accepted onto it'',
     tm_ObjectKinds = RouteKinds, tm_Check = lnf_checkFunc\<rparr>"

definition rnp_template :: check_template where
  "rnp_template = \<lparr>tm_HumanName = ''Listener Does Not Admit Route'', tm_Key = ''route-not-permitted'',
     tm_Description =
       ''Flag routes a listener will not admit because its allowedRoutes excludes the route's '' @
       ''namespace or kind, so the route never attaches'',
     tm_ObjectKinds = RouteKinds, tm_Check = rnp_checkFunc\<rparr>"

definition hnm_template :: check_template where
  "hnm_template = \<lparr>tm_HumanName = ''Route Hostnames Never Match the Listener'',
     tm_Key = ''hostname-never-matches'',
     tm_Description =
       ''Flag routes whose hostnames cannot intersect the hostname of any listener they attach to, '' @
       ''so no request can ever match the route'',
     tm_ObjectKinds = RouteKinds, tm_Check = hnm_checkFunc\<rparr>"

definition pm_template :: check_template where
  "pm_template = \<lparr>tm_HumanName = ''Route Protocol Mismatch'', tm_Key = ''protocol-mismatch'',
     tm_Description =
       ''Flag routes attached to a listener whose protocol cannot carry their kind, '' @
       ''such as an HTTPRoute on a TCP listener, so the route is never programmed'',
     tm_ObjectKinds = RouteKinds, tm_Check = pm_checkFunc\<rparr>"

definition dpr_template :: check_template where
  "dpr_template = \<lparr>tm_HumanName = ''Dangling Route parentRef'', tm_Key = ''dangling-parent-ref'',
     tm_Description =
       ''Flag routes whose parentRefs name a Gateway or ListenerSet that is not present, '' @
       ''so the route never attaches and its traffic is never served'',
     tm_ObjectKinds = RouteKinds, tm_Check = dpr_checkFunc\<rparr>"

section \<open>Properties\<close>

lemma owned_known:
  "owned_by (ListenersByOwner ctx) (parent_ref p) \<noteq> [] \<Longrightarrow> parent_ref p \<in> GatewaysAndListenerSets ctx"
  using present_known by (cases "ListenersByOwner ctx (parent_ref p)") (auto simp: owned_by_def)

lemma selected_known: "l \<in> selected ctx p \<Longrightarrow> parent_ref p \<in> GatewaysAndListenerSets ctx"
  using ListenersFor_subset [of "ListenersByOwner ctx" p] by (intro owned_known) auto

lemma reports_select:
  "lnf_reports ctx route p \<Longrightarrow> selected ctx p = {} \<and> owned_by (ListenersByOwner ctx) (parent_ref p) \<noteq> []"
  "dpr_reports ctx route p \<Longrightarrow> selected ctx p = {} \<and> owned_by (ListenersByOwner ctx) (parent_ref p) = []"
  "rnp_reports ctx route p \<Longrightarrow> selected ctx p \<noteq> {} \<and> selected ctx p \<subseteq> Collect (refuses route)"
  "pm_reports ctx route p \<Longrightarrow> \<exists>l. l \<in> selected ctx p \<and> \<not> refuses route l"
  "hnm_reports ctx route p \<Longrightarrow> \<exists>l. l \<in> selected ctx p \<and> \<not> refuses route l"
proof -
  assume "dpr_reports ctx route p"
  then have absent: "parent_ref p \<notin> GatewaysAndListenerSets ctx" by (simp add: dpr_reports_def)
  then have "selected ctx p = {}" using selected_known by (intro equals0I) blast
  moreover from absent have "owned_by (ListenersByOwner ctx) (parent_ref p) = []"
    using owned_known by blast
  ultimately show "selected ctx p = {} \<and> owned_by (ListenersByOwner ctx) (parent_ref p) = []" ..
next
  show "hnm_reports ctx route p \<Longrightarrow> \<exists>l. l \<in> selected ctx p \<and> \<not> refuses route l"
    unfolding hnm_reports_def admits_def refuses_def by blast
qed (auto simp: lnf_reports_def rnp_reports_def pm_reports_def)

lemma reports_exclusive:
  "lnf_reports ctx route p \<Longrightarrow> \<not> rnp_reports ctx route p \<and> \<not> pm_reports ctx route p \<and> \<not> dpr_reports ctx route p
     \<and> \<not> hnm_reports ctx route p"
  "rnp_reports ctx route p \<Longrightarrow> \<not> pm_reports ctx route p \<and> \<not> dpr_reports ctx route p \<and> \<not> hnm_reports ctx route p"
  "pm_reports ctx route p \<Longrightarrow> \<not> dpr_reports ctx route p"
  "hnm_reports ctx route p \<Longrightarrow> \<not> dpr_reports ctx route p"
  by (fastforce dest: reports_select)+

text \<open>
  C8: a parentRef gets at most one of the findings \<open>listener-not-found\<close>,
  \<open>route-not-permitted\<close>, \<open>protocol-mismatch\<close> and \<open>dangling-parent-ref\<close>, as the comments of
  those checks promise: each leaves alone what another one owns.
\<close>

theorem one_attachment_finding_per_parentRef:
  "(let byOwner = ListenersByOwner ctx; known = GatewaysAndListenerSets ctx in
      length (filter (\<lambda>ds. ds \<noteq> [])
        [lnf_parent R byOwner route p, rnp_parent R byOwner route p, pm_parent R byOwner route p,
         if known = {} then [] else dpr_parent R known route p]) \<le> 1)"
  using reports_exclusive [of ctx route p]
  by (cases "GatewaysAndListenerSets ctx = {}")
    (auto simp: Let_def lnf_parent_eq rnp_parent_eq pm_parent_eq dpr_parent_eq dpr_reports_def)

text \<open>
  \<open>hostname-never-matches\<close> does not panic, and reports on no parentRef that
  \<open>listener-not-found\<close>, \<open>route-not-permitted\<close> or \<open>dangling-parent-ref\<close> reports on.
\<close>

lemma hostname_finding_exclusive:
  "(let byOwner = ListenersByOwner ctx; known = GatewaysAndListenerSets ctx in
      \<exists>ds. hnm_parent R byOwner route p = Some ds \<and>
        length (filter (\<lambda>ds. ds \<noteq> [])
          [ds, lnf_parent R byOwner route p, rnp_parent R byOwner route p,
           if known = {} then [] else dpr_parent R known route p]) \<le> 1)"
  using reports_exclusive [of ctx route p]
  by (cases "GatewaysAndListenerSets ctx = {}")
    (auto simp: Let_def lnf_parent_eq rnp_parent_eq hnm_parent_eq dpr_parent_eq dpr_reports_def)

text \<open>
  \<open>hostname-never-matches\<close> and \<open>protocol-mismatch\<close> report on the same parentRef only
  through a listener whose explicit \<open>allowedRoutes.kinds\<close> admit a kind its protocol cannot
  carry. That can happen, although the first check's comment leaves such a listener to the
  second.
\<close>

lemma hostname_and_protocol_overlap:
  fixes R :: runtime
  assumes "pm_parent R (ListenersByOwner ctx) route p \<noteq> []"
    and "hnm_parent R (ListenersByOwner ctx) route p \<noteq> Some []"
  shows "\<exists>l. l \<in> set (ListenersFor (ListenersByOwner ctx) p) \<and> HasExplicitKinds l \<and>
    fst (AcceptsKind l (rt_Kind route)) \<and> rt_Kind route \<notin> set (RouteKindsFor (li_Protocol l))"
proof -
  from assms have "pm_reports ctx route p" and "hnm_reports ctx route p"
    by (auto simp: pm_parent_eq hnm_parent_eq split: if_splits)
  then obtain l where l: "l \<in> selected ctx p" "admits route l" "\<not> carries route l"
    unfolding pm_reports_def hnm_reports_def admits_def by blast
  then have "HasExplicitKinds l"
    by (intro ccontr [of "HasExplicitKinds l"]) (simp add: admits_def carries_def AcceptsKind_default)
  with l show ?thesis by (auto simp: admits_def carries_def)
qed

definition odd_listener :: listener_spec where
  "odd_listener = (listener ''tcp'' (Some ''db.example.com'') 5432 TCPProtocolType)
     \<lparr>lis_AllowedRoutes := Some \<lparr>ar_Namespaces = None, ar_Kinds = [\<lparr>gk_Group = None, gk_Kind = HTTPRoute\<rparr>]\<rparr>\<rparr>"

definition odd_context :: lint_context where
  "odd_context = context_of [Gateway_v1 (gateway_with ''infra'' ''edge'' [odd_listener]), web ''web'' None]"

definition web_route :: "str option \<Rightarrow> Route" where
  "web_route sect = (case AsRoute (web ''web'' sect) of Some r \<Rightarrow> r | None \<Rightarrow> newRoute [] (meta [] []) [] [] [])"

definition web_parent :: "str option \<Rightarrow> Parent" where
  "web_parent sect = resolve_parent (web_route sect) (to_parent ''edge'' sect)"

lemma odd_selected:
  "ListenersFor (ListenersByOwner odd_context) (web_parent None) =
     [mk_listener (mk_ref Gateway ''infra'' ''edge'') Gateway odd_listener]"
  by code_simp

lemma odd_listener_facts:
  "let l = mk_listener (mk_ref Gateway ''infra'' ''edge'') Gateway odd_listener in
     admits (web_route None) l \<and> \<not> refuses (web_route None) l \<and> \<not> carries (web_route None) l \<and>
     \<not> HostnamesIntersect l (rt_Hostnames (web_route None)) \<and> par_Group (web_parent None) = gateway_group"
  by code_simp

lemma odd_reports:
  "pm_parent R (ListenersByOwner odd_context) (web_route None) (web_parent None) \<noteq> []"
  "hnm_parent R (ListenersByOwner odd_context) (web_route None) (web_parent None) \<noteq> Some []"
  using odd_listener_facts
  by (auto simp: pm_parent_eq hnm_parent_eq pm_reports_def hnm_reports_def odd_selected Let_def)

lemma hostname_and_protocol_overlap_witness:
  "\<exists>l. l \<in> set (ListenersFor (ListenersByOwner odd_context) (web_parent None)) \<and> HasExplicitKinds l \<and>
    fst (AcceptsKind l (rt_Kind (web_route None))) \<and>
    rt_Kind (web_route None) \<notin> set (RouteKindsFor (li_Protocol l))"
  by (rule hostname_and_protocol_overlap [OF odd_reports(1) odd_reports(2)])

section \<open>What each check reports, over the objects of the context\<close>

lemmas attachment_checks_iff =
  lnf.reports_iff rnp.reports_iff hnm.reports_iff pm.reports_iff dpr.reports_iff

text \<open>The listeners a parentRef selects, from the context's objects.\<close>

lemma selected_section_empty:
  "par_Section p = Some sect \<Longrightarrow>
     selected ctx p = {} \<longleftrightarrow>
       (\<forall>l. l \<in> set (all_listeners ctx) \<and> li_Owner l = parent_ref p \<longrightarrow> li_Name l \<noteq> sect)"
  by (auto simp: ListenersFor_section li.owned_by_eq filter_empty_conv take_eq_Nil)

lemma image_pair_iff:
  "(k, s) \<notin> (\<lambda>l. (f l, g l)) ` A \<longleftrightarrow> (\<forall>l. l \<in> A \<and> f l = k \<longrightarrow> g l \<noteq> s)"
  by auto

lemma owned_nonempty:
  "owned_by (ListenersByOwner ctx) k \<noteq> [] \<longleftrightarrow> k \<in> li_Owner ` set (all_listeners ctx)"
  by (auto simp: li.owned_by_eq filter_empty_conv)

lemma refuses_iff:
  "refuses route l \<longleftrightarrow>
     allowed_from l \<in> {None, Some NamespacesFromSame} \<and> rt_Namespace route \<noteq> ref_Namespace (li_Owner l) \<or>
     explicit_kinds l \<noteq> [] \<and> rt_Kind route \<notin> set (explicit_kinds l)"
proof -
  have "explicit_kinds l \<noteq> [] \<Longrightarrow> HasExplicitKinds l"
    by (auto simp: explicit_kinds_def HasExplicitKinds_def split: option.splits)
  then show ?thesis
    by (auto simp: refuses_def AcceptsNamespace_refuses AcceptsKind_explicit)
qed

text \<open>
  \<open>listener-not-found\<close> reports exactly the routes with a parentRef to a Gateway API
  parent of the context that has listeners, none of them of the name the reference's
  sectionName asks for.
\<close>

lemma listener_not_found_iff:
  "lnf_checkFunc R ctx obj \<noteq> Some [] \<longleftrightarrow>
     (\<exists>route p sect. AsRoute (K8sObject obj) = Some route \<and> p \<in> set (ParentsOf route) \<and>
        par_Group p = gateway_group \<and> par_Section p = Some sect \<and>
        parent_ref p \<in> li_Owner ` set (all_listeners ctx) \<and>
        (parent_ref p, sect) \<notin> (\<lambda>l. (li_Owner l, li_Name l)) ` set (all_listeners ctx))"
proof -
  have "lnf_reports ctx route p \<longleftrightarrow>
      (\<exists>sect. par_Group p = gateway_group \<and> par_Section p = Some sect \<and>
        parent_ref p \<in> li_Owner ` set (all_listeners ctx) \<and>
        (parent_ref p, sect) \<notin> (\<lambda>l. (li_Owner l, li_Name l)) ` set (all_listeners ctx))" for route p
  proof (cases "par_Section p")
    case (Some sect)
    then have "lnf_reports ctx route p \<longleftrightarrow> par_Group p = gateway_group \<and>
        owned_by (ListenersByOwner ctx) (parent_ref p) \<noteq> [] \<and>
        (\<forall>l. l \<in> set (all_listeners ctx) \<and> li_Owner l = parent_ref p \<longrightarrow> li_Name l \<noteq> sect)"
      unfolding lnf_reports_def by (simp only: selected_section_empty) simp
    with Some show ?thesis unfolding owned_nonempty image_pair_iff by simp
  qed (simp add: lnf_reports_def)
  then show ?thesis unfolding attachment_checks_iff(1) by blast
qed

text \<open>
  C24: \<open>route-not-permitted\<close> reports exactly the routes with a parentRef that selects at least
  one listener and is refused by all it selects: from another namespace than the listener's
  where only the same one is admitted, or of a kind the listener's explicit list leaves out.
\<close>

theorem route_not_permitted_iff:
  "rnp_checkFunc R ctx obj \<noteq> Some [] \<longleftrightarrow>
     (\<exists>route p. AsRoute (K8sObject obj) = Some route \<and> p \<in> set (ParentsOf route) \<and>
        par_Group p = gateway_group \<and> set (ListenersFor (ListenersByOwner ctx) p) \<noteq> {} \<and>
        set (ListenersFor (ListenersByOwner ctx) p) \<subseteq>
          {l. allowed_from l \<in> {None, Some NamespacesFromSame} \<and> rt_Namespace route \<noteq> par_Namespace p} \<union>
          {l. explicit_kinds l \<noteq> [] \<and> rt_Kind route \<notin> set (explicit_kinds l)})"
proof -
  have "selected ctx p \<subseteq> Collect (refuses route) \<longleftrightarrow> selected ctx p \<subseteq>
      {l. allowed_from l \<in> {None, Some NamespacesFromSame} \<and> rt_Namespace route \<noteq> par_Namespace p} \<union>
      {l. explicit_kinds l \<noteq> [] \<and> rt_Kind route \<notin> set (explicit_kinds l)}" for route p
    using li.ListenersFor_owner [of _ ctx p] by (fastforce simp: refuses_iff)
  then show ?thesis unfolding attachment_checks_iff(2) rnp_reports_def by simp
qed

text \<open>
  C22: \<open>hostname-never-matches\<close> never panics, and reports exactly the routes that name
  hostnames and have a parentRef of which some selected listener admits the route, and no
  concrete hostname is covered both by a hostname of the route and by one of the listeners
  that admit it (a listener without a hostname covers every one).
\<close>

theorem hostname_never_matches_iff:
  "(\<exists>ds. hnm_checkFunc R ctx obj = Some ds) \<and>
   (hnm_checkFunc R ctx obj \<noteq> Some [] \<longleftrightarrow>
     (\<exists>route p. AsRoute (K8sObject obj) = Some route \<and> p \<in> set (ParentsOf route) \<and>
        rt_Hostnames route \<noteq> [] \<and> par_Group p = gateway_group \<and>
        (let admitting = set (ListenersFor (ListenersByOwner ctx) p) \<inter>
               {l. AcceptsNamespace l (rt_Namespace route) \<and> fst (AcceptsKind l (rt_Kind route))}
         in admitting \<noteq> {} \<and> {None, Some ''''} \<inter> li_Hostname ` admitting = {} \<and>
            {h. \<exists>l pat r. l \<in> admitting \<and> li_Hostname l = Some pat \<and> r \<in> set (rt_Hostnames route) \<and>
                 covers_host pat h \<and> covers_host r h} = {})))"
proof -
  have total: "\<exists>ds. hnm_checkFunc R ctx obj = Some ds"
    by (simp add: hnm.check_parents)
  have empty_iff: "A \<inter> {l. HostnamesIntersect l hs} = {} \<longleftrightarrow>
      {None, Some ''''} \<inter> li_Hostname ` A = {} \<and>
      {h. \<exists>l pat r. l \<in> A \<and> li_Hostname l = Some pat \<and> r \<in> set hs \<and>
          covers_host pat h \<and> covers_host r h} = {}" if "hs \<noteq> []" for A hs
  proof -
    have "{None, Some ''''} \<inter> li_Hostname ` A = {} \<longleftrightarrow>
        (\<forall>l\<in>A. li_Hostname l \<notin> {None, Some ''''})" by force
    with that show ?thesis unfolding HostnamesIntersect_eq by auto
  qed
  have admits_eq: "Collect (admits route) =
      {l. AcceptsNamespace l (rt_Namespace route) \<and> fst (AcceptsKind l (rt_Kind route))}" for route
    by (auto simp: admits_def)
  have "rt_Hostnames route \<noteq> [] \<and> hnm_reports ctx route p \<longleftrightarrow>
      rt_Hostnames route \<noteq> [] \<and> par_Group p = gateway_group \<and>
      (let admitting = selected ctx p \<inter>
               {l. AcceptsNamespace l (rt_Namespace route) \<and> fst (AcceptsKind l (rt_Kind route))}
         in admitting \<noteq> {} \<and> {None, Some ''''} \<inter> li_Hostname ` admitting = {} \<and>
            {h. \<exists>l pat r. l \<in> admitting \<and> li_Hostname l = Some pat \<and> r \<in> set (rt_Hostnames route) \<and>
                 covers_host pat h \<and> covers_host r h} = {})" for route p
    unfolding hnm_reports_def admits_eq Let_def
    by (cases "rt_Hostnames route = []") (simp, simp only: empty_iff simp_thms)
  from total this show ?thesis unfolding attachment_checks_iff(3) by (simp only: simp_thms)
qed

text \<open>
  C23: \<open>protocol-mismatch\<close> reports exactly the routes with a parentRef of which some selected
  listener does not refuse the route, and every selected listener that admits the route's
  namespace speaks a protocol that carries other kinds than the route's.
\<close>

theorem protocol_mismatch_iff:
  "pm_checkFunc R ctx obj \<noteq> Some [] \<longleftrightarrow>
     (\<exists>route p. AsRoute (K8sObject obj) = Some route \<and> p \<in> set (ParentsOf route) \<and>
        par_Group p = gateway_group \<and>
        (let reachable = set (ListenersFor (ListenersByOwner ctx) p) \<inter>
               {l. AcceptsNamespace l (rt_Namespace route)}
         in reachable - {l. explicit_kinds l \<noteq> [] \<and> rt_Kind route \<notin> set (explicit_kinds l)} \<noteq> {} \<and>
            reachable \<inter> {l. RouteKindsFor (li_Protocol l) = [] \<or>
              rt_Kind route \<in> set (RouteKindsFor (li_Protocol l))} = {}))"
proof -
  have sub: "explicit_kinds l \<noteq> [] \<and> rt_Kind route \<notin> set (explicit_kinds l) \<longleftrightarrow>
      HasExplicitKinds l \<and> \<not> fst (AcceptsKind l (rt_Kind route))" for l route
    by (cases "HasExplicitKinds l")
      (auto simp: AcceptsKind_explicit, auto simp: explicit_kinds_def HasExplicitKinds_def split: option.splits)
  have "pm_reports ctx route p \<longleftrightarrow> par_Group p = gateway_group \<and>
        (let reachable = selected ctx p \<inter> {l. AcceptsNamespace l (rt_Namespace route)}
         in reachable - {l. explicit_kinds l \<noteq> [] \<and> rt_Kind route \<notin> set (explicit_kinds l)} \<noteq> {} \<and>
            reachable \<inter> {l. RouteKindsFor (li_Protocol l) = [] \<or>
              rt_Kind route \<in> set (RouteKindsFor (li_Protocol l))} = {})" for route p
    unfolding pm_reports_def Let_def sub refuses_def carries_def by blast
  from this show ?thesis unfolding attachment_checks_iff(4) by (simp only:)
qed

lemma dangling_parent_ref_eq:
  "dpr_checkFunc R ctx obj \<noteq> Some [] \<longleftrightarrow>
     (\<exists>route p. AsRoute (K8sObject obj) = Some route \<and> p \<in> set (ParentsOf route) \<and>
        par_Group p = gateway_group \<and>
        (let present = \<Union> (parent_entries ` K8sObject ` set (Objects ctx))
         in present \<noteq> {} \<and> mk_ref (par_Kind p) (par_Namespace p) (par_Name p) \<notin> present))"
proof -
  have "GatewaysAndListenerSets ctx = \<Union> (parent_entries ` K8sObject ` set (Objects ctx))"
    by (simp add: parents_index.index_eq image_image)
  then show ?thesis
    unfolding attachment_checks_iff(5) dpr_reports_def Let_def by (simp only:)
qed


text \<open>
  A Gateway served at v1beta1 is a Gateway to the checks on Gateways, but is not among
  the parents a route can name: in a set holding it and any v1 Gateway, a route attached to
  it is reported by \<open>dangling-parent-ref\<close> as naming a Gateway that is not present.
\<close>

lemma beta_gateway_looks_absent:
  "(let beta = gateway_with ''infra'' ''edge'' [listener ''http'' None 80 HTTPProtocolType];
        other = gateway_with ''infra'' ''other'' [listener ''http'' None 80 HTTPProtocolType];
        ctx = context_of [Gateway_v1beta1 beta, Gateway_v1 other, web ''web'' None]
    in AsGateway (Gateway_v1beta1 beta) = Some beta \<and>
       dpr_checkFunc R ctx (load 2 (web ''web'' None)) \<noteq> Some [])"
proof -
  let ?p = "resolve_parent (web_route None) (to_parent ''edge'' None)"
  let ?other = "gateway_with ''infra'' ''other'' [listener ''http'' None 80 HTTPProtocolType]"
  have "AsRoute (K8sObject (load 2 (web ''web'' None))) = Some (web_route None)"
    by (simp add: web_route_def fixture_simps)
  moreover have "?p \<in> set (ParentsOf (web_route None))" and "par_Group ?p = gateway_group"
    and "mk_ref (par_Kind ?p) (par_Namespace ?p) (par_Name ?p) = mk_ref Gateway ''infra'' ''edge''"
    by (code_simp)+
  ultimately show ?thesis
    unfolding dangling_parent_ref_eq Let_def
    by (intro conjI, simp,
        intro exI [of _ "web_route None"] exI [of _ ?p])
      (simp add: context_of_def load_def parent_entries_def gateway_with_def meta_def web_def Gateway_def)
qed

end
