(* ===== verification/Unquote.thy ===== *)
theory Unquote
  imports Go_Strings
begin

text \<open>
  Reading back what \<open>%q\<close> prints: \<open>read_token\<close> reads one rune or escape as \<open>strconv.Unquote\<close> does,
  \<open>read_quoted\<close> a body up to its closing quote. Reading inverts printing, so a message that quotes
  a name quotes no other one.
\<close>

definition unhex :: "char \<Rightarrow> nat" where
  "unhex c = (if byte_of c \<ge> 97 then byte_of c - 87 else byte_of c - 48)"

definition unhex_list :: "str \<Rightarrow> nat" where
  "unhex_list s = foldl (\<lambda>n c. 16 * n + unhex c) 0 s"

definition simple_escape :: "char \<Rightarrow> char option" where
  "simple_escape e =
     (if e = CHR 0x22 \<or> e = CHR 0x5C then Some e
      else if e = CHR ''a'' then Some (char_of (7::nat))
      else if e = CHR ''b'' then Some (char_of (8::nat))
      else if e = CHR ''f'' then Some (char_of (12::nat))
      else if e = CHR ''n'' then Some (char_of (10::nat))
      else if e = CHR ''r'' then Some (char_of (13::nat))
      else if e = CHR ''t'' then Some (char_of (9::nat))
      else if e = CHR ''v'' then Some (char_of (11::nat))
      else None)"

definition read_escape :: "str \<Rightarrow> (str \<times> str) option" where
  "read_escape s =
     (case s of
        [] \<Rightarrow> None
      | e # r \<Rightarrow>
          (case simple_escape e of
             Some c \<Rightarrow> Some ([c], r)
           | None \<Rightarrow>
               if e = CHR ''x'' then Some ([char_of (unhex_list (take 2 r))], drop 2 r)
               else if e = CHR ''u'' then Some (encode_str (unhex_list (take 4 r)), drop 4 r)
               else if e = CHR ''U'' then Some (encode_str (unhex_list (take 8 r)), drop 8 r)
               else None))"

definition read_token :: "str \<Rightarrow> (str \<times> str) option" where
  "read_token s =
     (case s of
        [] \<Rightarrow> None
      | c # cs \<Rightarrow>
          if c = CHR 0x5C then read_escape cs
          else (let (r, w) = decode_rune (byte_of c) (map byte_of cs)
                in Some (c # take (w - 1) cs, drop (w - 1) cs)))"

lemma read_token_shorter: "read_token s = Some (t, rest) \<Longrightarrow> length rest < length s"
  by (auto simp: read_token_def read_escape_def Let_def split: list.splits if_splits option.splits prod.splits)

function read_quoted :: "str \<Rightarrow> (str \<times> str) option" where
  "read_quoted s =
     (case s of
        [] \<Rightarrow> None
      | c # cs \<Rightarrow>
          if c = CHR 0x22 then Some ([], cs)
          else (case read_token s of
                  None \<Rightarrow> None
                | Some (t, rest) \<Rightarrow> map_option (\<lambda>(x, y). (t @ x, y)) (read_quoted rest)))"
  by pat_completeness auto
termination by (relation "measure length") (auto dest: read_token_shorter)

declare read_quoted.simps [simp del]

section \<open>Hexadecimal escapes\<close>

lemma unhex_hex_char: "d < 16 \<Longrightarrow> unhex (hex_char d) = d"
  by (simp add: unhex_def hex_char_def byte_of_def)

lemma foldl_unhex: "foldl (\<lambda>n c. 16 * n + unhex c) a s = a * 16 ^ length s + unhex_list s"
proof (induction s arbitrary: a rule: rev_induct)
  case (snoc c s)
  have "unhex_list (s @ [c]) = 16 * unhex_list s + unhex c" by (simp add: unhex_list_def)
  with snoc show ?case by (simp add: algebra_simps)
qed (simp add: unhex_list_def)

lemma unhex_append: "unhex_list (s @ t) = unhex_list s * 16 ^ length t + unhex_list t"
proof -
  have "unhex_list (s @ t) = foldl (\<lambda>n c. 16 * n + unhex c) (unhex_list s) t" by (simp add: unhex_list_def)
  then show ?thesis by (simp only: foldl_unhex)
qed

lemma hex_lengths [simp]: "length (hex2 r) = 2" "length (hex4 r) = 4" "length (hex8 r) = 8"
  by (simp_all add: hex2_def hex4_def hex8_def)

lemma unhex_hex2: "r < 256 \<Longrightarrow> unhex_list (hex2 r) = r"
  by (simp add: hex2_def unhex_list_def unhex_hex_char)

lemma unhex_hex4: "r < 65536 \<Longrightarrow> unhex_list (hex4 r) = r"
  by (simp add: hex4_def unhex_append unhex_hex2)

lemma unhex_hex8: "r < 4294967296 \<Longrightarrow> unhex_list (hex8 r) = r"
  by (simp add: hex8_def unhex_append unhex_hex4)

section \<open>Decoding and encoding a rune\<close>

text \<open>A multi-byte prefix that decodes is the encoding of its rune, and the bytes after it do not matter.\<close>

definition faithful_decode :: "(nat list \<Rightarrow> nat \<times> nat) \<Rightarrow> nat \<Rightarrow> nat list \<Rightarrow> bool" where
  "faithful_decode dec b bs \<longleftrightarrow>
     (let (r, w) = dec bs in
      w = 1 \<and> r = rune_error \<or>
      encode_rune r = b # take (w - 1) bs \<and> r \<le> 1114111 \<and> 128 \<le> r \<and> 0 < w \<and> w \<le> Suc (length bs) \<and>
      (\<forall>xs. dec (take (w - 1) bs @ xs) = (r, w)))"

lemma cont_byteE:
  assumes "cont_byte c" obtains y where "c = 128 + y" and "y < 64"
proof -
  from assms have "c = 128 + (c - 128)" and "c - 128 < 64" unfolding cont_byte_def by auto
  then show thesis by (rule that)
qed

lemma decode2_faithful:
  assumes "194 \<le> b" and "b \<le> 223"
  shows "faithful_decode (decode2 b) b bs"
proof (cases "\<exists>c cs. bs = c # cs \<and> cont_byte c")
  case True
  then obtain c cs where bs: "bs = c # cs" "cont_byte c" by blast
  then obtain y where y: "c = 128 + y" "y < 64" by (blast elim: cont_byteE)
  from assms have "b = 192 + (b - 192)" by simp
  then obtain x where x: "b = 192 + x" by blast
  with assms have "2 \<le> x" "x \<le> 31" by auto
  with bs x y show ?thesis by (simp add: faithful_decode_def decode2_def encode_rune_def)
qed (auto simp: faithful_decode_def decode2_def split: list.split)


lemma digits64:
  fixes x y z u :: nat
  assumes "y < 64" and "z < 64" and "u < 64"
  shows "(x * 4096 + y * 64 + z) div 4096 = x" "(x * 4096 + y * 64 + z) div 64 mod 64 = y"
    "(x * 4096 + y * 64 + z) mod 64 = z"
    "(x * 262144 + y * 4096 + z * 64 + u) div 262144 = x" "(x * 262144 + y * 4096 + z * 64 + u) div 4096 mod 64 = y"
    "(x * 262144 + y * 4096 + z * 64 + u) div 64 mod 64 = z" "(x * 262144 + y * 4096 + z * 64 + u) mod 64 = u"
proof -
  have low: "(a * 64 + b) div 64 = a" "(a * 64 + b) mod 64 = b" if "b < 64" for a b :: nat
    using that by simp_all
  have split: "m div 4096 = m div 64 div 64" "m div 262144 = m div 64 div 64 div 64" for m :: nat
    by (simp_all add: div_mult2_eq [symmetric])
  have "x * 4096 + y * 64 + z = (x * 64 + y) * 64 + z"
    and "x * 262144 + y * 4096 + z * 64 + u = ((x * 64 + y) * 64 + z) * 64 + u" by simp_all
  then show "(x * 4096 + y * 64 + z) div 4096 = x" "(x * 4096 + y * 64 + z) div 64 mod 64 = y"
    "(x * 4096 + y * 64 + z) mod 64 = z"
    "(x * 262144 + y * 4096 + z * 64 + u) div 262144 = x" "(x * 262144 + y * 4096 + z * 64 + u) div 4096 mod 64 = y"
    "(x * 262144 + y * 4096 + z * 64 + u) div 64 mod 64 = z" "(x * 262144 + y * 4096 + z * 64 + u) mod 64 = u"
    using assms by (simp_all only: split low)
qed

lemma decode3_faithful:
  assumes "224 \<le> b" and "b \<le> 239"
  shows "faithful_decode (decode3 b) b bs"
proof (cases "\<exists>c d cs. bs = c # d # cs \<and> (if b = 224 then 160 else 128) \<le> c \<and> c \<le> (if b = 237 then 159 else 191) \<and>
    cont_byte d")
  case True
  then obtain c d cs where bs: "bs = c # d # cs" "cont_byte d"
    and c: "(if b = 224 then 160 else 128) \<le> c" "c \<le> (if b = 237 then 159 else 191)" by blast
  from c have "cont_byte c" by (auto simp: cont_byte_def split: if_splits)
  then obtain y where y: "c = 128 + y" "y < 64" by (rule cont_byteE)
  from bs(2) obtain z where z: "d = 128 + z" "z < 64" by (rule cont_byteE)
  from assms have "b = 224 + (b - 224)" by simp
  then obtain x where x: "b = 224 + x" by blast
  let ?r = "x * 4096 + y * 64 + z"
  have val: "(b - 224) * 4096 + (c - 128) * 64 + (d - 128) = ?r" using x y z by simp
  have range: "2048 \<le> ?r" "\<not> (55296 \<le> ?r \<and> ?r \<le> 57343)" "?r < 65536"
    using assms c x y z by (auto split: if_splits)
  have "encode_rune ?r = [b, c, d]"
    using range x y z unfolding encode_rune_def by (simp only: digits64 [OF y(2) z(2) z(2)]) auto
  moreover have "decode3 b (c # d # xs) = (?r, 3)" for xs
    using bs(2) c val by (simp add: decode3_def)
  ultimately show ?thesis using bs(1) range by (simp add: faithful_decode_def)
next
  case False
  have "decode3 b bs = (rune_error, 1)"
  proof (cases "\<exists>c d cs. bs = c # d # cs")
    case True
    then obtain c d cs where bs: "bs = c # d # cs" by blast
    with False have "\<not> ((if b = 224 then 160 else 128) \<le> c \<and> c \<le> (if b = 237 then 159 else 191) \<and> cont_byte d)"
      by blast
    then show ?thesis unfolding bs decode3_def list.case by (rule if_not_P)
  qed (auto simp: decode3_def split: list.split)
  then show ?thesis by (simp add: faithful_decode_def)
qed

lemma decode4_faithful:
  assumes "240 \<le> b" and "b \<le> 244"
  shows "faithful_decode (decode4 b) b bs"
proof (cases "\<exists>c d e cs. bs = c # d # e # cs \<and> (if b = 240 then 144 else 128) \<le> c \<and> c \<le> (if b = 244 then 143 else 191) \<and>
    cont_byte d \<and> cont_byte e")
  case True
  then obtain c d e cs where bs: "bs = c # d # e # cs" "cont_byte d" "cont_byte e"
    and c: "(if b = 240 then 144 else 128) \<le> c" "c \<le> (if b = 244 then 143 else 191)" by blast
  from c have "cont_byte c" by (auto simp: cont_byte_def split: if_splits)
  then obtain y where y: "c = 128 + y" "y < 64" by (rule cont_byteE)
  from bs(2) obtain z where z: "d = 128 + z" "z < 64" by (rule cont_byteE)
  from bs(3) obtain u where u: "e = 128 + u" "u < 64" by (rule cont_byteE)
  from assms have "b = 240 + (b - 240)" by simp
  then obtain x where x: "b = 240 + x" by blast
  let ?r = "x * 262144 + y * 4096 + z * 64 + u"
  have val: "(b - 240) * 262144 + (c - 128) * 4096 + (d - 128) * 64 + (e - 128) = ?r" using x y z u by simp
  have range: "65536 \<le> ?r" "?r \<le> 1114111"
    using assms c x y z u by (auto split: if_splits)
  have "encode_rune ?r = [b, c, d, e]"
    using range x y z u unfolding encode_rune_def by (simp only: digits64 [OF y(2) z(2) u(2)]) auto
  moreover have "decode4 b (c # d # e # xs) = (?r, 4)" for xs
    using bs(2,3) c val by (simp add: decode4_def)
  ultimately show ?thesis using bs(1) range by (simp add: faithful_decode_def)
next
  case False
  have "decode4 b bs = (rune_error, 1)"
  proof (cases "\<exists>c d e cs. bs = c # d # e # cs")
    case True
    then obtain c d e cs where bs: "bs = c # d # e # cs" by blast
    with False have "\<not> ((if b = 240 then 144 else 128) \<le> c \<and> c \<le> (if b = 244 then 143 else 191) \<and>
        cont_byte d \<and> cont_byte e)" by blast
    then show ?thesis unfolding bs decode4_def list.case by (rule if_not_P)
  qed (auto simp: decode4_def split: list.split)
  then show ?thesis by (simp add: faithful_decode_def)
qed

lemma decode_rune_faithful: "128 \<le> b \<Longrightarrow> faithful_decode (decode_rune b) b bs"
  using decode2_faithful [of b bs] decode3_faithful [of b bs] decode4_faithful [of b bs]
  by (auto simp: decode_rune_def faithful_decode_def)


section \<open>Reading inverts printing\<close>

lemma byte_of_less [simp]: "byte_of c < 256"
  by (simp add: byte_of_def)

lemma byte_of_backslash: "byte_of (CHR 0x5C) = 92"
  and byte_of_quote: "byte_of (CHR 0x22) = 34"
  by (simp_all add: byte_of_def)

lemma encode_str_bytes: "encode_rune r = byte_of c # map byte_of cs \<Longrightarrow> encode_str r = c # cs"
  by (simp add: encode_str_def comp_def)

text \<open>The facts about one decoded rune the cases below share.\<close>

lemma decoded_rune:
  assumes "decode_rune (byte_of c) (map byte_of cs) = (r, w)" and "\<not> (w = 1 \<and> r = rune_error)"
  shows "encode_str r = c # take (w - 1) cs" and "r \<le> 1114111" and "w - 1 \<le> length cs"
    and "decode_rune (byte_of c) (map byte_of (take (w - 1) cs @ rest)) = (r, w)"
    and "r < 128 \<longleftrightarrow> byte_of c < 128" and "r < 128 \<Longrightarrow> r = byte_of c \<and> w = 1"
proof -
  have all: "encode_rune r = byte_of c # map byte_of (take (w - 1) cs) \<and> r \<le> 1114111 \<and> w - 1 \<le> length cs \<and>
      decode_rune (byte_of c) (map byte_of (take (w - 1) cs @ rest)) = (r, w) \<and>
      (r < 128 \<longleftrightarrow> byte_of c < 128) \<and> (r < 128 \<longrightarrow> r = byte_of c \<and> w = 1)"
  proof (cases "byte_of c < 128")
    case True
    with assms(1) have "r = byte_of c" "w = 1" by simp_all
    with True show ?thesis by (simp add: encode_rune_def)
  next
    case False
    then have "faithful_decode (decode_rune (byte_of c)) (byte_of c) (map byte_of cs)"
      by (intro decode_rune_faithful) simp
    then have "encode_rune r = byte_of c # take (w - 1) (map byte_of cs) \<and> r \<le> 1114111 \<and> 128 \<le> r \<and> 0 < w \<and>
        w \<le> Suc (length cs) \<and> (\<forall>xs. decode_rune (byte_of c) (take (w - 1) (map byte_of cs) @ xs) = (r, w))"
      using assms(2) unfolding faithful_decode_def assms(1) Let_def prod.case length_map by blast
    with False show ?thesis by (auto simp: take_map)
  qed
  then show "encode_str r = c # take (w - 1) cs" by (intro encode_str_bytes) blast
  from all show "r \<le> 1114111" and "w - 1 \<le> length cs"
    and "decode_rune (byte_of c) (map byte_of (take (w - 1) cs @ rest)) = (r, w)"
    and "r < 128 \<longleftrightarrow> byte_of c < 128" and "r < 128 \<Longrightarrow> r = byte_of c \<and> w = 1"
    by blast+
qed

definition printed :: "runtime \<Rightarrow> char \<Rightarrow> nat \<Rightarrow> nat \<Rightarrow> str" where
  "printed R c r w =
     (if w = 1 \<and> r = rune_error then [CHR 0x5C, CHR ''x''] @ hex2 (byte_of c) else escape_rune R r)"

lemma read_escape_simple: "simple_escape e = Some c \<Longrightarrow> read_escape (e # r) = Some ([c], r)"
  by (simp add: read_escape_def)

lemma simple_escape_quotes:
  "simple_escape (char_of (34::nat)) = Some (char_of (34::nat))"
  "simple_escape (char_of (92::nat)) = Some (char_of (92::nat))"
  by code_simp+

lemma read_escape_hex:
  "n < 256 \<Longrightarrow> read_escape (CHR ''x'' # hex2 n @ rest) = Some ([char_of n], rest)"
  "n < 65536 \<Longrightarrow> read_escape (CHR ''u'' # hex4 n @ rest) = Some (encode_str n, rest)"
  "n < 4294967296 \<Longrightarrow> read_escape (CHR ''U'' # hex8 n @ rest) = Some (encode_str n, rest)"
  by (simp_all add: read_escape_def simple_escape_def unhex_hex2 unhex_hex4 unhex_hex8)

lemma read_token_escape: "read_token (CHR 0x5C # s) = read_escape s"
  by (simp add: read_token_def)

lemma read_printed:
  assumes dec: "decode_rune (byte_of c) (map byte_of cs) = (r, w)"
  shows "read_token (printed R c r w @ rest) = Some (c # take (w - 1) cs, rest)"
proof (cases "w = 1 \<and> r = rune_error")
  case True
  then show ?thesis by (simp add: printed_def read_token_escape read_escape_hex)
next
  case False
  note d = decoded_rune [OF dec False]
  have small: "read_token (CHR 0x5C # e # rest) = Some (c # take (w - 1) cs, rest)"
    if "simple_escape e = Some (char_of r)" "r < 128" for e
    using that d(6) by (simp add: read_token_escape read_escape_simple)
  have print: "printed R c r w = escape_rune R r" unfolding printed_def by (rule if_not_P [OF False])
  consider "r = 34 \<or> r = 92" | "IsPrint R r" "r \<noteq> 34" "r \<noteq> 92" | "\<not> IsPrint R r" "r \<noteq> 34" "r \<noteq> 92" by blast
  then show ?thesis
  proof cases
    case 1
    then have "simple_escape (char_of r) = Some (char_of r)" and "r < 128" using simple_escape_quotes by auto
    with small 1 show ?thesis by (simp add: print escape_rune_def)
  next
    case 2
    then have "c \<noteq> CHR 0x5C" using d(5,6) byte_of_backslash by auto
    with 2 d(1,3) d(4) [of rest] show ?thesis by (simp add: print escape_rune_def read_token_def)
  next
    case 3
    consider "r \<in> {7, 8, 12, 10, 13, 9, 11}" | "r \<notin> {7, 8, 12, 10, 13, 9, 11}" by blast
    then show ?thesis
    proof cases
      case 1
      with 3 small show ?thesis by (auto simp: print escape_rune_def simple_escape_def)
    next
      case 2
      with 3 have esc: "escape_rune R r =
          (if r < 32 \<or> r = 127 then [CHR 0x5C, CHR ''x''] @ hex2 r
           else if r < 65536 then [CHR 0x5C, CHR ''u''] @ hex4 r else [CHR 0x5C, CHR ''U''] @ hex8 r)"
        by (simp add: escape_rune_def Let_def)
      show ?thesis
      proof (cases "r < 32 \<or> r = 127")
        case True
        with d(6) have "r = byte_of c" "w = 1" and small: "r < 256" by auto
        then have "[char_of r] = c # take (w - 1) cs" by (simp only: char_of_byte_of) simp
        with True small show ?thesis by (simp only: print esc if_P append_assoc append_Cons append_Nil
              read_token_escape read_escape_hex(1))
      next
        case False
        with d(1,2) show ?thesis by (simp add: print esc read_token_escape read_escape_hex)
      qed
    qed
  qed
qed


lemma decode_rune_width: "decode_rune (byte_of c) (map byte_of cs) = (r, w) \<Longrightarrow> w - 1 \<le> length cs"
  using decoded_rune(3) [of c cs r w] by (cases "w = 1 \<and> r = rune_error") simp_all

lemma printed_head: "\<exists>t ts. printed R c r w @ rest = t # ts \<and> t \<noteq> CHR 0x22"
  if dec: "decode_rune (byte_of c) (map byte_of cs) = (r, w)"
proof (cases "w = 1 \<and> r = rune_error \<or> r = 34 \<or> r = 92 \<or> \<not> IsPrint R r")
  case True
  then show ?thesis by (auto simp: printed_def escape_rune_def Let_def)
next
  case False
  then have "\<not> (w = 1 \<and> r = rune_error)" by blast
  note d = decoded_rune [OF dec this]
  from False d(5,6) have "c \<noteq> CHR 0x22" using byte_of_quote by auto
  with False d(1) show ?thesis by (auto simp: printed_def escape_rune_def)
qed

lemma quote_body_Cons:
  "decode_rune (byte_of c) (map byte_of cs) = (r, w) \<Longrightarrow>
     quote_body R (c # cs) = printed R c r w @ quote_body R (drop (w - 1) cs)"
  by (simp add: printed_def)

lemma read_quote_body: "read_quoted (quote_body R s @ CHR 0x22 # rest) = Some (s, rest)"
proof (induction s rule: length_induct)
  case (1 s)
  show ?case
  proof (cases s)
    case Nil
    then show ?thesis by (simp add: read_quoted.simps)
  next
    case (Cons c cs)
    obtain r w where dec: "decode_rune (byte_of c) (map byte_of cs) = (r, w)" by fastforce
    let ?tail = "quote_body R (drop (w - 1) cs) @ CHR 0x22 # rest"
    have "read_quoted ?tail = Some (drop (w - 1) cs, rest)" using 1 Cons by simp
    moreover obtain t ts where t: "printed R c r w @ ?tail = t # ts" "t \<noteq> CHR 0x22"
      using printed_head [OF dec] by blast
    moreover have "read_token (t # ts) = Some (c # take (w - 1) cs, ?tail)"
      unfolding t(1) [symmetric] by (rule read_printed [OF dec])
    ultimately have "read_quoted (t # ts) = Some (c # cs, rest)"
      by (subst read_quoted.simps) simp
    then show ?thesis unfolding Cons quote_body_Cons [OF dec] append_assoc t(1) .
  qed
qed


section \<open>Quoted names and lists of them\<close>

definition read_quote :: "str \<Rightarrow> (str \<times> str) option" where
  "read_quote s = (case s of [] \<Rightarrow> None | c # cs \<Rightarrow> if c = CHR 0x22 then read_quoted cs else None)"

lemma read_quote: "read_quote (quote R s @ rest) = Some (s, rest)"
  using read_quote_body [of R s rest] by (simp add: read_quote_def quote_def)

lemma quote_inject: "quote R s @ u = quote R t @ v \<longleftrightarrow> s = t \<and> u = v"
proof
  assume "quote R s @ u = quote R t @ v"
  then have "Some (s, u) = Some (t, v)" by (simp only: read_quote [of R, symmetric])
  then show "s = t \<and> u = v" by simp
qed simp

lemma read_quote_shorter: "read_quote s = Some (t, rest) \<Longrightarrow> length rest < length s"
proof -
  have body: "read_quoted s = Some (t, rest) \<Longrightarrow> length rest < length s" for s t rest
  proof (induction s arbitrary: t rest rule: length_induct)
    case (1 s)
    show ?case
    proof (cases s)
      case (Cons c cs)
      show ?thesis
      proof (cases "c = CHR 0x22")
        case True
        with 1(2) Cons show ?thesis by (simp add: read_quoted.simps)
      next
        case False
        with 1(2) Cons obtain t' r' x where "read_token s = Some (t', r')" "read_quoted r' = Some (x, rest)"
          by (auto simp: read_quoted.simps [of "c # cs"] split: option.splits)
        with 1(1) read_token_shorter show ?thesis by (metis less_trans)
      qed
    next
      case Nil
      with 1(2) show ?thesis by (simp add: read_quoted.simps)
    qed
  qed
  show "read_quote s = Some (t, rest) \<Longrightarrow> length rest < length s"
    by (auto simp: read_quote_def split: list.splits if_splits dest: body)
qed

text \<open>A comma-separated list of quoted names, to the end of the text.\<close>

function read_names :: "str \<Rightarrow> str list option" where
  "read_names s =
     (case read_quote s of
        None \<Rightarrow> None
      | Some (name, rest) \<Rightarrow>
          if rest = [] then Some [name]
          else if take 2 rest = '', '' then map_option ((#) name) (read_names (drop 2 rest))
          else None)"
  by pat_completeness auto
termination
proof (relation "measure length", simp, goal_cases)
  case (1 s x2 name rest)
  then have "length rest < length s" by (intro read_quote_shorter [of s name]) simp
  then show ?case by simp
qed

declare read_names.simps [simp del]

lemma read_names_Join: "names \<noteq> [] \<Longrightarrow> read_names (Join (map (quote R) names) '', '') = Some names"
proof (induction names rule: induct_list012)
  case (2 x)
  then show ?case using read_quote [of R x "[]"] by (simp add: read_names.simps)
next
  case (3 x y zs)
  have "read_quote (quote R x @ '', '' @ Join (map (quote R) (y # zs)) '', '') =
      Some (x, '', '' @ Join (map (quote R) (y # zs)) '', '')" by (rule read_quote)
  with 3 show ?case by (subst read_names.simps) simp
qed simp

end
