(* ===== verification/Attachment_Spec.thy ===== *)
theory Attachment_Spec
  imports Checks_Attachment Unquote
begin

text \<open>
  What the five attachment checks say together. \<open>attaches\<close> is the Gateway API's own rule, over
  the listeners a parentRef selects: one of them is open to the route's namespace and kind, speaks
  a protocol that carries the kind, and shares a concrete hostname with the route. The checks are
  sound for it (a parentRef that attaches gets no finding from any of them) and complete where the
  selected listeners carry the same kinds, as they do whenever a sectionName picks one of them.
  Where they do not, each check can leave the route to another one: \<open>attachment_gap\<close>.
\<close>

definition open_to_namespace :: "Listener \<Rightarrow> str \<Rightarrow> bool" where
  "open_to_namespace l ns \<longleftrightarrow>
     allowed_from l \<notin> {None, Some NamespacesFromSame} \<or> ns = ref_Namespace (li_Owner l)"

definition open_to_kind :: "Listener \<Rightarrow> str \<Rightarrow> bool" where
  "open_to_kind l kind \<longleftrightarrow> explicit_kinds l = [] \<or> kind \<in> set (explicit_kinds l)"

definition shares_host :: "Listener \<Rightarrow> str list \<Rightarrow> bool" where
  "shares_host l hostnames \<longleftrightarrow>
     li_Hostname l \<in> {None, Some ''''} \<or> hostnames = [] \<or>
     (\<exists>pat host r. li_Hostname l = Some pat \<and> r \<in> set hostnames \<and> covers_host pat host \<and> covers_host r host)"

definition attaches :: "lint_context \<Rightarrow> Route \<Rightarrow> Parent \<Rightarrow> bool" where
  "attaches ctx route p \<longleftrightarrow>
     (\<exists>l\<in>selected ctx p. open_to_namespace l (rt_Namespace route) \<and> open_to_kind l (rt_Kind route) \<and>
        carries route l \<and> shares_host l (rt_Hostnames route))"

text \<open>The finding of any of the five checks on one parentRef.\<close>

definition attachment_reports :: "lint_context \<Rightarrow> Route \<Rightarrow> Parent \<Rightarrow> bool" where
  "attachment_reports ctx route p \<longleftrightarrow>
     lnf_reports ctx route p \<or> rnp_reports ctx route p \<or> pm_reports ctx route p \<or> dpr_reports ctx route p \<or>
     rt_Hostnames route \<noteq> [] \<and> hnm_reports ctx route p"

section \<open>The predicates of the checks in terms of the specification\<close>

lemma open_to_namespace_iff: "open_to_namespace l ns \<longleftrightarrow> AcceptsNamespace l ns"
  using AcceptsNamespace_refuses [of l ns] by (auto simp: open_to_namespace_def)

lemma refuses_open: "refuses route l \<longleftrightarrow> \<not> open_to_namespace l (rt_Namespace route) \<or> \<not> open_to_kind l (rt_Kind route)"
  by (auto simp: refuses_iff open_to_namespace_def open_to_kind_def)

lemma explicit_kinds_default: "\<not> HasExplicitKinds l \<Longrightarrow> explicit_kinds l = []"
  by (auto simp: HasExplicitKinds_def explicit_kinds_def split: option.splits)

lemma admits_open:
  "carries route l \<Longrightarrow> admits route l \<longleftrightarrow> open_to_namespace l (rt_Namespace route) \<and> open_to_kind l (rt_Kind route)"
  by (cases "HasExplicitKinds l")
    (auto simp: admits_def carries_def open_to_namespace_iff open_to_kind_def AcceptsKind_explicit
      AcceptsKind_default explicit_kinds_default)

lemma shares_host_iff: "shares_host l hs \<longleftrightarrow> HostnamesIntersect l hs"
  by (simp only: shares_host_def HostnamesIntersect_eq)

lemma attaches_iff:
  "attaches ctx route p \<longleftrightarrow>
     (\<exists>l\<in>selected ctx p. admits route l \<and> carries route l \<and> HostnamesIntersect l (rt_Hostnames route))"
  unfolding attaches_def shares_host_iff using admits_open by blast

lemma attaches_selects: "attaches ctx route p \<Longrightarrow> selected ctx p \<noteq> {}"
  by (auto simp: attaches_def)

section \<open>Soundness and completeness on one parentRef\<close>

lemma attaches_silent: "attaches ctx route p \<Longrightarrow> \<not> attachment_reports ctx route p"
proof -
  assume "attaches ctx route p"
  then obtain l where l: "l \<in> selected ctx p" "admits route l" "carries route l"
    "HostnamesIntersect l (rt_Hostnames route)" unfolding attaches_iff by blast
  then have open_l: "\<not> refuses route l" "AcceptsNamespace l (rt_Namespace route)"
    unfolding admits_def refuses_def by blast+
  have "\<not> lnf_reports ctx route p" using l(1) reports_select(1) [of ctx route p] by auto
  moreover have "\<not> dpr_reports ctx route p" using l(1) reports_select(2) [of ctx route p] by auto
  moreover have "\<not> rnp_reports ctx route p" unfolding rnp_reports_def using l(1) open_l by blast
  moreover have "\<not> pm_reports ctx route p" unfolding pm_reports_def using l open_l by blast
  moreover have "\<not> hnm_reports ctx route p" unfolding hnm_reports_def using l by blast
  ultimately show ?thesis by (simp add: attachment_reports_def)
qed

text \<open>A parent that is described: in the context, and with a listener to attach to.\<close>

definition described_parent :: "lint_context \<Rightarrow> Parent \<Rightarrow> bool" where
  "described_parent ctx p \<longleftrightarrow>
     GatewaysAndListenerSets ctx \<noteq> {} \<and>
     (parent_ref p \<in> GatewaysAndListenerSets ctx \<longrightarrow> parent_ref p \<in> li_Owner ` set (all_listeners ctx))"

text \<open>The listeners a parentRef selects carry the same kinds.\<close>

definition carry_alike :: "lint_context \<Rightarrow> Parent \<Rightarrow> bool" where
  "carry_alike ctx p \<longleftrightarrow>
     (\<forall>l\<in>selected ctx p. \<forall>l'\<in>selected ctx p. RouteKindsFor (li_Protocol l) = RouteKindsFor (li_Protocol l'))"

lemma section_carries_alike: "par_Section p \<noteq> None \<Longrightarrow> carry_alike ctx p"
proof -
  assume "par_Section p \<noteq> None"
  then obtain sect where "par_Section p = Some sect" by blast
  then have "length (ListenersFor (ListenersByOwner ctx) p) \<le> 1" by (simp add: ListenersFor_section)
  then have "l = l'" if "l \<in> selected ctx p" "l' \<in> selected ctx p" for l l'
    using that by (cases "ListenersFor (ListenersByOwner ctx) p") auto
  then show ?thesis by (metis carry_alike_def)
qed

lemma silent_attaches:
  assumes "described_parent ctx p" and "carry_alike ctx p" and "\<not> attachment_reports ctx route p"
    and g: "par_Group p = gateway_group"
  shows "attaches ctx route p"
proof -
  from assms(3) have silent: "\<not> lnf_reports ctx route p" "\<not> rnp_reports ctx route p" "\<not> pm_reports ctx route p"
    "\<not> dpr_reports ctx route p" "rt_Hostnames route = [] \<or> \<not> hnm_reports ctx route p"
    by (auto simp: attachment_reports_def)
  from g assms(1) silent(4) have owned: "owned_by (ListenersByOwner ctx) (parent_ref p) \<noteq> []"
    by (simp add: described_parent_def dpr_reports_def owned_nonempty)
  have "selected ctx p \<noteq> {}"
  proof (cases "par_Section p")
    case None
    with owned show ?thesis by (simp add: ListenersFor_def)
  next
    case (Some sect)
    with silent(1) g owned show ?thesis by (simp add: lnf_reports_def)
  qed
  with silent(2) g obtain l where l: "l \<in> selected ctx p" "\<not> refuses route l"
    unfolding rnp_reports_def by blast
  with silent(3) g obtain l' where "l' \<in> selected ctx p" "carries route l'"
    unfolding pm_reports_def by blast
  then have all: "carries route m" if "m \<in> selected ctx p" for m
    using assms(2) that unfolding carry_alike_def carries_def by metis
  from l all have "admits route l" by (simp add: admits_open refuses_open)
  with l(1) silent(5) g have "\<exists>m\<in>selected ctx p. admits route m \<and> HostnamesIntersect m (rt_Hostnames route)"
  proof (cases "rt_Hostnames route = []")
    case True
    then have "HostnamesIntersect l (rt_Hostnames route)" by (simp add: HostnamesIntersect_eq)
    with l(1) \<open>admits route l\<close> show ?thesis by blast
  next
    case False
    with silent(5) g l(1) \<open>admits route l\<close> show ?thesis unfolding hnm_reports_def by blast
  qed
  with all show ?thesis unfolding attaches_iff by blast
qed

lemma other_group_silent: "par_Group p \<noteq> gateway_group \<Longrightarrow> \<not> attachment_reports ctx route p"
  by (auto simp: attachment_reports_def lnf_reports_def rnp_reports_def pm_reports_def dpr_reports_def hnm_reports_def)

section \<open>The five checks on a route\<close>

lemma attachment_checks_silent:
  assumes "AsRoute (K8sObject obj) = Some route"
  shows "(\<forall>check\<in>{lnf_checkFunc, rnp_checkFunc, hnm_checkFunc, pm_checkFunc, dpr_checkFunc}. check R ctx obj = Some [])
    \<longleftrightarrow> (\<forall>p\<in>set (ParentsOf route). \<not> attachment_reports ctx route p)"
  using lnf.silent_iff [OF assms, of R ctx] rnp.silent_iff [OF assms, of R ctx] hnm.silent_iff [OF assms, of R ctx]
    pm.silent_iff [OF assms, of R ctx] dpr.silent_iff [OF assms, of R ctx]
  by (simp only: ball_simps simp_thms attachment_reports_def) blast

lemma attachment_checks_eq:
  assumes "AsRoute (K8sObject obj) = Some route"
    and "\<And>p. p \<in> set (ParentsOf route) \<Longrightarrow> par_Group p = gateway_group \<Longrightarrow> described_parent ctx p \<and> carry_alike ctx p"
  shows "(\<forall>check\<in>{lnf_checkFunc, rnp_checkFunc, hnm_checkFunc, pm_checkFunc, dpr_checkFunc}. check R ctx obj = Some [])
    \<longleftrightarrow> (\<forall>p\<in>set (ParentsOf route). par_Group p = gateway_group \<longrightarrow> attaches ctx route p)"
  unfolding attachment_checks_silent [OF assms(1)]
  using assms(2) attaches_silent silent_attaches other_group_silent by metis


text \<open>The route \<open>web\<close> on the Gateway \<open>edge\<close>, naming its listener: it attaches, and no check reports.\<close>

definition edge_context :: lint_context where
  "edge_context = context_of [edge, web ''web'' (Some ''http'')]"

lemma edge_parents: "ParentsOf (web_route (Some ''http'')) = [web_parent (Some ''http'')]"
  by code_simp

lemma edge_described: "described_parent edge_context (web_parent (Some ''http''))"
proof -
  have "parent_ref (web_parent (Some ''http'')) \<in> li_Owner ` set (all_listeners edge_context)"
    "GatewaysAndListenerSets edge_context \<noteq> {}" by code_simp+
  then show ?thesis by (simp add: described_parent_def)
qed

lemma edge_selected:
  "ListenersFor (ListenersByOwner edge_context) (web_parent (Some ''http'')) =
     [mk_listener (mk_ref Gateway ''infra'' ''edge'') Gateway (listener ''http'' (Some ''*.example.com'') 80 HTTPProtocolType)]"
  by code_simp

lemma web_attaches: "attaches edge_context (web_route (Some ''http'')) (web_parent (Some ''http''))"
proof -
  let ?l = "mk_listener (mk_ref Gateway ''infra'' ''edge'') Gateway (listener ''http'' (Some ''*.example.com'') 80 HTTPProtocolType)"
  have "admits (web_route (Some ''http'')) ?l \<and> carries (web_route (Some ''http'')) ?l \<and>
      HostnamesIntersect ?l (rt_Hostnames (web_route (Some ''http'')))" by code_simp
  then show ?thesis unfolding attaches_iff edge_selected by simp
qed


section \<open>The hostnames a finding names\<close>

text \<open>The prefix \<open>hostname\<close> or \<open>hostnames\<close>, and the quoted names after it.\<close>

definition read_hostnames :: "str \<Rightarrow> str list option" where
  "read_hostnames s = read_names (drop (if take 10 s = ''hostnames '' then 10 else 9) s)"

text \<open>
  C28: reading a printed list of hostnames gives the hostnames back, whatever bytes they hold:
  quotes, commas, escapes, control characters and invalid UTF-8 included. So a finding of
  \<open>hostname-never-matches\<close> names the route's hostnames and no others.
\<close>

theorem hostname_list_roundtrip:
  assumes "hostnames \<noteq> []"
  shows "read_hostnames (hostnameList R hostnames) = Some hostnames"
proof (cases "length hostnames = 1")
  case True
  then obtain h where h: "hostnames = [h]" by (auto simp: length_Suc_conv)
  have "take 10 (''hostname '' @ quote R h) \<noteq> ''hostnames ''" by (simp add: quote_def)
  with read_names_Join [OF assms, of R] h show ?thesis by (simp add: read_hostnames_def hostnameList_def)
next
  case False
  with read_names_Join [OF assms, of R] show ?thesis by (simp add: read_hostnames_def hostnameList_def Let_def)
qed

theorem hostname_list_roundtrip_witness:
  "read_hostnames (hostnameList forward_runtime [''a.example.com'', [CHR 0x22, CHR '','', CHR 0xFF]]) =
     Some [''a.example.com'', [CHR 0x22, CHR '','', CHR 0xFF]]"
  by (rule hostname_list_roundtrip) simp

section \<open>The gap between the checks\<close>

text \<open>
  Where the listeners differ, a route can be left out by all of them with no finding. The Gateway
  \<open>mixed\<close> has a TCP listener that sets no kinds and an HTTP listener that allows only GRPCRoutes. An
  HTTPRoute on it attaches to neither: \<open>route-not-permitted\<close> leaves the TCP listener to
  \<open>protocol-mismatch\<close>, which takes the HTTP one to carry the route, and \<open>hostname-never-matches\<close>
  finds no listener that admits it.
\<close>

definition mixed_gateway :: gateway where
  "mixed_gateway = gateway_with ''infra'' ''edge''
     [listener ''tcp'' None 5432 TCPProtocolType,
      (listener ''grpc'' None 80 HTTPProtocolType)
        \<lparr>lis_AllowedRoutes := Some \<lparr>ar_Namespaces = None, ar_Kinds = [\<lparr>gk_Group = None, gk_Kind = GRPCRoute\<rparr>]\<rparr>\<rparr>]"

definition mixed_context :: lint_context where
  "mixed_context = context_of [Gateway_v1 mixed_gateway, web ''web'' None]"

lemma mixed_selected:
  "ListenersFor (ListenersByOwner mixed_context) (web_parent None) =
     map (mk_listener (mk_ref Gateway ''infra'' ''edge'') Gateway) (gw_Listeners mixed_gateway)"
  by code_simp

lemma attachment_gap:
  "\<not> attachment_reports mixed_context (web_route None) (web_parent None) \<and>
   described_parent mixed_context (web_parent None) \<and>
   \<not> attaches mixed_context (web_route None) (web_parent None)"
proof -
  let ?ls = "map (mk_listener (mk_ref Gateway ''infra'' ''edge'') Gateway) (gw_Listeners mixed_gateway)"
  have facts: "list_ex (\<lambda>l. \<not> refuses (web_route None) l) ?ls" "list_all (\<lambda>l. \<not> admits (web_route None) l) ?ls"
    "list_ex (\<lambda>l. AcceptsNamespace l (rt_Namespace (web_route None)) \<and> carries (web_route None) l) ?ls"
    by code_simp+
  have known: "parent_ref (web_parent None) \<in> li_Owner ` set (all_listeners mixed_context)"
    "GatewaysAndListenerSets mixed_context \<noteq> {}"
    "parent_ref (web_parent None) \<in> GatewaysAndListenerSets mixed_context" by code_simp+
  have sel: "selected mixed_context (web_parent None) = set ?ls" by (simp only: mixed_selected)
  have "selected mixed_context (web_parent None) \<noteq> {}" unfolding sel by (simp add: mixed_gateway_def gateway_with_def)
  then have "\<not> lnf_reports mixed_context (web_route None) (web_parent None)" unfolding lnf_reports_def by blast
  moreover have "\<not> rnp_reports mixed_context (web_route None) (web_parent None)"
    using facts(1) unfolding rnp_reports_def sel list_ex_iff by blast
  moreover have "\<not> pm_reports mixed_context (web_route None) (web_parent None)"
    using facts(3) unfolding pm_reports_def sel list_ex_iff by blast
  moreover have "\<not> hnm_reports mixed_context (web_route None) (web_parent None)"
    using facts(2) unfolding hnm_reports_def sel list_all_iff by blast
  moreover have "\<not> dpr_reports mixed_context (web_route None) (web_parent None)"
    using known(3) unfolding dpr_reports_def by blast
  ultimately have "\<not> attachment_reports mixed_context (web_route None) (web_parent None)"
    unfolding attachment_reports_def by blast
  moreover have "\<not> attaches mixed_context (web_route None) (web_parent None)"
    using facts(2) unfolding attaches_iff sel list_all_iff by blast
  ultimately show ?thesis using known(1,2) by (simp add: described_parent_def)
qed

end
