(* ===== verification/Certificates.thy ===== *)
theory Certificates
  imports Parents
begin

text \<open>
  \<open>pkg/gatewayapi/certificate.go\<close>: the certificateRefs of the listeners that terminate TLS,
  with Gateway API's defaults applied, and the index of the Secrets they can resolve to. A
  cert-manager Certificate counts as the Secret it will create.
\<close>

definition certManagerGroup :: str where "certManagerGroup = ''cert-manager.io''"
definition SecretKind :: str where "SecretKind = ''Secret''"

record CertificateRef =
  cr_Owner :: ObjectRef
  cr_Listener :: str
  cr_Group :: str
  cr_Kind :: str
  cr_Namespace :: str
  cr_Name :: str

definition certificateRefsOf :: "ObjectRef \<Rightarrow> str \<Rightarrow> tls_config option \<Rightarrow> CertificateRef list" where
  "certificateRefsOf owner listener tls =
     (case tls of
        None \<Rightarrow> []
      | Some t \<Rightarrow>
          if tlc_Mode t \<noteq> None \<and> tlc_Mode t \<noteq> Some TLSModeTerminate then []
          else map (\<lambda>ref.
            \<lparr>cr_Owner = owner, cr_Listener = listener,
             cr_Group = (case sec_Group ref of Some g \<Rightarrow> g | None \<Rightarrow> ''''),
             cr_Kind = (case sec_Kind ref of Some k \<Rightarrow> k | None \<Rightarrow> SecretKind),
             cr_Namespace = (case sec_Namespace ref of Some ns \<Rightarrow> ns | None \<Rightarrow> ref_Namespace owner),
             cr_Name = sec_Name ref\<rparr>) (tlc_CertificateRefs t))"

definition TerminatingCertificateRefs :: "k8s_object \<Rightarrow> CertificateRef list" where
  "TerminatingCertificateRefs obj =
     (case AsGateway obj of
        Some gw \<Rightarrow>
          (let owner = mk_ref Gateway (meta_Namespace (gw_Meta gw)) (meta_Name (gw_Meta gw)) in
           for_append (gw_Listeners gw) (\<lambda>l. certificateRefsOf owner (lis_Name l) (lis_TLS l)))
      | None \<Rightarrow>
          (case obj of
             ListenerSet_v1 ls \<Rightarrow>
               (let owner = mk_ref ListenerSet (meta_Namespace (ls_Meta ls)) (meta_Name (ls_Meta ls)) in
                for_append (ls_Listeners ls) (\<lambda>l. certificateRefsOf owner (lis_Name l) (lis_TLS l)))
           | _ \<Rightarrow> []))"

definition ResolvableCertificateKind :: "str \<Rightarrow> str \<Rightarrow> bool" where
  "ResolvableCertificateKind grp kind \<longleftrightarrow> grp = '''' \<and> kind = SecretKind"

text \<open>\<open>(name, true)\<close> is \<open>Some name\<close>, \<open>("", false)\<close> is \<open>None\<close>.\<close>

definition certManagerSecretName :: "unstructured \<Rightarrow> str option" where
  "certManagerSecretName obj =
     (if un_Group obj \<noteq> certManagerGroup \<or> un_Kind obj \<noteq> ''Certificate'' then None
      else (case un_SecretName obj of
              NestedError \<Rightarrow> None
            | NestedAbsent \<Rightarrow> None
            | NestedFound name \<Rightarrow> if name = '''' then None else Some name))"

definition CertificateSecrets :: "lint_context \<Rightarrow> ObjectRef set" where
  "CertificateSecrets lintCtx =
     foldl (\<lambda>found obj.
       case K8sObject obj of
         Secret_v1 typed \<Rightarrow> insert (mk_ref SecretKind (meta_Namespace typed) (meta_Name typed)) found
       | Unstructured typed \<Rightarrow>
           (case certManagerSecretName typed of
              Some name \<Rightarrow> insert (mk_ref SecretKind (meta_Namespace (un_Meta typed)) name) found
            | None \<Rightarrow> found)
       | _ \<Rightarrow> found) {} (Objects lintCtx)"

section \<open>The contract of the Secret index\<close>

definition secret_entries :: "k8s_object \<Rightarrow> ObjectRef set" where
  "secret_entries k =
     (case k of
        Secret_v1 m \<Rightarrow> {mk_ref SecretKind (meta_Namespace m) (meta_Name m)}
      | Unstructured u \<Rightarrow>
          mk_ref SecretKind (meta_Namespace (un_Meta u)) ` set_option (certManagerSecretName u)
      | _ \<Rightarrow> {})"

interpretation secrets_index: object_index CertificateSecrets secret_entries
proof
  fix ctx
  show "CertificateSecrets ctx = (\<Union>obj\<in>set (Objects ctx). secret_entries (K8sObject obj))"
    unfolding CertificateSecrets_def
    by (subst foldl_union [where g = "\<lambda>obj. secret_entries (K8sObject obj)"])
      (auto simp: secret_entries_def split: k8s_object.splits option.splits)
qed

lemma secret_entries_kind: "r \<in> secret_entries k \<Longrightarrow> ref_Kind r = SecretKind"
  by (auto simp: secret_entries_def split: k8s_object.splits)

lemma CertificateSecrets_kind: "r \<in> CertificateSecrets ctx \<Longrightarrow> ref_Kind r = SecretKind"
  by (auto simp: secrets_index.index_iff dest: secret_entries_kind)

lemma TerminatingCertificateRefs_off_scope:
  "kind_of k \<notin> Some ` set [Gateway, ListenerSet] \<Longrightarrow> TerminatingCertificateRefs k = []"
  by (cases k) (simp_all add: TerminatingCertificateRefs_def)

lemma TerminatingCertificateRefs_owner:
  "ref \<in> set (TerminatingCertificateRefs k) \<Longrightarrow>
     cr_Owner ref = mk_ref (the (kind_of k)) (GetNamespace k) (GetName k)"
  by (cases k)
    (auto simp: TerminatingCertificateRefs_def certificateRefsOf_def Let_def
      split: option.splits if_splits)

end
