(* ===== verification/Checks_References.thy ===== *)
theory Checks_References
  imports Fixtures Certificates
begin

text \<open>
  The seven checks of tier 2, references that resolve to nothing or are not permitted:
  \<open>dangling-backend-ref\<close>, \<open>dangling-certificate-ref\<close>, \<open>dangling-gateway-class\<close>,
  \<open>dangling-listener-set-parent\<close>, \<open>dangling-policy-target\<close>, \<open>missing-reference-grant\<close> and
  \<open>missing-certificate-grant\<close>. The first five are interpretations of \<open>dangling_check\<close>; the
  last two read ReferenceGrants, each with code of its own, and are shown to decide by the
  same specification, \<open>granted\<close>.
\<close>

definition kind_scope :: "ObjectRef \<Rightarrow> str \<times> str" where
  "kind_scope ref = (ref_Kind ref, ref_Namespace ref)"

section \<open>dangling-backend-ref\<close>

definition dbr_message :: "runtime \<Rightarrow> Route \<Rightarrow> BackendRef \<Rightarrow> str" where
  "dbr_message R route backendRef =
     rt_Kind route @ '' '' @ quote R (rt_Name route) @ '' routes to '' @ backendref_Kind backendRef @
     '' '' @ quote R (bo_Name (br_Ref backendRef)) @ '' in namespace '' @
     quote R (backendref_Namespace backendRef (rt_Namespace route)) @
     '', which is not present; requests matching that rule have nowhere to go''"

definition dbr_checkFunc :: check_func where
  "dbr_checkFunc R lintCtx object =
     Some (case AsRoute (K8sObject object) of
             None \<Rightarrow> []
           | Some route \<Rightarrow>
               let known = BackendTargets lintCtx;
                   described = kind_scope ` known
               in for_append (rt_BackendRefs route) (\<lambda>backendRef.
                    let grp = backendref_Group backendRef; kind = backendref_Kind backendRef in
                    if \<not> ResolvableBackendKind grp kind then []
                    else let namespace = backendref_Namespace backendRef (rt_Namespace route) in
                      if (kind, namespace) \<notin> described then []
                      else if mk_ref kind namespace (bo_Name (br_Ref backendRef)) \<in> known then []
                      else [\<lparr>Message = dbr_message R route backendRef\<rparr>]))"

definition dbr_template :: check_template where
  "dbr_template = \<lparr>tm_HumanName = ''Dangling Route backendRef'', tm_Key = ''dangling-backend-ref'',
     tm_Description =
       ''Flag routes whose backendRefs name a Service or Backend that is not present, '' @
       ''so requests matching that rule have nowhere to go'',
     tm_ObjectKinds = RouteKinds, tm_Check = dbr_checkFunc\<rparr>"

section \<open>dangling-certificate-ref\<close>

definition dcr_message :: "runtime \<Rightarrow> CertificateRef \<Rightarrow> str" where
  "dcr_message R ref =
     ref_Kind (cr_Owner ref) @ '' '' @ quote R (ref_Name (cr_Owner ref)) @ '' listener '' @
     quote R (cr_Listener ref) @ '' terminates TLS with Secret '' @ quote R (cr_Name ref) @
     '' in namespace '' @ quote R (cr_Namespace ref) @ '', which is not present; '' @
     ''the listener will never be programmed and TLS handshakes on it will fail''"

definition dcr_checkFunc :: check_func where
  "dcr_checkFunc R lintCtx object =
     (let certificateRefs = TerminatingCertificateRefs (K8sObject object) in
      if length certificateRefs = 0 then Some []
      else let known = CertificateSecrets lintCtx;
               described = ref_Namespace ` known
           in Some (for_append certificateRefs (\<lambda>ref.
                if \<not> ResolvableCertificateKind (cr_Group ref) (cr_Kind ref) then []
                else if cr_Namespace ref \<notin> described then []
                else if mk_ref (cr_Kind ref) (cr_Namespace ref) (cr_Name ref) \<in> known then []
                else [\<lparr>Message = dcr_message R ref\<rparr>])))"

definition dcr_template :: check_template where
  "dcr_template = \<lparr>tm_HumanName = ''Dangling listener certificateRef'', tm_Key = ''dangling-certificate-ref'',
     tm_Description =
       ''Flag TLS listeners whose certificateRefs name a Secret that is not present, '' @
       ''so the listener is never programmed and TLS handshakes on it fail'',
     tm_ObjectKinds = [Gateway, ListenerSet], tm_Check = dcr_checkFunc\<rparr>"

section \<open>dangling-gateway-class\<close>

definition dgc_message :: "runtime \<Rightarrow> gateway \<Rightarrow> str" where
  "dgc_message R gw =
     ''Gateway '' @ quote R (meta_Name (gw_Meta gw)) @ '' names GatewayClass '' @
     quote R (gw_ClassName gw) @ '', which is not present; '' @
     ''no controller will claim the Gateway and none of its listeners will be programmed''"

definition dgc_checkFunc :: check_func where
  "dgc_checkFunc R lintCtx object =
     Some (case AsGateway (K8sObject object) of
             None \<Rightarrow> []
           | Some gw \<Rightarrow>
               let className = gw_ClassName gw in
               if className = '''' then []
               else let classes = GatewayClasses lintCtx in
                 if classes = {} then []
                 else if className \<in> classes then []
                 else [\<lparr>Message = dgc_message R gw\<rparr>])"

definition dgc_template :: check_template where
  "dgc_template = \<lparr>tm_HumanName = ''Dangling Gateway gatewayClassName'', tm_Key = ''dangling-gateway-class'',
     tm_Description =
       ''Flag Gateways whose gatewayClassName names a GatewayClass that is not present, '' @
       ''so no controller claims the Gateway and none of its listeners are ever programmed'',
     tm_ObjectKinds = [Gateway], tm_Check = dgc_checkFunc\<rparr>"

section \<open>dangling-listener-set-parent\<close>

definition dls_gateways :: "lint_context \<Rightarrow> ObjectRef set" where
  "dls_gateways lintCtx =
     foldl (\<lambda>found obj.
       case AsGateway (K8sObject obj) of
         None \<Rightarrow> found
       | Some _ \<Rightarrow> insert (mk_ref Gateway (GetNamespace (K8sObject obj)) (GetName (K8sObject obj))) found)
       {} (Objects lintCtx)"

definition describesNamespace :: "ObjectRef set \<Rightarrow> str \<Rightarrow> bool" where
  "describesNamespace gateways namespace \<longleftrightarrow> namespace \<in> ref_Namespace ` gateways"

definition dls_message :: "runtime \<Rightarrow> listener_set \<Rightarrow> str" where
  "dls_message R ls =
     ''ListenerSet '' @ quote R (meta_Name (ls_Meta ls)) @ '' attaches to Gateway '' @
     quote R (ref_Name (ListenerSetParent ls)) @ '' in namespace '' @
     quote R (ref_Namespace (ListenerSetParent ls)) @ '', which is not present; '' @
     ''its listeners will never be merged into a Gateway and will never be bound''"

definition dls_checkFunc :: check_func where
  "dls_checkFunc R lintCtx object =
     Some (case K8sObject object of
             ListenerSet_v1 listenerSet \<Rightarrow>
               let ref = ls_ParentRef listenerSet in
               if pg_Group ref \<noteq> None \<and> pg_Group ref \<noteq> Some gateway_group then []
               else if pg_Kind ref \<noteq> None \<and> pg_Kind ref \<noteq> Some Gateway then []
               else if pg_Name ref = '''' then []
               else let parent = ListenerSetParent listenerSet; gateways = dls_gateways lintCtx in
                 if \<not> describesNamespace gateways (ref_Namespace parent) then []
                 else if parent \<in> gateways then []
                 else [\<lparr>Message = dls_message R listenerSet\<rparr>]
           | _ \<Rightarrow> [])"

definition dls_template :: check_template where
  "dls_template = \<lparr>tm_HumanName = ''Dangling ListenerSet parentRef'', tm_Key = ''dangling-listener-set-parent'',
     tm_Description =
       ''Flag ListenerSets whose parentRef names a Gateway that is not present, '' @
       ''so their listeners are never merged into a Gateway and never bound'',
     tm_ObjectKinds = [ListenerSet], tm_Check = dls_checkFunc\<rparr>"

section \<open>dangling-policy-target\<close>

definition targetRefsOf :: "traffic_policy \<Rightarrow> policy_ref list" where
  "targetRefsOf policy =
     (case btp_TargetRef policy of Some ref \<Rightarrow> [ref] | None \<Rightarrow> []) @ btp_TargetRefs policy"

definition targetableKind :: "str \<Rightarrow> bool" where
  "targetableKind kind \<longleftrightarrow>
     (if kind = Gateway \<or> kind = ListenerSet then True
      else list_ex (\<lambda>routeKind. kind = routeKind) RouteKinds)"

definition policyTargets :: "lint_context \<Rightarrow> ObjectRef set" where
  "policyTargets lintCtx =
     foldl (\<lambda>targets route. insert (mk_ref (rt_Kind route) (rt_Namespace route) (rt_Name route)) targets)
       (GatewaysAndListenerSets lintCtx) (Routes_of lintCtx)"

definition dpt_message :: "runtime \<Rightarrow> traffic_policy \<Rightarrow> policy_ref \<Rightarrow> str" where
  "dpt_message R policy ref =
     ''BackendTrafficPolicy '' @ quote R (meta_Name (btp_Meta policy)) @ '' targets '' @ pol_Kind ref @
     '' '' @ quote R (pol_Name ref) @ '' in namespace '' @ quote R (meta_Namespace (btp_Meta policy)) @
     '', which is not present; the policy attaches to nothing and its settings never apply''"

definition dpt_checkFunc :: check_func where
  "dpt_checkFunc R lintCtx object =
     Some (case K8sObject object of
             BackendTrafficPolicy_v1alpha1 policy \<Rightarrow>
               let known = policyTargets lintCtx;
                   described = kind_scope ` known;
                   namespace = meta_Namespace (btp_Meta policy)
               in for_append (targetRefsOf policy) (\<lambda>ref.
                    if pol_Group ref \<noteq> '''' \<and> pol_Group ref \<noteq> gateway_group then []
                    else if \<not> targetableKind (pol_Kind ref) then []
                    else if (pol_Kind ref, namespace) \<notin> described then []
                    else if mk_ref (pol_Kind ref) namespace (pol_Name ref) \<in> known then []
                    else [\<lparr>Message = dpt_message R policy ref\<rparr>])
           | _ \<Rightarrow> [])"

definition dpt_template :: check_template where
  "dpt_template = \<lparr>tm_HumanName = ''Dangling Policy targetRef'', tm_Key = ''dangling-policy-target'',
     tm_Description =
       ''Flag BackendTrafficPolicies whose targetRefs name a Gateway, ListenerSet or route '' @
       ''that is not present, so the policy attaches to nothing and its settings never apply'',
     tm_ObjectKinds = [BackendTrafficPolicy], tm_Check = dpt_checkFunc\<rparr>"

section \<open>missing-reference-grant\<close>

record reference =
  fromKind :: str
  fromNamespace :: str
  toGroup :: str
  toKind :: str
  toName :: str

definition grantsByNamespace :: "lint_context \<Rightarrow> (str \<Rightarrow> grant_spec list option)" where
  "grantsByNamespace lintCtx =
     foldl (\<lambda>byNamespace obj.
       (case (case K8sObject obj of
                ReferenceGrant_v1 rg \<Rightarrow> Some (rg_Spec rg)
              | ReferenceGrant_v1beta1 rg \<Rightarrow> Some (rg_Spec rg)
              | ReferenceGrant_v1alpha2 rg \<Rightarrow> Some (rg_Spec rg)
              | _ \<Rightarrow> None) of
          None \<Rightarrow> byNamespace
        | Some spec \<Rightarrow>
            let ns = GetNamespace (K8sObject obj) in
            byNamespace(ns \<mapsto> (case byNamespace ns of None \<Rightarrow> [] | Some specs \<Rightarrow> specs) @ [spec])))
       Map.empty (Objects lintCtx)"

definition grants_in :: "(str \<Rightarrow> grant_spec list option) \<Rightarrow> str \<Rightarrow> grant_spec list" where
  "grants_in grants ns = (case grants ns of None \<Rightarrow> [] | Some specs \<Rightarrow> specs)"

definition matchesFrom :: "grant_from list \<Rightarrow> reference \<Rightarrow> bool" where
  "matchesFrom from ref \<longleftrightarrow>
     list_ex (\<lambda>f. gf_Group f = gateway_group \<and> gf_Kind f = fromKind ref \<and>
                  gf_Namespace f = fromNamespace ref) from"

definition matchesTo :: "grant_to list \<Rightarrow> reference \<Rightarrow> bool" where
  "matchesTo to ref \<longleftrightarrow>
     list_ex (\<lambda>t. if gt_Group t \<noteq> toGroup ref \<or> gt_Kind t \<noteq> toKind ref then False
                  else gt_Name t = None \<or> gt_Name t = Some (toName ref)) to"

definition permits :: "grant_spec list \<Rightarrow> reference \<Rightarrow> bool" where
  "permits grants ref \<longleftrightarrow>
     list_ex (\<lambda>spec. matchesFrom (gs_From spec) ref \<and> matchesTo (gs_To spec) ref) grants"

definition mrg_reference :: "Route \<Rightarrow> BackendRef \<Rightarrow> reference" where
  "mrg_reference route backendRef =
     \<lparr>fromKind = rt_Kind route, fromNamespace = rt_Namespace route, toGroup = backendref_Group backendRef,
      toKind = backendref_Kind backendRef, toName = bo_Name (br_Ref backendRef)\<rparr>"

definition mrg_message :: "runtime \<Rightarrow> Route \<Rightarrow> BackendRef \<Rightarrow> str" where
  "mrg_message R route backendRef =
     rt_Kind route @ '' '' @ quote R (rt_Name route) @ '' in namespace '' @ quote R (rt_Namespace route) @
     '' routes to '' @ backendref_Kind backendRef @ '' '' @ quote R (bo_Name (br_Ref backendRef)) @
     '' in namespace '' @ quote R (backendref_Namespace backendRef (rt_Namespace route)) @
     '', but no ReferenceGrant there permits '' @ rt_Kind route @ '' from namespace '' @
     quote R (rt_Namespace route) @ '' to reference it; the backendRef resolves to nothing '' @
     ''and requests matching that rule fail''"

definition mrg_checkFunc :: check_func where
  "mrg_checkFunc R lintCtx object =
     Some (case AsRoute (K8sObject object) of
             None \<Rightarrow> []
           | Some route \<Rightarrow>
               if rt_Namespace route = '''' then []
               else let grants = grantsByNamespace lintCtx in
                 for_append (rt_BackendRefs route) (\<lambda>backendRef.
                   let target = backendref_Namespace backendRef (rt_Namespace route) in
                   if target = rt_Namespace route then []
                   else if length (grants_in grants target) = 0 then []
                   else if permits (grants_in grants target) (mrg_reference route backendRef) then []
                   else [\<lparr>Message = mrg_message R route backendRef\<rparr>]))"

definition mrg_template :: check_template where
  "mrg_template = \<lparr>tm_HumanName = ''Missing ReferenceGrant'', tm_Key = ''missing-reference-grant'',
     tm_Description =
       ''Flag routes whose backendRefs cross a namespace boundary with no ReferenceGrant '' @
       ''in the target namespace permitting the reference, so the backend never resolves'',
     tm_ObjectKinds = RouteKinds, tm_Check = mrg_checkFunc\<rparr>"

section \<open>missing-certificate-grant\<close>

record grant =
  gr_namespace :: str
  gr_spec :: grant_spec

definition referenceGrants :: "lint_context \<Rightarrow> grant list" where
  "referenceGrants lintCtx =
     for_append (Objects lintCtx) (\<lambda>obj.
       case (case K8sObject obj of
               ReferenceGrant_v1 typed \<Rightarrow> Some typed
             | ReferenceGrant_v1beta1 typed \<Rightarrow> Some typed
             | ReferenceGrant_v1alpha2 typed \<Rightarrow> Some typed
             | _ \<Rightarrow> None) of
         None \<Rightarrow> []
       | Some rg \<Rightarrow> [\<lparr>gr_namespace = meta_Namespace (rg_Meta rg), gr_spec = rg_Spec rg\<rparr>])"

definition grantAllowsFrom :: "grant_from list \<Rightarrow> ObjectRef \<Rightarrow> bool" where
  "grantAllowsFrom from owner \<longleftrightarrow>
     list_ex (\<lambda>f. gf_Group f = gateway_group \<and> gf_Kind f = ref_Kind owner \<and>
                  gf_Namespace f = ref_Namespace owner) from"

definition grantAllowsTo :: "grant_to list \<Rightarrow> CertificateRef \<Rightarrow> bool" where
  "grantAllowsTo to ref \<longleftrightarrow>
     list_ex (\<lambda>t. if gt_Group t \<noteq> cr_Group ref \<or> gt_Kind t \<noteq> cr_Kind ref then False
                  else gt_Name t = None \<or> gt_Name t = Some (cr_Name ref)) to"

definition permitted :: "grant list \<Rightarrow> CertificateRef \<Rightarrow> bool" where
  "permitted grants ref \<longleftrightarrow>
     list_ex (\<lambda>g. if gr_namespace g \<noteq> cr_Namespace ref then False
                  else grantAllowsFrom (gs_From (gr_spec g)) (cr_Owner ref) \<and>
                       grantAllowsTo (gs_To (gr_spec g)) ref) grants"

definition describedNamespaces :: "lint_context \<Rightarrow> grant list \<Rightarrow> str set" where
  "describedNamespaces lintCtx grants =
     ref_Namespace ` CertificateSecrets lintCtx \<union> gr_namespace ` set grants"

definition mcg_message :: "runtime \<Rightarrow> CertificateRef \<Rightarrow> str" where
  "mcg_message R ref =
     ref_Kind (cr_Owner ref) @ '' '' @ quote R (ref_Name (cr_Owner ref)) @ '' listener '' @
     quote R (cr_Listener ref) @ '' terminates TLS with '' @ cr_Kind ref @ '' '' @ quote R (cr_Name ref) @
     '' in namespace '' @ quote R (cr_Namespace ref) @ '', which no ReferenceGrant there permits it to reference; '' @
     ''the listener will never be programmed and TLS handshakes on it will fail''"

definition mcg_checkFunc :: check_func where
  "mcg_checkFunc R lintCtx object =
     (let certificateRefs = TerminatingCertificateRefs (K8sObject object) in
      if length certificateRefs = 0 then Some []
      else let grants = referenceGrants lintCtx;
               described = describedNamespaces lintCtx grants
           in Some (for_append certificateRefs (\<lambda>ref.
                if cr_Namespace ref = ref_Namespace (cr_Owner ref) then []
                else if cr_Namespace ref \<notin> described then []
                else if permitted grants ref then []
                else [\<lparr>Message = mcg_message R ref\<rparr>])))"

definition mcg_template :: check_template where
  "mcg_template = \<lparr>tm_HumanName = ''Missing certificate ReferenceGrant'', tm_Key = ''missing-certificate-grant'',
     tm_Description =
       ''Flag TLS listeners whose certificateRefs cross into another namespace with no '' @
       ''ReferenceGrant permitting it, so the listener is never programmed'',
     tm_ObjectKinds = [Gateway, ListenerSet], tm_Check = mcg_checkFunc\<rparr>"

section \<open>What the dangling checks share\<close>

definition backend_ref_of :: "k8s_object \<Rightarrow> BackendRef \<Rightarrow> ObjectRef" where
  "backend_ref_of k b =
     mk_ref (backendref_Kind b) (backendref_Namespace b (GetNamespace k)) (bo_Name (br_Ref b))"

definition cert_ref_of :: "CertificateRef \<Rightarrow> ObjectRef" where
  "cert_ref_of ref = mk_ref (cr_Kind ref) (cr_Namespace ref) (cr_Name ref)"

definition policy_of :: "k8s_object \<Rightarrow> traffic_policy option" where
  "policy_of k = (case k of BackendTrafficPolicy_v1alpha1 p \<Rightarrow> Some p | _ \<Rightarrow> None)"

definition listener_set_of :: "k8s_object \<Rightarrow> listener_set option" where
  "listener_set_of k = (case k of ListenerSet_v1 ls \<Rightarrow> Some ls | _ \<Rightarrow> None)"

definition named_gateway :: "listener_set \<Rightarrow> bool" where
  "named_gateway ls \<longleftrightarrow> pg_Group (ls_ParentRef ls) \<in> {None, Some gateway_group} \<and>
     pg_Kind (ls_ParentRef ls) \<in> {None, Some Gateway} \<and> pg_Name (ls_ParentRef ls) \<noteq> ''''"

definition gateway_entries :: "k8s_object \<Rightarrow> ObjectRef set" where
  "gateway_entries k = (\<lambda>g. mk_ref Gateway (GetNamespace k) (GetName k)) ` set_option (AsGateway k)"

definition policy_target_entries :: "k8s_object \<Rightarrow> ObjectRef set" where
  "policy_target_entries k =
     parent_entries k \<union> (\<lambda>route. mk_ref (rt_Kind route) (rt_Namespace route) (rt_Name route)) ` set_option (AsRoute k)"

interpretation gateways_index: object_index dls_gateways gateway_entries
proof
  fix ctx
  show "dls_gateways ctx = (\<Union>obj\<in>set (Objects ctx). gateway_entries (K8sObject obj))"
    unfolding dls_gateways_def
    by (subst foldl_union [where g = "\<lambda>obj. gateway_entries (K8sObject obj)"])
      (auto simp: gateway_entries_def split: option.splits)
qed

lemma set_Routes_of_eq: "set (Routes_of ctx) = (\<Union>obj\<in>set (Objects ctx). set_option (AsRoute (K8sObject obj)))"
  by (auto simp: set_Routes_of)

interpretation policy_targets_index: object_index policyTargets policy_target_entries
proof
  fix ctx
  show "policyTargets ctx = (\<Union>obj\<in>set (Objects ctx). policy_target_entries (K8sObject obj))"
    unfolding policyTargets_def policy_target_entries_def parents_index.index_eq
    by (subst foldl_union [where g = "\<lambda>route. {mk_ref (rt_Kind route) (rt_Namespace route) (rt_Name route)}"])
      (auto simp: set_Routes_of_eq)
qed

lemma reference_messages_tables:
  assumes "same_tables R S"
  shows "dbr_message R = dbr_message S" "dcr_message R = dcr_message S" "dgc_message R = dgc_message S"
    "dls_message R = dls_message S" "dpt_message R = dpt_message S" "mrg_message R = mrg_message S"
    "mcg_message R = mcg_message S"
proof -
  from assms have q: "quote R = quote S" by (rule same_tables_quote)
  show "dbr_message R = dbr_message S" "dcr_message R = dcr_message S" "dgc_message R = dgc_message S"
    "dls_message R = dls_message S" "dpt_message R = dpt_message S" "mrg_message R = mrg_message S"
    "mcg_message R = mcg_message S"
    by (intro ext, simp only: q dbr_message_def dcr_message_def dgc_message_def dls_message_def
        dpt_message_def mrg_message_def mcg_message_def)+
qed

lemma policy_of_scope: "policy_of k = None \<longleftrightarrow> kind_of k \<notin> Some ` set [BackendTrafficPolicy]"
  by (cases k) (simp_all add: policy_of_def kind_names)

lemma listener_set_of_scope: "listener_set_of k = None \<longleftrightarrow> kind_of k \<notin> Some ` set [ListenerSet]"
  by (cases k) (simp_all add: listener_set_of_def kind_names)

interpretation dbr: dangling_check dbr_checkFunc RouteKinds route_backends
  "\<lambda>ctx k b. ResolvableBackendKind (backendref_Group b) (backendref_Kind b) \<and>
     kind_scope (backend_ref_of k b) \<in> kind_scope ` BackendTargets ctx \<and> backend_ref_of k b \<notin> BackendTargets ctx"
  "\<lambda>R ctx k b. dbr_message R (the (AsRoute k)) b" BackendTargets backend_entries
  "\<lambda>k b. ResolvableBackendKind (backendref_Group b) (backendref_Kind b)" backend_ref_of kind_scope
proof unfold_locales
  fix R ctx obj
  show "dbr_checkFunc R ctx obj = Some (map (\<lambda>b. \<lparr>Message = dbr_message R (the (AsRoute (K8sObject obj))) b\<rparr>)
     (filter (\<lambda>b. ResolvableBackendKind (backendref_Group b) (backendref_Kind b) \<and>
       kind_scope (backend_ref_of (K8sObject obj) b) \<in> kind_scope ` BackendTargets ctx \<and>
       backend_ref_of (K8sObject obj) b \<notin> BackendTargets ctx) (route_backends (K8sObject obj))))"
  proof (cases "AsRoute (K8sObject obj)")
    case (Some route)
    then have ns: "rt_Namespace route = GetNamespace (K8sObject obj)" by (simp add: AsRoute_meta)
    show ?thesis
      unfolding dbr_checkFunc_def route_backends_def Let_def Some option.case ns
      by (subst for_append_guarded [where P = "\<lambda>b. ResolvableBackendKind (backendref_Group b) (backendref_Kind b) \<and>
            kind_scope (backend_ref_of (K8sObject obj) b) \<in> kind_scope ` BackendTargets ctx \<and>
            backend_ref_of (K8sObject obj) b \<notin> BackendTargets ctx" and g = "\<lambda>b. \<lparr>Message = dbr_message R route b\<rparr>"])
        (simp_all add: backend_ref_of_def kind_scope_def)
  qed (simp add: dbr_checkFunc_def route_backends_def)
qed (auto simp: reference_messages_tables route_backends_scope)

interpretation dcr: dangling_check dcr_checkFunc "[Gateway, ListenerSet]" TerminatingCertificateRefs
  "\<lambda>ctx k ref. ResolvableCertificateKind (cr_Group ref) (cr_Kind ref) \<and>
     ref_Namespace (cert_ref_of ref) \<in> ref_Namespace ` CertificateSecrets ctx \<and>
     cert_ref_of ref \<notin> CertificateSecrets ctx"
  "\<lambda>R ctx k ref. dcr_message R ref" CertificateSecrets secret_entries
  "\<lambda>k ref. ResolvableCertificateKind (cr_Group ref) (cr_Kind ref)" "\<lambda>k ref. cert_ref_of ref" ref_Namespace
proof unfold_locales
  fix R ctx obj
  show "dcr_checkFunc R ctx obj = Some (map (\<lambda>ref. \<lparr>Message = dcr_message R ref\<rparr>)
     (filter (\<lambda>ref. ResolvableCertificateKind (cr_Group ref) (cr_Kind ref) \<and>
     ref_Namespace (cert_ref_of ref) \<in> ref_Namespace ` CertificateSecrets ctx \<and>
     cert_ref_of ref \<notin> CertificateSecrets ctx) (TerminatingCertificateRefs (K8sObject obj))))"
    unfolding dcr_checkFunc_def Let_def
    by (subst for_append_guarded [where P = "\<lambda>ref. ResolvableCertificateKind (cr_Group ref) (cr_Kind ref) \<and>
     ref_Namespace (cert_ref_of ref) \<in> ref_Namespace ` CertificateSecrets ctx \<and>
     cert_ref_of ref \<notin> CertificateSecrets ctx" and g = "\<lambda>ref. \<lparr>Message = dcr_message R ref\<rparr>"])
      (simp_all add: cert_ref_of_def)
qed (auto simp: reference_messages_tables TerminatingCertificateRefs_off_scope)

definition listener_sets_of :: "k8s_object \<Rightarrow> listener_set list" where
  "listener_sets_of k = (case listener_set_of k of None \<Rightarrow> [] | Some ls \<Rightarrow> [ls])"

definition policy_refs :: "k8s_object \<Rightarrow> policy_ref list" where
  "policy_refs k = (case policy_of k of None \<Rightarrow> [] | Some p \<Rightarrow> targetRefsOf p)"

definition judged_target :: "policy_ref \<Rightarrow> bool" where
  "judged_target ref \<longleftrightarrow> pol_Group ref \<in> {'''', gateway_group} \<and> pol_Kind ref \<in> set (Gateway # ListenerSet # RouteKinds)"

definition target_ref_of :: "k8s_object \<Rightarrow> policy_ref \<Rightarrow> ObjectRef" where
  "target_ref_of k ref = mk_ref (pol_Kind ref) (GetNamespace k) (pol_Name ref)"

lemma targetableKind_iff: "targetableKind kind \<longleftrightarrow> kind \<in> set (Gateway # ListenerSet # RouteKinds)"
  by (auto simp: targetableKind_def list_ex_iff)

interpretation dgc: dangling_check dgc_checkFunc "[Gateway]" gateways_of
  "\<lambda>ctx k gw. gw_ClassName gw \<noteq> '''' \<and> () \<in> (\<lambda>_. ()) ` GatewayClasses ctx \<and> gw_ClassName gw \<notin> GatewayClasses ctx"
  "\<lambda>R ctx k gw. dgc_message R gw" GatewayClasses class_entries
  "\<lambda>k gw. gw_ClassName gw \<noteq> ''''" "\<lambda>k gw. gw_ClassName gw" "\<lambda>_. ()"
proof unfold_locales
  fix R ctx obj
  show "dgc_checkFunc R ctx obj = Some (map (\<lambda>gw. \<lparr>Message = dgc_message R gw\<rparr>)
     (filter (\<lambda>gw. gw_ClassName gw \<noteq> '''' \<and> () \<in> (\<lambda>_. ()) ` GatewayClasses ctx \<and>
        gw_ClassName gw \<notin> GatewayClasses ctx) (gateways_of (K8sObject obj))))"
    by (cases "AsGateway (K8sObject obj)") (auto simp: dgc_checkFunc_def gateways_of_def Let_def)
next
  fix k
  show "kind_of k \<notin> Some ` set [Gateway] \<Longrightarrow> gateways_of k = []"
    unfolding AsGateway_scope [symmetric] by (simp add: gateways_of_def)
qed (simp_all add: reference_messages_tables)

interpretation dls: dangling_check dls_checkFunc "[ListenerSet]" listener_sets_of
  "\<lambda>ctx k ls. named_gateway ls \<and> ref_Namespace (ListenerSetParent ls) \<in> ref_Namespace ` dls_gateways ctx \<and>
     ListenerSetParent ls \<notin> dls_gateways ctx"
  "\<lambda>R ctx k ls. dls_message R ls" dls_gateways gateway_entries
  "\<lambda>k ls. named_gateway ls" "\<lambda>k ls. ListenerSetParent ls" ref_Namespace
proof unfold_locales
  fix R ctx obj
  show "dls_checkFunc R ctx obj = Some (map (\<lambda>ls. \<lparr>Message = dls_message R ls\<rparr>)
     (filter (\<lambda>ls. named_gateway ls \<and> ref_Namespace (ListenerSetParent ls) \<in> ref_Namespace ` dls_gateways ctx \<and>
     ListenerSetParent ls \<notin> dls_gateways ctx) (listener_sets_of (K8sObject obj))))"
    by (cases "K8sObject obj")
      (auto simp: dls_checkFunc_def listener_sets_of_def listener_set_of_def named_gateway_def
        describesNamespace_def Let_def)
next
  fix k
  show "kind_of k \<notin> Some ` set [ListenerSet] \<Longrightarrow> listener_sets_of k = []"
    unfolding listener_set_of_scope [symmetric] by (simp add: listener_sets_of_def)
qed (simp_all add: reference_messages_tables)

interpretation dpt: dangling_check dpt_checkFunc "[BackendTrafficPolicy]" policy_refs
  "\<lambda>ctx k ref. judged_target ref \<and> kind_scope (target_ref_of k ref) \<in> kind_scope ` policyTargets ctx \<and>
     target_ref_of k ref \<notin> policyTargets ctx"
  "\<lambda>R ctx k ref. dpt_message R (the (policy_of k)) ref" policyTargets policy_target_entries
  "\<lambda>k ref. judged_target ref" target_ref_of kind_scope
proof unfold_locales
  fix R ctx and obj :: lint_object
  let ?k = "K8sObject obj"
  show "dpt_checkFunc R ctx obj = Some (map (\<lambda>ref. \<lparr>Message = dpt_message R (the (policy_of ?k)) ref\<rparr>)
     (filter (\<lambda>ref. judged_target ref \<and> kind_scope (target_ref_of ?k ref) \<in> kind_scope ` policyTargets ctx \<and>
     target_ref_of ?k ref \<notin> policyTargets ctx) (policy_refs ?k)))"
  proof (cases "policy_of ?k")
    case None
    then show ?thesis
      by (cases ?k) (simp_all add: dpt_checkFunc_def policy_refs_def policy_of_def)
  next
    case (Some p)
    then have k: "?k = BackendTrafficPolicy_v1alpha1 p" by (auto simp: policy_of_def split: k8s_object.splits)
    show ?thesis
      unfolding dpt_checkFunc_def k Let_def k8s_object.case policy_refs_def policy_of_def option.case option.sel
      by (subst for_append_guarded [where P = "\<lambda>ref. judged_target ref \<and>
            kind_scope (target_ref_of ?k ref) \<in> kind_scope ` policyTargets ctx \<and>
            target_ref_of ?k ref \<notin> policyTargets ctx" and g = "\<lambda>ref. \<lparr>Message = dpt_message R p ref\<rparr>"])
        (auto simp: k target_ref_of_def kind_scope_def judged_target_def targetableKind_iff)
  qed
next
  fix k
  show "kind_of k \<notin> Some ` set [BackendTrafficPolicy] \<Longrightarrow> policy_refs k = []"
    unfolding policy_of_scope [symmetric] by (simp add: policy_refs_def)
qed (simp_all add: reference_messages_tables)

section \<open>What a ReferenceGrant permits\<close>

definition grant_entries :: "k8s_object \<Rightarrow> reference_grant set" where
  "grant_entries k =
     (case k of ReferenceGrant_v1 rg \<Rightarrow> {rg} | ReferenceGrant_v1beta1 rg \<Rightarrow> {rg}
      | ReferenceGrant_v1alpha2 rg \<Rightarrow> {rg} | _ \<Rightarrow> {})"

definition grants_of :: "lint_context \<Rightarrow> reference_grant set" where
  "grants_of ctx = \<Union> (grant_entries ` K8sObject ` set (Objects ctx))"

text \<open>
  A reference from kind \<open>fk\<close> in namespace \<open>fns\<close> to an object of group \<open>tg\<close> and kind \<open>tk\<close>
  named \<open>tn\<close> in namespace \<open>ns\<close> is permitted by a grant living in \<open>ns\<close>, one of whose from
  entries names the referrer and one of whose to entries the target, or all of its kind.
\<close>

definition granted :: "lint_context \<Rightarrow> str \<Rightarrow> str \<Rightarrow> str \<Rightarrow> str \<Rightarrow> str \<Rightarrow> str \<Rightarrow> bool" where
  "granted ctx ns fk fns tg tk tn \<longleftrightarrow>
     (\<exists>rg. rg \<in> grants_of ctx \<and> meta_Namespace (rg_Meta rg) = ns \<and>
        \<lparr>gf_Group = gateway_group, gf_Kind = fk, gf_Namespace = fns\<rparr> \<in> set (gs_From (rg_Spec rg)) \<and>
        {\<lparr>gt_Group = tg, gt_Kind = tk, gt_Name = None\<rparr>, \<lparr>gt_Group = tg, gt_Kind = tk, gt_Name = Some tn\<rparr>}
          \<inter> set (gs_To (rg_Spec rg)) \<noteq> {})"

lemma from_iff:
  "list_ex (\<lambda>f. gf_Group f = g \<and> gf_Kind f = k \<and> gf_Namespace f = ns) fs \<longleftrightarrow>
     \<lparr>gf_Group = g, gf_Kind = k, gf_Namespace = ns\<rparr> \<in> set fs"
proof -
  have "(gf_Group f = g \<and> gf_Kind f = k \<and> gf_Namespace f = ns) \<longleftrightarrow>
      f = \<lparr>gf_Group = g, gf_Kind = k, gf_Namespace = ns\<rparr>" for f :: grant_from
    by (cases f) auto
  then show ?thesis by (auto simp: list_ex_iff)
qed

lemma to_iff:
  "list_ex (\<lambda>t. if gt_Group t \<noteq> g \<or> gt_Kind t \<noteq> k then False else gt_Name t = None \<or> gt_Name t = Some n) ts \<longleftrightarrow>
     {\<lparr>gt_Group = g, gt_Kind = k, gt_Name = None\<rparr>, \<lparr>gt_Group = g, gt_Kind = k, gt_Name = Some n\<rparr>} \<inter> set ts \<noteq> {}"
proof -
  have "(if gt_Group t \<noteq> g \<or> gt_Kind t \<noteq> k then False else gt_Name t = None \<or> gt_Name t = Some n) \<longleftrightarrow>
      t = \<lparr>gt_Group = g, gt_Kind = k, gt_Name = None\<rparr> \<or> t = \<lparr>gt_Group = g, gt_Kind = k, gt_Name = Some n\<rparr>"
    for t :: grant_to
    by (cases t) auto
  then show ?thesis by (simp only: list_ex_iff) blast
qed

definition spec_list :: "k8s_object \<Rightarrow> reference_grant list" where
  "spec_list k =
     (case k of ReferenceGrant_v1 rg \<Rightarrow> [rg] | ReferenceGrant_v1beta1 rg \<Rightarrow> [rg]
      | ReferenceGrant_v1alpha2 rg \<Rightarrow> [rg] | _ \<Rightarrow> [])"

lemma set_spec_list: "set (spec_list k) = grant_entries k"
  by (cases k) (simp_all add: spec_list_def grant_entries_def)

lemma spec_list_namespace: "rg \<in> set (spec_list k) \<Longrightarrow> meta_Namespace (rg_Meta rg) = GetNamespace k"
  by (cases k) (simp_all add: spec_list_def)

lemma grantsByNamespace_lookup:
  "grants_in (grantsByNamespace ctx) ns =
     for_append (Objects ctx) (\<lambda>obj.
       map rg_Spec (filter (\<lambda>rg. meta_Namespace (rg_Meta rg) = ns) (spec_list (K8sObject obj))))"
proof -
  define step where "step = (\<lambda>byNamespace (obj :: lint_object).
       (case (case K8sObject obj of
                ReferenceGrant_v1 rg \<Rightarrow> Some (rg_Spec rg)
              | ReferenceGrant_v1beta1 rg \<Rightarrow> Some (rg_Spec rg)
              | ReferenceGrant_v1alpha2 rg \<Rightarrow> Some (rg_Spec rg)
              | _ \<Rightarrow> None) of
          None \<Rightarrow> byNamespace
        | Some spec \<Rightarrow>
            let ns = GetNamespace (K8sObject obj) in
            byNamespace(ns \<mapsto> (case byNamespace ns of None \<Rightarrow> [] | Some specs \<Rightarrow> specs) @ [spec])))"
  have step: "grants_in (step m obj) ns = grants_in m ns @
      map rg_Spec (filter (\<lambda>rg. meta_Namespace (rg_Meta rg) = ns) (spec_list (K8sObject obj)))" for m obj
    by (cases "K8sObject obj") (auto simp: step_def grants_in_def spec_list_def Let_def)
  have "grants_in (foldl step m xs) ns = grants_in m ns @ for_append xs (\<lambda>obj.
      map rg_Spec (filter (\<lambda>rg. meta_Namespace (rg_Meta rg) = ns) (spec_list (K8sObject obj))))" for m xs
    by (induction xs arbitrary: m) (simp_all add: step)
  from this [of Map.empty "Objects ctx"] show ?thesis
    by (simp add: grantsByNamespace_def step_def grants_in_def)
qed

lemma set_grants_in:
  "set (grants_in (grantsByNamespace ctx) ns) = rg_Spec ` {rg \<in> grants_of ctx. meta_Namespace (rg_Meta rg) = ns}"
  by (auto simp: grantsByNamespace_lookup set_spec_list grants_of_def)

lemma referenceGrants_eq:
  "referenceGrants ctx = for_append (Objects ctx) (\<lambda>obj.
     map (\<lambda>rg. \<lparr>gr_namespace = meta_Namespace (rg_Meta rg), gr_spec = rg_Spec rg\<rparr>) (spec_list (K8sObject obj)))"
proof -
  have "(case (case K8sObject obj of
               ReferenceGrant_v1 typed \<Rightarrow> Some typed
             | ReferenceGrant_v1beta1 typed \<Rightarrow> Some typed
             | ReferenceGrant_v1alpha2 typed \<Rightarrow> Some typed
             | _ \<Rightarrow> None) of
         None \<Rightarrow> []
       | Some rg \<Rightarrow> [\<lparr>gr_namespace = meta_Namespace (rg_Meta rg), gr_spec = rg_Spec rg\<rparr>])
     = map (\<lambda>rg. \<lparr>gr_namespace = meta_Namespace (rg_Meta rg), gr_spec = rg_Spec rg\<rparr>) (spec_list (K8sObject obj))"
    for obj :: lint_object
    by (cases "K8sObject obj") (simp_all add: spec_list_def)
  then show ?thesis unfolding referenceGrants_def by (simp only:)
qed

lemma set_referenceGrants:
  "set (referenceGrants ctx) = (\<lambda>rg. \<lparr>gr_namespace = meta_Namespace (rg_Meta rg), gr_spec = rg_Spec rg\<rparr>) ` grants_of ctx"
  by (auto simp: referenceGrants_eq set_spec_list grants_of_def)

lemma permits_granted:
  "permits (grants_in (grantsByNamespace ctx) ns) ref \<longleftrightarrow>
     granted ctx ns (fromKind ref) (fromNamespace ref) (toGroup ref) (toKind ref) (toName ref)"
  unfolding permits_def matchesFrom_def matchesTo_def from_iff to_iff list_ex_iff set_grants_in granted_def
  by blast

lemma permitted_granted:
  "permitted (referenceGrants ctx) ref \<longleftrightarrow>
     granted ctx (cr_Namespace ref) (ref_Kind (cr_Owner ref)) (ref_Namespace (cr_Owner ref))
       (cr_Group ref) (cr_Kind ref) (cr_Name ref)"
  unfolding permitted_def grantAllowsFrom_def grantAllowsTo_def from_iff to_iff list_ex_iff set_referenceGrants granted_def
  by auto

interpretation mrg: ref_check mrg_checkFunc RouteKinds route_backends
  "\<lambda>ctx k b. GetNamespace k \<noteq> '''' \<and> backendref_Namespace b (GetNamespace k) \<noteq> GetNamespace k \<and>
     grants_in (grantsByNamespace ctx) (backendref_Namespace b (GetNamespace k)) \<noteq> [] \<and>
     \<not> permits (grants_in (grantsByNamespace ctx) (backendref_Namespace b (GetNamespace k)))
         (mrg_reference (the (AsRoute k)) b)"
  "\<lambda>R ctx k b. mrg_message R (the (AsRoute k)) b"
proof unfold_locales
  fix R ctx and obj :: lint_object
  let ?k = "K8sObject obj"
  let ?reports = "\<lambda>b. GetNamespace ?k \<noteq> '''' \<and> backendref_Namespace b (GetNamespace ?k) \<noteq> GetNamespace ?k \<and>
     grants_in (grantsByNamespace ctx) (backendref_Namespace b (GetNamespace ?k)) \<noteq> [] \<and>
     \<not> permits (grants_in (grantsByNamespace ctx) (backendref_Namespace b (GetNamespace ?k)))
         (mrg_reference (the (AsRoute ?k)) b)"
  show "mrg_checkFunc R ctx obj = Some (map (\<lambda>b. \<lparr>Message = mrg_message R (the (AsRoute ?k)) b\<rparr>)
     (filter ?reports (route_backends ?k)))"
  proof (cases "AsRoute ?k")
    case (Some route)
    then have ns: "rt_Namespace route = GetNamespace ?k" by (simp add: AsRoute_meta)
    show ?thesis
    proof (cases "GetNamespace ?k = ''''")
      case False
      then show ?thesis
        unfolding mrg_checkFunc_def route_backends_def Let_def Some option.case ns
        by (subst for_append_guarded [where P = ?reports and g = "\<lambda>b. \<lparr>Message = mrg_message R route b\<rparr>"])
          (simp_all add: Some)
    qed (simp add: mrg_checkFunc_def Some ns)
  qed (simp add: mrg_checkFunc_def route_backends_def)
qed (auto simp: reference_messages_tables route_backends_scope)

interpretation mcg: ref_check mcg_checkFunc "[Gateway, ListenerSet]" TerminatingCertificateRefs
  "\<lambda>ctx k ref. cr_Namespace ref \<noteq> ref_Namespace (cr_Owner ref) \<and>
     cr_Namespace ref \<in> describedNamespaces ctx (referenceGrants ctx) \<and> \<not> permitted (referenceGrants ctx) ref"
  "\<lambda>R ctx k ref. mcg_message R ref"
proof unfold_locales
  fix R ctx obj
  let ?reports = "\<lambda>ref. cr_Namespace ref \<noteq> ref_Namespace (cr_Owner ref) \<and>
     cr_Namespace ref \<in> describedNamespaces ctx (referenceGrants ctx) \<and> \<not> permitted (referenceGrants ctx) ref"
  show "mcg_checkFunc R ctx obj = Some (map (\<lambda>ref. \<lparr>Message = mcg_message R ref\<rparr>)
     (filter ?reports (TerminatingCertificateRefs (K8sObject obj))))"
    unfolding mcg_checkFunc_def Let_def
    by (subst for_append_guarded [where P = ?reports and g = "\<lambda>ref. \<lparr>Message = mcg_message R ref\<rparr>"])
      simp_all
qed (auto simp: reference_messages_tables TerminatingCertificateRefs_off_scope)


section \<open>Properties\<close>

lemma image_fst_snd: "kind_scope r \<in> kind_scope ` A \<longleftrightarrow> (ref_Kind r, ref_Namespace r) \<in> (\<lambda>x. (ref_Kind x, ref_Namespace x)) ` A"
  by (simp add: kind_scope_def)

lemma ex_in_cong: "(\<And>r. r \<in> A \<Longrightarrow> P r \<longleftrightarrow> Q r) \<Longrightarrow> (\<exists>r. r \<in> A \<and> P r) \<longleftrightarrow> (\<exists>r. r \<in> A \<and> Q r)"
  by blast

lemma dangling_backend_ref_eq:
  "dbr_checkFunc R ctx obj \<noteq> Some [] \<longleftrightarrow>
     (\<exists>route b. AsRoute (K8sObject obj) = Some route \<and> b \<in> set (rt_BackendRefs route) \<and>
        (backendref_Group b, backendref_Kind b) \<in> {('''', ''Service''), (envoy_group, KindBackend)} \<and>
        (let present = \<Union> (backend_entries ` K8sObject ` set (Objects ctx));
             target = mk_ref (backendref_Kind b) (backendref_Namespace b (rt_Namespace route)) (bo_Name (br_Ref b))
         in (ref_Kind target, ref_Namespace target) \<in> (\<lambda>r. (ref_Kind r, ref_Namespace r)) ` present \<and>
            target \<notin> present))"
proof (cases "AsRoute (K8sObject obj)")
  case None
  then have "route_backends (K8sObject obj) = []" by (simp add: route_backends_def)
  with None show ?thesis unfolding dbr.dangling_iff by simp
next
  case (Some route)
  then have ns: "rt_Namespace route = GetNamespace (K8sObject obj)" by (simp add: AsRoute_meta)
  have res: "ResolvableBackendKind g kd \<longleftrightarrow> (g, kd) \<in> {('''', ''Service''), (envoy_group, KindBackend)}" for g kd
    by (auto simp: ResolvableBackendKind_def)
  have refs: "route_backends (K8sObject obj) = rt_BackendRefs route"
    by (simp add: route_backends_def Some)
  show ?thesis
    unfolding dbr.dangling_iff refs Some res image_fst_snd backend_ref_of_def Let_def ns [symmetric]
    by (simp only: option.inject simp_thms ex_simps)
qed

text \<open>
  C33: \<open>dangling-backend-ref\<close> reports exactly the routes with a backendRef to a core Service or
  an Envoy Gateway Backend that no object of the context is, while some object of the context
  is of that kind in that namespace.
\<close>

theorem dangling_backend_ref_iff:
  "dbr_checkFunc R ctx obj \<noteq> Some [] \<longleftrightarrow>
     (\<exists>route b. AsRoute (K8sObject obj) = Some route \<and> b \<in> set (rt_BackendRefs route) \<and>
        (backendref_Group b, backendref_Kind b) \<in> {('''', ''Service''), (envoy_group, KindBackend)} \<and>
        (let present = \<Union> (backend_entries ` K8sObject ` set (Objects ctx));
             target = mk_ref (backendref_Kind b) (backendref_Namespace b (rt_Namespace route)) (bo_Name (br_Ref b))
         in (ref_Kind target, ref_Namespace target) \<in> (\<lambda>r. (ref_Kind r, ref_Namespace r)) ` present \<and>
            target \<notin> present))"
  by (rule dangling_backend_ref_eq)

text \<open>
  \<open>dangling-certificate-ref\<close> reports exactly the objects with a certificateRef of a
  terminating listener to a core Secret that is neither in the context nor promised by a
  cert-manager Certificate there, while the context has a Secret for that namespace.
\<close>

lemma dangling_certificate_ref_iff:
  "dcr_checkFunc R ctx obj \<noteq> Some [] \<longleftrightarrow>
     (\<exists>ref. ref \<in> set (TerminatingCertificateRefs (K8sObject obj)) \<and>
        cr_Group ref = '''' \<and> cr_Kind ref = SecretKind \<and>
        (let present = \<Union> (secret_entries ` K8sObject ` set (Objects ctx))
         in cr_Namespace ref \<in> ref_Namespace ` present \<and>
            mk_ref (cr_Kind ref) (cr_Namespace ref) (cr_Name ref) \<notin> present))"
  unfolding dcr.dangling_iff ResolvableCertificateKind_def cert_ref_of_def Let_def
  by (simp only: mk_ref_sel conj_assoc)

text \<open>
  \<open>dangling-gateway-class\<close> reports exactly the Gateways, of either served version, that
  name a class while the context has classes and none of that name.
\<close>

lemma dangling_gateway_class_iff:
  "dgc_checkFunc R ctx obj \<noteq> Some [] \<longleftrightarrow>
     (\<exists>gw. AsGateway (K8sObject obj) = Some gw \<and>
        (let classes = \<Union> (class_entries ` K8sObject ` set (Objects ctx))
         in gw_ClassName gw \<noteq> '''' \<and> classes \<noteq> {} \<and> gw_ClassName gw \<notin> classes))"
proof -
  have mem: "r \<in> set (gateways_of k) \<longleftrightarrow> AsGateway k = Some r" for r k
    by (auto simp: gateways_of_def split: option.splits)
  have unit: "() \<in> (\<lambda>_. ()) ` A \<longleftrightarrow> A \<noteq> {}" for A :: "str set" by auto
  show ?thesis unfolding dgc.dangling_iff Let_def mem unit by (rule refl)
qed

text \<open>
  \<open>dangling-listener-set-parent\<close> reports exactly the ListenerSets whose parentRef names a
  Gateway of a namespace the context has some Gateway of, at any served version, but not that
  one.
\<close>

lemma dangling_listener_set_parent_iff:
  "dls_checkFunc R ctx obj \<noteq> Some [] \<longleftrightarrow>
     (\<exists>ls. K8sObject obj = ListenerSet_v1 ls \<and>
        pg_Group (ls_ParentRef ls) \<in> {None, Some gateway_group} \<and>
        pg_Kind (ls_ParentRef ls) \<in> {None, Some Gateway} \<and> pg_Name (ls_ParentRef ls) \<noteq> '''' \<and>
        (let present = \<Union> (gateway_entries ` K8sObject ` set (Objects ctx)); parent = ListenerSetParent ls
         in ref_Namespace parent \<in> ref_Namespace ` present \<and> parent \<notin> present))"
proof -
  have mem: "r \<in> set (listener_sets_of k) \<longleftrightarrow> k = ListenerSet_v1 r" for r k
    by (cases k) (auto simp: listener_sets_of_def listener_set_of_def)
  show ?thesis
    unfolding dls.dangling_iff Let_def named_gateway_def mem by (simp only: conj_assoc)
qed

text \<open>
  C34: \<open>dangling-policy-target\<close> reports exactly the policies with a target, deprecated or
  current, that names a Gateway, a ListenerSet or a route the context does not index, while
  it indexes another of that kind in the policy's namespace.
\<close>

theorem dangling_policy_target_iff:
  "dpt_checkFunc R ctx obj \<noteq> Some [] \<longleftrightarrow>
     (\<exists>policy ref. K8sObject obj = BackendTrafficPolicy_v1alpha1 policy \<and>
        ref \<in> set_option (btp_TargetRef policy) \<union> set (btp_TargetRefs policy) \<and>
        pol_Group ref \<in> {'''', gateway_group} \<and> pol_Kind ref \<in> set (Gateway # ListenerSet # RouteKinds) \<and>
        (let present = \<Union> (policy_target_entries ` K8sObject ` set (Objects ctx));
             target = mk_ref (pol_Kind ref) (meta_Namespace (btp_Meta policy)) (pol_Name ref)
         in (ref_Kind target, ref_Namespace target) \<in> (\<lambda>r. (ref_Kind r, ref_Namespace r)) ` present \<and>
            target \<notin> present))"
proof (cases "policy_of (K8sObject obj)")
  case None
  then have "policy_refs (K8sObject obj) = []" and "K8sObject obj \<noteq> BackendTrafficPolicy_v1alpha1 p" for p
    by (auto simp: policy_refs_def policy_of_def)
  then show ?thesis unfolding dpt.dangling_iff by simp
next
  case (Some p)
  then have k: "K8sObject obj = BackendTrafficPolicy_v1alpha1 p"
    by (auto simp: policy_of_def split: k8s_object.splits)
  have mem: "r \<in> set (policy_refs (BackendTrafficPolicy_v1alpha1 p)) \<longleftrightarrow>
      r \<in> set_option (btp_TargetRef p) \<union> set (btp_TargetRefs p)" for r
    by (auto simp: policy_refs_def policy_of_def targetRefsOf_def split: option.splits)
  show ?thesis
    unfolding dpt.dangling_iff k mem Let_def judged_target_def target_ref_of_def image_fst_snd
    by (simp only: k8s_object.inject simp_thms ex_simps meta_of.simps conj_assoc)
qed

lemma missing_reference_grant_eq:
  "mrg_checkFunc R ctx obj \<noteq> Some [] \<longleftrightarrow>
     (\<exists>route b. AsRoute (K8sObject obj) = Some route \<and> b \<in> set (rt_BackendRefs route) \<and>
        (let target = backendref_Namespace b (rt_Namespace route)
         in rt_Namespace route \<noteq> '''' \<and> target \<noteq> rt_Namespace route \<and>
            target \<in> (\<lambda>rg. meta_Namespace (rg_Meta rg)) ` grants_of ctx \<and>
            \<not> granted ctx target (rt_Kind route) (rt_Namespace route)
                (backendref_Group b) (backendref_Kind b) (bo_Name (br_Ref b))))"
proof (cases "AsRoute (K8sObject obj)")
  case None
  then have "route_backends (K8sObject obj) = []" by (simp add: route_backends_def)
  with None show ?thesis unfolding mrg.ref_reports_iff by simp
next
  case (Some route)
  then have ns: "rt_Namespace route = GetNamespace (K8sObject obj)" by (simp add: AsRoute_meta)
  have nonempty: "grants_in (grantsByNamespace ctx) n \<noteq> [] \<longleftrightarrow>
      n \<in> (\<lambda>rg. meta_Namespace (rg_Meta rg)) ` grants_of ctx" for n
    unfolding set_empty [symmetric] set_grants_in by blast
  have refs: "route_backends (K8sObject obj) = rt_BackendRefs route"
    by (simp add: route_backends_def Some)
  show ?thesis
    unfolding mrg.ref_reports_iff refs Some permits_granted nonempty Let_def ns [symmetric] mrg_reference_def
    by (simp only: option.inject option.sel reference.simps simp_thms ex_simps)
qed

text \<open>
  C15: \<open>missing-reference-grant\<close> reports exactly the routes that know their own namespace and
  have a backendRef into another one that holds a ReferenceGrant, none of which permits it.
\<close>

theorem missing_reference_grant_iff:
  "mrg_checkFunc R ctx obj \<noteq> Some [] \<longleftrightarrow>
     (\<exists>route b. AsRoute (K8sObject obj) = Some route \<and> b \<in> set (rt_BackendRefs route) \<and>
        (let target = backendref_Namespace b (rt_Namespace route)
         in rt_Namespace route \<noteq> '''' \<and> target \<noteq> rt_Namespace route \<and>
            target \<in> (\<lambda>rg. meta_Namespace (rg_Meta rg)) ` grants_of ctx \<and>
            \<not> granted ctx target (rt_Kind route) (rt_Namespace route)
                (backendref_Group b) (backendref_Kind b) (bo_Name (br_Ref b))))"
  by (rule missing_reference_grant_eq)

text \<open>
  C25: \<open>missing-certificate-grant\<close> reports exactly the objects with a certificateRef of a
  terminating listener into another namespace that holds a Secret or a ReferenceGrant, where
  no grant permits it.
\<close>

theorem missing_certificate_grant_iff:
  "mcg_checkFunc R ctx obj \<noteq> Some [] \<longleftrightarrow>
     (\<exists>ref. ref \<in> set (TerminatingCertificateRefs (K8sObject obj)) \<and>
        cr_Namespace ref \<noteq> GetNamespace (K8sObject obj) \<and>
        cr_Namespace ref \<in> ref_Namespace ` \<Union> (secret_entries ` K8sObject ` set (Objects ctx)) \<union>
          (\<lambda>rg. meta_Namespace (rg_Meta rg)) ` grants_of ctx \<and>
        \<not> granted ctx (cr_Namespace ref) (the (kind_of (K8sObject obj))) (GetNamespace (K8sObject obj))
            (cr_Group ref) (cr_Kind ref) (cr_Name ref))"
proof -
  have described: "describedNamespaces ctx (referenceGrants ctx) =
      ref_Namespace ` \<Union> (secret_entries ` K8sObject ` set (Objects ctx)) \<union>
        (\<lambda>rg. meta_Namespace (rg_Meta rg)) ` grants_of ctx"
    by (simp add: describedNamespaces_def set_referenceGrants secrets_index.index_eq image_image)
  show ?thesis
    unfolding mcg.ref_reports_iff permitted_granted described
    by (rule ex_in_cong) (simp only: TerminatingCertificateRefs_owner mk_ref_sel)
qed

text \<open>
  C26: the two implementations of ReferenceGrant matching decide alike: what one permits for a
  reference by its five facts, the other permits for a certificateRef of those facts.
\<close>

theorem grant_implementations_agree:
  "permitted (referenceGrants ctx) ref \<longleftrightarrow>
     permits (grants_in (grantsByNamespace ctx) (cr_Namespace ref))
       \<lparr>fromKind = ref_Kind (cr_Owner ref), fromNamespace = ref_Namespace (cr_Owner ref),
        toGroup = cr_Group ref, toKind = cr_Kind ref, toName = cr_Name ref\<rparr>"
  by (simp add: permits_granted permitted_granted)


section \<open>What silence means for one reference\<close>

lemma dbr_silentD:
  assumes "dbr_checkFunc R ctx obj = Some []" and "AsRoute (K8sObject obj) = Some route"
    and "b \<in> set (rt_BackendRefs route)" and "ResolvableBackendKind (backendref_Group b) (backendref_Kind b)"
    and "target = mk_ref (backendref_Kind b) (backendref_Namespace b (rt_Namespace route)) (bo_Name (br_Ref b))"
    and "kind_scope target \<in> kind_scope ` BackendTargets ctx"
  shows "target \<in> BackendTargets ctx"
proof (rule ccontr)
  assume "target \<notin> BackendTargets ctx"
  moreover have present: "BackendTargets ctx = \<Union> (backend_entries ` K8sObject ` set (Objects ctx))"
    by (simp add: backends_index.index_eq image_image)
  moreover have "(backendref_Group b, backendref_Kind b) \<in> {('''', ''Service''), (envoy_group, KindBackend)}"
    using assms(4) by (auto simp: ResolvableBackendKind_def split: if_splits)
  ultimately have "(backendref_Group b, backendref_Kind b) \<in> {('''', ''Service''), (envoy_group, KindBackend)} \<and>
      (let present = \<Union> (backend_entries ` K8sObject ` set (Objects ctx));
           target = mk_ref (backendref_Kind b) (backendref_Namespace b (rt_Namespace route)) (bo_Name (br_Ref b))
       in (ref_Kind target, ref_Namespace target) \<in> (\<lambda>r. (ref_Kind r, ref_Namespace r)) ` present \<and> target \<notin> present)"
    using assms(6) unfolding Let_def assms(5) present image_fst_snd by (intro conjI)
  with assms(2,3) have "dbr_checkFunc R ctx obj \<noteq> Some []" unfolding dangling_backend_ref_eq by (elim conjE) (intro exI conjI)
  with assms(1) show False by (rule notE [rotated])
qed

lemma mrg_silentD:
  assumes "mrg_checkFunc R ctx obj = Some []" and "AsRoute (K8sObject obj) = Some route"
    and "b \<in> set (rt_BackendRefs route)" and "ns = backendref_Namespace b (rt_Namespace route)"
    and "rt_Namespace route \<notin> {'''', ns}" and "ns \<in> (\<lambda>rg. meta_Namespace (rg_Meta rg)) ` grants_of ctx"
  shows "granted ctx ns (rt_Kind route) (rt_Namespace route) (backendref_Group b) (backendref_Kind b) (bo_Name (br_Ref b))"
proof (rule ccontr)
  assume "\<not> ?thesis"
  then have "let target = backendref_Namespace b (rt_Namespace route)
      in rt_Namespace route \<noteq> '''' \<and> target \<noteq> rt_Namespace route \<and>
         target \<in> (\<lambda>rg. meta_Namespace (rg_Meta rg)) ` grants_of ctx \<and>
         \<not> granted ctx target (rt_Kind route) (rt_Namespace route)
             (backendref_Group b) (backendref_Kind b) (bo_Name (br_Ref b))"
    using assms(5,6) unfolding assms(4) Let_def by auto
  with assms(2,3) have "mrg_checkFunc R ctx obj \<noteq> Some []" unfolding missing_reference_grant_eq by (intro exI conjI)
  with assms(1) show False by (rule notE [rotated])
qed

end
