(* ===== verification/Checks_Rules.thy ===== *)
theory Checks_Rules
  imports Fixtures
begin

text \<open>
  Four checks of tier 3, which read one route and nothing else: \<open>all-weights-zero\<close>,
  \<open>rule-serves-nothing\<close>, \<open>service-backend-without-port\<close> and \<open>duplicate-rule-name\<close>. The first
  three walk the rules or the backendRefs and are interpretations of \<open>ref_check\<close>; the last
  keeps the names it has reported while it walks.
\<close>

section \<open>all-weights-zero\<close>

definition allWeightsZero :: "Rule \<Rightarrow> bool" where
  "allWeightsZero rule \<longleftrightarrow>
     \<not> list_ex (\<lambda>ref. bo_Weight ref = None \<or> bo_Weight ref \<noteq> Some 0) (ru_BackendRefs rule)"

definition awz_message :: "runtime \<Rightarrow> Route \<Rightarrow> Rule \<Rightarrow> str" where
  "awz_message R route rule =
     rt_Kind route @ '' '' @ quote R (rt_Name route) @ '' '' @ rule_Describe R rule @
     '' sets weight 0 on every one of its '' @ fmt_nat (length (ru_BackendRefs rule)) @
     '' backendRefs, so requests matching the rule are forwarded to none of them''"

definition awz_checkFunc :: check_func where
  "awz_checkFunc R lintCtx object =
     Some (case AsRoute (K8sObject object) of
             None \<Rightarrow> []
           | Some route \<Rightarrow>
               for_append (RulesOf (K8sObject object)) (\<lambda>rule.
                 if length (ru_BackendRefs rule) = 0 \<or> \<not> allWeightsZero rule then []
                 else [\<lparr>Message = awz_message R route rule\<rparr>]))"

definition awz_template :: check_template where
  "awz_template = \<lparr>tm_HumanName = ''All backendRef weights zero'', tm_Key = ''all-weights-zero'',
     tm_Description =
       ''Flag route rules that set weight 0 on every backendRef, '' @
       ''so the rule matches requests and then forwards them to nothing'',
     tm_ObjectKinds = RouteKinds, tm_Check = awz_checkFunc\<rparr>"

section \<open>rule-serves-nothing\<close>

definition terminatingFilters :: "str set" where
  "terminatingFilters = {FilterRequestRedirect, FilterExtensionRef}"

definition servesAResponse :: "Rule \<Rightarrow> bool" where
  "servesAResponse rule \<longleftrightarrow> list_ex (\<lambda>filterType. filterType \<in> terminatingFilters) (ru_Filters rule)"

definition rsn_message :: "runtime \<Rightarrow> Route \<Rightarrow> Rule \<Rightarrow> str" where
  "rsn_message R route rule =
     rt_Kind route @ '' '' @ quote R (rt_Name route) @ '' '' @ rule_Describe R rule @
     '' has no backendRefs and no filter that produces a response, '' @
     ''so requests matching the rule are answered with an error instead of being served''"

definition rsn_checkFunc :: check_func where
  "rsn_checkFunc R lintCtx object =
     Some (case AsRoute (K8sObject object) of
             None \<Rightarrow> []
           | Some route \<Rightarrow>
               for_append (RulesOf (K8sObject object)) (\<lambda>rule.
                 if length (ru_BackendRefs rule) > 0 \<or> servesAResponse rule then []
                 else [\<lparr>Message = rsn_message R route rule\<rparr>]))"

definition rsn_template :: check_template where
  "rsn_template = \<lparr>tm_HumanName = ''Route rule serves nothing'', tm_Key = ''rule-serves-nothing'',
     tm_Description =
       ''Flag route rules with no backendRefs and no filter that produces a response, '' @
       ''so requests matching the rule are answered with an error'',
     tm_ObjectKinds = RouteKinds, tm_Check = rsn_checkFunc\<rparr>"

section \<open>service-backend-without-port\<close>

definition sbp_message :: "runtime \<Rightarrow> Route \<Rightarrow> BackendRef \<Rightarrow> str" where
  "sbp_message R route backendRef =
     rt_Kind route @ '' '' @ quote R (rt_Name route) @ '' routes to Service '' @
     quote R (bo_Name (br_Ref backendRef)) @ '' in namespace '' @
     quote R (backendref_Namespace backendRef (rt_Namespace route)) @
     '' with no port; Gateway API requires a port on a Service backendRef, '' @
     ''so the reference does not resolve and the rule serves errors''"

definition sbp_checkFunc :: check_func where
  "sbp_checkFunc R lintCtx object =
     Some (case AsRoute (K8sObject object) of
             None \<Rightarrow> []
           | Some route \<Rightarrow>
               for_append (rt_BackendRefs route) (\<lambda>backendRef.
                 if backendref_Group backendRef \<noteq> '''' \<or> backendref_Kind backendRef \<noteq> ''Service'' then []
                 else if bo_Port (br_Ref backendRef) \<noteq> None then []
                 else [\<lparr>Message = sbp_message R route backendRef\<rparr>]))"

definition sbp_template :: check_template where
  "sbp_template = \<lparr>tm_HumanName = ''Service backendRef without a port'', tm_Key = ''service-backend-without-port'',
     tm_Description =
       ''Flag routes whose backendRefs name a core Service with no port, which Gateway API '' @
       ''requires, so the reference does not resolve'',
     tm_ObjectKinds = RouteKinds, tm_Check = sbp_checkFunc\<rparr>"

section \<open>duplicate-rule-name\<close>

definition drn_message :: "runtime \<Rightarrow> Route \<Rightarrow> nat \<Rightarrow> str \<Rightarrow> str" where
  "drn_message R route n name =
     rt_Kind route @ '' '' @ quote R (rt_Name route) @ '' has '' @ fmt_nat n @ '' rules named '' @
     quote R name @ ''; a policy targetRef sectionName naming that rule '' @
     ''cannot address one of them unambiguously''"

definition drn_counts :: "str option list \<Rightarrow> (str \<times> nat) list" where
  "drn_counts names =
     count_keys [] (for_append names (\<lambda>name.
       case name of None \<Rightarrow> [] | Some n \<Rightarrow> if n = '''' then [] else [n]))"

fun drn_loop ::
  "runtime \<Rightarrow> Route \<Rightarrow> (str \<times> nat) list \<Rightarrow> str set \<Rightarrow> str option list \<Rightarrow> diagnostic list" where
  "drn_loop R route counts reported [] = []"
| "drn_loop R route counts reported (name # names) =
     (case name of
        None \<Rightarrow> drn_loop R route counts reported names
      | Some n \<Rightarrow>
          if lookup0 counts n < 2 \<or> n \<in> reported then drn_loop R route counts reported names
          else \<lparr>Message = drn_message R route (lookup0 counts n) n\<rparr> #
               drn_loop R route counts (insert n reported) names)"

definition drn_checkFunc :: check_func where
  "drn_checkFunc R lintCtx object =
     Some (case AsRoute (K8sObject object) of
             None \<Rightarrow> []
           | Some route \<Rightarrow>
               let names = RuleNamesOf (K8sObject object)
               in drn_loop R route (drn_counts names) {} names)"

definition drn_template :: check_template where
  "drn_template = \<lparr>tm_HumanName = ''Duplicate Route rule name'', tm_Key = ''duplicate-rule-name'',
     tm_Description =
       ''Flag routes with two rules sharing a name, which a policy targetRef sectionName '' @
       ''cannot then address unambiguously'',
     tm_ObjectKinds = RouteKinds, tm_Check = drn_checkFunc\<rparr>"

section \<open>The checks keep the contract\<close>

lemma rule_messages_tables:
  assumes "same_tables R S"
  shows "awz_message R = awz_message S" "rsn_message R = rsn_message S" "sbp_message R = sbp_message S"
    "drn_message R = drn_message S"
proof -
  from assms have q: "quote R = quote S" and d: "rule_Describe R = rule_Describe S"
    by (rule same_tables_quote, rule same_tables_Describe)
  show "awz_message R = awz_message S" "rsn_message R = rsn_message S" "sbp_message R = sbp_message S"
    "drn_message R = drn_message S"
    by (intro ext, simp only: q d awz_message_def rsn_message_def sbp_message_def drn_message_def)+
qed

lemma RulesOf_off_scope: "kind_of k \<notin> Some ` set RouteKinds \<Longrightarrow> RulesOf k = []"
  by (simp add: AsRoute_None_iff [symmetric] RulesOf_not_route)

interpretation awz: ref_check awz_checkFunc RouteKinds RulesOf
  "\<lambda>ctx k rule. ru_BackendRefs rule \<noteq> [] \<and> allWeightsZero rule"
  "\<lambda>R ctx k rule. awz_message R (the (AsRoute k)) rule"
proof unfold_locales
  fix R ctx and obj :: lint_object
  show "awz_checkFunc R ctx obj = Some (map (\<lambda>rule. \<lparr>Message = awz_message R (the (AsRoute (K8sObject obj))) rule\<rparr>)
      (filter (\<lambda>rule. ru_BackendRefs rule \<noteq> [] \<and> allWeightsZero rule) (RulesOf (K8sObject obj))))"
    by (cases "AsRoute (K8sObject obj)")
      (simp_all add: awz_checkFunc_def RulesOf_not_route for_append_if)
qed (auto simp: rule_messages_tables RulesOf_off_scope)

interpretation rsn: ref_check rsn_checkFunc RouteKinds RulesOf
  "\<lambda>ctx k rule. ru_BackendRefs rule = [] \<and> \<not> servesAResponse rule"
  "\<lambda>R ctx k rule. rsn_message R (the (AsRoute k)) rule"
proof unfold_locales
  fix R ctx and obj :: lint_object
  show "rsn_checkFunc R ctx obj = Some (map (\<lambda>rule. \<lparr>Message = rsn_message R (the (AsRoute (K8sObject obj))) rule\<rparr>)
      (filter (\<lambda>rule. ru_BackendRefs rule = [] \<and> \<not> servesAResponse rule) (RulesOf (K8sObject obj))))"
    by (cases "AsRoute (K8sObject obj)")
      (simp_all add: rsn_checkFunc_def RulesOf_not_route for_append_if)
qed (auto simp: rule_messages_tables RulesOf_off_scope)

interpretation sbp: ref_check sbp_checkFunc RouteKinds route_backends
  "\<lambda>ctx k b. backendref_Group b = '''' \<and> backendref_Kind b = ''Service'' \<and> bo_Port (br_Ref b) = None"
  "\<lambda>R ctx k b. sbp_message R (the (AsRoute k)) b"
proof unfold_locales
  fix R ctx and obj :: lint_object
  let ?reports = "\<lambda>b. backendref_Group b = '''' \<and> backendref_Kind b = ''Service'' \<and> bo_Port (br_Ref b) = None"
  show "sbp_checkFunc R ctx obj = Some (map (\<lambda>b. \<lparr>Message = sbp_message R (the (AsRoute (K8sObject obj))) b\<rparr>)
      (filter ?reports (route_backends (K8sObject obj))))"
    by (cases "AsRoute (K8sObject obj)")
      (simp_all add: sbp_checkFunc_def route_backends_def for_append_guarded [where P = ?reports])
qed (auto simp: rule_messages_tables route_backends_scope)

section \<open>Names that occur twice\<close>

text \<open>The names of at least two rules, in the order they first occur.\<close>

definition repeated_names :: "str option list \<Rightarrow> str list" where
  "repeated_names names =
     rev (remdups (rev (filter (\<lambda>n. n \<noteq> '''' \<and> 2 \<le> count_list names (Some n))
       (for_append names (\<lambda>name. case name of None \<Rightarrow> [] | Some n \<Rightarrow> [n])))))"

lemma count_named:
  "n \<noteq> '''' \<Longrightarrow> count_list (for_append names (\<lambda>name.
       case name of None \<Rightarrow> [] | Some n \<Rightarrow> if n = '''' then [] else [n])) n = count_list names (Some n)"
  by (induction names) (auto split: option.splits)

lemma drn_count: "lookup0 (drn_counts names) n = (if n = '''' then 0 else count_list names (Some n))"
proof (cases "n = ''''")
  case True
  have "'''' \<notin> set (for_append names (\<lambda>name. case name of None \<Rightarrow> [] | Some n \<Rightarrow> if n = '''' then [] else [n]))"
    by (auto split: option.splits if_splits)
  with True show ?thesis by (simp add: drn_counts_def lookup0_count_keys count_list_0_iff)
next
  case False
  then show ?thesis unfolding drn_counts_def lookup0_count_keys by (simp add: count_named)
qed

lemma rev_remdups_rev_Cons:
  "rev (remdups (rev (x # xs))) = x # filter (\<lambda>y. y \<noteq> x) (rev (remdups (rev xs)))"
proof -
  have "remdups (ys @ [x]) = filter (\<lambda>y. y \<noteq> x) (remdups ys) @ [x]" for ys
    by (induction ys) auto
  then show ?thesis by (simp add: rev_filter)
qed

lemma drn_loop_eq:
  "drn_loop R route counts reported names =
     map (\<lambda>n. \<lparr>Message = drn_message R route (lookup0 counts n) n\<rparr>)
       (filter (\<lambda>n. n \<notin> reported) (rev (remdups (rev (filter (\<lambda>n. 2 \<le> lookup0 counts n)
          (for_append names (\<lambda>name. case name of None \<Rightarrow> [] | Some n \<Rightarrow> [n])))))))"
proof (induction names arbitrary: reported)
  case Nil
  then show ?case by simp
next
  case (Cons name names)
  show ?case
  proof (cases name)
    case (Some n)
    show ?thesis
    proof (cases "2 \<le> lookup0 counts n")
      case True
      with Cons Some show ?thesis
        by (auto simp only: drn_loop.simps option.case concat.simps list.map append.simps filter.simps if_True
            rev_remdups_rev_Cons filter_filter)
          (auto intro!: filter_cong arg_cong [where f = "map _"])
    qed (use Cons Some in simp)
  qed (use Cons in simp)
qed

lemma drn_run:
  "drn_loop R route (drn_counts names) {} names =
     map (\<lambda>n. \<lparr>Message = drn_message R route (lookup0 (drn_counts names) n) n\<rparr>) (repeated_names names)"
proof -
  have "2 \<le> lookup0 (drn_counts names) n \<longleftrightarrow> n \<noteq> '''' \<and> 2 \<le> count_list names (Some n)" for n
    by (simp add: drn_count)
  then show ?thesis unfolding drn_loop_eq repeated_names_def by (simp only: empty_iff not_False_eq_True filter_True ball_triv simp_thms)
qed

interpretation drn: route_check drn_checkFunc
  "\<lambda>R ctx k route. map (\<lambda>n. \<lparr>Message = drn_message R route (lookup0 (drn_counts (RuleNamesOf k)) n) n\<rparr>)
     (repeated_names (RuleNamesOf k))"
proof
  fix R ctx obj
  show "drn_checkFunc R ctx obj = Some (case AsRoute (K8sObject obj) of None \<Rightarrow> []
      | Some route \<Rightarrow> map (\<lambda>n. \<lparr>Message = drn_message R route
            (lookup0 (drn_counts (RuleNamesOf (K8sObject obj))) n) n\<rparr>)
          (repeated_names (RuleNamesOf (K8sObject obj))))"
    unfolding drn_checkFunc_def Let_def drn_run by (rule refl)
qed (simp add: rule_messages_tables fun_eq_iff)

section \<open>Properties\<close>

text \<open>
  \<open>all-weights-zero\<close> and \<open>rule-serves-nothing\<close> give one finding per rule, in spec order:
  the first on the rules whose backendRefs, at least one, all state weight 0; the second on
  the rules with no backendRefs and no filter that answers by itself. They share no rule.
\<close>

lemma idle_rule_findings:
  "awz_checkFunc R ctx obj =
     Some (map (\<lambda>rule. \<lparr>Message = awz_message R (the (AsRoute (K8sObject obj))) rule\<rparr>)
       (filter (\<lambda>rule. bo_Weight ` set (ru_BackendRefs rule) = {Some 0}) (RulesOf (K8sObject obj)))) \<and>
   rsn_checkFunc R ctx obj =
     Some (map (\<lambda>rule. \<lparr>Message = rsn_message R (the (AsRoute (K8sObject obj))) rule\<rparr>)
       (filter (\<lambda>rule. ru_BackendRefs rule = [] \<and>
          {''RequestRedirect'', ''ExtensionRef''} \<inter> set (ru_Filters rule) = {}) (RulesOf (K8sObject obj))))"
proof -
  have "ru_BackendRefs rule \<noteq> [] \<and> allWeightsZero rule \<longleftrightarrow> bo_Weight ` set (ru_BackendRefs rule) = {Some 0}" for rule
  proof -
    have "f ` A = {c} \<longleftrightarrow> A \<noteq> {} \<and> (\<forall>x\<in>A. f x = c)" for f :: "backend_object \<Rightarrow> int32 option" and A c
      by auto
    then show ?thesis by (auto simp: allWeightsZero_def list_ex_iff)
  qed
  moreover have "\<not> servesAResponse rule \<longleftrightarrow> {''RequestRedirect'', ''ExtensionRef''} \<inter> set (ru_Filters rule) = {}" for rule
    by (auto simp: servesAResponse_def list_ex_iff terminatingFilters_def FilterRequestRedirect_def FilterExtensionRef_def)
  ultimately show ?thesis by (simp only: awz.check_refs rsn.check_refs)
qed

text \<open>
  \<open>duplicate-rule-name\<close> reports each name borne by at least two rules exactly once, with
  the number of rules that bear it; an unnamed or empty-named rule counts for nothing.
\<close>

lemma duplicate_rule_name_findings:
  "drn_checkFunc R ctx obj =
     Some (case AsRoute (K8sObject obj) of
             None \<Rightarrow> []
           | Some route \<Rightarrow>
               map (\<lambda>n. \<lparr>Message = drn_message R route (count_list (RuleNamesOf (K8sObject obj)) (Some n)) n\<rparr>)
                 (repeated_names (RuleNamesOf (K8sObject obj)))) \<and>
   distinct (repeated_names (RuleNamesOf (K8sObject obj))) \<and>
   set (repeated_names (RuleNamesOf (K8sObject obj))) =
     {n. n \<noteq> '''' \<and> 2 \<le> count_list (RuleNamesOf (K8sObject obj)) (Some n)}"
proof -
  let ?names = "RuleNamesOf (K8sObject obj)"
  have mem: "n \<in> set (for_append names (\<lambda>name. case name of None \<Rightarrow> [] | Some n \<Rightarrow> [n])) \<longleftrightarrow> Some n \<in> set names" for n names
    by (auto split: option.splits)
  have pos: "2 \<le> count_list names x \<Longrightarrow> x \<in> set names" for names and x :: "str option"
    by (metis count_list_0_iff not_numeral_le_zero)
  have members: "set (repeated_names ?names) = {n. n \<noteq> '''' \<and> 2 \<le> count_list ?names (Some n)}"
    unfolding repeated_names_def using pos by (auto simp: mem simp del: set_concat)
  have "map (\<lambda>n. \<lparr>Message = drn_message R route (lookup0 (drn_counts ?names) n) n\<rparr>) (repeated_names ?names) =
      map (\<lambda>n. \<lparr>Message = drn_message R route (count_list ?names (Some n)) n\<rparr>) (repeated_names ?names)" for route
    using members by (intro map_cong) (auto simp: drn_count)
  moreover have "distinct (repeated_names ?names)" by (simp add: repeated_names_def)
  ultimately show ?thesis
    using members unfolding drn.check_route by (simp only: simp_thms)
qed

text \<open>
  \<open>service-backend-without-port\<close> reports exactly the routes with a backendRef to a core
  Service that gives no port; the group defaults to core and the kind to Service.
\<close>

lemma service_without_port_iff:
  "sbp_checkFunc R ctx obj \<noteq> Some [] \<longleftrightarrow>
     (\<exists>route b. AsRoute (K8sObject obj) = Some route \<and> b \<in> set (rt_BackendRefs route) \<and>
        bo_Group (br_Ref b) \<in> {None, Some ''''} \<and> bo_Kind (br_Ref b) \<in> {None, Some ''Service''} \<and>
        bo_Port (br_Ref b) = None)"
proof -
  have "backendref_Group b = '''' \<and> backendref_Kind b = ''Service'' \<and> bo_Port (br_Ref b) = None \<longleftrightarrow>
      bo_Group (br_Ref b) \<in> {None, Some ''''} \<and> bo_Kind (br_Ref b) \<in> {None, Some ''Service''} \<and>
      bo_Port (br_Ref b) = None" for b
    by (auto simp: backendref_Group_def backendref_Kind_def split: option.splits)
  then show ?thesis
    unfolding sbp.ref_reports_iff route_backends_def
    by (cases "AsRoute (K8sObject obj)") (simp_all only: option.case option.inject, auto)
qed

end
