(* ===== verification/Route_Match.thy ===== *)
theory Route_Match
  imports Parents
begin

text \<open>
  \<open>pkg/gatewayapi/routematch.go\<close>: an HTTPRouteMatch flattened to a string key, so that two
  matches can be compared for equality. The specification is \<open>selection\<close>, the requests a
  match selects: path type and value, method, and the headers and query parameters without
  their order, header names without their case. The key determines the selection as long as no
  field holds one of the characters the key separates fields with.
\<close>

record HTTPMatch =
  hmt_Key :: str
  hmt_Describe :: str

definition matchNoun :: "nat \<Rightarrow> str" where
  "matchNoun n = (if n = 1 then ''match'' else ''matches'')"

definition header_key :: "runtime \<Rightarrow> value_match \<Rightarrow> str" where
  "header_key R h =
     (case vm_Type h of None \<Rightarrow> MatchExact | Some t \<Rightarrow> t) @ '':'' @ ToLower R (vm_Name h) @ '':'' @ vm_Value h"

definition param_key :: "value_match \<Rightarrow> str" where
  "param_key q =
     (case vm_Type q of None \<Rightarrow> MatchExact | Some t \<Rightarrow> t) @ '':'' @ vm_Name q @ '':'' @ vm_Value q"

definition canonicalHTTPMatch :: "runtime \<Rightarrow> http_route_match \<Rightarrow> HTTPMatch" where
  "canonicalHTTPMatch R m =
     (let pathType = (case hm_Path m of
            None \<Rightarrow> PathMatchPathPrefix
          | Some p \<Rightarrow> (case pm_Type p of None \<Rightarrow> PathMatchPathPrefix | Some t \<Rightarrow> t));
          pathValue = (case hm_Path m of
            None \<Rightarrow> ''/'' | Some p \<Rightarrow> (case pm_Value p of None \<Rightarrow> ''/'' | Some v \<Rightarrow> v));
          headers = sort_strings (map (header_key R) (hm_Headers m));
          params = sort_strings (map param_key (hm_QueryParams m))
      in \<lparr>hmt_Key = Join
            ([''path='' @ pathType @ '':'' @ pathValue] @
             (case hm_Method m of None \<Rightarrow> [] | Some meth \<Rightarrow> [''method='' @ meth]) @
             (if length headers > 0 then [''headers='' @ Join headers '',''] else []) @
             (if length params > 0 then [''query='' @ Join params '',''] else [])) '';'',
          hmt_Describe =
            pathType @ '' '' @ quote R pathValue @
            (case hm_Method m of None \<Rightarrow> '''' | Some meth \<Rightarrow> '' and method '' @ meth) @
            (if length headers > 0
             then '' and '' @ fmt_nat (length headers) @ '' header '' @ matchNoun (length headers) else '''') @
            (if length params > 0
             then '' and '' @ fmt_nat (length params) @ '' query parameter '' @ matchNoun (length params)
             else '''')\<rparr>)"

definition empty_match :: http_route_match where
  "empty_match = \<lparr>hm_Path = None, hm_Method = None, hm_Headers = [], hm_QueryParams = []\<rparr>"

definition HTTPMatchesOf :: "runtime \<Rightarrow> k8s_object \<Rightarrow> HTTPMatch list option" where
  "HTTPMatchesOf R obj =
     (case (case obj of
              HTTPRoute_v1 route \<Rightarrow> Some (http_Rules route)
            | HTTPRoute_v1beta1 route \<Rightarrow> Some (http_Rules route)
            | _ \<Rightarrow> None) of
        None \<Rightarrow> None
      | Some rules \<Rightarrow>
          Some (for_append rules (\<lambda>rule.
            if length (hr_Matches rule) = 0 then [canonicalHTTPMatch R empty_match]
            else map (canonicalHTTPMatch R) (hr_Matches rule))))"

section \<open>What a match selects\<close>

type_synonym selection =
  "str \<times> str \<times> str option \<times> (str \<times> str \<times> str) multiset \<times> (str \<times> str \<times> str) multiset"

definition match_type :: "value_match \<Rightarrow> str" where
  "match_type v = (case vm_Type v of None \<Rightarrow> MatchExact | Some t \<Rightarrow> t)"

definition path_type_of :: "http_route_match \<Rightarrow> str" where
  "path_type_of m = (case hm_Path m of None \<Rightarrow> PathMatchPathPrefix
     | Some p \<Rightarrow> (case pm_Type p of None \<Rightarrow> PathMatchPathPrefix | Some t \<Rightarrow> t))"

definition path_value_of :: "http_route_match \<Rightarrow> str" where
  "path_value_of m = (case hm_Path m of None \<Rightarrow> ''/''
     | Some p \<Rightarrow> (case pm_Value p of None \<Rightarrow> ''/'' | Some v \<Rightarrow> v))"

definition header_facts :: "runtime \<Rightarrow> http_route_match \<Rightarrow> (str \<times> str \<times> str) list" where
  "header_facts R m = map (\<lambda>h. (match_type h, ToLower R (vm_Name h), vm_Value h)) (hm_Headers m)"

definition param_facts :: "http_route_match \<Rightarrow> (str \<times> str \<times> str) list" where
  "param_facts m = map (\<lambda>q. (match_type q, vm_Name q, vm_Value q)) (hm_QueryParams m)"

definition selection_of :: "runtime \<Rightarrow> http_route_match \<Rightarrow> selection" where
  "selection_of R m =
     (path_type_of m, path_value_of m, hm_Method m, mset (header_facts R m), mset (param_facts m))"

definition fact_key :: "str \<times> str \<times> str \<Rightarrow> str" where
  "fact_key f = fst f @ '':'' @ fst (snd f) @ '':'' @ snd (snd f)"

definition key_parts :: "runtime \<Rightarrow> http_route_match \<Rightarrow> str list" where
  "key_parts R m =
     [''path='' @ path_type_of m @ '':'' @ path_value_of m] @
     (case hm_Method m of None \<Rightarrow> [] | Some meth \<Rightarrow> [''method='' @ meth]) @
     (if header_facts R m = [] then []
      else [''headers='' @ Join (sort_strings (map fact_key (header_facts R m))) '','']) @
     (if param_facts m = [] then []
      else [''query='' @ Join (sort_strings (map fact_key (param_facts m))) '',''])"

lemma Key_parts: "hmt_Key (canonicalHTTPMatch R m) = Join (key_parts R m) '';''"
proof -
  have h: "map (header_key R) hs = map fact_key (map (\<lambda>h. (match_type h, ToLower R (vm_Name h), vm_Value h)) hs)"
    and q: "map param_key hs = map fact_key (map (\<lambda>q. (match_type q, vm_Name q, vm_Value q)) hs)" for hs
    by (simp_all add: header_key_def param_key_def fact_key_def match_type_def)
  show ?thesis
    unfolding canonicalHTTPMatch_def Let_def HTTPMatch.select_convs h q key_parts_def path_type_of_def
      path_value_of_def header_facts_def param_facts_def
    by (simp only: length_sort_strings length_map length_greater_0_conv map_is_Nil_conv if_not_P split: if_split) auto
qed

text \<open>Matches that select the same requests have the same key, whatever their fields hold.\<close>

lemma selection_determines_key:
  assumes "selection_of R m = selection_of R m'"
  shows "hmt_Key (canonicalHTTPMatch R m) = hmt_Key (canonicalHTTPMatch R m')"
proof -
  have eqs: "path_type_of m = path_type_of m'" "path_value_of m = path_value_of m'" "hm_Method m = hm_Method m'"
    "mset (header_facts R m) = mset (header_facts R m')" "mset (param_facts m) = mset (param_facts m')"
    using assms by (simp_all add: selection_of_def)
  have srt: "sort_strings (map fact_key xs) = sort_strings (map fact_key ys)" and nil: "xs = [] \<longleftrightarrow> ys = []"
    if "mset xs = mset ys" for xs ys
    using that by (auto intro: sort_strings_perm)
  show ?thesis
    unfolding Key_parts key_parts_def
    using srt [OF eqs(4)] nil [OF eqs(4)] srt [OF eqs(5)] nil [OF eqs(5)] eqs(1-3) by simp
qed

section \<open>The key determines the selection\<close>

lemma split_at_sep:
  "c \<notin> set xs \<Longrightarrow> c \<notin> set ys \<Longrightarrow> xs @ c # r = ys @ c # s \<longleftrightarrow> xs = ys \<and> r = s"
  by (induction xs arbitrary: ys) (case_tac ys; auto)+

lemma Join_Cons: "zs \<noteq> [] \<Longrightarrow> Join (x # zs) sep = x @ sep @ Join zs sep"
  by (cases zs) auto

lemma Join_inj:
  assumes "xs \<noteq> []" and "ys \<noteq> []" and "\<And>x. x \<in> set xs \<Longrightarrow> c \<notin> set x" and "\<And>y. y \<in> set ys \<Longrightarrow> c \<notin> set y"
    and "Join xs [c] = Join ys [c]"
  shows "xs = ys"
  using assms
proof (induction xs arbitrary: ys)
  case Nil
  then show ?case by simp
next
  case (Cons x xs)
  then obtain y zs where ys: "ys = y # zs" by (cases ys) auto
  have cx: "c \<notin> set x" and cy: "c \<notin> set y" using Cons.prems(3,4) ys by auto
  have in_x: "c \<in> set (x @ [c] @ w)" and in_y: "c \<in> set (y @ [c] @ w)" for w by auto
  show ?case
  proof (cases "xs = []"; cases "zs = []")
    assume "xs = []" "zs = []"
    with Cons.prems(5) ys show ?thesis by simp
  next
    assume "xs = []" "zs \<noteq> []"
    then have "x = y @ [c] @ Join zs [c]" using Cons.prems(5) ys by (simp add: Join_Cons)
    with cx in_y show ?thesis by metis
  next
    assume "xs \<noteq> []" "zs = []"
    then have "y = x @ [c] @ Join xs [c]" using Cons.prems(5) ys by (simp add: Join_Cons)
    with cy in_x show ?thesis by metis
  next
    assume ne: "xs \<noteq> []" "zs \<noteq> []"
    then have "x @ c # Join xs [c] = y @ c # Join zs [c]"
      using Cons.prems(5) ys by (simp add: Join_Cons)
    then have "x = y" and "Join xs [c] = Join zs [c]" using split_at_sep [OF cx cy] by auto
    with Cons.IH [OF ne] Cons.prems(3,4) ys show ?thesis by auto
  qed
qed

definition clean_fact :: "str \<times> str \<times> str \<Rightarrow> bool" where
  "clean_fact f \<longleftrightarrow> CHR '':'' \<notin> set (fst f) \<union> set (fst (snd f)) \<and>
     {CHR '','', CHR '';''} \<inter> set (fact_key f) = {}"

definition clean_match :: "runtime \<Rightarrow> http_route_match \<Rightarrow> bool" where
  "clean_match R m \<longleftrightarrow>
     CHR '':'' \<notin> set (path_type_of m) \<and>
     CHR '';'' \<notin> set (path_type_of m) \<union> set (path_value_of m) \<union> \<Union> (set ` set_option (hm_Method m)) \<and>
     list_all clean_fact (header_facts R m) \<and> list_all clean_fact (param_facts m)"

lemma fact_key_inj: "inj_on fact_key (Collect clean_fact)"
proof (rule inj_onI)
  fix f g
  assume "f \<in> Collect clean_fact" "g \<in> Collect clean_fact" and eq: "fact_key f = fact_key g"
  then have "CHR '':'' \<notin> set (fst f)" "CHR '':'' \<notin> set (fst g)"
    "CHR '':'' \<notin> set (fst (snd f))" "CHR '':'' \<notin> set (fst (snd g))"
    by (auto simp: clean_fact_def)
  with eq show "f = g"
    by (cases f; cases g) (simp add: fact_key_def split_at_sep)
qed

lemma facts_determined:
  assumes "list_all clean_fact xs" and "list_all clean_fact ys" and "xs \<noteq> []" and "ys \<noteq> []"
    and "Join (sort_strings (map fact_key xs)) '','' = Join (sort_strings (map fact_key ys)) '',''"
  shows "mset xs = mset ys"
proof -
  have nosep: "CHR '','' \<notin> set s" if "s \<in> set (sort_strings (map fact_key zs))" "list_all clean_fact zs" for s zs
    using that by (auto simp: clean_fact_def list_all_iff)
  have ne: "zs \<noteq> [] \<Longrightarrow> sort_strings (map fact_key zs) \<noteq> []" for zs
    by (metis length_0_conv length_map length_sort_strings)
  have "sort_strings (map fact_key xs) = sort_strings (map fact_key ys)"
    using assms nosep ne by (intro Join_inj [of _ _ "CHR '',''"]) blast+
  then have "mset (sort_strings (map fact_key xs)) = mset (sort_strings (map fact_key ys))"
    by (rule arg_cong)
  then have "image_mset fact_key (mset xs) = image_mset fact_key (mset ys)"
    by simp
  moreover have "inj_on fact_key (set_mset (mset xs) \<union> set_mset (mset ys))"
    using assms(1,2) by (intro inj_on_subset [OF fact_key_inj]) (auto simp: list_all_iff)
  ultimately show ?thesis
    using image_mset_eq_image_mset_plusD [of fact_key "mset xs" "mset ys" "{#}"] by auto
qed

lemma parts_no_semicolon:
  assumes "clean_match R m" and "part \<in> set (key_parts R m)"
  shows "CHR '';'' \<notin> set part"
proof -
  have join: "CHR '';'' \<notin> set (Join (sort_strings (map fact_key fs)) '','')" if "list_all clean_fact fs" for fs
  proof -
    have "set (Join xs '','') \<subseteq> insert CHR '','' (\<Union> (set ` set xs))" for xs
      by (induction xs rule: induct_list012) auto
    with that show ?thesis by (fastforce simp: clean_fact_def list_all_iff)
  qed
  from assms show ?thesis
    using join by (auto simp: key_parts_def clean_match_def split: option.splits if_splits)
qed

text \<open>
  C12: two matches get the same key exactly when they select the same requests, provided none
  of their fields holds a character the key uses as a separator.
\<close>

theorem match_key_faithful:
  assumes "clean_match R m" and "clean_match R m'"
  shows "hmt_Key (canonicalHTTPMatch R m) = hmt_Key (canonicalHTTPMatch R m') \<longleftrightarrow>
    selection_of R m = selection_of R m'"
proof
  assume "hmt_Key (canonicalHTTPMatch R m) = hmt_Key (canonicalHTTPMatch R m')"
  then have "Join (key_parts R m) [CHR '';''] = Join (key_parts R m') [CHR '';'']"
    by (simp add: Key_parts)
  then have parts: "key_parts R m = key_parts R m'"
    using assms parts_no_semicolon by (intro Join_inj [of _ _ "CHR '';''"]) (auto simp: key_parts_def)
  have "path_type_of m @ CHR '':'' # path_value_of m = path_type_of m' @ CHR '':'' # path_value_of m'"
    using parts by (simp add: key_parts_def)
  moreover have "CHR '':'' \<notin> set (path_type_of m)" "CHR '':'' \<notin> set (path_type_of m')"
    using assms by (simp_all add: clean_match_def)
  ultimately have path: "path_type_of m = path_type_of m'" "path_value_of m = path_value_of m'"
    by (simp_all add: split_at_sep)
  have meth: "hm_Method m = hm_Method m'"
    and nils: "header_facts R m = [] \<longleftrightarrow> header_facts R m' = []" "param_facts m = [] \<longleftrightarrow> param_facts m' = []"
    and joins: "header_facts R m \<noteq> [] \<Longrightarrow> Join (sort_strings (map fact_key (header_facts R m))) '','' =
        Join (sort_strings (map fact_key (header_facts R m'))) '',''"
      "param_facts m \<noteq> [] \<Longrightarrow> Join (sort_strings (map fact_key (param_facts m))) '','' =
        Join (sort_strings (map fact_key (param_facts m'))) '',''"
    using parts by (auto simp: key_parts_def split: option.splits if_splits)
  have "mset (header_facts R m) = mset (header_facts R m')" "mset (param_facts m) = mset (param_facts m')"
    using assms nils joins facts_determined by (auto simp: clean_match_def)
  with path meth show "selection_of R m = selection_of R m'" by (simp add: selection_of_def)
qed (rule selection_determines_key)

definition with_headers :: "(str \<times> str) list \<Rightarrow> http_route_match" where
  "with_headers hs = empty_match\<lparr>hm_Headers := map (\<lambda>(n, v). \<lparr>vm_Type = None, vm_Name = n, vm_Value = v\<rparr>) hs\<rparr>"

lemma two_headers_clean:
  "clean_match forward_runtime (with_headers [(''x-a'', ''1''), (''X-B'', ''2'')])"
  "clean_match forward_runtime (with_headers [(''x-b'', ''2''), (''X-a'', ''1'')])"
  "selection_of forward_runtime (with_headers [(''x-a'', ''1''), (''X-B'', ''2'')]) =
   selection_of forward_runtime (with_headers [(''x-b'', ''2''), (''X-a'', ''1'')])"
  by code_simp+

theorem match_key_faithful_witness:
  "hmt_Key (canonicalHTTPMatch forward_runtime (with_headers [(''x-a'', ''1''), (''X-B'', ''2'')])) =
   hmt_Key (canonicalHTTPMatch forward_runtime (with_headers [(''x-b'', ''2''), (''X-a'', ''1'')]))"
  by (simp only: match_key_faithful [OF two_headers_clean(1,2)] two_headers_clean(3))

text \<open>
  Without that proviso two matches that select different requests can share a key: a
  match on one header whose value spells out a second header has the key of the match on both.
  The comment on \<open>HTTPMatch.Key\<close> promises the opposite.
\<close>

lemma match_key_collides:
  "hmt_Key (canonicalHTTPMatch forward_runtime (with_headers [(''a'', ''1,Exact:b:2'')])) =
   hmt_Key (canonicalHTTPMatch forward_runtime (with_headers [(''a'', ''1''), (''b'', ''2'')])) \<and>
   selection_of forward_runtime (with_headers [(''a'', ''1,Exact:b:2'')]) \<noteq>
   selection_of forward_runtime (with_headers [(''a'', ''1''), (''b'', ''2'')])"
proof
  show "hmt_Key (canonicalHTTPMatch forward_runtime (with_headers [(''a'', ''1,Exact:b:2'')])) =
    hmt_Key (canonicalHTTPMatch forward_runtime (with_headers [(''a'', ''1''), (''b'', ''2'')]))"
    unfolding Key_parts by code_simp
  show "selection_of forward_runtime (with_headers [(''a'', ''1,Exact:b:2'')]) \<noteq>
    selection_of forward_runtime (with_headers [(''a'', ''1''), (''b'', ''2'')])"
    by code_simp
qed

end
