(* ===== verification/Conflicting_Route_Match.thy ===== *)
theory Conflicting_Route_Match
  imports Fixtures Route_Match "HOL-Library.Product_Lexorder"
begin

text \<open>
  The check \<open>conflicting-route-match\<close> of tier 3: two HTTPRoutes claiming the same hostname and
  match on a shared listener, with no creation time to separate them. The attachments of a
  route are a Go map that \<open>conflict\<close> ranges over and then sorts by \<open>attachmentLess\<close>, which is
  the linear order of the type \<open>attachment\<close>, so the finding does not depend on the map order.
\<close>

record candidate =
  ca_id :: ObjectRef
  ca_route :: Route
  ca_matches :: "HTTPMatch list"
  ca_createdAt :: int
  ca_hasCreated :: bool

datatype attachment = Attachment (at_owner: ObjectRef) (at_listener: str)

text \<open>\<open>time.Time{}.Unix()\<close>, what an absent creationTimestamp reads as.\<close>

definition zero_unix :: int where
  "zero_unix = - 62135596800"

definition asCandidate :: "runtime \<Rightarrow> lint_object \<Rightarrow> candidate option" where
  "asCandidate R object =
     (case AsRoute (K8sObject object) of
        None \<Rightarrow> None
      | Some route \<Rightarrow>
          (case HTTPMatchesOf R (K8sObject object) of
             None \<Rightarrow> None
           | Some matches \<Rightarrow>
               if length matches = 0 then None
               else let created = meta_Created (meta_of (K8sObject object)) in
                 Some \<lparr>ca_id = mk_ref (rt_Kind route) (rt_Namespace route) (rt_Name route),
                       ca_route = route, ca_matches = matches,
                       ca_createdAt = (case created of Some t \<Rightarrow> t | None \<Rightarrow> zero_unix),
                       ca_hasCreated = (created \<noteq> None)\<rparr>))"

definition separatedByAge :: "candidate \<Rightarrow> candidate \<Rightarrow> bool" where
  "separatedByAge a b \<longleftrightarrow> ca_hasCreated a \<and> ca_hasCreated b \<and> ca_createdAt a \<noteq> ca_createdAt b"

definition sortsBefore :: "ObjectRef \<Rightarrow> ObjectRef \<Rightarrow> bool" where
  "sortsBefore a b \<longleftrightarrow>
     (if ref_Namespace a \<noteq> ref_Namespace b then ref_Namespace a < ref_Namespace b
      else ref_Name a < ref_Name b)"

definition attach_listener ::
  "Route \<Rightarrow> Parent \<Rightarrow> (attachment \<times> Listener) list \<Rightarrow> Listener \<Rightarrow> (attachment \<times> Listener) list" where
  "attach_listener route parent found l =
     (if par_Section parent \<noteq> None \<and> par_Section parent \<noteq> Some (li_Name l) then found
      else if \<not> fst (AcceptsKind l HTTPRoute) then found
      else if \<not> AcceptsNamespace l (rt_Namespace route) then found
      else AList.update (Attachment (parent_ref parent) (li_Name l)) l found)"

definition attachmentsOf :: "Route \<Rightarrow> owner_index \<Rightarrow> (attachment \<times> Listener) list" where
  "attachmentsOf route listenersByOwner =
     foldl (\<lambda>found parent.
       if par_Group parent \<noteq> gateway_group then found
       else foldl (attach_listener route parent) found (owned_by listenersByOwner (parent_ref parent)))
       [] (ParentsOf route)"

definition attachmentLess :: "attachment \<Rightarrow> attachment \<Rightarrow> bool" where
  "attachmentLess a b \<longleftrightarrow>
     (if at_owner a \<noteq> at_owner b then
        (if ref_Namespace (at_owner a) \<noteq> ref_Namespace (at_owner b)
         then ref_Namespace (at_owner a) < ref_Namespace (at_owner b)
         else if ref_Name (at_owner a) \<noteq> ref_Name (at_owner b)
         then ref_Name (at_owner a) < ref_Name (at_owner b)
         else ref_Kind (at_owner a) < ref_Kind (at_owner b))
      else at_listener a < at_listener b)"

instantiation attachment :: linorder
begin

definition less_attachment :: "attachment \<Rightarrow> attachment \<Rightarrow> bool" where
  "less_attachment = attachmentLess"

definition less_eq_attachment :: "attachment \<Rightarrow> attachment \<Rightarrow> bool" where
  "less_eq_attachment a b \<longleftrightarrow> a = b \<or> attachmentLess a b"

lemma object_ref_eqI:
  "ref_Namespace r = ref_Namespace s \<Longrightarrow> ref_Name r = ref_Name s \<Longrightarrow> ref_Kind r = ref_Kind s \<Longrightarrow> r = s"
  for r s :: ObjectRef
  by (cases r; cases s) simp

definition attachment_key :: "attachment \<Rightarrow> str \<times> str \<times> str \<times> str" where
  "attachment_key a = (ref_Namespace (at_owner a), ref_Name (at_owner a), ref_Kind (at_owner a), at_listener a)"

lemma attachment_key_eq: "attachment_key a = attachment_key b \<longleftrightarrow> a = b"
  using object_ref_eqI [of "at_owner a" "at_owner b"] by (cases a; cases b) (auto simp: attachment_key_def)

lemma attachmentLess_key: "attachmentLess a b \<longleftrightarrow> attachment_key a < attachment_key b"
  using object_ref_eqI [of "at_owner a" "at_owner b"]
  by (auto simp: attachmentLess_def attachment_key_def less_prod_def')

instance
  by standard
    (auto simp: less_attachment_def less_eq_attachment_def attachmentLess_key attachment_key_eq [symmetric]
      simp del: attachment_key_eq)

end

definition contestedHostnames :: "str list \<Rightarrow> str list \<Rightarrow> str list" where
  "contestedHostnames mine theirs =
     (if length mine = 0 \<and> length theirs = 0 then ['''']
      else if length mine = 0 \<or> length theirs = 0 then []
      else sort_strings (for_append mine (\<lambda>h. if h \<in> set theirs then [h] else [])))"

fun identicalMatch_loop :: "str set \<Rightarrow> HTTPMatch option \<Rightarrow> HTTPMatch list \<Rightarrow> HTTPMatch option" where
  "identicalMatch_loop seen best [] = best"
| "identicalMatch_loop seen best (m # ms) =
     (if hmt_Key m \<notin> seen then identicalMatch_loop seen best ms
      else (case best of
              None \<Rightarrow> identicalMatch_loop seen (Some m) ms
            | Some b \<Rightarrow>
                if hmt_Key m < hmt_Key b then identicalMatch_loop seen (Some m) ms
                else identicalMatch_loop seen best ms))"

definition identicalMatch :: "HTTPMatch list \<Rightarrow> HTTPMatch list \<Rightarrow> HTTPMatch option" where
  "identicalMatch mine theirs = identicalMatch_loop (hmt_Key ` set theirs) None mine"

text \<open>Indexing a Go map with a missing key yields the zero value of its element type.\<close>

definition zero_listener :: Listener where
  "zero_listener = \<lparr>li_Owner = mk_ref '''' '''' '''', li_Name = '''', li_Hostname = None, li_Port = 0,
     li_Protocol = '''', li_Allowed = None, li_OwnerKind = ''''\<rparr>"

definition listener_at :: "(attachment \<times> Listener) list \<Rightarrow> attachment \<Rightarrow> Listener" where
  "listener_at mine at = (case map_of mine at of Some l \<Rightarrow> l | None \<Rightarrow> zero_listener)"

definition crm_message :: "runtime \<Rightarrow> candidate \<Rightarrow> candidate \<Rightarrow> HTTPMatch \<Rightarrow> attachment \<Rightarrow> str \<Rightarrow> str" where
  "crm_message R self other m at hostname =
     (let claimed = (if hostname = '''' then ''every hostname the listener serves''
                     else ''hostname '' @ quote R hostname)
      in ''HTTPRoute '' @ quote R (ref_Name (ca_id self)) @ '' and HTTPRoute '' @ quote R (ref_Name (ca_id other)) @
         '' in namespace '' @ quote R (ref_Namespace (ca_id other)) @ '' both claim '' @ claimed @
         '' with the identical match '' @ hmt_Describe m @ '' on listener '' @ quote R (at_listener at) @
         '' of '' @ ref_Kind (at_owner at) @ '' '' @ quote R (ref_Name (at_owner at)) @ '' in namespace '' @
         quote R (ref_Namespace (at_owner at)) @ ''; Gateway API's precedence rules leave the tie '' @
         ''unbroken, so which route serves a matching request is undefined'')"

definition conflict ::
  "runtime \<Rightarrow> candidate \<Rightarrow> candidate \<Rightarrow> (attachment \<times> Listener) list \<Rightarrow> owner_index \<Rightarrow> diagnostic option" where
  "conflict R self other mine listenersByOwner =
     (let theirs = attachmentsOf (ca_route other) listenersByOwner;
          shared = for_append (go_range R ''conflict'' (map fst mine)) (\<lambda>at.
            if map_of theirs at \<noteq> None then [at] else [])
      in if length shared = 0 then None
         else let shared = sort_slice attachmentLess shared;
                  hostnames = contestedHostnames (rt_Hostnames (ca_route self)) (rt_Hostnames (ca_route other))
           in if length hostnames = 0 then None
              else (case identicalMatch (ca_matches self) (ca_matches other) of
                      None \<Rightarrow> None
                    | Some m \<Rightarrow>
                        (case List.find (\<lambda>(at, hostname).
                                \<not> (hostname \<noteq> '''' \<and> \<not> HostnamesIntersect (listener_at mine at) [hostname]))
                              (for_append shared (\<lambda>at. map (\<lambda>hostname. (at, hostname)) hostnames)) of
                           None \<Rightarrow> None
                         | Some (at, hostname) \<Rightarrow> Some \<lparr>Message = crm_message R self other m at hostname\<rparr>)))"

definition crm_pair :: "runtime \<Rightarrow> owner_index \<Rightarrow> candidate \<Rightarrow> lint_object \<Rightarrow> diagnostic list" where
  "crm_pair R listenersByOwner self obj =
     (case asCandidate R obj of
        None \<Rightarrow> []
      | Some other \<Rightarrow>
          if ca_id other = ca_id self then []
          else if \<not> sortsBefore (ca_id other) (ca_id self) then []
          else if separatedByAge self other then []
          else (case conflict R self other (attachmentsOf (ca_route self) listenersByOwner) listenersByOwner of
                  Some d \<Rightarrow> [d] | None \<Rightarrow> []))"

definition crm_checkFunc :: check_func where
  "crm_checkFunc R lintCtx object =
     Some (case asCandidate R object of
             None \<Rightarrow> []
           | Some self \<Rightarrow>
               let listenersByOwner = ListenersByOwner lintCtx;
                   mine = attachmentsOf (ca_route self) listenersByOwner
               in if length mine = 0 then []
                  else for_append (Objects lintCtx) (crm_pair R listenersByOwner self))"

definition crm_template :: check_template where
  "crm_template = \<lparr>tm_HumanName = ''Conflicting HTTPRoute match'', tm_Key = ''conflicting-route-match'',
     tm_Description =
       ''Flag two HTTPRoutes that claim the same hostname with an identical request match on the same listener, '' @
       ''where Gateway API's precedence rules leave the winner undefined'',
     tm_ObjectKinds = [HTTPRoute], tm_Check = crm_checkFunc\<rparr>"

section \<open>The attachments of a route\<close>

definition contends_on :: "Route \<Rightarrow> Parent \<Rightarrow> Listener \<Rightarrow> bool" where
  "contends_on route parent l \<longleftrightarrow>
     par_Section parent \<in> {None, Some (li_Name l)} \<and> fst (AcceptsKind l HTTPRoute) \<and>
     AcceptsNamespace l (rt_Namespace route)"

definition attach_entries :: "Route \<Rightarrow> owner_index \<Rightarrow> (attachment \<times> Listener) list" where
  "attach_entries route idx =
     for_append (filter (\<lambda>p. par_Group p = gateway_group) (ParentsOf route)) (\<lambda>parent.
       map (\<lambda>l. (Attachment (parent_ref parent) (li_Name l), l))
         (filter (contends_on route parent) (owned_by idx (parent_ref parent))))"

definition update_all :: "('k \<times> 'v) list \<Rightarrow> ('k \<times> 'v) list \<Rightarrow> ('k \<times> 'v) list" where
  "update_all m kvs = foldl (\<lambda>m (k, v). AList.update k v m) m kvs"

lemma update_all_simps [simp]:
  "update_all m [] = m" "update_all m ((k, v) # kvs) = update_all (AList.update k v m) kvs"
  "update_all m (xs @ ys) = update_all (update_all m xs) ys"
  by (simp_all add: update_all_def)

lemma map_of_update_all: "map_of (update_all m kvs) = map_of m ++ map_of (rev kvs)"
  by (induction kvs arbitrary: m) (auto simp: update_conv map_add_def fun_eq_iff split: option.splits)

lemma attach_listeners:
  "foldl (attach_listener route parent) found ls =
     update_all found (map (\<lambda>l. (Attachment (parent_ref parent) (li_Name l), l)) (filter (contends_on route parent) ls))"
  by (induction ls arbitrary: found) (auto simp: attach_listener_def contends_on_def)

lemma attachmentsOf_eq: "attachmentsOf route idx = update_all [] (attach_entries route idx)"
proof -
  have "foldl (\<lambda>found parent. if par_Group parent \<noteq> gateway_group then found
         else foldl (attach_listener route parent) found (owned_by idx (parent_ref parent))) m ps =
      update_all m (for_append (filter (\<lambda>p. par_Group p = gateway_group) ps) (\<lambda>parent.
       map (\<lambda>l. (Attachment (parent_ref parent) (li_Name l), l))
         (filter (contends_on route parent) (owned_by idx (parent_ref parent)))))" for m ps
    by (induction ps arbitrary: m) (auto simp: attach_listeners)
  then show ?thesis by (simp add: attachmentsOf_def attach_entries_def)
qed

lemma attachmentsOf_lookup: "map_of (attachmentsOf route idx) at = map_of (rev (attach_entries route idx)) at"
  by (simp add: attachmentsOf_eq map_of_update_all)

lemma attachmentsOf_dom:
  "at \<in> fst ` set (attachmentsOf route (ListenersByOwner ctx)) \<longleftrightarrow>
     (\<exists>p l. p \<in> set (ParentsOf route) \<and> par_Group p = gateway_group \<and> l \<in> set (all_listeners ctx) \<and>
        li_Owner l = parent_ref p \<and> contends_on route p l \<and> at = Attachment (parent_ref p) (li_Name l))"
proof -
  have "at \<in> fst ` set (attachmentsOf route idx) \<longleftrightarrow> at \<in> fst ` set (attach_entries route idx)" for idx
    by (metis (no_types, lifting) attachmentsOf_lookup image_set map_of_eq_None_iff rev_map set_rev)
  then show ?thesis
    by (auto simp: attach_entries_def li.owned_by_eq image_iff)
qed

section \<open>When two routes conflict\<close>

lemma contestedHostnames_set:
  "set (contestedHostnames xs ys) = (if xs = [] \<and> ys = [] then {''''} else set xs \<inter> set ys)"
  by (auto simp: contestedHostnames_def)

lemma identicalMatch_loop_iff:
  "identicalMatch_loop seen best ms \<noteq> None \<longleftrightarrow> best \<noteq> None \<or> (\<exists>m\<in>set ms. hmt_Key m \<in> seen)"
  by (induction ms arbitrary: best) (auto split: option.splits)

lemma identicalMatch_iff:
  "identicalMatch mine theirs \<noteq> None \<longleftrightarrow> hmt_Key ` set mine \<inter> hmt_Key ` set theirs \<noteq> {}"
  unfolding identicalMatch_def identicalMatch_loop_iff by auto

definition serves_contested :: "candidate \<Rightarrow> candidate \<Rightarrow> owner_index \<Rightarrow> bool" where
  "serves_contested self other idx \<longleftrightarrow>
     (\<exists>at l h. map_of (attachmentsOf (ca_route self) idx) at = Some l \<and>
        at \<in> fst ` set (attachmentsOf (ca_route other) idx) \<and>
        h \<in> set (contestedHostnames (rt_Hostnames (ca_route self)) (rt_Hostnames (ca_route other))) \<and>
        (h = '''' \<or> HostnamesIntersect l [h]))"

lemma find_None_iff_list_ex: "List.find P xs = None \<longleftrightarrow> \<not> list_ex P xs"
  by (auto simp: find_None_iff list_ex_iff)

lemma guarded_returns:
  "(if length xs = 0 then None else if length ys = 0 then None
    else (case i of None \<Rightarrow> None | Some m \<Rightarrow>
            (case f of None \<Rightarrow> None | Some (a, h) \<Rightarrow> Some (g m a h)))) \<noteq> None \<longleftrightarrow>
   xs \<noteq> [] \<and> ys \<noteq> [] \<and> i \<noteq> None \<and> \<not> f = None"
  by (auto split: option.splits)

lemma conflict_iff:
  assumes "range_ok R"
  shows "conflict R self other (attachmentsOf (ca_route self) idx) idx \<noteq> None \<longleftrightarrow>
    serves_contested self other idx \<and>
    hmt_Key ` set (ca_matches self) \<inter> hmt_Key ` set (ca_matches other) \<noteq> {}"
proof -
  let ?mine = "attachmentsOf (ca_route self) idx" and ?theirs = "attachmentsOf (ca_route other) idx"
  let ?hs = "contestedHostnames (rt_Hostnames (ca_route self)) (rt_Hostnames (ca_route other))"
  let ?shared = "for_append (go_range R ''conflict'' (map fst ?mine)) (\<lambda>at.
            if map_of ?theirs at \<noteq> None then [at] else [])"
  let ?hit = "\<lambda>(at, hostname). \<not> (hostname \<noteq> '''' \<and> \<not> HostnamesIntersect (listener_at ?mine at) [hostname])"
  let ?claims = "for_append (sort_slice attachmentLess ?shared) (\<lambda>at. map (\<lambda>hostname. (at, hostname)) ?hs)"
  have shared: "set ?shared = fst ` set ?mine \<inter> fst ` set ?theirs"
    using set_go_range [OF assms, of "''conflict''" "map fst ?mine"]
    by (auto simp: for_append_if' map_of_eq_None_iff split: if_splits)
  have claims: "set ?claims = (fst ` set ?mine \<inter> fst ` set ?theirs) \<times> set ?hs"
    using shared by (simp add: case_prod_beta set_concat) auto
  have hit: "list_ex ?hit ?claims \<longleftrightarrow> serves_contested self other idx"
  proof
    assume "list_ex ?hit ?claims"
    then obtain at h where at: "at \<in> fst ` set ?mine" "at \<in> fst ` set ?theirs" "h \<in> set ?hs"
      and serves: "h = '''' \<or> HostnamesIntersect (listener_at ?mine at) [h]"
      unfolding list_ex_iff claims by auto
    from at(1) obtain l where "map_of ?mine at = Some l"
      by (metis map_of_eq_None_iff not_None_eq)
    with at serves show "serves_contested self other idx"
      unfolding serves_contested_def by (auto simp: listener_at_def)
  next
    assume "serves_contested self other idx"
    then obtain at l h where l: "map_of ?mine at = Some l" and at: "at \<in> fst ` set ?theirs" "h \<in> set ?hs"
      and serves: "h = '''' \<or> HostnamesIntersect l [h]"
      unfolding serves_contested_def by blast
    from l have "at \<in> fst ` set ?mine" by (metis map_of_eq_None_iff option.distinct(1))
    with at have "(at, h) \<in> set ?claims" unfolding claims by blast
    moreover have "?hit (at, h)" using l serves by (auto simp: listener_at_def)
    ultimately show "list_ex ?hit ?claims" unfolding list_ex_iff by blast
  qed
  have "conflict R self other ?mine idx \<noteq> None \<longleftrightarrow>
      ?shared \<noteq> [] \<and> ?hs \<noteq> [] \<and> identicalMatch (ca_matches self) (ca_matches other) \<noteq> None \<and> list_ex ?hit ?claims"
    unfolding conflict_def Let_def guarded_returns find_None_iff_list_ex by simp
  moreover have "list_ex ?hit ?claims \<Longrightarrow> ?shared \<noteq> [] \<and> ?hs \<noteq> []"
    by (auto simp: list_ex_iff)
  ultimately show ?thesis unfolding identicalMatch_iff hit by blast
qed

section \<open>The check keeps the contract\<close>

lemma asCandidate_tables: "same_tables R S \<Longrightarrow> asCandidate R = asCandidate S"
proof -
  assume "same_tables R S"
  then have q: "quote R = quote S" and l: "ToLower R = ToLower S"
    by (rule same_tables_quote, rule same_tables_lower)
  then have "header_key R = header_key S" by (intro ext) (simp only: header_key_def l)
  then have "canonicalHTTPMatch R = canonicalHTTPMatch S"
    by (intro ext) (simp only: canonicalHTTPMatch_def q)
  then have "HTTPMatchesOf R = HTTPMatchesOf S" by (intro ext) (simp only: HTTPMatchesOf_def)
  then show ?thesis by (intro ext) (simp only: asCandidate_def)
qed

lemma sort_attachments_perm: "mset xs = mset ys \<Longrightarrow> sort_slice attachmentLess xs = sort_slice attachmentLess ys"
  unfolding less_attachment_def [symmetric] by (rule linear.sort_slice_perm)

lemma conflict_tables:
  assumes "same_tables R S" and "range_ok R" and "range_ok S"
  shows "conflict R self other mine idx = conflict S self other mine idx"
proof -
  have q: "quote R = quote S" using assms(1) by (rule same_tables_quote)
  have msg: "crm_message R = crm_message S" by (intro ext) (simp only: crm_message_def q)
  let ?shared = "\<lambda>R. for_append (go_range R ''conflict'' (map fst mine)) (\<lambda>at.
            if map_of (attachmentsOf (ca_route other) idx) at \<noteq> None then [at] else [])"
  have ms: "mset (?shared R) = mset (?shared S)"
    unfolding for_append_if' list.map_ident mset_filter mset_go_range [OF assms(2)] mset_go_range [OF assms(3)] mset_map
    by (rule refl)
  then have "length (?shared R) = length (?shared S)" by (rule mset_eq_length)
  with sort_attachments_perm [OF ms] msg show ?thesis
    unfolding conflict_def Let_def by (simp only:)
qed

lemma asCandidate_HTTP: "asCandidate R obj = Some c \<Longrightarrow>
  kind_of (K8sObject obj) = Some HTTPRoute \<and> ref_Kind (ca_id c) = HTTPRoute"
  by (cases "K8sObject obj")
    (auto simp: asCandidate_def HTTPMatchesOf_def Let_def httpRoute_def newRoute_def split: option.splits if_splits)

interpretation crm: check_contract crm_checkFunc "[HTTPRoute]"
proof
  fix R S :: runtime and ctx and obj :: lint_object
  show "\<exists>ds. crm_checkFunc R ctx obj = Some ds" by (simp add: crm_checkFunc_def)
  show "kind_of (K8sObject obj) \<notin> Some ` set [HTTPRoute] \<Longrightarrow> crm_checkFunc R ctx obj = Some []"
    using asCandidate_HTTP [of R obj]
    by (cases "asCandidate R obj") (auto simp: crm_checkFunc_def)
  assume same: "same_tables R S" and ok: "range_ok R" "range_ok S"
  have "crm_pair R = crm_pair S"
    by (intro ext) (simp only: crm_pair_def asCandidate_tables [OF same] conflict_tables [OF same ok])
  then show "crm_checkFunc R ctx obj = crm_checkFunc S ctx obj"
    by (simp only: crm_checkFunc_def asCandidate_tables [OF same])
qed

section \<open>Properties\<close>

lemma sortsBefore_asym: "sortsBefore a b \<Longrightarrow> \<not> sortsBefore b a"
  by (auto simp: sortsBefore_def split: if_splits)

lemma sortsBefore_irrefl: "\<not> sortsBefore a a"
  by (simp add: sortsBefore_def)

lemma sortsBefore_total: "ref_Kind a = ref_Kind b \<Longrightarrow> a \<noteq> b \<Longrightarrow> sortsBefore a b \<or> sortsBefore b a"
  using object_ref_eqI [of a b] unfolding sortsBefore_def by (metis less_linear)

lemma crm_pair_iff:
  assumes "range_ok R"
  shows "crm_pair R idx self obj \<noteq> [] \<longleftrightarrow>
    (\<exists>other. asCandidate R obj = Some other \<and> sortsBefore (ca_id other) (ca_id self) \<and>
       \<not> separatedByAge self other \<and> serves_contested self other idx \<and>
       hmt_Key ` set (ca_matches self) \<inter> hmt_Key ` set (ca_matches other) \<noteq> {})"
proof (cases "asCandidate R obj")
  case None
  then show ?thesis by (simp add: crm_pair_def)
next
  case (Some other)
  then have "crm_pair R idx self obj \<noteq> [] \<longleftrightarrow> ca_id other \<noteq> ca_id self \<and> sortsBefore (ca_id other) (ca_id self) \<and>
      \<not> separatedByAge self other \<and> conflict R self other (attachmentsOf (ca_route self) idx) idx \<noteq> None"
    by (simp add: crm_pair_def split: option.split)
  then show ?thesis
    unfolding conflict_iff [OF assms] using Some sortsBefore_irrefl [of "ca_id self"] by auto
qed


text \<open>Two routes without rules of their own on the Gateway \<open>edge\<close>.\<close>

definition tie_context :: lint_context where
  "tie_context = context_of [edge, web ''alpha'' None, web ''beta'' None]"

definition tied :: "str \<Rightarrow> candidate" where
  "tied name = (case asCandidate forward_runtime (load 0 (web name None)) of
     Some c \<Rightarrow> c | None \<Rightarrow> \<lparr>ca_id = mk_ref [] [] [], ca_route = newRoute [] (meta [] []) [] [] [],
       ca_matches = [], ca_createdAt = 0, ca_hasCreated = False\<rparr>)"

lemma tied_candidate: "asCandidate forward_runtime (load i (web name None)) = Some (tied name)"
  by (simp add: tied_def asCandidate_def fixture_simps HTTPMatchesOf_def Let_def)

lemma tied_simps:
  "ca_id (tied name) = mk_ref HTTPRoute ''infra'' name" "ca_hasCreated (tied name) = False"
  "rt_Hostnames (ca_route (tied name)) = [''www.example.com'']"
  "hmt_Key ` set (ca_matches (tied name)) = {hmt_Key (canonicalHTTPMatch forward_runtime empty_match)}"
  by (simp_all add: tied_def asCandidate_def fixture_simps HTTPMatchesOf_def httpRoute_def newRoute_def)

definition tied_route :: "str \<Rightarrow> Route" where
  "tied_route name = newRoute HTTPRoute (meta ''infra'' name) [''www.example.com''] [to_parent ''edge'' None]
     [\<lparr>br_Rule = None, br_Ref = to_backend ''web'' (Some 8080) None\<rparr>]"

lemma tied_ca_route: "ca_route (tied name) = tied_route name"
  by (simp add: tied_def asCandidate_def fixture_simps HTTPMatchesOf_def httpRoute_def newRoute_def tied_route_def)

lemma tie_attachment:
  "map_of (attachmentsOf (ca_route (tied name)) (ListenersByOwner tie_context))
     (Attachment (mk_ref Gateway ''infra'' ''edge'') ''http'') =
   Some (mk_listener (mk_ref Gateway ''infra'' ''edge'') Gateway (listener ''http'' (Some ''*.example.com'') 80 HTTPProtocolType))"
proof -
  have "attachmentsOf (tied_route name) = attachmentsOf (tied_route [])"
    by (intro ext) (simp add: tied_route_def newRoute_def attachmentsOf_eq attach_entries_def ParentsOf_def
        resolve_parent_def contends_on_def [abs_def] meta_def to_parent_def)
  moreover have "map_of (attachmentsOf (tied_route []) (ListenersByOwner tie_context))
     (Attachment (mk_ref Gateway ''infra'' ''edge'') ''http'') =
   Some (mk_listener (mk_ref Gateway ''infra'' ''edge'') Gateway (listener ''http'' (Some ''*.example.com'') 80 HTTPProtocolType))"
    by code_simp
  ultimately show ?thesis by (simp add: tied_ca_route)
qed

lemma tie_serves: "serves_contested (tied a) (tied b) (ListenersByOwner tie_context)"
proof -
  have "''www.example.com'' \<in> set (contestedHostnames [''www.example.com''] [''www.example.com''])"
    and "HostnamesIntersect (mk_listener (mk_ref Gateway ''infra'' ''edge'') Gateway
        (listener ''http'' (Some ''*.example.com'') 80 HTTPProtocolType)) [''www.example.com'']"
    by code_simp+
  then show ?thesis
    unfolding serves_contested_def tied_simps
    using tie_attachment [of a] tie_attachment [of b] by (metis map_of_eq_None_iff option.distinct(1))
qed


lemma attachment_listener:
  assumes "map_of (attachmentsOf route (ListenersByOwner ctx)) at = Some l"
  shows "l \<in> set (all_listeners ctx) \<and> (li_Owner l, li_Name l) = (at_owner at, at_listener at)"
proof -
  from assms have "(at, l) \<in> set (attach_entries route (ListenersByOwner ctx))"
    unfolding attachmentsOf_lookup by (auto dest: map_of_SomeD)
  then show ?thesis by (auto simp: attach_entries_def li.owned_by_eq)
qed

lemma serves_contested_sym:
  assumes "inj_on (\<lambda>l. (li_Owner l, li_Name l)) (set (all_listeners ctx))"
    and "serves_contested a b (ListenersByOwner ctx)"
  shows "serves_contested b a (ListenersByOwner ctx)"
proof -
  from assms(2) obtain at l h where l: "map_of (attachmentsOf (ca_route a) (ListenersByOwner ctx)) at = Some l"
    and at: "at \<in> fst ` set (attachmentsOf (ca_route b) (ListenersByOwner ctx))"
    and h: "h \<in> set (contestedHostnames (rt_Hostnames (ca_route a)) (rt_Hostnames (ca_route b)))"
    and serves: "h = '''' \<or> HostnamesIntersect l [h]"
    unfolding serves_contested_def by blast
  from at obtain l' where l': "map_of (attachmentsOf (ca_route b) (ListenersByOwner ctx)) at = Some l'"
    by (metis map_of_eq_None_iff not_None_eq)
  have "l' = l"
    using attachment_listener [OF l] attachment_listener [OF l'] by (intro inj_onD [OF assms(1)]) simp_all
  moreover from l have "at \<in> fst ` set (attachmentsOf (ca_route a) (ListenersByOwner ctx))"
    by (metis map_of_eq_None_iff option.distinct(1))
  moreover from h have "h \<in> set (contestedHostnames (rt_Hostnames (ca_route b)) (rt_Hostnames (ca_route a)))"
    unfolding contestedHostnames_set by (auto split: if_splits)
  ultimately show ?thesis using l' serves unfolding serves_contested_def by blast
qed

text \<open>
  C18: where no listener of a parent shares its name with another, a pair of distinct routes
  that contend is reported exactly once, from the route that sorts later, and a pair that
  does not contend is not reported at all.
\<close>

theorem conflict_reported_once:
  assumes "range_ok R" and "inj_on (\<lambda>l. (li_Owner l, li_Name l)) (set (all_listeners ctx))"
    and "asCandidate R a = Some ca" and "asCandidate R b = Some cb"
  shows "length (crm_pair R (ListenersByOwner ctx) ca b) + length (crm_pair R (ListenersByOwner ctx) cb a) =
    (if ca_id ca \<noteq> ca_id cb \<and> \<not> separatedByAge ca cb \<and> serves_contested ca cb (ListenersByOwner ctx) \<and>
        hmt_Key ` set (ca_matches ca) \<inter> hmt_Key ` set (ca_matches cb) \<noteq> {}
     then 1 else 0)"
proof -
  let ?idx = "ListenersByOwner ctx"
  let ?tie = "\<not> separatedByAge ca cb \<and> serves_contested ca cb ?idx \<and>
        hmt_Key ` set (ca_matches ca) \<inter> hmt_Key ` set (ca_matches cb) \<noteq> {}"
  have len: "length (crm_pair R ?idx c obj) = (if crm_pair R ?idx c obj \<noteq> [] then 1 else 0)" for c obj
    by (auto simp: crm_pair_def split: option.splits)
  have one: "crm_pair R ?idx ca b \<noteq> [] \<longleftrightarrow> sortsBefore (ca_id cb) (ca_id ca) \<and> ?tie"
    unfolding crm_pair_iff [OF assms(1)] assms(4) by simp
  have "separatedByAge cb ca \<longleftrightarrow> separatedByAge ca cb" by (auto simp: separatedByAge_def)
  moreover have "serves_contested cb ca ?idx \<longleftrightarrow> serves_contested ca cb ?idx"
    using serves_contested_sym [OF assms(2)] by blast
  ultimately have two: "crm_pair R ?idx cb a \<noteq> [] \<longleftrightarrow> sortsBefore (ca_id ca) (ca_id cb) \<and> ?tie"
    unfolding crm_pair_iff [OF assms(1)] assms(3) by (simp add: Int_commute)
  have "ref_Kind (ca_id ca) = ref_Kind (ca_id cb)"
    using asCandidate_HTTP [OF assms(3)] asCandidate_HTTP [OF assms(4)] by simp
  then have "ca_id ca \<noteq> ca_id cb \<longleftrightarrow> sortsBefore (ca_id cb) (ca_id ca) \<noteq> sortsBefore (ca_id ca) (ca_id cb)"
    using sortsBefore_total sortsBefore_asym sortsBefore_irrefl by metis
  then show ?thesis
    unfolding len one two using sortsBefore_asym by auto
qed

lemma tie_names: "inj_on (\<lambda>l. (li_Owner l, li_Name l)) (set (all_listeners tie_context))"
proof -
  have "all_listeners tie_context = [mk_listener (mk_ref Gateway ''infra'' ''edge'') Gateway
      (listener ''http'' (Some ''*.example.com'') 80 HTTPProtocolType)]"
    by code_simp
  then show ?thesis by simp
qed

theorem conflict_reported_once_witness:
  "length (crm_pair forward_runtime (ListenersByOwner tie_context) (tied ''alpha'') (load 2 (web ''beta'' None))) +
   length (crm_pair forward_runtime (ListenersByOwner tie_context) (tied ''beta'') (load 1 (web ''alpha'' None))) = 1"
proof -
  have "ca_id (tied ''alpha'') \<noteq> ca_id (tied ''beta'')" and "\<not> separatedByAge (tied ''alpha'') (tied ''beta'')"
    by (simp_all add: separatedByAge_def tied_simps)
  moreover have "hmt_Key ` set (ca_matches (tied ''alpha'')) \<inter> hmt_Key ` set (ca_matches (tied ''beta'')) \<noteq> {}"
    unfolding tied_simps by simp
  ultimately show ?thesis
    using conflict_reported_once [OF range_ok_forward tie_names tied_candidate [of 1 "''alpha''"] tied_candidate [of 2 "''beta''"]]
      tie_serves [of "''alpha''" "''beta''"] by simp
qed

end
