(* ===== verification/Checks_Listeners.thy ===== *)
theory Checks_Listeners
  imports Fixtures
begin

text \<open>
  The five checks of tier 4, on one Gateway or ListenerSet: \<open>duplicate-listener-name\<close>,
  \<open>conflicting-listeners\<close>, \<open>tls-listener-without-certificate\<close>,
  \<open>hostname-on-non-hostname-protocol\<close> and \<open>gateway-serves-no-routes\<close>. The first two group
  listeners in Go maps and range over them; every such loop sorts what it collected, and the
  proofs that the findings do not depend on the map order rest on the orders being linear.
\<close>

section \<open>duplicate-listener-name\<close>

definition dln_message :: "runtime \<Rightarrow> Listener \<Rightarrow> nat \<Rightarrow> str \<Rightarrow> str" where
  "dln_message R owner n name =
     li_OwnerKind owner @ '' '' @ quote R (ref_Name (li_Owner owner)) @ '' declares '' @ fmt_nat n @
     '' listeners named '' @ quote R name @ ''; a listener name must be unique within a '' @
     li_OwnerKind owner @ '', so the API server rejects the object and a route sectionName '' @
     ''naming that listener has no single listener to attach to''"

definition dln_checkFunc :: check_func where
  "dln_checkFunc R lintCtx object =
     (let listeners = ListenersOf (K8sObject object) in
      if length listeners < 2 then Some []
      else let counts = count_keys [] (map li_Name listeners);
               duplicated = sort_strings (for_append (go_range R ''counts'' counts) (\<lambda>(name, n).
                 if n > 1 then [name] else []));
               owner = listeners ! 0
           in Some (for_append duplicated (\<lambda>name.
                [\<lparr>Message = dln_message R owner (lookup0 counts name) name\<rparr>])))"

definition dln_template :: check_template where
  "dln_template = \<lparr>tm_HumanName = ''Duplicate Listener Name'', tm_Key = ''duplicate-listener-name'',
     tm_Description =
       ''Flag Gateways and ListenerSets that declare two listeners under the same name, '' @
       ''which a route sectionName or a listener-scoped policy cannot then address unambiguously'',
     tm_ObjectKinds = [Gateway, ListenerSet], tm_Check = dln_checkFunc\<rparr>"

section \<open>conflicting-listeners\<close>

datatype listenerKey = ListenerKey (lk_protocol: str) (lk_hostname: str)

definition listenerKey_less :: "listenerKey \<Rightarrow> listenerKey \<Rightarrow> bool" where
  "listenerKey_less a b \<longleftrightarrow>
     (if lk_protocol a \<noteq> lk_protocol b then lk_protocol a < lk_protocol b
      else lk_hostname a < lk_hostname b)"

instantiation listenerKey :: linorder
begin

definition less_listenerKey :: "listenerKey \<Rightarrow> listenerKey \<Rightarrow> bool" where
  "less_listenerKey = listenerKey_less"

definition less_eq_listenerKey :: "listenerKey \<Rightarrow> listenerKey \<Rightarrow> bool" where
  "less_eq_listenerKey a b \<longleftrightarrow> a = b \<or> listenerKey_less a b"

instance
proof
  fix a b c :: listenerKey
  show "a < b \<longleftrightarrow> a \<le> b \<and> \<not> b \<le> a"
    by (auto simp: less_listenerKey_def less_eq_listenerKey_def listenerKey_less_def split: if_splits)
  show "a \<le> a" by (simp add: less_eq_listenerKey_def)
  show "a \<le> b \<Longrightarrow> b \<le> c \<Longrightarrow> a \<le> c"
    by (cases a; cases b; cases c) (auto simp: less_eq_listenerKey_def listenerKey_less_def split: if_splits)
  show "a \<le> b \<Longrightarrow> b \<le> a \<Longrightarrow> a = b"
    by (auto simp: less_eq_listenerKey_def listenerKey_less_def split: if_splits)
  show "a \<le> b \<or> b \<le> a"
    by (cases a; cases b) (auto simp: less_eq_listenerKey_def listenerKey_less_def not_less_iff_gr_or_eq)
qed

end

definition cl_keyOf :: "Listener \<Rightarrow> listenerKey" where
  "cl_keyOf l = ListenerKey (li_Protocol l) (case li_Hostname l of None \<Rightarrow> '''' | Some h \<Rightarrow> h)"

datatype protocolClass = classUnknown | classPlaintext | classTLS | classRawTCP | classUDP

definition classOf :: "str \<Rightarrow> protocolClass" where
  "classOf p =
     (if p = HTTPProtocolType then classPlaintext
      else if p = HTTPSProtocolType \<or> p = TLSProtocolType then classTLS
      else if p = TCPProtocolType then classRawTCP
      else if p = UDPProtocolType then classUDP
      else classUnknown)"

definition usesHostname :: "str \<Rightarrow> bool" where
  "usesHostname p \<longleftrightarrow> p = HTTPProtocolType \<or> p = HTTPSProtocolType \<or> p = TLSProtocolType"

text \<open>\<open>(reason, true)\<close> is \<open>Some reason\<close>, \<open>("", false)\<close> is \<open>None\<close>.\<close>

definition protocolsConflict :: "str \<Rightarrow> str \<Rightarrow> str option" where
  "protocolsConflict a b =
     (let classA = classOf a; classB = classOf b in
      if classA = classUnknown \<or> classB = classUnknown then None
      else if (classA = classUDP) \<noteq> (classB = classUDP) then None
      else if classA = classRawTCP \<or> classB = classRawTCP then
        Some (''a listener sharing a port with a raw TCP listener cannot be told apart from it, '' @
              ''so neither of them is accepted and the port serves nothing'')
      else if classA = classPlaintext \<or> classB = classPlaintext then
        Some (''one port cannot carry both plaintext and TLS traffic, '' @
              ''so neither listener is accepted and the port serves nothing'')
      else None)"

definition describeHostname :: "runtime \<Rightarrow> str \<Rightarrow> str" where
  "describeHostname R hostname =
     (if hostname = '''' then ''no hostname, so they match every request''
      else ''hostname '' @ quote R hostname)"

definition listenerNames :: "runtime \<Rightarrow> Listener list \<Rightarrow> str go" where
  "listenerNames R listeners =
     (let names = sort_strings (map (\<lambda>l. quote R (li_Name l)) listeners) in
      if length names = 1 then Some (''listener '' @ names ! 0)
      else go_bind (join_last names '', '' '' and '') (\<lambda>s. Some (''listeners '' @ s)))"

definition indistinct_message :: "runtime \<Rightarrow> Listener \<Rightarrow> int32 \<Rightarrow> listenerKey \<Rightarrow> str \<Rightarrow> str" where
  "indistinct_message R owner port key names =
     (if lk_hostname key \<noteq> '''' \<or> usesHostname (lk_protocol key) then
        li_OwnerKind owner @ '' '' @ quote R (ref_Name (li_Owner owner)) @ '' has '' @ names @ '' on port '' @
        fmt_int32 port @ '', each with protocol '' @ lk_protocol key @ '' and '' @
        describeHostname R (lk_hostname key) @ ''; port, protocol and hostname together '' @
        ''must identify one listener, so none of them is distinct and none is accepted''
      else
        li_OwnerKind owner @ '' '' @ quote R (ref_Name (li_Owner owner)) @ '' has '' @ names @ '' on port '' @
        fmt_int32 port @ '', each with protocol '' @ lk_protocol key @
        '', which carries no hostname to tell them apart; '' @
        ''none of them is distinct and none is accepted'')"

definition indistinctListeners ::
  "runtime \<Rightarrow> Listener \<Rightarrow> int32 \<Rightarrow> Listener list \<Rightarrow> diagnostic list go" where
  "indistinctListeners R owner port grp =
     (let byKey = group_by cl_keyOf [] grp;
          keys = sort_slice listenerKey_less
            (for_append (go_range R (''byKey '' @ fmt_int32 port) byKey) (\<lambda>(key, ls).
               if length ls > 1 then [key] else []))
      in for_go keys (\<lambda>key.
           go_bind (listenerNames R (lookup_nil byKey key)) (\<lambda>names.
             Some [\<lparr>Message = indistinct_message R owner port key names\<rparr>])))"

text \<open>The pairs \<open>(xs[i], xs[j])\<close> with \<open>i < j\<close>, in the order of the nested loops.\<close>

fun pairs_of :: "'a list \<Rightarrow> ('a \<times> 'a) list" where
  "pairs_of [] = []"
| "pairs_of (x # xs) = map (Pair x) xs @ pairs_of xs"

definition protocol_message ::
  "runtime \<Rightarrow> Listener \<Rightarrow> int32 \<Rightarrow> str \<Rightarrow> str \<Rightarrow> str \<Rightarrow> str \<Rightarrow> str \<Rightarrow> str" where
  "protocol_message R owner port a namesA b namesB reason =
     li_OwnerKind owner @ '' '' @ quote R (ref_Name (li_Owner owner)) @ '' has '' @ namesA @
     '' with protocol '' @ a @ '' and '' @ namesB @ '' with protocol '' @ b @ '' on port '' @
     fmt_int32 port @ ''; '' @ reason"

definition protocolConflicts ::
  "runtime \<Rightarrow> Listener \<Rightarrow> int32 \<Rightarrow> Listener list \<Rightarrow> diagnostic list go" where
  "protocolConflicts R owner port grp =
     (let byProtocol = group_by li_Protocol [] grp;
          protocols = sort_strings (map fst (go_range R (''byProtocol '' @ fmt_int32 port) byProtocol))
      in for_go (pairs_of protocols) (\<lambda>(a, b).
           case protocolsConflict a b of
             None \<Rightarrow> Some []
           | Some reason \<Rightarrow>
               go_bind (listenerNames R (lookup_nil byProtocol a)) (\<lambda>namesA.
                 go_bind (listenerNames R (lookup_nil byProtocol b)) (\<lambda>namesB.
                   Some [\<lparr>Message = protocol_message R owner port a namesA b namesB reason\<rparr>]))))"

definition cl_checkFunc :: check_func where
  "cl_checkFunc R lintCtx object =
     (let listeners = ListenersOf (K8sObject object) in
      if length listeners < 2 then Some []
      else let owner = listeners ! 0;
               byPort = group_by li_Port [] listeners;
               ports = sort_slice (\<lambda>a b. sint a < sint b) (map fst (go_range R ''byPort'' byPort))
           in for_go ports (\<lambda>port.
                let grp = lookup_nil byPort port in
                if length grp < 2 then Some []
                else go_bind (indistinctListeners R owner port grp) (\<lambda>ds.
                       go_bind (protocolConflicts R owner port grp) (\<lambda>es. Some (ds @ es)))))"

definition cl_template :: check_template where
  "cl_template = \<lparr>tm_HumanName = ''Conflicting Listeners'', tm_Key = ''conflicting-listeners'',
     tm_Description =
       ''Flag listeners sharing a port that Gateway API cannot tell apart, either because '' @
       ''their protocols cannot share a port or because port, protocol and hostname are identical'',
     tm_ObjectKinds = [Gateway, ListenerSet], tm_Check = cl_checkFunc\<rparr>"

section \<open>tls-listener-without-certificate\<close>

definition terminatesTLS :: "GatewayListener \<Rightarrow> bool" where
  "terminatesTLS l \<longleftrightarrow>
     (if \<not> (gl_Protocol l = HTTPSProtocolType \<or> gl_Protocol l = TLSProtocolType) then False
      else if TLSMode l \<noteq> TLSModeTerminate then False
      else (case gl_TLS l of
              None \<Rightarrow> True
            | Some tls \<Rightarrow> length (tlc_CertificateRefs tls) = 0 \<and> length (tlc_Options tls) = 0))"

definition tlc_message :: "runtime \<Rightarrow> k8s_object \<Rightarrow> GatewayListener \<Rightarrow> str" where
  "tlc_message R k l =
     ''Gateway '' @ quote R (GetName k) @ '' listener '' @ quote R (gl_Name l) @ '' terminates '' @
     gl_Protocol l @ '' but declares no tls.certificateRefs, '' @
     ''so it has no certificate to present and every handshake on port '' @ fmt_int32 (gl_Port l) @ '' fails''"

definition tlc_checkFunc :: check_func where
  "tlc_checkFunc R lintCtx object =
     Some (case GatewayListenersOf (K8sObject object) of
             None \<Rightarrow> []
           | Some listeners \<Rightarrow>
               for_append listeners (\<lambda>l.
                 if \<not> terminatesTLS l then []
                 else [\<lparr>Message = tlc_message R (K8sObject object) l\<rparr>]))"

definition tlc_template :: check_template where
  "tlc_template = \<lparr>tm_HumanName = ''TLS listener without certificate'',
     tm_Key = ''tls-listener-without-certificate'',
     tm_Description =
       ''Flag Gateway listeners that terminate TLS with no tls.certificateRefs, '' @
       ''so the listener has no certificate to present and every handshake fails'',
     tm_ObjectKinds = [Gateway], tm_Check = tlc_checkFunc\<rparr>"

section \<open>hostname-on-non-hostname-protocol\<close>

definition hnp_message :: "runtime \<Rightarrow> k8s_object \<Rightarrow> GatewayListener \<Rightarrow> str \<Rightarrow> str" where
  "hnp_message R k l host =
     ''Gateway '' @ quote R (GetName k) @ '' listener '' @ quote R (gl_Name l) @ '' sets hostname '' @
     quote R host @ '' on protocol '' @ gl_Protocol l @ '', which has neither SNI nor a '' @
     ''Host header to match it; Gateway API ignores the hostname and the listener still '' @
     ''admits every connection on port '' @ fmt_int32 (gl_Port l)"

definition hnp_checkFunc :: check_func where
  "hnp_checkFunc R lintCtx object =
     Some (case GatewayListenersOf (K8sObject object) of
             None \<Rightarrow> []
           | Some listeners \<Rightarrow>
               for_append listeners (\<lambda>l.
                 if \<not> (gl_Protocol l = TCPProtocolType \<or> gl_Protocol l = UDPProtocolType) then []
                 else (case gl_Hostname l of
                         None \<Rightarrow> []
                       | Some host \<Rightarrow>
                           if host = '''' then []
                           else [\<lparr>Message = hnp_message R (K8sObject object) l host\<rparr>])))"

definition hnp_template :: check_template where
  "hnp_template = \<lparr>tm_HumanName = ''Listener hostname on a protocol without hostnames'',
     tm_Key = ''hostname-on-non-hostname-protocol'',
     tm_Description =
       ''Flag Gateway listeners that set a hostname on TCP or UDP, where Gateway API '' @
       ''ignores it and the listener keeps admitting every connection on its port'',
     tm_ObjectKinds = [Gateway], tm_Check = hnp_checkFunc\<rparr>"

section \<open>gateway-serves-no-routes\<close>

definition listenerSetsOf :: "lint_context \<Rightarrow> ObjectRef \<Rightarrow> ObjectRef set" where
  "listenerSetsOf lintCtx gw =
     foldl (\<lambda>owned obj.
       case K8sObject obj of
         ListenerSet_v1 listenerSet \<Rightarrow>
           if ListenerSetParent listenerSet \<noteq> gw then owned
           else insert (mk_ref ListenerSet (meta_Namespace (ls_Meta listenerSet)) (meta_Name (ls_Meta listenerSet))) owned
       | _ \<Rightarrow> owned) {} (Objects lintCtx)"

definition gsn_message :: "runtime \<Rightarrow> gateway \<Rightarrow> str" where
  "gsn_message R gw =
     ''Gateway '' @ quote R (meta_Name (gw_Meta gw)) @ '' in namespace '' @ quote R (meta_Namespace (gw_Meta gw)) @
     '' has no route attached; no route in the manifest set names it '' @
     ''as a parentRef, directly or through a ListenerSet, so it is provisioned and serves no traffic''"

definition gsn_checkFunc :: check_func where
  "gsn_checkFunc R lintCtx object =
     Some (case AsGateway (K8sObject object) of
             None \<Rightarrow> []
           | Some gw \<Rightarrow>
               let routes = Routes_of lintCtx in
               if length routes = 0 then []
               else let self = mk_ref Gateway (meta_Namespace (gw_Meta gw)) (meta_Name (gw_Meta gw));
                        attachPoints = {self} \<union> listenerSetsOf lintCtx self
                 in if list_ex (\<lambda>route. list_ex (\<lambda>parent.
                         if par_Group parent \<noteq> gateway_group then False
                         else parent_ref parent \<in> attachPoints) (ParentsOf route)) routes
                    then []
                    else [\<lparr>Message = gsn_message R gw\<rparr>])"

definition gsn_template :: check_template where
  "gsn_template = \<lparr>tm_HumanName = ''Gateway serves no routes'', tm_Key = ''gateway-serves-no-routes'',
     tm_Description =
       ''Flag Gateways that no route in the manifest set attaches to, '' @
       ''so the Gateway is provisioned and serves no traffic'',
     tm_ObjectKinds = [Gateway], tm_Check = gsn_checkFunc\<rparr>"

section \<open>Messages and map order\<close>

lemma listener_messages_tables:
  assumes "same_tables R S"
  shows "dln_message R = dln_message S" "indistinct_message R = indistinct_message S"
    "protocol_message R = protocol_message S" "listenerNames R = listenerNames S"
    "tlc_message R = tlc_message S" "hnp_message R = hnp_message S" "gsn_message R = gsn_message S"
proof -
  from assms have q: "quote R = quote S" by (rule same_tables_quote)
  have d: "describeHostname R = describeHostname S" by (intro ext) (simp only: describeHostname_def q)
  show "dln_message R = dln_message S" "indistinct_message R = indistinct_message S"
    "protocol_message R = protocol_message S" "listenerNames R = listenerNames S"
    "tlc_message R = tlc_message S" "hnp_message R = hnp_message S" "gsn_message R = gsn_message S"
    by (intro ext, simp only: q d dln_message_def indistinct_message_def protocol_message_def
        listenerNames_def tlc_message_def hnp_message_def gsn_message_def)+
qed

lemma sint_less_order: "go_order (\<lambda>(a::int32) b. sint a < sint b)"
proof
  fix a b :: int32
  assume "a \<noteq> b"
  then have "sint a \<noteq> sint b" by (auto dest: arg_cong [where f = "of_int :: int \<Rightarrow> int32"])
  then show "sint a < sint b \<or> sint b < sint a" by auto
qed auto

interpretation int32_order: go_order "\<lambda>(a::int32) b. sint a < sint b"
  by (rule sint_less_order)

lemma sort_keys_perm: "mset xs = mset ys \<Longrightarrow> sort_slice listenerKey_less xs = sort_slice listenerKey_less ys"
  unfolding less_listenerKey_def [symmetric] by (rule linear.sort_slice_perm)

lemma range_mset_eq:
  "range_ok R \<Longrightarrow> range_ok S \<Longrightarrow> mset (go_range R site xs) = mset (go_range S site xs)"
  by (simp add: mset_go_range)

lemma for_append_mset: "mset xs = mset ys \<Longrightarrow> mset (for_append xs f) = mset (for_append ys f)"
proof -
  assume "mset xs = mset ys"
  moreover have "mset (for_append zs f) = sum_mset (image_mset (mset \<circ> f) (mset zs))" for zs
    by (induction zs) auto
  ultimately show ?thesis by simp
qed

section \<open>The checks keep the contract\<close>

lemma ListenersOf_off_scope: "kind_of k \<notin> Some ` set [Gateway, ListenerSet] \<Longrightarrow> ListenersOf k = []"
  by (cases k) simp_all

lemma names_over_one: "(n, c) \<in> set (count_keys [] ks) \<and> 1 < c \<longleftrightarrow> 2 \<le> count_list ks n \<and> c = count_list ks n"
proof -
  have "2 \<le> count_list ks n \<Longrightarrow> n \<in> set ks" by (metis count_list_0_iff not_numeral_le_zero)
  then show ?thesis by (auto simp: count_keys_entry)
qed

lemma dln_duplicated:
  assumes "range_ok R"
  shows "sort_strings (for_append (go_range R ''counts'' (count_keys [] ks)) (\<lambda>(name, n).
       if n > 1 then [name] else [])) = sorted_list_of_set {n. 2 \<le> count_list ks n}"
proof -
  let ?dup = "for_append (count_keys [] ks) (\<lambda>(name, n). if n > 1 then [name] else [])"
  have "mset (for_append (go_range R ''counts'' (count_keys [] ks)) (\<lambda>(name, n). if n > 1 then [name] else [])) = mset ?dup"
    by (rule for_append_mset) (rule mset_go_range [OF assms])
  then have "sort_strings (for_append (go_range R ''counts'' (count_keys [] ks)) (\<lambda>(name, n).
       if n > 1 then [name] else [])) = sort_strings ?dup"
    by (rule sort_strings_perm)
  moreover have dup: "for_append m (\<lambda>(name, n). if n > 1 then [name] else []) =
      map fst (filter (\<lambda>(name, n). n > 1) m)" for m :: "(str \<times> nat) list"
    by (induction m) auto
  have "distinct ?dup"
    unfolding dup using distinct_count_keys [of "[]" ks]
    by (simp add: distinct_map inj_on_def)
  moreover have "set ?dup = {n. 2 \<le> count_list ks n}"
    unfolding dup using names_over_one [of _ _ ks] by (force simp: image_iff)
  ultimately show ?thesis
    by (metis sort_strings_eq_sort sorted_list_of_set_sort_remdups distinct_remdups_id)
qed

lemma dln_checkFunc_eq:
  assumes "range_ok R"
  shows "dln_checkFunc R ctx obj =
    Some (map (\<lambda>n. \<lparr>Message = dln_message R (ListenersOf (K8sObject obj) ! 0)
                         (count_list (map li_Name (ListenersOf (K8sObject obj))) n) n\<rparr>)
      (sorted_list_of_set {n. 2 \<le> count_list (map li_Name (ListenersOf (K8sObject obj))) n}))"
proof -
  let ?names = "map li_Name (ListenersOf (K8sObject obj))"
  have few: "{n. 2 \<le> count_list ?names n} = {}" if "length (ListenersOf (K8sObject obj)) < 2"
    using count_le_length [of ?names] that by (auto simp: not_le intro: le_less_trans)
  show ?thesis
    unfolding dln_checkFunc_def Let_def dln_duplicated [OF assms] for_append_singleton lookup0_count_keys
    using few by simp
qed

interpretation dln: check_contract dln_checkFunc "[Gateway, ListenerSet]"
proof
  fix R S :: runtime and ctx and obj :: lint_object
  show "kind_of (K8sObject obj) \<notin> Some ` set [Gateway, ListenerSet] \<Longrightarrow> dln_checkFunc R ctx obj = Some []"
    unfolding dln_checkFunc_def Let_def by (subst ListenersOf_off_scope) simp_all
  show "range_ok R \<Longrightarrow> \<exists>ds. dln_checkFunc R ctx obj = Some ds" by (simp add: dln_checkFunc_eq)
  show "same_tables R S \<Longrightarrow> range_ok R \<Longrightarrow> range_ok S \<Longrightarrow> dln_checkFunc R ctx obj = dln_checkFunc S ctx obj"
    by (simp add: dln_checkFunc_eq listener_messages_tables)
qed

lemma join_names_total:
  assumes "ls \<noteq> []"
  shows "\<exists>s. listenerNames R ls = Some s"
proof -
  from assms have "sort_strings (map (\<lambda>l. quote R (li_Name l)) ls) \<noteq> []"
    by (metis length_0_conv length_map length_sort_strings)
  then obtain s where "join_last (sort_strings (map (\<lambda>l. quote R (li_Name l)) ls)) '', '' '' and '' = Some s"
    using join_last_total by blast
  then show ?thesis by (simp add: listenerNames_def Let_def)
qed

definition names_of :: "runtime \<Rightarrow> Listener list \<Rightarrow> str" where
  "names_of R ls = the (listenerNames R ls)"

lemma listenerNames_Some: "ls \<noteq> [] \<Longrightarrow> listenerNames R ls = Some (names_of R ls)"
  using join_names_total [of ls R] by (auto simp: names_of_def)

text \<open>The keys, protocols and ports in the order the loops visit them, for any map order.\<close>

definition shared_keys :: "Listener list \<Rightarrow> listenerKey list" where
  "shared_keys grp = sort_slice listenerKey_less
     (for_append (group_by cl_keyOf [] grp) (\<lambda>(key, ls). if length ls > 1 then [key] else []))"

definition protocols_on :: "Listener list \<Rightarrow> str list" where
  "protocols_on grp = sort_strings (map fst (group_by li_Protocol [] grp))"

definition ports_of :: "Listener list \<Rightarrow> int32 list" where
  "ports_of ls = sort_slice (\<lambda>a b. sint a < sint b) (map fst (group_by li_Port [] ls))"

lemma mset_keys_range: "range_ok R \<Longrightarrow> mset (map fst (go_range R site m)) = mset (map fst m)"
  unfolding mset_map by (simp only: mset_go_range)

lemma map_orders:
  assumes "range_ok R"
  shows "sort_slice listenerKey_less (for_append (go_range R site (group_by cl_keyOf [] grp))
      (\<lambda>(key, ls). if length ls > 1 then [key] else [])) = shared_keys grp"
    and "sort_strings (map fst (go_range R site (group_by li_Protocol [] grp))) = protocols_on grp"
    and "sort_slice (\<lambda>a b. sint a < sint b) (map fst (go_range R site (group_by li_Port [] grp))) = ports_of grp"
proof -
  show "sort_slice listenerKey_less (for_append (go_range R site (group_by cl_keyOf [] grp))
      (\<lambda>(key, ls). if length ls > 1 then [key] else [])) = shared_keys grp"
    unfolding shared_keys_def by (intro sort_keys_perm for_append_mset mset_go_range [OF assms])
  show "sort_strings (map fst (go_range R site (group_by li_Protocol [] grp))) = protocols_on grp"
    unfolding protocols_on_def by (intro sort_strings_perm mset_keys_range [OF assms])
  show "sort_slice (\<lambda>a b. sint a < sint b) (map fst (go_range R site (group_by li_Port [] grp))) = ports_of grp"
    unfolding ports_of_def by (intro int32_order.sort_slice_perm mset_keys_range [OF assms])
qed

lemma set_shared_keys: "set (shared_keys grp) = {key. 2 \<le> length (filter (\<lambda>l. cl_keyOf l = key) grp)}"
proof -
  have "key \<in> set (shared_keys grp) \<longleftrightarrow> (\<exists>ls. (key, ls) \<in> set (group_by cl_keyOf [] grp) \<and> 1 < length ls)" for key
    by (auto simp: shared_keys_def split: if_splits)
  then show ?thesis by (fastforce simp: group_by_entry)
qed

lemma set_protocols_on: "set (protocols_on grp) = li_Protocol ` set grp"
  using keys_group_by [of li_Protocol "[]" grp] by (simp add: protocols_on_def)

lemma distinct_protocols_on: "distinct (protocols_on grp)"
proof -
  have "distinct (map fst (group_by li_Protocol [] grp))" by (rule distinct_group_by) simp
  then show ?thesis unfolding protocols_on_def
    by (metis mset_eq_imp_distinct_iff mset_sort_strings)
qed

lemma set_ports_of: "set (ports_of ls) = li_Port ` set ls"
  using keys_group_by [of li_Port "[]" ls] by (simp add: ports_of_def)

definition indistinct_findings :: "runtime \<Rightarrow> Listener \<Rightarrow> int32 \<Rightarrow> Listener list \<Rightarrow> diagnostic list" where
  "indistinct_findings R owner port grp =
     map (\<lambda>key. \<lparr>Message = indistinct_message R owner port key
            (names_of R (filter (\<lambda>l. cl_keyOf l = key) grp))\<rparr>) (shared_keys grp)"

definition protocol_findings :: "runtime \<Rightarrow> Listener \<Rightarrow> int32 \<Rightarrow> Listener list \<Rightarrow> diagnostic list" where
  "protocol_findings R owner port grp =
     for_append (pairs_of (protocols_on grp)) (\<lambda>(a, b).
       case protocolsConflict a b of
         None \<Rightarrow> []
       | Some reason \<Rightarrow> [\<lparr>Message = protocol_message R owner port
             a (names_of R (filter (\<lambda>l. li_Protocol l = a) grp))
             b (names_of R (filter (\<lambda>l. li_Protocol l = b) grp)) reason\<rparr>])"

lemma set_pairs_of: "(a, b) \<in> set (pairs_of xs) \<Longrightarrow> a \<in> set xs \<and> b \<in> set xs"
  by (induction xs) auto

lemma pairs_of_complete:
  "distinct xs \<Longrightarrow> a \<in> set xs \<Longrightarrow> b \<in> set xs \<Longrightarrow> a \<noteq> b \<Longrightarrow>
     (a, b) \<in> set (pairs_of xs) \<or> (b, a) \<in> set (pairs_of xs)"
  by (induction xs) auto

lemma pairs_of_distinct: "distinct xs \<Longrightarrow> (a, b) \<in> set (pairs_of xs) \<Longrightarrow> a \<noteq> b"
  by (induction xs) (auto dest: set_pairs_of)

lemma indistinctListeners_eq:
  assumes "range_ok R"
  shows "indistinctListeners R owner port grp = Some (indistinct_findings R owner port grp)"
proof -
  have "listenerNames R (lookup_nil (group_by cl_keyOf [] grp) key) =
      Some (names_of R (filter (\<lambda>l. cl_keyOf l = key) grp))" if "key \<in> set (shared_keys grp)" for key
  proof -
    from that have "filter (\<lambda>l. cl_keyOf l = key) grp \<noteq> []" by (auto simp: set_shared_keys)
    then show ?thesis unfolding lookup_nil_group_by by (rule listenerNames_Some)
  qed
  then show ?thesis
    unfolding indistinctListeners_def Let_def map_orders [OF assms] indistinct_findings_def
    by (subst for_go_total [where g = "\<lambda>key. [\<lparr>Message = indistinct_message R owner port key
            (names_of R (filter (\<lambda>l. cl_keyOf l = key) grp))\<rparr>]"]) (simp_all add: for_append_singleton)
qed

lemma protocolConflicts_eq:
  assumes "range_ok R"
  shows "protocolConflicts R owner port grp = Some (protocol_findings R owner port grp)"
proof -
  have names: "listenerNames R (lookup_nil (group_by li_Protocol [] grp) a) =
      Some (names_of R (filter (\<lambda>l. li_Protocol l = a) grp))" if "a \<in> set (protocols_on grp)" for a
  proof -
    from that have "filter (\<lambda>l. li_Protocol l = a) grp \<noteq> []"
      by (auto simp: set_protocols_on filter_empty_conv)
    then show ?thesis unfolding lookup_nil_group_by by (rule listenerNames_Some)
  qed
  show ?thesis
    unfolding protocolConflicts_def Let_def map_orders [OF assms] protocol_findings_def
    by (rule for_go_total) (auto simp: names dest!: set_pairs_of split: option.split)
qed

definition port_findings :: "runtime \<Rightarrow> Listener list \<Rightarrow> int32 \<Rightarrow> diagnostic list" where
  "port_findings R ls port =
     (let grp = filter (\<lambda>l. li_Port l = port) ls in
      if length grp < 2 then []
      else indistinct_findings R (ls ! 0) port grp @ protocol_findings R (ls ! 0) port grp)"

lemma ports_need_two: "length ls < 2 \<Longrightarrow> port_findings R ls port = []"
proof -
  assume "length ls < 2"
  then have "length (filter (\<lambda>l. li_Port l = port) ls) < 2" by (rule le_less_trans [OF length_filter_le])
  then show ?thesis by (simp add: port_findings_def)
qed

lemma cl_checkFunc_eq:
  assumes "range_ok R"
  shows "cl_checkFunc R ctx obj =
    Some (for_append (ports_of (ListenersOf (K8sObject obj))) (port_findings R (ListenersOf (K8sObject obj))))"
proof -
  let ?ls = "ListenersOf (K8sObject obj)"
  have "for_go (ports_of ?ls) (\<lambda>port.
      let grp = lookup_nil (group_by li_Port [] ?ls) port in
      if length grp < 2 then Some []
      else go_bind (indistinctListeners R (?ls ! 0) port grp) (\<lambda>ds.
             go_bind (protocolConflicts R (?ls ! 0) port grp) (\<lambda>es. Some (ds @ es)))) =
    Some (for_append (ports_of ?ls) (port_findings R ?ls))"
    by (rule for_go_total)
      (simp add: lookup_nil_group_by indistinctListeners_eq [OF assms] protocolConflicts_eq [OF assms]
        port_findings_def Let_def)
  moreover have "for_append (ports_of ?ls) (port_findings R ?ls) = []" if "length ?ls < 2"
    using ports_need_two [OF that] by (simp add: for_append_Nil_iff)
  ultimately show ?thesis
    unfolding cl_checkFunc_def Let_def map_orders [OF assms] by simp
qed

lemma port_findings_tables: "same_tables R S \<Longrightarrow> port_findings R = port_findings S"
proof -
  assume "same_tables R S"
  note msgs = listener_messages_tables [OF this]
  have n: "names_of R = names_of S" by (intro ext) (simp only: names_of_def msgs)
  have "indistinct_findings R = indistinct_findings S" "protocol_findings R = protocol_findings S"
    by (intro ext, simp only: indistinct_findings_def protocol_findings_def msgs n)+
  then show ?thesis by (intro ext) (simp only: port_findings_def)
qed

interpretation cl: check_contract cl_checkFunc "[Gateway, ListenerSet]"
proof
  fix R S :: runtime and ctx and obj :: lint_object
  show "kind_of (K8sObject obj) \<notin> Some ` set [Gateway, ListenerSet] \<Longrightarrow> cl_checkFunc R ctx obj = Some []"
    unfolding cl_checkFunc_def Let_def by (subst ListenersOf_off_scope) simp_all
  show "range_ok R \<Longrightarrow> \<exists>ds. cl_checkFunc R ctx obj = Some ds" by (simp add: cl_checkFunc_eq)
  show "same_tables R S \<Longrightarrow> range_ok R \<Longrightarrow> range_ok S \<Longrightarrow> cl_checkFunc R ctx obj = cl_checkFunc S ctx obj"
    by (simp only: cl_checkFunc_eq port_findings_tables [of R S])
qed

definition gateway_listeners :: "k8s_object \<Rightarrow> GatewayListener list" where
  "gateway_listeners k = (case GatewayListenersOf k of None \<Rightarrow> [] | Some ls \<Rightarrow> ls)"

lemma gateway_listeners_off_scope: "kind_of k \<notin> Some ` set [Gateway] \<Longrightarrow> gateway_listeners k = []"
  by (cases k) (simp_all add: gateway_listeners_def GatewayListenersOf_def)

interpretation tlc: ref_check tlc_checkFunc "[Gateway]" gateway_listeners
  "\<lambda>ctx k l. terminatesTLS l" "\<lambda>R ctx k l. tlc_message R k l"
proof unfold_locales
  fix R ctx and obj :: lint_object
  show "tlc_checkFunc R ctx obj = Some (map (\<lambda>l. \<lparr>Message = tlc_message R (K8sObject obj) l\<rparr>)
      (filter (\<lambda>l. terminatesTLS l) (gateway_listeners (K8sObject obj))))"
    by (cases "GatewayListenersOf (K8sObject obj)")
      (simp_all add: tlc_checkFunc_def gateway_listeners_def for_append_if)
qed (auto simp: listener_messages_tables gateway_listeners_off_scope)

interpretation hnp: ref_check hnp_checkFunc "[Gateway]" gateway_listeners
  "\<lambda>ctx k l. gl_Protocol l \<in> {TCPProtocolType, UDPProtocolType} \<and> gl_Hostname l \<notin> {None, Some ''''}"
  "\<lambda>R ctx k l. hnp_message R k l (the (gl_Hostname l))"
proof unfold_locales
  fix R ctx and obj :: lint_object
  let ?reports = "\<lambda>l. gl_Protocol l \<in> {TCPProtocolType, UDPProtocolType} \<and> gl_Hostname l \<notin> {None, Some ''''}"
  show "hnp_checkFunc R ctx obj = Some (map (\<lambda>l. \<lparr>Message = hnp_message R (K8sObject obj) l (the (gl_Hostname l))\<rparr>)
      (filter ?reports (gateway_listeners (K8sObject obj))))"
  proof (cases "GatewayListenersOf (K8sObject obj)")
    case (Some ls)
    show ?thesis
      unfolding hnp_checkFunc_def gateway_listeners_def Some option.case
      by (subst for_append_guarded [where P = ?reports and
            g = "\<lambda>l. \<lparr>Message = hnp_message R (K8sObject obj) l (the (gl_Hostname l))\<rparr>"])
        (auto split: option.split)
  qed (simp add: hnp_checkFunc_def gateway_listeners_def)
qed (auto simp: listener_messages_tables gateway_listeners_off_scope)

definition attach_points :: "lint_context \<Rightarrow> gateway \<Rightarrow> ObjectRef set" where
  "attach_points ctx gw =
     (let self = mk_ref Gateway (meta_Namespace (gw_Meta gw)) (meta_Name (gw_Meta gw))
      in insert self (listenerSetsOf ctx self))"

definition idle_gateway :: "lint_context \<Rightarrow> gateway \<Rightarrow> bool" where
  "idle_gateway ctx gw \<longleftrightarrow> Routes_of ctx \<noteq> [] \<and>
     \<not> (\<exists>route\<in>set (Routes_of ctx). \<exists>p\<in>set (ParentsOf route).
          par_Group p = gateway_group \<and> parent_ref p \<in> attach_points ctx gw)"

interpretation gsn: ref_check gsn_checkFunc "[Gateway]" gateways_of
  "\<lambda>ctx k gw. idle_gateway ctx gw" "\<lambda>R ctx k gw. gsn_message R gw"
proof unfold_locales
  fix R ctx and obj :: lint_object
  show "gsn_checkFunc R ctx obj = Some (map (\<lambda>gw. \<lparr>Message = gsn_message R gw\<rparr>)
      (filter (\<lambda>gw. idle_gateway ctx gw) (gateways_of (K8sObject obj))))"
    by (cases "AsGateway (K8sObject obj)")
      (auto simp: gsn_checkFunc_def gateways_of_def idle_gateway_def attach_points_def list_ex_iff Let_def)
next
  fix k
  show "kind_of k \<notin> Some ` set [Gateway] \<Longrightarrow> gateways_of k = []"
    unfolding AsGateway_scope [symmetric] by (simp add: gateways_of_def)
qed (simp_all add: listener_messages_tables)

section \<open>Properties\<close>

text \<open>
  \<open>duplicate-listener-name\<close> reports, in sorted order and once each, exactly the names two
  or more listeners of the object share, whatever the order Go ranges over its map in.
\<close>

lemma duplicate_listener_name_findings:
  assumes "range_ok R"
  shows "dln_checkFunc R ctx obj =
    (let names = map li_Name (ListenersOf (K8sObject obj))
     in Some (map (\<lambda>n. \<lparr>Message = dln_message R (ListenersOf (K8sObject obj) ! 0) (count_list names n) n\<rparr>)
          (sorted_list_of_set {n. 2 \<le> count_list names n})))"
  unfolding Let_def by (rule dln_checkFunc_eq [OF assms])

lemma duplicate_listener_name_findings_witness:
  "dln_checkFunc backward_runtime (context_of [edge]) (load 0 edge) = Some []"
proof -
  have names: "map li_Name (ListenersOf (K8sObject (load 0 edge))) = [''http'']"
    by (simp add: fixture_simps mk_listener_def)
  have "{n. 2 \<le> count_list [''http''] n} = {}" by auto
  then show ?thesis
    unfolding duplicate_listener_name_findings [OF range_ok_backward] Let_def names by simp
qed

text \<open>
  The protocols that cannot share a port, and when two listeners clash: on the same port, with
  the same protocol and hostname or with two protocols that cannot share one.
\<close>

definition exclusive_protocols :: "(str \<times> str) set" where
  "exclusive_protocols =
     {TCPProtocolType} \<times> {HTTPProtocolType, HTTPSProtocolType, TLSProtocolType} \<union>
     {HTTPProtocolType} \<times> {HTTPSProtocolType, TLSProtocolType}"

definition listeners_clash :: "Listener \<Rightarrow> Listener \<Rightarrow> bool" where
  "listeners_clash l l' \<longleftrightarrow> li_Port l = li_Port l' \<and>
     (cl_keyOf l = cl_keyOf l' \<or>
      (li_Protocol l, li_Protocol l') \<in> exclusive_protocols \<union> exclusive_protocols\<inverse>)"

lemma protocolsConflict_iff:
  "a \<noteq> b \<Longrightarrow> protocolsConflict a b \<noteq> None \<longleftrightarrow> (a, b) \<in> exclusive_protocols \<union> exclusive_protocols\<inverse>"
  by (auto simp: protocolsConflict_def classOf_def exclusive_protocols_def Let_def api_constants)

lemma exclusive_irrefl: "(a, a) \<notin> exclusive_protocols"
  by (auto simp: exclusive_protocols_def api_constants)

lemma two_filtered:
  "2 \<le> length (filter P xs) \<longleftrightarrow> (\<exists>i j. i < j \<and> j < length xs \<and> P (xs ! i) \<and> P (xs ! j))"
proof (induction xs)
  case Nil
  then show ?case by simp
next
  case (Cons x xs)
  have one: "1 \<le> length (filter P xs) \<longleftrightarrow> (\<exists>j < length xs. P (xs ! j))"
    by (metis Suc_le_eq One_nat_def filter_empty_conv in_set_conv_nth length_greater_0_conv)
  have split: "(\<exists>i j. i < j \<and> j < length (x # xs) \<and> P ((x # xs) ! i) \<and> P ((x # xs) ! j)) \<longleftrightarrow>
      P x \<and> (\<exists>j < length xs. P (xs ! j)) \<or> (\<exists>i j. i < j \<and> j < length xs \<and> P (xs ! i) \<and> P (xs ! j))"
    (is "?L \<longleftrightarrow> ?R")
  proof
    assume ?L
    then obtain i j where "i < j" "j < Suc (length xs)" "P ((x # xs) ! i)" "P ((x # xs) ! j)" by auto
    then show ?R by (cases i; cases j) auto
  next
    assume ?R
    then show ?L
    proof
      assume "P x \<and> (\<exists>j < length xs. P (xs ! j))"
      then obtain j where "P x" "j < length xs" "P (xs ! j)" by blast
      then show ?L by (intro exI [of _ "0::nat"] exI [of _ "Suc j"]) simp
    next
      assume "\<exists>i j. i < j \<and> j < length xs \<and> P (xs ! i) \<and> P (xs ! j)"
      then obtain i j where "i < j" "j < length xs" "P (xs ! i)" "P (xs ! j)" by blast
      then show ?L by (intro exI [of _ "Suc i"] exI [of _ "Suc j"]) simp
    qed
  qed
  show ?case unfolding split using one Cons.IH by auto
qed

lemma indistinct_iff:
  "indistinct_findings R owner port (filter (\<lambda>l. li_Port l = port) ls) \<noteq> [] \<longleftrightarrow>
     (\<exists>i j. i < j \<and> j < length ls \<and> li_Port (ls ! i) = port \<and> li_Port (ls ! j) = port \<and>
        cl_keyOf (ls ! i) = cl_keyOf (ls ! j))"
proof -
  let ?grp = "filter (\<lambda>l. li_Port l = port) ls"
  have "indistinct_findings R owner port ?grp \<noteq> [] \<longleftrightarrow> set (shared_keys ?grp) \<noteq> {}"
    by (simp add: indistinct_findings_def)
  also have "\<dots> \<longleftrightarrow> (\<exists>key. 2 \<le> length (filter (\<lambda>l. cl_keyOf l = key) ?grp))"
    unfolding set_shared_keys by blast
  finally show ?thesis unfolding filter_filter two_filtered by blast
qed

lemma protocol_iff:
  "protocol_findings R owner port grp \<noteq> [] \<longleftrightarrow>
     (\<exists>l l'. l \<in> set grp \<and> l' \<in> set grp \<and>
        (li_Protocol l, li_Protocol l') \<in> exclusive_protocols \<union> exclusive_protocols\<inverse>)"
proof -
  have "protocol_findings R owner port grp \<noteq> [] \<longleftrightarrow>
      (\<exists>a b. (a, b) \<in> set (pairs_of (protocols_on grp)) \<and> protocolsConflict a b \<noteq> None)"
  proof -
    have ex: "\<not> (\<forall>x\<in>A. f x = []) \<longleftrightarrow> (\<exists>a b. (a, b) \<in> A \<and> f (a, b) \<noteq> [])"
      for A :: "(str \<times> str) set" and f :: "str \<times> str \<Rightarrow> diagnostic list" by auto
    show ?thesis unfolding protocol_findings_def for_append_Nil_iff ex by (simp split: option.split) blast
  qed
  also have "\<dots> \<longleftrightarrow> (\<exists>a b. (a, b) \<in> set (pairs_of (protocols_on grp)) \<and>
      (a, b) \<in> exclusive_protocols \<union> exclusive_protocols\<inverse>)"
    using pairs_of_distinct [OF distinct_protocols_on] protocolsConflict_iff by metis
  also have "\<dots> \<longleftrightarrow> (\<exists>a b. a \<in> set (protocols_on grp) \<and> b \<in> set (protocols_on grp) \<and>
      (a, b) \<in> exclusive_protocols \<union> exclusive_protocols\<inverse>)"
    using pairs_of_complete [OF distinct_protocols_on] set_pairs_of exclusive_irrefl by fastforce
  finally show ?thesis unfolding set_protocols_on by blast
qed


definition shared_port :: k8s_object where
  "shared_port = Gateway_v1 (gateway_with ''infra'' ''edge''
     [listener ''plain'' None 443 HTTPProtocolType, listener ''tls'' None 443 HTTPSProtocolType])"


text \<open>
  \<open>tls-listener-without-certificate\<close> and \<open>hostname-on-non-hostname-protocol\<close> give one
  finding per listener, in spec order and at every served version of Gateway: the first on the
  HTTPS and TLS listeners that terminate, by default too, with neither a certificateRef nor an
  option; the second on the TCP and UDP listeners with a non-empty hostname. They share none.
\<close>

lemma listener_field_findings:
  "tlc_checkFunc R ctx obj =
     Some (map (\<lambda>l. \<lparr>Message = tlc_message R (K8sObject obj) l\<rparr>)
       (filter (\<lambda>l. gl_Protocol l \<in> {HTTPSProtocolType, TLSProtocolType} \<and>
          gl_TLS l \<in> {None} \<union> Some ` {t. tlc_Mode t \<in> {None, Some '''', Some TLSModeTerminate} \<and>
            tlc_CertificateRefs t = [] \<and> tlc_Options t = []})
         (gateway_listeners (K8sObject obj)))) \<and>
   hnp_checkFunc R ctx obj =
     Some (map (\<lambda>l. \<lparr>Message = hnp_message R (K8sObject obj) l (the (gl_Hostname l))\<rparr>)
       (filter (\<lambda>l. gl_Protocol l \<in> {TCPProtocolType, UDPProtocolType} \<and> gl_Hostname l \<notin> {None, Some ''''})
         (gateway_listeners (K8sObject obj))))"
proof -
  have "terminatesTLS l \<longleftrightarrow> gl_Protocol l \<in> {HTTPSProtocolType, TLSProtocolType} \<and>
      gl_TLS l \<in> {None} \<union> Some ` {t. tlc_Mode t \<in> {None, Some '''', Some TLSModeTerminate} \<and>
        tlc_CertificateRefs t = [] \<and> tlc_Options t = []}" for l
    by (cases "gl_TLS l") (auto simp: terminatesTLS_def TLSMode_def split: option.splits)
  then show ?thesis by (simp only: tlc.check_refs hnp.check_refs)
qed

text \<open>
  C37: \<open>gateway-serves-no-routes\<close> reports exactly the Gateways that no route of the context names
  in a parentRef, directly or through a ListenerSet whose parent has the Gateway's namespace
  and name, provided the context holds some route at all.
\<close>

theorem gateway_serves_no_routes_iff:
  "gsn_checkFunc R ctx obj \<noteq> Some [] \<longleftrightarrow>
     (\<exists>gw. AsGateway (K8sObject obj) = Some gw \<and> Routes_of ctx \<noteq> [] \<and>
        (let self = mk_ref Gateway (meta_Namespace (gw_Meta gw)) (meta_Name (gw_Meta gw));
             sets = {mk_ref ListenerSet (meta_Namespace (ls_Meta ls)) (meta_Name (ls_Meta ls)) | ls.
               ListenerSet_v1 ls \<in> K8sObject ` set (Objects ctx) \<and> ListenerSetParent ls = self};
             named = {mk_ref (par_Kind p) (par_Namespace p) (par_Name p) | route p.
               route \<in> set (Routes_of ctx) \<and> p \<in> set (ParentsOf route) \<and> par_Group p = gateway_group}
         in insert self sets \<inter> named = {}))"
proof -
  have owned: "listenerSetsOf ctx self = {mk_ref ListenerSet (meta_Namespace (ls_Meta ls)) (meta_Name (ls_Meta ls)) | ls.
      ListenerSet_v1 ls \<in> K8sObject ` set (Objects ctx) \<and> ListenerSetParent ls = self}" for self
    unfolding listenerSetsOf_def
    by (subst foldl_union [where g = "\<lambda>obj. {mk_ref ListenerSet (meta_Namespace (ls_Meta ls)) (meta_Name (ls_Meta ls)) | ls.
          ListenerSet_v1 ls = K8sObject obj \<and> ListenerSetParent ls = self}"])
      (auto split: k8s_object.splits)
  have idle: "idle_gateway ctx gw \<longleftrightarrow> Routes_of ctx \<noteq> [] \<and> attach_points ctx gw \<inter>
      {parent_ref p | route p. route \<in> set (Routes_of ctx) \<and> p \<in> set (ParentsOf route) \<and> par_Group p = gateway_group} = {}" for gw
    unfolding idle_gateway_def by blast
  have mem: "r \<in> set (gateways_of k) \<longleftrightarrow> AsGateway k = Some r" for r k
    by (auto simp: gateways_of_def split: option.splits)
  show ?thesis unfolding gsn.ref_reports_iff mem idle attach_points_def owned Let_def by (rule refl)
qed

text \<open>A v1beta1 Gateway is a Gateway to \<open>AsGateway\<close>, but has no listeners to \<open>ListenersOf\<close>.\<close>

lemma beta_gateway_has_no_listeners:
  "AsGateway (Gateway_v1beta1 g) = Some g \<and> ListenersOf (Gateway_v1beta1 g) = [] \<and>
   dln_checkFunc R ctx (load i (Gateway_v1beta1 g)) = Some [] \<and> cl_checkFunc R ctx (load i (Gateway_v1beta1 g)) = Some []"
  by (simp add: dln_checkFunc_def cl_checkFunc_def load_def)

text \<open>
  A ListenerSet whose parentRef names an object of another group or kind counts as attached to
  the Gateway of that name, although \<open>dangling-listener-set-parent\<close> leaves it out: the route on
  it hides that the Gateway itself serves nothing.
\<close>

definition foreign_set :: listener_set where
  "foreign_set = \<lparr>ls_Meta = meta ''infra'' ''extra'',
     ls_ParentRef = \<lparr>pg_Group = Some ''example.org'', pg_Kind = Some ''Mesh'', pg_Namespace = None, pg_Name = ''edge''\<rparr>,
     ls_Listeners = []\<rparr>"

definition set_route :: k8s_object where
  "set_route = HTTPRoute_v1 (http ''infra'' ''web'' [] [(to_parent ''extra'' None)\<lparr>pr_Kind := Some ListenerSet\<rparr>] [])"

lemma foreign_listener_set_counts:
  "gsn_checkFunc R (context_of [edge, ListenerSet_v1 foreign_set, set_route]) (load 0 edge) = Some [] \<and>
   gsn_checkFunc R (context_of [edge, set_route]) (load 0 edge) \<noteq> Some []"
  by (simp add: gsn_checkFunc_def foreign_set_def set_route_def fixture_simps listenerSetsOf_def Routes_of_def
      httpRoute_def newRoute_def ParentsOf_def resolve_parent_def ListenerSetParent_def kind_names)

end
