(* ===== verification/Policy_Coverage.thy ===== *)
theory Policy_Coverage
  imports Fixtures
begin

text \<open>
  \<open>pkg/gatewayapi/policycoverage.go\<close>: the routes a BackendTrafficPolicy applies to, through its
  targetRefs, a Gateway or ListenerSet above the route, or its label selectors; and the copy of
  it that the package \<open>fqdnbackendcoldstart\<close> keeps in \<open>coverage.go\<close>. A pointer to a policy is
  the \<open>obj_Ptr\<close> of the object that holds it.
\<close>

record PolicyTarget =
  pt_Kind :: str
  pt_Name :: str
  pt_SectionName :: "str option"
  pt_ViaSelector :: bool

record CoveredRoute =
  cov_Target :: PolicyTarget
  cov_Route :: Route
  cov_Inherited :: bool
  cov_RuleSection :: "str option"

record policyRouteKey =
  prk_kind :: str
  prk_namespace :: str
  prk_name :: str

definition policyRouteKeyOf :: "Route \<Rightarrow> policyRouteKey" where
  "policyRouteKeyOf r = \<lparr>prk_kind = rt_Kind r, prk_namespace = rt_Namespace r, prk_name = rt_Name r\<rparr>"

definition named_target :: "policy_ref \<Rightarrow> PolicyTarget" where
  "named_target ref =
     \<lparr>pt_Kind = pol_Kind ref, pt_Name = pol_Name ref, pt_SectionName = pol_SectionName ref,
      pt_ViaSelector = False\<rparr>"

definition BackendTrafficPolicyTargets :: "traffic_policy \<Rightarrow> PolicyTarget list" where
  "BackendTrafficPolicyTargets policy =
     (case btp_TargetRef policy of Some ref \<Rightarrow> [named_target ref] | None \<Rightarrow> []) @
     for_append (btp_TargetRefs policy) (\<lambda>ref. [named_target ref])"

definition SectionCoversRule :: "str option \<Rightarrow> str option \<Rightarrow> bool" where
  "SectionCoversRule section rule \<longleftrightarrow> (if section = None then True else rule \<noteq> None \<and> rule = section)"

definition IsParentKind :: "str \<Rightarrow> bool" where
  "IsParentKind kind \<longleftrightarrow> kind = Gateway \<or> kind = ListenerSet"

definition IsRouteKind :: "str \<Rightarrow> bool" where
  "IsRouteKind kind \<longleftrightarrow> list_ex (\<lambda>k. kind = k) RouteKinds"

definition targetNamespaceSelected :: "str option \<Rightarrow> str \<Rightarrow> str \<Rightarrow> bool" where
  "targetNamespaceSelected ns policyNamespace routeNamespace \<longleftrightarrow>
     (if ns = None \<or> ns = Some ''Same'' then routeNamespace = policyNamespace
      else ns = Some ''All'')"

definition routesAttachedToParent ::
  "lint_context \<Rightarrow> str \<Rightarrow> str \<Rightarrow> str \<Rightarrow> str option \<Rightarrow> Route list" where
  "routesAttachedToParent lintCtx parentKind parentNamespace parentName lis =
     for_append (Routes_of lintCtx) (\<lambda>route.
       if list_ex (\<lambda>parent. parent_Matches parent parentKind parentNamespace parentName \<and>
                            CoversListener parent lis) (ParentsOf route)
       then [route] else [])"

definition listenerSetsBelongingTo :: "lint_context \<Rightarrow> str \<Rightarrow> str \<Rightarrow> ObjectRef list" where
  "listenerSetsBelongingTo lintCtx gatewayNamespace gatewayName =
     for_append (Objects lintCtx) (\<lambda>obj.
       case K8sObject obj of
         ListenerSet_v1 ls \<Rightarrow>
           (let parent = ls_ParentRef ls in
            if pg_Group parent \<noteq> None \<and> pg_Group parent \<noteq> Some gateway_group then []
            else if pg_Kind parent \<noteq> None \<and> pg_Kind parent \<noteq> Some Gateway then []
            else let got = ListenerSetParent ls in
              if ref_Namespace got = gatewayNamespace \<and> ref_Name got = gatewayName
              then [mk_ref ListenerSet (meta_Namespace (ls_Meta ls)) (meta_Name (ls_Meta ls))] else [])
       | _ \<Rightarrow> [])"

text \<open>The loop over a ListenerSet's routes, which keeps those whose key has not been seen.\<close>

fun add_unseen :: "policyRouteKey set \<Rightarrow> Route list \<Rightarrow> Route list \<Rightarrow> Route list" where
  "add_unseen seen routes [] = routes"
| "add_unseen seen routes (r # rs) =
     (if policyRouteKeyOf r \<in> seen then add_unseen seen routes rs
      else add_unseen (insert (policyRouteKeyOf r) seen) (routes @ [r]) rs)"

definition routesAttachedToGateway :: "lint_context \<Rightarrow> str \<Rightarrow> str \<Rightarrow> str option \<Rightarrow> Route list" where
  "routesAttachedToGateway lintCtx gatewayNamespace gatewayName lis =
     (let routes = routesAttachedToParent lintCtx Gateway gatewayNamespace gatewayName lis in
      add_unseen (policyRouteKeyOf ` set routes) routes
        (for_append (listenerSetsBelongingTo lintCtx gatewayNamespace gatewayName) (\<lambda>ls.
           routesAttachedToParent lintCtx ListenerSet (ref_Namespace ls) (ref_Name ls) None)))"

definition routesTargetedBy :: "lint_context \<Rightarrow> str \<Rightarrow> PolicyTarget \<Rightarrow> Route list" where
  "routesTargetedBy lintCtx policyNamespace target =
     (if pt_Kind target = Gateway then
        routesAttachedToGateway lintCtx policyNamespace (pt_Name target) (pt_SectionName target)
      else if pt_Kind target = ListenerSet then
        routesAttachedToParent lintCtx ListenerSet policyNamespace (pt_Name target) (pt_SectionName target)
      else if \<not> IsRouteKind (pt_Kind target) then []
      else (case List.find (\<lambda>route. rt_Kind route = pt_Kind target \<and> rt_Namespace route = policyNamespace \<and>
                                    rt_Name route = pt_Name target) (Routes_of lintCtx) of
              Some route \<Rightarrow> [route] | None \<Rightarrow> []))"

definition routesSelectedBy :: "runtime \<Rightarrow> lint_context \<Rightarrow> str \<Rightarrow> target_selector \<Rightarrow> Route list" where
  "routesSelectedBy R lintCtx policyNamespace sel =
     (if sel_Group sel \<noteq> None \<and> sel_Group sel \<noteq> Some gateway_group then []
      else if \<not> IsRouteKind (sel_Kind sel) then []
      else (case LabelSelectorAsSelector R (sel_MatchLabels sel) (sel_MatchExpressions sel) of
              None \<Rightarrow> []
            | Some matches \<Rightarrow>
                for_append (Routes_of lintCtx) (\<lambda>route.
                  if rt_Kind route \<noteq> sel_Kind sel then []
                  else if \<not> targetNamespaceSelected (sel_Namespaces sel) policyNamespace (rt_Namespace route) then []
                  else if \<not> matches (rt_Labels route) then []
                  else [route])))"

definition BackendTrafficPolicyCoverage ::
  "runtime \<Rightarrow> lint_context \<Rightarrow> traffic_policy \<Rightarrow> CoveredRoute list" where
  "BackendTrafficPolicyCoverage R lintCtx policy =
     for_append (BackendTrafficPolicyTargets policy) (\<lambda>target.
       let inherited = IsParentKind (pt_Kind target);
           ruleSection = (if \<not> inherited then pt_SectionName target else None)
       in map (\<lambda>route. \<lparr>cov_Target = target, cov_Route = route, cov_Inherited = inherited,
                         cov_RuleSection = ruleSection\<rparr>)
            (routesTargetedBy lintCtx (meta_Namespace (btp_Meta policy)) target)) @
     for_append (btp_TargetSelectors policy) (\<lambda>sel.
       map (\<lambda>route. \<lparr>cov_Target = \<lparr>pt_Kind = rt_Kind route, pt_Name = rt_Name route,
                                  pt_SectionName = None, pt_ViaSelector = True\<rparr>,
                      cov_Route = route, cov_Inherited = False, cov_RuleSection = None\<rparr>)
         (routesSelectedBy R lintCtx (meta_Namespace (btp_Meta policy)) sel))"

definition MoreSpecificPolicyCovers ::
  "runtime \<Rightarrow> lint_context \<Rightarrow> Route \<Rightarrow> str option \<Rightarrow> nat \<Rightarrow> bool" where
  "MoreSpecificPolicyCovers R lintCtx route rule self =
     list_ex (\<lambda>obj.
       case K8sObject obj of
         BackendTrafficPolicy_v1alpha1 other \<Rightarrow>
           if obj_Ptr obj = self then False
           else list_ex (\<lambda>covered.
             if cov_Inherited covered \<or> policyRouteKeyOf (cov_Route covered) \<noteq> policyRouteKeyOf route then False
             else SectionCoversRule (cov_RuleSection covered) rule)
             (BackendTrafficPolicyCoverage R lintCtx other)
       | _ \<Rightarrow> False) (Objects lintCtx)"


section \<open>What a policy covers\<close>

lemma set_routesAttachedToParent:
  "route \<in> set (routesAttachedToParent ctx kind ns name lis) \<longleftrightarrow>
     route \<in> set (Routes_of ctx) \<and>
     (\<exists>p\<in>set (ParentsOf route). parent_Matches p kind ns name \<and> CoversListener p lis)"
  by (auto simp: routesAttachedToParent_def list_ex_iff)

text \<open>A ListenerSet belongs to the Gateway its parentRef resolves to.\<close>

definition belongs_to :: "listener_set \<Rightarrow> str \<Rightarrow> str \<Rightarrow> bool" where
  "belongs_to ls gatewayNamespace gatewayName \<longleftrightarrow>
     pg_Group (ls_ParentRef ls) \<in> {None, Some gateway_group} \<and>
     pg_Kind (ls_ParentRef ls) \<in> {None, Some Gateway} \<and>
     ListenerSetParent ls = mk_ref Gateway gatewayNamespace gatewayName"

lemma set_listenerSetsBelongingTo:
  "set (listenerSetsBelongingTo ctx ns name) =
     {mk_ref ListenerSet (meta_Namespace (ls_Meta ls)) (meta_Name (ls_Meta ls)) | ls.
        ListenerSet_v1 ls \<in> K8sObject ` set (Objects ctx) \<and> belongs_to ls ns name}" (is "?L = ?R")
proof -
  have body: "ref \<in> set (case k of ListenerSet_v1 ls \<Rightarrow>
           (let parent = ls_ParentRef ls in
            if pg_Group parent \<noteq> None \<and> pg_Group parent \<noteq> Some gateway_group then []
            else if pg_Kind parent \<noteq> None \<and> pg_Kind parent \<noteq> Some Gateway then []
            else let got = ListenerSetParent ls in
              if ref_Namespace got = ns \<and> ref_Name got = name
              then [mk_ref ListenerSet (meta_Namespace (ls_Meta ls)) (meta_Name (ls_Meta ls))] else [])
       | _ \<Rightarrow> []) \<longleftrightarrow>
      (\<exists>ls. k = ListenerSet_v1 ls \<and> belongs_to ls ns name \<and>
         ref = mk_ref ListenerSet (meta_Namespace (ls_Meta ls)) (meta_Name (ls_Meta ls)))" for ref k
    by (cases k) (auto simp: Let_def belongs_to_def ListenerSetParent_def)
  have "ref \<in> ?L \<longleftrightarrow> (\<exists>obj\<in>set (Objects ctx). \<exists>ls. K8sObject obj = ListenerSet_v1 ls \<and> belongs_to ls ns name \<and>
         ref = mk_ref ListenerSet (meta_Namespace (ls_Meta ls)) (meta_Name (ls_Meta ls)))" for ref
    unfolding listenerSetsBelongingTo_def set_concat set_map image_image UN_iff body by (rule refl)
  then show ?thesis by (auto simp: image_iff) metis+
qed

lemma add_unseen_append:
  "\<exists>new. add_unseen seen routes rs = routes @ new \<and> set new \<subseteq> set rs \<and>
     distinct (map policyRouteKeyOf new) \<and>
     policyRouteKeyOf ` set new = policyRouteKeyOf ` set rs - seen"
proof (induction rs arbitrary: seen routes)
  case Nil
  then show ?case by simp
next
  case (Cons r rs)
  show ?case
  proof (cases "policyRouteKeyOf r \<in> seen")
    case True
    from Cons [of seen routes] obtain new where
      "add_unseen seen routes rs = routes @ new" "set new \<subseteq> set rs"
      "distinct (map policyRouteKeyOf new)" "policyRouteKeyOf ` set new = policyRouteKeyOf ` set rs - seen"
      by blast
    with True show ?thesis by (intro exI [of _ new]) auto
  next
    case False
    from Cons [of "insert (policyRouteKeyOf r) seen" "routes @ [r]"] obtain new where
      "add_unseen (insert (policyRouteKeyOf r) seen) (routes @ [r]) rs = (routes @ [r]) @ new"
      "set new \<subseteq> set rs" "distinct (map policyRouteKeyOf new)"
      "policyRouteKeyOf ` set new = policyRouteKeyOf ` set rs - insert (policyRouteKeyOf r) seen"
      by blast
    with False show ?thesis by (intro exI [of _ "r # new"]) auto
  qed
qed

definition attached_to :: "Route \<Rightarrow> str \<Rightarrow> str \<Rightarrow> str \<Rightarrow> str option \<Rightarrow> bool" where
  "attached_to route kind ns name lis \<longleftrightarrow>
     (\<exists>p\<in>set (ParentsOf route). parent_Matches p kind ns name \<and> CoversListener p lis)"

lemma count_filter_key:
  "count_list (map f (for_append xs (\<lambda>x. if P x then [x] else []))) k \<le> count_list (map f xs) k"
  by (induction xs) auto

lemma count_list_distinct: "distinct xs \<Longrightarrow> count_list xs k = (if k \<in> set xs then 1 else 0)"
  by (induction xs) auto

text \<open>
  C17: a Gateway target covers every route attached to the Gateway (to the listener it names, if
  it names one) and every route attached to a ListenerSet belonging to that Gateway, whatever
  the listener named; it covers nothing else, and a route attached through both is covered once
  when the context holds it once.
\<close>

theorem gateway_coverage:
  "policyRouteKeyOf ` set (routesAttachedToGateway ctx ns name lis) =
     policyRouteKeyOf ` {route \<in> set (Routes_of ctx).
       attached_to route Gateway ns name lis \<or>
       (\<exists>ls. ListenerSet_v1 ls \<in> K8sObject ` set (Objects ctx) \<and> belongs_to ls ns name \<and>
          attached_to route ListenerSet (meta_Namespace (ls_Meta ls)) (meta_Name (ls_Meta ls)) None)} \<and>
   set (routesAttachedToGateway ctx ns name lis) \<subseteq> set (Routes_of ctx) \<and>
   (\<forall>k. count_list (map policyRouteKeyOf (routesAttachedToGateway ctx ns name lis)) k
      \<le> count_list (map policyRouteKeyOf (Routes_of ctx)) k)"
proof -
  let ?direct = "routesAttachedToParent ctx Gateway ns name lis"
  let ?via = "for_append (listenerSetsBelongingTo ctx ns name) (\<lambda>ls.
     routesAttachedToParent ctx ListenerSet (ref_Namespace ls) (ref_Name ls) None)"
  obtain new where new: "routesAttachedToGateway ctx ns name lis = ?direct @ new" "set new \<subseteq> set ?via"
    "distinct (map policyRouteKeyOf new)"
    "policyRouteKeyOf ` set new = policyRouteKeyOf ` set ?via - policyRouteKeyOf ` set ?direct"
    using add_unseen_append [of "policyRouteKeyOf ` set ?direct" ?direct ?via]
    by (auto simp only: routesAttachedToGateway_def Let_def)
  have via: "set ?via = {route \<in> set (Routes_of ctx).
       \<exists>ls. ListenerSet_v1 ls \<in> K8sObject ` set (Objects ctx) \<and> belongs_to ls ns name \<and>
          attached_to route ListenerSet (meta_Namespace (ls_Meta ls)) (meta_Name (ls_Meta ls)) None}"
  proof -
    have image_ex: "(\<exists>ref\<in>{f ls | ls. P ls}. Q ref) \<longleftrightarrow> (\<exists>ls. P ls \<and> Q (f ls))"
      for f :: "listener_set \<Rightarrow> ObjectRef" and P Q by blast
    show ?thesis
      unfolding set_concat set_map image_image set_eq_iff UN_iff set_listenerSetsBelongingTo image_ex
        set_routesAttachedToParent attached_to_def mk_ref_sel by blast
  qed
  have direct: "set ?direct = {route \<in> set (Routes_of ctx). attached_to route Gateway ns name lis}"
    by (auto simp: set_routesAttachedToParent attached_to_def)
  have keys: "policyRouteKeyOf ` set (routesAttachedToGateway ctx ns name lis) =
      policyRouteKeyOf ` (set ?direct \<union> set ?via)"
    using new(1,4) by (auto simp: image_Un)
  have "set (routesAttachedToGateway ctx ns name lis) \<subseteq> set (Routes_of ctx)"
    using new(1,2) via direct by auto
  moreover have "count_list (map policyRouteKeyOf (routesAttachedToGateway ctx ns name lis)) k
      \<le> count_list (map policyRouteKeyOf (Routes_of ctx)) k" for k
  proof (cases "k \<in> policyRouteKeyOf ` set new")
    case False
    then have "count_list (map policyRouteKeyOf new) k = 0" by (simp add: count_list_0_iff)
    then show ?thesis
      unfolding new(1) map_append count_list_append routesAttachedToParent_def
      using count_filter_key [of policyRouteKeyOf _ "Routes_of ctx" k] by simp
  next
    case True
    with new(4) have "count_list (map policyRouteKeyOf ?direct) k = 0" by (simp add: count_list_0_iff)
    moreover have "count_list (map policyRouteKeyOf new) k = 1"
      using True count_list_distinct [OF new(3), of k] by simp
    moreover have "k \<in> policyRouteKeyOf ` set (Routes_of ctx)" using True new(2) via by auto
    then have "count_list (map policyRouteKeyOf (Routes_of ctx)) k \<noteq> 0" by (simp add: count_list_0_iff)
    ultimately show ?thesis unfolding new(1) map_append count_list_append by linarith
  qed
  moreover have "set ?direct \<union> set ?via = {route \<in> set (Routes_of ctx).
       attached_to route Gateway ns name lis \<or>
       (\<exists>ls. ListenerSet_v1 ls \<in> K8sObject ` set (Objects ctx) \<and> belongs_to ls ns name \<and>
          attached_to route ListenerSet (meta_Namespace (ls_Meta ls)) (meta_Name (ls_Meta ls)) None)}"
    unfolding via direct by blast
  ultimately show ?thesis unfolding keys by simp
qed

end
