(* ===== verification/Fqdn_Coverage.thy ===== *)
theory Fqdn_Coverage
  imports Policy_Coverage
begin

text \<open>
  \<open>pkg/templates/fqdnbackendcoldstart/coverage.go\<close>: the package's own copy of
  \<open>gatewayapi\<close>'s policy coverage, written before that moved to the shared package. The
  definitions follow the copy; \<open>fq_\<close> marks a function whose name both packages use.
  \<open>coverage_copies_agree\<close> shows that the two compute the same coverage.
\<close>

record targetRef =
  tr_Kind :: str
  tr_Name :: str
  tr_SectionName :: "str option"
  tr_viaSelector :: bool

definition policyTargetRefs :: "traffic_policy \<Rightarrow> targetRef list" where
  "policyTargetRefs policy =
     (case btp_TargetRef policy of
        Some ref \<Rightarrow> [\<lparr>tr_Kind = pol_Kind ref, tr_Name = pol_Name ref, tr_SectionName = pol_SectionName ref,
                      tr_viaSelector = False\<rparr>]
      | None \<Rightarrow> []) @
     for_append (btp_TargetRefs policy) (\<lambda>r.
       [\<lparr>tr_Kind = pol_Kind r, tr_Name = pol_Name r, tr_SectionName = pol_SectionName r,
         tr_viaSelector = False\<rparr>])"

record coveredRoute =
  cr_ref :: targetRef
  cr_route :: Route
  cr_inherited :: bool
  cr_ruleSection :: "str option"

definition isParentKind :: "str \<Rightarrow> bool" where
  "isParentKind kind \<longleftrightarrow> kind = Gateway \<or> kind = ListenerSet"

definition isRouteKind :: "str \<Rightarrow> bool" where
  "isRouteKind kind \<longleftrightarrow> list_ex (\<lambda>k. kind = k) RouteKinds"

definition namespaceSelected :: "str option \<Rightarrow> str \<Rightarrow> str \<Rightarrow> bool" where
  "namespaceSelected ns policyNamespace routeNamespace \<longleftrightarrow>
     (if ns = None \<or> ns = Some ''Same'' then routeNamespace = policyNamespace
      else ns = Some ''All'')"

definition findRoute :: "lint_context \<Rightarrow> str \<Rightarrow> str \<Rightarrow> str \<Rightarrow> Route option" where
  "findRoute lintCtx namespace name kind =
     List.find (\<lambda>route. rt_Kind route = kind \<and> rt_Namespace route = namespace \<and> rt_Name route = name)
       (Routes_of lintCtx)"

record routeKey =
  rk_kind :: str
  rk_namespace :: str
  rk_name :: str

definition keyOf :: "Route \<Rightarrow> routeKey" where
  "keyOf r = \<lparr>rk_kind = rt_Kind r, rk_namespace = rt_Namespace r, rk_name = rt_Name r\<rparr>"

definition routesAttachedTo ::
  "lint_context \<Rightarrow> str \<Rightarrow> str \<Rightarrow> str \<Rightarrow> str option \<Rightarrow> Route list" where
  "routesAttachedTo lintCtx parentKind parentNamespace parentName lis =
     for_append (Routes_of lintCtx) (\<lambda>route.
       if list_ex (\<lambda>parent. parent_Matches parent parentKind parentNamespace parentName \<and>
                            CoversListener parent lis) (ParentsOf route)
       then [route] else [])"

record listenerSetRef =
  lsr_Namespace :: str
  lsr_Name :: str

definition listenerSetsOfGateway :: "lint_context \<Rightarrow> str \<Rightarrow> str \<Rightarrow> listenerSetRef list" where
  "listenerSetsOfGateway lintCtx gatewayNamespace gatewayName =
     for_append (Objects lintCtx) (\<lambda>obj.
       case K8sObject obj of
         ListenerSet_v1 ls \<Rightarrow>
           (let parent = ls_ParentRef ls in
            if pg_Group parent \<noteq> None \<and> pg_Group parent \<noteq> Some gateway_group then []
            else if pg_Kind parent \<noteq> None \<and> pg_Kind parent \<noteq> Some Gateway then []
            else let ns = (case pg_Namespace parent of Some ns \<Rightarrow> ns | None \<Rightarrow> meta_Namespace (ls_Meta ls)) in
              if ns = gatewayNamespace \<and> pg_Name parent = gatewayName
              then [\<lparr>lsr_Namespace = meta_Namespace (ls_Meta ls), lsr_Name = meta_Name (ls_Meta ls)\<rparr>] else [])
       | _ \<Rightarrow> [])"

fun fq_add_unseen :: "routeKey set \<Rightarrow> Route list \<Rightarrow> Route list \<Rightarrow> Route list" where
  "fq_add_unseen seen routes [] = routes"
| "fq_add_unseen seen routes (r # rs) =
     (if keyOf r \<in> seen then fq_add_unseen seen routes rs
      else fq_add_unseen (insert (keyOf r) seen) (routes @ [r]) rs)"

definition fq_routesAttachedToGateway :: "lint_context \<Rightarrow> str \<Rightarrow> str \<Rightarrow> str option \<Rightarrow> Route list" where
  "fq_routesAttachedToGateway lintCtx gatewayNamespace gatewayName lis =
     (let routes = routesAttachedTo lintCtx Gateway gatewayNamespace gatewayName lis in
      fq_add_unseen (keyOf ` set routes) routes
        (for_append (listenerSetsOfGateway lintCtx gatewayNamespace gatewayName) (\<lambda>ls.
           routesAttachedTo lintCtx ListenerSet (lsr_Namespace ls) (lsr_Name ls) None)))"

definition resolveRoutes :: "lint_context \<Rightarrow> str \<Rightarrow> targetRef \<Rightarrow> Route list" where
  "resolveRoutes lintCtx policyNamespace ref =
     (if tr_Kind ref = Gateway then
        fq_routesAttachedToGateway lintCtx policyNamespace (tr_Name ref) (tr_SectionName ref)
      else if tr_Kind ref = ListenerSet then
        routesAttachedTo lintCtx ListenerSet policyNamespace (tr_Name ref) (tr_SectionName ref)
      else if \<not> isRouteKind (tr_Kind ref) then []
      else (case findRoute lintCtx policyNamespace (tr_Name ref) (tr_Kind ref) of
              None \<Rightarrow> [] | Some route \<Rightarrow> [route]))"

definition resolveSelectedRoutes :: "runtime \<Rightarrow> lint_context \<Rightarrow> str \<Rightarrow> target_selector \<Rightarrow> Route list" where
  "resolveSelectedRoutes R lintCtx policyNamespace sel =
     (if sel_Group sel \<noteq> None \<and> sel_Group sel \<noteq> Some gateway_group then []
      else if \<not> isRouteKind (sel_Kind sel) then []
      else (case LabelSelectorAsSelector R (sel_MatchLabels sel) (sel_MatchExpressions sel) of
              None \<Rightarrow> []
            | Some matches \<Rightarrow>
                for_append (Objects lintCtx) (\<lambda>obj.
                  case AsRoute (K8sObject obj) of
                    None \<Rightarrow> []
                  | Some route \<Rightarrow>
                      if rt_Kind route \<noteq> sel_Kind sel then []
                      else if \<not> namespaceSelected (sel_Namespaces sel) policyNamespace (rt_Namespace route) then []
                      else if \<not> matches (rt_Labels route) then []
                      else [route])))"

definition policyCoverage :: "runtime \<Rightarrow> lint_context \<Rightarrow> traffic_policy \<Rightarrow> coveredRoute list" where
  "policyCoverage R lintCtx policy =
     for_append (policyTargetRefs policy) (\<lambda>ref.
       let inherited = isParentKind (tr_Kind ref);
           ruleSection = (if \<not> inherited then tr_SectionName ref else None)
       in map (\<lambda>route. \<lparr>cr_ref = ref, cr_route = route, cr_inherited = inherited,
                         cr_ruleSection = ruleSection\<rparr>)
            (resolveRoutes lintCtx (meta_Namespace (btp_Meta policy)) ref)) @
     for_append (btp_TargetSelectors policy) (\<lambda>sel.
       map (\<lambda>route. \<lparr>cr_ref = \<lparr>tr_Kind = rt_Kind route, tr_Name = rt_Name route, tr_SectionName = None,
                                tr_viaSelector = True\<rparr>,
                      cr_route = route, cr_inherited = False, cr_ruleSection = None\<rparr>)
         (resolveSelectedRoutes R lintCtx (meta_Namespace (btp_Meta policy)) sel))"

definition sectionCoversRule :: "str option \<Rightarrow> str option \<Rightarrow> bool" where
  "sectionCoversRule section rule \<longleftrightarrow> (if section = None then True else rule \<noteq> None \<and> rule = section)"

definition hasHealthCheck :: "traffic_policy \<Rightarrow> bool" where
  "hasHealthCheck policy \<longleftrightarrow>
     (case btp_HealthCheck policy of None \<Rightarrow> False | Some hc \<Rightarrow> hc_Active hc \<or> hc_Passive hc)"

definition isOverridden :: "runtime \<Rightarrow> lint_context \<Rightarrow> Route \<Rightarrow> str option \<Rightarrow> nat \<Rightarrow> bool" where
  "isOverridden R lintCtx route rule self =
     list_ex (\<lambda>obj.
       case K8sObject obj of
         BackendTrafficPolicy_v1alpha1 other \<Rightarrow>
           if obj_Ptr obj = self \<or> \<not> hasHealthCheck other then False
           else list_ex (\<lambda>covered.
             if cr_inherited covered \<or> keyOf (cr_route covered) \<noteq> keyOf route then False
             else sectionCoversRule (cr_ruleSection covered) rule)
             (policyCoverage R lintCtx other)
       | _ \<Rightarrow> False) (Objects lintCtx)"

section \<open>The copy computes what the shared package computes\<close>

definition target_of :: "targetRef \<Rightarrow> PolicyTarget" where
  "target_of ref = \<lparr>pt_Kind = tr_Kind ref, pt_Name = tr_Name ref, pt_SectionName = tr_SectionName ref,
     pt_ViaSelector = tr_viaSelector ref\<rparr>"

definition covered_of :: "coveredRoute \<Rightarrow> CoveredRoute" where
  "covered_of c = \<lparr>cov_Target = target_of (cr_ref c), cov_Route = cr_route c,
     cov_Inherited = cr_inherited c, cov_RuleSection = cr_ruleSection c\<rparr>"

lemma same_kind_tests: "isParentKind = IsParentKind" "isRouteKind = IsRouteKind"
    "namespaceSelected = targetNamespaceSelected" "sectionCoversRule = SectionCoversRule"
  by (simp_all add: fun_eq_iff isParentKind_def IsParentKind_def isRouteKind_def IsRouteKind_def
      namespaceSelected_def targetNamespaceSelected_def sectionCoversRule_def SectionCoversRule_def)

lemma same_key: "keyOf r = keyOf s \<longleftrightarrow> policyRouteKeyOf r = policyRouteKeyOf s"
  by (auto simp: keyOf_def policyRouteKeyOf_def)

lemma same_attached: "routesAttachedTo = routesAttachedToParent"
  by (simp add: fun_eq_iff routesAttachedTo_def routesAttachedToParent_def)

lemma same_add_unseen:
  "(\<And>r. keyOf r \<in> seen \<longleftrightarrow> policyRouteKeyOf r \<in> seen') \<Longrightarrow>
     fq_add_unseen seen routes rs = add_unseen seen' routes rs"
  by (induction rs arbitrary: seen seen' routes) (simp_all add: same_key)

lemma same_listener_sets:
  "map (\<lambda>ls. mk_ref ListenerSet (lsr_Namespace ls) (lsr_Name ls)) (listenerSetsOfGateway ctx ns name) =
     listenerSetsBelongingTo ctx ns name"
  unfolding listenerSetsOfGateway_def listenerSetsBelongingTo_def map_for_append
  by (intro arg_cong [of _ _ concat] map_cong refl) (simp add: ListenerSetParent_def Let_def split: k8s_object.split)

lemma same_gateway: "fq_routesAttachedToGateway = routesAttachedToGateway"
proof (intro ext)
  fix ctx ns name lis
  have via: "for_append (listenerSetsOfGateway ctx ns name) (\<lambda>ls.
      routesAttachedTo ctx ListenerSet (lsr_Namespace ls) (lsr_Name ls) None) =
    for_append (listenerSetsBelongingTo ctx ns name) (\<lambda>ls.
      routesAttachedToParent ctx ListenerSet (ref_Namespace ls) (ref_Name ls) None)"
    unfolding same_listener_sets [symmetric] map_map by (simp add: same_attached comp_def)
  show "fq_routesAttachedToGateway ctx ns name lis = routesAttachedToGateway ctx ns name lis"
    unfolding fq_routesAttachedToGateway_def routesAttachedToGateway_def Let_def via unfolding same_attached
    by (rule same_add_unseen) (simp add: image_iff same_key)
qed

lemma same_resolve: "resolveRoutes ctx ns ref = routesTargetedBy ctx ns (target_of ref)"
  by (simp add: resolveRoutes_def routesTargetedBy_def target_of_def same_gateway same_attached
      same_kind_tests findRoute_def split: option.split)

lemma same_selected: "resolveSelectedRoutes = routesSelectedBy"
proof (intro ext)
  fix R ctx ns sel
  have loop: "for_append (Objects ctx) (\<lambda>obj. case AsRoute (K8sObject obj) of None \<Rightarrow> []
        | Some route \<Rightarrow> f route) = for_append (Routes_of ctx) f" for f :: "Route \<Rightarrow> Route list"
  proof -
    have "for_append objs (\<lambda>obj. case AsRoute (K8sObject obj) of None \<Rightarrow> [] | Some route \<Rightarrow> f route) =
      for_append (for_append objs (\<lambda>obj. case AsRoute (K8sObject obj) of Some route \<Rightarrow> [route] | None \<Rightarrow> [])) f" for objs
      by (induction objs) (simp_all split: option.split)
    then show ?thesis by (simp only: Routes_of_def)
  qed
  show "resolveSelectedRoutes R ctx ns sel = routesSelectedBy R ctx ns sel"
    unfolding resolveSelectedRoutes_def routesSelectedBy_def same_kind_tests loop by (rule refl)
qed

lemma coverage_copies_lemma:
  "map covered_of (policyCoverage R ctx policy) = BackendTrafficPolicyCoverage R ctx policy"
proof -
  have targets: "map target_of (policyTargetRefs policy) = BackendTrafficPolicyTargets policy"
    by (simp add: policyTargetRefs_def BackendTrafficPolicyTargets_def named_target_def target_of_def
        for_append_singleton split: option.split)
  show ?thesis
    unfolding policyCoverage_def BackendTrafficPolicyCoverage_def targets [symmetric] map_append map_for_append
      map_map comp_def same_resolve same_selected same_kind_tests
    by (simp add: covered_of_def target_of_def comp_def Let_def cong: if_cong)
qed

text \<open>
  C16: the coverage computed by the copy in \<open>fqdnbackendcoldstart\<close> is, entry by entry and in
  order, the one of the shared package, so the two checks on health checks never disagree on the
  routes a policy reaches.
\<close>

theorem coverage_copies_agree:
  "map covered_of (policyCoverage R ctx policy) = BackendTrafficPolicyCoverage R ctx policy"
  by (rule coverage_copies_lemma)

end
