(* ===== verification/Checks_Health.thy ===== *)
theory Checks_Health
  imports Fqdn_Coverage
begin

text \<open>
  The two checks on a BackendTrafficPolicy's health check: \<open>fqdn-backend-cold-start\<close> (a policy
  without one, over a Backend resolved by DNS) and \<open>health-check-without-failover\<close> (a policy with
  one, over a Backend with a single endpoint). Each slices or indexes a list, so each can panic
  in Go; the interpretations of \<open>check_contract\<close> show that neither does.
\<close>

section \<open>fqdn-backend-cold-start\<close>

definition fbc_describeCoverage :: "runtime \<Rightarrow> targetRef \<Rightarrow> Route \<Rightarrow> str" where
  "fbc_describeCoverage R ref route =
     (if tr_viaSelector ref then
        ''selects '' @ rt_Kind route @ '' '' @ quote R (rt_Name route) @ '', which routes to''
      else if isParentKind (tr_Kind ref) then
        ''targets '' @ tr_Kind ref @ '' '' @ quote R (tr_Name ref) @ '', whose attached '' @ rt_Kind route @
        '' '' @ quote R (rt_Name route) @ '' routes to''
      else ''targets '' @ tr_Kind ref @ '' '' @ quote R (tr_Name ref) @ '', which routes to'')"

definition describeEndpoints :: "runtime \<Rightarrow> str list \<Rightarrow> str go" where
  "describeEndpoints R hostnames =
     (let quoted = quoted_list R hostnames in
      if length quoted = 1 then Some (''FQDN endpoint '' @ quoted ! 0)
      else go_bind (join_last quoted '', '' '' and '') (\<lambda>s. Some (''FQDN endpoints '' @ s)))"

definition isEnvoyGatewayBackendRef :: "backend_object \<Rightarrow> bool" where
  "isEnvoyGatewayBackendRef ref \<longleftrightarrow>
     (if bo_Kind ref = None \<or> bo_Kind ref \<noteq> Some KindBackend then False
      else bo_Group ref \<noteq> None \<and> bo_Group ref = Some envoy_group)"

definition backends_of :: "lint_context \<Rightarrow> backend list" where
  "backends_of lintCtx =
     for_append (Objects lintCtx) (\<lambda>obj. case K8sObject obj of Backend_v1alpha1 b \<Rightarrow> [b] | _ \<Rightarrow> [])"

definition findBackend :: "lint_context \<Rightarrow> str \<Rightarrow> str \<Rightarrow> backend option" where
  "findBackend lintCtx namespace name =
     List.find (\<lambda>b. meta_Namespace (be_Meta b) = namespace \<and> meta_Name (be_Meta b) = name)
       (backends_of lintCtx)"

definition fqdnHostnames :: "backend \<Rightarrow> str list" where
  "fqdnHostnames backend =
     for_append (be_Endpoints backend) (\<lambda>endpoint.
       case ep_FQDN endpoint of
         Some fqdn \<Rightarrow> if fqdn_Hostname fqdn \<noteq> '''' then [fqdn_Hostname fqdn] else []
       | None \<Rightarrow> [])"

definition fbc_message :: "runtime \<Rightarrow> targetRef \<Rightarrow> Route \<Rightarrow> backend \<Rightarrow> str \<Rightarrow> str" where
  "fbc_message R ref route backend endpoints =
     ''BackendTrafficPolicy has no health check, but '' @ fbc_describeCoverage R ref route @ '' Backend '' @
     quote R (meta_Name (be_Meta backend)) @ '' with '' @ endpoints @
     ''; this backend resolves via DNS at startup and can 503 before the name resolves''"

definition fbc_backendRef ::
  "runtime \<Rightarrow> lint_context \<Rightarrow> nat \<Rightarrow> coveredRoute \<Rightarrow> BackendRef \<Rightarrow> diagnostic list go" where
  "fbc_backendRef R lintCtx self coverage backendRef =
     (let ref = cr_ref coverage; route = cr_route coverage in
      if \<not> sectionCoversRule (cr_ruleSection coverage) (br_Rule backendRef) then Some []
      else if \<not> isEnvoyGatewayBackendRef (br_Ref backendRef) then Some []
      else if cr_inherited coverage \<and> isOverridden R lintCtx route (br_Rule backendRef) self then Some []
      else
        let backendNamespace = (case bo_Namespace (br_Ref backendRef) of Some ns \<Rightarrow> ns | None \<Rightarrow> rt_Namespace route)
        in (case findBackend lintCtx backendNamespace (bo_Name (br_Ref backendRef)) of
              None \<Rightarrow> Some []
            | Some backend \<Rightarrow>
                let hostnames = fqdnHostnames backend in
                if length hostnames > 0 then
                  go_bind (describeEndpoints R hostnames) (\<lambda>endpoints.
                    Some [\<lparr>Message = fbc_message R ref route backend endpoints\<rparr>])
                else Some []))"

definition fbc_checkFunc :: check_func where
  "fbc_checkFunc R lintCtx object =
     (case K8sObject object of
        BackendTrafficPolicy_v1alpha1 policy \<Rightarrow>
          if hasHealthCheck policy then Some []
          else for_go (policyCoverage R lintCtx policy) (\<lambda>coverage.
                 for_go (rt_BackendRefs (cr_route coverage))
                   (fbc_backendRef R lintCtx (obj_Ptr object) coverage))
      | _ \<Rightarrow> Some [])"

definition fbc_template :: check_template where
  "fbc_template = \<lparr>tm_HumanName = ''FQDN Backend Cold-Start Risk'', tm_Key = ''fqdn-backend-cold-start'',
     tm_Description =
       ''Flag BackendTrafficPolicies with no health check that cover a route whose backend '' @
       ''resolves via FQDN, which can 503 before DNS resolves at startup'',
     tm_ObjectKinds = [BackendTrafficPolicy], tm_Check = fbc_checkFunc\<rparr>"

section \<open>health-check-without-failover\<close>

definition hcf_hasHealthCheck :: "traffic_policy \<Rightarrow> bool" where
  "hcf_hasHealthCheck policy \<longleftrightarrow>
     (case btp_HealthCheck policy of None \<Rightarrow> False | Some hc \<Rightarrow> hc_Active hc \<or> hc_Passive hc)"

definition hcf_describeCoverage :: "runtime \<Rightarrow> CoveredRoute \<Rightarrow> str" where
  "hcf_describeCoverage R coverage =
     (let target = cov_Target coverage; route = cov_Route coverage in
      if pt_ViaSelector target then
        ''selects '' @ rt_Kind route @ '' '' @ quote R (rt_Name route) @ '', which routes to''
      else if IsParentKind (pt_Kind target) then
        ''targets '' @ pt_Kind target @ '' '' @ quote R (pt_Name target) @ '', whose attached '' @
        rt_Kind route @ '' '' @ quote R (rt_Name route) @ '' routes to''
      else ''targets '' @ pt_Kind target @ '' '' @ quote R (pt_Name target) @ '', which routes to'')"

definition describeEndpoint :: "runtime \<Rightarrow> backend_endpoint \<Rightarrow> str" where
  "describeEndpoint R endpoint =
     (case ep_FQDN endpoint of
        Some fqdn \<Rightarrow> ''FQDN '' @ quote R (fqdn_Hostname fqdn) @ '' on port '' @ fmt_int32 (fqdn_Port fqdn)
      | None \<Rightarrow>
          (case ep_IP endpoint of
             Some ip \<Rightarrow> ''IP '' @ quote R (ip_Address ip) @ '' on port '' @ fmt_int32 (ip_Port ip)
           | None \<Rightarrow>
               (case ep_Unix endpoint of
                  Some path \<Rightarrow> ''unix socket '' @ quote R path
                | None \<Rightarrow> ''an endpoint of no recognized type'')))"

definition hcf_isEnvoyGatewayBackendRef :: "backend_object \<Rightarrow> bool" where
  "hcf_isEnvoyGatewayBackendRef ref \<longleftrightarrow>
     (if bo_Kind ref = None \<or> bo_Kind ref \<noteq> Some KindBackend then False
      else bo_Group ref \<noteq> None \<and> bo_Group ref = Some envoy_group)"

definition hcf_findBackend :: "lint_context \<Rightarrow> str \<Rightarrow> str \<Rightarrow> backend option" where
  "hcf_findBackend lintCtx namespace name =
     List.find (\<lambda>b. meta_Namespace (be_Meta b) = namespace \<and> meta_Name (be_Meta b) = name)
       (backends_of lintCtx)"

text \<open>The loop of \<open>soleBackend\<close> that keeps the only covered backendRef, and gives up on a second.\<close>

fun only_ref :: "str option \<Rightarrow> BackendRef option \<Rightarrow> BackendRef list \<Rightarrow> BackendRef option" where
  "only_ref section only [] = only"
| "only_ref section only (ref # refs) =
     (if \<not> SectionCoversRule section (br_Rule ref) then only_ref section only refs
      else (case only of
              Some _ \<Rightarrow> None
            | None \<Rightarrow> only_ref section (Some ref) refs))"

definition soleBackend :: "lint_context \<Rightarrow> CoveredRoute \<Rightarrow> backend option \<times> nat" where
  "soleBackend lintCtx coverage =
     (case only_ref (cov_RuleSection coverage) None (rt_BackendRefs (cov_Route coverage)) of
        None \<Rightarrow> (None, 0)
      | Some only \<Rightarrow>
          if \<not> hcf_isEnvoyGatewayBackendRef (br_Ref only) then (None, 0)
          else (case hcf_findBackend lintCtx (backendref_Namespace only (rt_Namespace (cov_Route coverage)))
                       (bo_Name (br_Ref only)) of
                  None \<Rightarrow> (None, 0)
                | Some backend \<Rightarrow>
                    if be_Type backend \<noteq> None \<and> be_Type backend = Some BackendTypeDynamicResolver then (None, 0)
                    else (Some backend, length (be_Endpoints backend))))"

definition hcf_message :: "runtime \<Rightarrow> CoveredRoute \<Rightarrow> backend \<Rightarrow> backend_endpoint \<Rightarrow> str" where
  "hcf_message R coverage backend endpoint =
     ''BackendTrafficPolicy configures a health check and '' @ hcf_describeCoverage R coverage @ '' Backend '' @
     quote R (meta_Name (be_Meta backend)) @ '', whose only endpoint is '' @ describeEndpoint R endpoint @
     ''; ejecting it empties the load balancing set, so requests fail fast instead of failing over''"

definition hcf_coverage :: "runtime \<Rightarrow> lint_context \<Rightarrow> nat \<Rightarrow> CoveredRoute \<Rightarrow> diagnostic list go" where
  "hcf_coverage R lintCtx self coverage =
     (if cov_Inherited coverage \<and> MoreSpecificPolicyCovers R lintCtx (cov_Route coverage) None self then Some []
      else
        let (backend, endpoints) = soleBackend lintCtx coverage in
        (case backend of
           None \<Rightarrow> Some []
         | Some backend \<Rightarrow>
             if endpoints \<noteq> 1 then Some []
             else (case be_Endpoints backend of
                     [] \<Rightarrow> None
                   | endpoint # _ \<Rightarrow> Some [\<lparr>Message = hcf_message R coverage backend endpoint\<rparr>])))"

definition hcf_checkFunc :: check_func where
  "hcf_checkFunc R lintCtx object =
     (case K8sObject object of
        BackendTrafficPolicy_v1alpha1 policy \<Rightarrow>
          if \<not> hcf_hasHealthCheck policy then Some []
          else for_go (BackendTrafficPolicyCoverage R lintCtx policy) (hcf_coverage R lintCtx (obj_Ptr object))
      | _ \<Rightarrow> Some [])"

definition hcf_template :: check_template where
  "hcf_template = \<lparr>tm_HumanName = ''Health Check Without Failover'', tm_Key = ''health-check-without-failover'',
     tm_Description =
       ''Flag BackendTrafficPolicies whose health check covers a route served by a single '' @
       ''Backend endpoint, where ejecting it leaves nowhere to fail over to'',
     tm_ObjectKinds = [BackendTrafficPolicy], tm_Check = hcf_checkFunc\<rparr>"

section \<open>The two packages' copies\<close>

lemma same_helpers: "hcf_hasHealthCheck = hasHealthCheck"
    "hcf_isEnvoyGatewayBackendRef = isEnvoyGatewayBackendRef" "hcf_findBackend = findBackend"
  by (simp_all add: fun_eq_iff hcf_hasHealthCheck_def hasHealthCheck_def hcf_isEnvoyGatewayBackendRef_def
      isEnvoyGatewayBackendRef_def hcf_findBackend_def findBackend_def)

lemma isEnvoy_iff: "isEnvoyGatewayBackendRef ref \<longleftrightarrow> bo_Kind ref = Some KindBackend \<and> bo_Group ref = Some envoy_group"
  by (auto simp: isEnvoyGatewayBackendRef_def)

lemma only_ref_eq:
  "only_ref sec None refs =
     (case filter (\<lambda>r. SectionCoversRule sec (br_Rule r)) refs of [r] \<Rightarrow> Some r | _ \<Rightarrow> None)"
proof -
  have some: "only_ref sec (Some r) refs =
      (if filter (\<lambda>r. SectionCoversRule sec (br_Rule r)) refs = [] then Some r else None)" for r refs
    by (induction refs) auto
  show ?thesis by (induction refs) (auto simp: some split: list.split)
qed

section \<open>Running the loops\<close>

definition bound_backend :: "lint_context \<Rightarrow> Route \<Rightarrow> BackendRef \<Rightarrow> backend option" where
  "bound_backend ctx route ref =
     (if isEnvoyGatewayBackendRef (br_Ref ref)
      then findBackend ctx (backendref_Namespace ref (rt_Namespace route)) (bo_Name (br_Ref ref)) else None)"

definition cold_start :: "runtime \<Rightarrow> lint_context \<Rightarrow> nat \<Rightarrow> coveredRoute \<Rightarrow> BackendRef \<Rightarrow> bool" where
  "cold_start R ctx self c ref \<longleftrightarrow>
     sectionCoversRule (cr_ruleSection c) (br_Rule ref) \<and>
     \<not> (cr_inherited c \<and> isOverridden R ctx (cr_route c) (br_Rule ref) self) \<and>
     (\<exists>b. bound_backend ctx (cr_route c) ref = Some b \<and> fqdnHostnames b \<noteq> [])"

definition cold_start_message :: "runtime \<Rightarrow> lint_context \<Rightarrow> coveredRoute \<Rightarrow> BackendRef \<Rightarrow> str" where
  "cold_start_message R ctx c ref =
     (let b = the (bound_backend ctx (cr_route c) ref) in
      fbc_message R (cr_ref c) (cr_route c) b (the (describeEndpoints R (fqdnHostnames b))))"

lemma describeEndpoints_total: "hs \<noteq> [] \<Longrightarrow> \<exists>s. describeEndpoints R hs = Some s"
  by (simp add: describeEndpoints_def join_last_def quoted_list_def Let_def)

lemma fbc_backendRef_eq:
  "fbc_backendRef R ctx self c ref =
     Some (if cold_start R ctx self c ref then [\<lparr>Message = cold_start_message R ctx c ref\<rparr>] else [])"
proof (cases "bound_backend ctx (cr_route c) ref")
  case None
  then show ?thesis
    by (simp add: fbc_backendRef_def cold_start_def bound_backend_def backendref_Namespace_def Let_def
        split: option.splits if_splits)
next
  case (Some b)
  then have envoy: "isEnvoyGatewayBackendRef (br_Ref ref)"
    and found: "findBackend ctx (case bo_Namespace (br_Ref ref) of Some ns \<Rightarrow> ns | None \<Rightarrow> rt_Namespace (cr_route c))
      (bo_Name (br_Ref ref)) = Some b"
    by (simp_all add: bound_backend_def backendref_Namespace_def split: if_splits option.splits)
  show ?thesis
  proof (cases "fqdnHostnames b = []")
    case True
    with envoy found Some show ?thesis by (simp add: fbc_backendRef_def cold_start_def Let_def)
  next
    case False
    then obtain s where "describeEndpoints R (fqdnHostnames b) = Some s" using describeEndpoints_total by blast
    with False envoy found Some show ?thesis
      by (simp add: fbc_backendRef_def cold_start_def cold_start_message_def Let_def)
  qed
qed

lemma fbc_run:
  "fbc_checkFunc R ctx obj =
     Some (case K8sObject obj of
        BackendTrafficPolicy_v1alpha1 policy \<Rightarrow>
          if hasHealthCheck policy then []
          else for_append (policyCoverage R ctx policy) (\<lambda>c.
            map (\<lambda>ref. \<lparr>Message = cold_start_message R ctx c ref\<rparr>)
              (filter (cold_start R ctx (obj_Ptr obj) c) (rt_BackendRefs (cr_route c))))
      | _ \<Rightarrow> [])"
proof -
  have refs: "for_go refs (fbc_backendRef R ctx self c) = Some (map (\<lambda>ref. \<lparr>Message = cold_start_message R ctx c ref\<rparr>)
      (filter (cold_start R ctx self c) refs))" for refs self c
    using for_go_total [OF fbc_backendRef_eq, where xs = refs] by (simp add: for_append_if')
  have "for_go cs (\<lambda>c. for_go (rt_BackendRefs (cr_route c)) (fbc_backendRef R ctx self c)) =
      Some (for_append cs (\<lambda>c. map (\<lambda>ref. \<lparr>Message = cold_start_message R ctx c ref\<rparr>)
        (filter (cold_start R ctx self c) (rt_BackendRefs (cr_route c)))))" for cs self
    by (rule for_go_total) (rule refs)
  then show ?thesis by (cases "K8sObject obj") (simp_all add: fbc_checkFunc_def)
qed

text \<open>The endpoint whose ejection a health check cannot recover from.\<close>

definition sole_endpoint :: "lint_context \<Rightarrow> CoveredRoute \<Rightarrow> (backend \<times> backend_endpoint) option" where
  "sole_endpoint ctx c =
     (case filter (\<lambda>r. SectionCoversRule (cov_RuleSection c) (br_Rule r)) (rt_BackendRefs (cov_Route c)) of
        [ref] \<Rightarrow>
          (case bound_backend ctx (cov_Route c) ref of
             Some b \<Rightarrow>
               if be_Type b = Some BackendTypeDynamicResolver then None
               else (case be_Endpoints b of [e] \<Rightarrow> Some (b, e) | _ \<Rightarrow> None)
           | None \<Rightarrow> None)
      | _ \<Rightarrow> None)"

definition no_failover :: "runtime \<Rightarrow> lint_context \<Rightarrow> nat \<Rightarrow> CoveredRoute \<Rightarrow> bool" where
  "no_failover R ctx self c \<longleftrightarrow>
     \<not> (cov_Inherited c \<and> MoreSpecificPolicyCovers R ctx (cov_Route c) None self) \<and> sole_endpoint ctx c \<noteq> None"

lemma soleBackend_eq:
  "soleBackend ctx c =
     (case filter (\<lambda>r. SectionCoversRule (cov_RuleSection c) (br_Rule r)) (rt_BackendRefs (cov_Route c)) of
        [ref] \<Rightarrow>
          (case bound_backend ctx (cov_Route c) ref of
             Some b \<Rightarrow>
               if be_Type b = Some BackendTypeDynamicResolver then (None, 0)
               else (Some b, length (be_Endpoints b))
           | None \<Rightarrow> (None, 0))
      | _ \<Rightarrow> (None, 0))"
  unfolding soleBackend_def only_ref_eq same_helpers bound_backend_def
  by (auto split: list.split option.split)

lemma hcf_coverage_eq:
  "hcf_coverage R ctx self c =
     Some (if no_failover R ctx self c
           then [\<lparr>Message = hcf_message R c (fst (the (sole_endpoint ctx c))) (snd (the (sole_endpoint ctx c)))\<rparr>] else [])"
  unfolding hcf_coverage_def no_failover_def soleBackend_eq sole_endpoint_def
  by (auto split: list.splits option.splits if_splits)

lemma hcf_run:
  "hcf_checkFunc R ctx obj =
     Some (case K8sObject obj of
        BackendTrafficPolicy_v1alpha1 policy \<Rightarrow>
          if \<not> hasHealthCheck policy then []
          else map (\<lambda>c. \<lparr>Message = hcf_message R c (fst (the (sole_endpoint ctx c))) (snd (the (sole_endpoint ctx c)))\<rparr>)
            (filter (no_failover R ctx (obj_Ptr obj)) (BackendTrafficPolicyCoverage R ctx policy))
      | _ \<Rightarrow> [])"
proof -
  have "for_go cs (hcf_coverage R ctx self) = Some (map
      (\<lambda>c. \<lparr>Message = hcf_message R c (fst (the (sole_endpoint ctx c))) (snd (the (sole_endpoint ctx c)))\<rparr>)
      (filter (no_failover R ctx self) cs))" for cs self
    using for_go_total [OF hcf_coverage_eq, where xs = cs] by (simp add: for_append_if')
  then show ?thesis by (cases "K8sObject obj") (simp_all add: hcf_checkFunc_def same_helpers)
qed


section \<open>The checks keep the contract\<close>

lemma coverage_tables:
  assumes "same_tables R S"
  shows "BackendTrafficPolicyCoverage R = BackendTrafficPolicyCoverage S" and "policyCoverage R = policyCoverage S"
    and "MoreSpecificPolicyCovers R = MoreSpecificPolicyCovers S" and "isOverridden R = isOverridden S"
proof -
  have sel: "LabelSelectorAsSelector R = LabelSelectorAsSelector S" using assms by (rule same_tables_selector)
  then have r: "routesSelectedBy R = routesSelectedBy S" "resolveSelectedRoutes R = resolveSelectedRoutes S"
    by (intro ext, simp only: routesSelectedBy_def, intro ext, simp only: resolveSelectedRoutes_def)
  then show c: "BackendTrafficPolicyCoverage R = BackendTrafficPolicyCoverage S" "policyCoverage R = policyCoverage S"
    by (intro ext, simp only: BackendTrafficPolicyCoverage_def, intro ext, simp only: policyCoverage_def)
  then show "MoreSpecificPolicyCovers R = MoreSpecificPolicyCovers S" "isOverridden R = isOverridden S"
    by (intro ext, simp only: MoreSpecificPolicyCovers_def, intro ext, simp only: isOverridden_def)
qed

lemma health_messages_tables:
  assumes "same_tables R S"
  shows "fbc_message R = fbc_message S" and "describeEndpoints R = describeEndpoints S" and "hcf_message R = hcf_message S"
proof -
  have q: "quote R = quote S" using assms by (rule same_tables_quote)
  have d: "fbc_describeCoverage R = fbc_describeCoverage S" "hcf_describeCoverage R = hcf_describeCoverage S"
    "describeEndpoint R = describeEndpoint S"
    by (intro ext, simp only: q fbc_describeCoverage_def hcf_describeCoverage_def describeEndpoint_def)+
  show "fbc_message R = fbc_message S" "describeEndpoints R = describeEndpoints S" "hcf_message R = hcf_message S"
    by (intro ext, simp only: q d fbc_message_def describeEndpoints_def hcf_message_def quoted_list_def)+
qed

interpretation fbc: check_contract fbc_checkFunc "[BackendTrafficPolicy]"
proof
  fix R S ctx and obj :: lint_object
  show "kind_of (K8sObject obj) \<notin> Some ` set [BackendTrafficPolicy] \<Longrightarrow> fbc_checkFunc R ctx obj = Some []"
    by (cases "K8sObject obj") (simp_all add: fbc_checkFunc_def kind_names)
  show "\<exists>ds. fbc_checkFunc R ctx obj = Some ds" unfolding fbc_run by blast
  assume "same_tables R S"
  note t = coverage_tables [OF this] health_messages_tables [OF this]
  have "cold_start R = cold_start S" "cold_start_message R = cold_start_message S"
    by (intro ext, simp only: t cold_start_def, intro ext, simp only: t cold_start_message_def)
  then show "fbc_checkFunc R ctx obj = fbc_checkFunc S ctx obj"
    unfolding fbc_run by (simp only: t)
qed

interpretation hcf: check_contract hcf_checkFunc "[BackendTrafficPolicy]"
proof
  fix R S ctx and obj :: lint_object
  show "kind_of (K8sObject obj) \<notin> Some ` set [BackendTrafficPolicy] \<Longrightarrow> hcf_checkFunc R ctx obj = Some []"
    by (cases "K8sObject obj") (simp_all add: hcf_checkFunc_def kind_names)
  show "\<exists>ds. hcf_checkFunc R ctx obj = Some ds" unfolding hcf_run by blast
  assume "same_tables R S"
  note t = coverage_tables [OF this] health_messages_tables [OF this]
  have "no_failover R = no_failover S" by (intro ext, simp only: t no_failover_def)
  then show "hcf_checkFunc R ctx obj = hcf_checkFunc S ctx obj"
    unfolding hcf_run by (simp only: t)
qed

section \<open>Properties\<close>

text \<open>A more specific policy: one with another identity that names the route, or the rule of it, itself.\<close>

definition displaced ::
  "runtime \<Rightarrow> lint_context \<Rightarrow> (traffic_policy \<Rightarrow> bool) \<Rightarrow> nat \<Rightarrow> Route \<Rightarrow> str option \<Rightarrow> bool" where
  "displaced R ctx counts self route rule \<longleftrightarrow>
     (\<exists>obj\<in>set (Objects ctx). \<exists>other. K8sObject obj = BackendTrafficPolicy_v1alpha1 other \<and>
        obj_Ptr obj \<noteq> self \<and> counts other \<and>
        (\<exists>c\<in>set (BackendTrafficPolicyCoverage R ctx other).
           \<not> cov_Inherited c \<and> policyRouteKeyOf (cov_Route c) = policyRouteKeyOf route \<and>
           SectionCoversRule (cov_RuleSection c) rule))"

lemma MoreSpecific_iff: "MoreSpecificPolicyCovers R ctx route rule self \<longleftrightarrow> displaced R ctx (\<lambda>_. True) self route rule"
  unfolding MoreSpecificPolicyCovers_def displaced_def list_ex_iff
  by (intro bex_cong refl) (auto simp: list_ex_iff split: k8s_object.splits)

lemma list_ex_covered:
  "list_ex (\<lambda>c. if cr_inherited c \<or> keyOf (cr_route c) \<noteq> keyOf route then False
      else sectionCoversRule (cr_ruleSection c) rule) (policyCoverage R ctx other) \<longleftrightarrow>
   (\<exists>c\<in>set (BackendTrafficPolicyCoverage R ctx other). \<not> cov_Inherited c \<and>
      policyRouteKeyOf (cov_Route c) = policyRouteKeyOf route \<and> SectionCoversRule (cov_RuleSection c) rule)"
  unfolding coverage_copies_lemma [symmetric] by (auto simp: list_ex_iff covered_of_def same_key same_kind_tests)

lemma isOverridden_iff: "isOverridden R ctx route rule self \<longleftrightarrow> displaced R ctx hasHealthCheck self route rule"
  unfolding isOverridden_def displaced_def list_ex_covered unfolding list_ex_iff
  by (intro bex_cong refl) (auto split: k8s_object.splits)

text \<open>
  \<open>health-check-without-failover\<close> asks for a more specific policy with no rule at all, so a policy
  whose sectionName names a rule never displaces an inherited one there, not even when the only
  backendRef in reach belongs to that rule.
\<close>

lemma rule_policies_never_displace:
  assumes "\<And>other c. c \<in> set (BackendTrafficPolicyCoverage R ctx other) \<Longrightarrow>
      policyRouteKeyOf (cov_Route c) = policyRouteKeyOf route \<Longrightarrow> cov_Inherited c \<or> cov_RuleSection c \<noteq> None"
  shows "\<not> MoreSpecificPolicyCovers R ctx route None self"
  unfolding MoreSpecific_iff displaced_def SectionCoversRule_def using assms by (fastforce split: if_splits)

text \<open>
  C13: \<open>fqdn-backend-cold-start\<close> never panics, and reports a policy exactly when it has neither an
  active nor a passive health check and reaches, through its targets or selectors, a backendRef
  to an Envoy Gateway Backend in the set that has a DNS endpoint; unless the policy reaches the
  route through a Gateway or ListenerSet and another policy, one that does have a health check,
  names the route, or that rule of it, itself.
\<close>

theorem fqdn_cold_start_iff:
  "\<exists>ds. fbc_checkFunc R ctx obj = Some ds \<and>
     (ds \<noteq> [] \<longleftrightarrow>
       (case K8sObject obj of
          BackendTrafficPolicy_v1alpha1 policy \<Rightarrow>
            \<not> hasHealthCheck policy \<and>
            (\<exists>c\<in>set (BackendTrafficPolicyCoverage R ctx policy). \<exists>ref\<in>set (rt_BackendRefs (cov_Route c)).
               SectionCoversRule (cov_RuleSection c) (br_Rule ref) \<and>
               (\<exists>b. bound_backend ctx (cov_Route c) ref = Some b \<and>
                  (\<exists>e\<in>set (be_Endpoints b). \<exists>f. ep_FQDN e = Some f \<and> fqdn_Hostname f \<noteq> '''')) \<and>
               \<not> (cov_Inherited c \<and> displaced R ctx hasHealthCheck (obj_Ptr obj) (cov_Route c) (br_Rule ref)))
        | _ \<Rightarrow> False))"
proof -
  have hosts: "fqdnHostnames b \<noteq> [] \<longleftrightarrow> (\<exists>e\<in>set (be_Endpoints b). \<exists>f. ep_FQDN e = Some f \<and> fqdn_Hostname f \<noteq> '''')" for b
    unfolding fqdnHostnames_def for_append_Nil_iff by (auto split: option.splits)
  have ex: "(\<exists>c\<in>set (policyCoverage R ctx p). \<exists>ref\<in>set (rt_BackendRefs (cr_route c)). cold_start R ctx self c ref) \<longleftrightarrow>
    (\<exists>c\<in>set (BackendTrafficPolicyCoverage R ctx p). \<exists>ref\<in>set (rt_BackendRefs (cov_Route c)).
        SectionCoversRule (cov_RuleSection c) (br_Rule ref) \<and>
        (\<exists>b. bound_backend ctx (cov_Route c) ref = Some b \<and> fqdnHostnames b \<noteq> []) \<and>
        \<not> (cov_Inherited c \<and> displaced R ctx hasHealthCheck self (cov_Route c) (br_Rule ref)))" for p self
    unfolding coverage_copies_lemma [symmetric] set_map
    by (auto simp: covered_of_def cold_start_def isOverridden_iff same_kind_tests)
  have runs: "for_append (policyCoverage R ctx p) (\<lambda>c. map (\<lambda>ref. \<lparr>Message = cold_start_message R ctx c ref\<rparr>)
        (filter (cold_start R ctx (obj_Ptr obj) c) (rt_BackendRefs (cr_route c)))) \<noteq> [] \<longleftrightarrow>
     (\<exists>c\<in>set (policyCoverage R ctx p). \<exists>ref\<in>set (rt_BackendRefs (cr_route c)). cold_start R ctx (obj_Ptr obj) c ref)" for p
    by (auto simp: filter_empty_conv)
  show ?thesis
    unfolding hosts [symmetric] ex [symmetric] runs [symmetric] fbc_run
    by (cases "K8sObject obj") simp_all
qed

text \<open>
  C14: \<open>health-check-without-failover\<close> never panics, and reports a policy exactly when it has a
  health check and reaches a route, not displaced from it by another policy naming the whole
  route, whose only backendRef in the policy's reach is an Envoy Gateway Backend in the set, not
  a dynamic resolver, with exactly one endpoint.
\<close>

theorem health_check_without_failover_iff:
  "\<exists>ds. hcf_checkFunc R ctx obj = Some ds \<and>
     (ds \<noteq> [] \<longleftrightarrow>
       (case K8sObject obj of
          BackendTrafficPolicy_v1alpha1 policy \<Rightarrow>
            hcf_hasHealthCheck policy \<and>
            (\<exists>c\<in>set (BackendTrafficPolicyCoverage R ctx policy).
               \<not> (cov_Inherited c \<and> displaced R ctx (\<lambda>_. True) (obj_Ptr obj) (cov_Route c) None) \<and>
               (\<exists>ref b e.
                  filter (\<lambda>r. SectionCoversRule (cov_RuleSection c) (br_Rule r)) (rt_BackendRefs (cov_Route c)) = [ref] \<and>
                  bound_backend ctx (cov_Route c) ref = Some b \<and> be_Type b \<noteq> Some BackendTypeDynamicResolver \<and>
                  be_Endpoints b = [e]))
        | _ \<Rightarrow> False))"
proof -
  have sole: "sole_endpoint ctx c \<noteq> None \<longleftrightarrow>
     (\<exists>ref b e. filter (\<lambda>r. SectionCoversRule (cov_RuleSection c) (br_Rule r)) (rt_BackendRefs (cov_Route c)) = [ref] \<and>
        bound_backend ctx (cov_Route c) ref = Some b \<and> be_Type b \<noteq> Some BackendTypeDynamicResolver \<and>
        be_Endpoints b = [e])" for c
    unfolding sole_endpoint_def by (auto split: list.splits option.splits if_splits)
  show ?thesis
    unfolding sole [symmetric] MoreSpecific_iff [symmetric] no_failover_def [symmetric] hcf_run same_helpers
    by (cases "K8sObject obj") (auto simp: filter_empty_conv)
qed

text \<open>
  The two checks on health checks partition the policies: no policy is reported by both,
  whatever the manifests.
\<close>

lemma health_checks_exclusive:
  "fbc_checkFunc R ctx obj = Some [] \<or> hcf_checkFunc R ctx obj = Some []"
  unfolding fbc_run hcf_run by (cases "K8sObject obj") simp_all

end
