(* ===== verification/Checks_Policies.thy ===== *)
theory Checks_Policies
  imports Fixtures "HOL-Library.Product_Lexorder"
begin

text \<open>
  The remaining checks on Envoy Gateway objects: \<open>retry-without-budget\<close>, whose message counts
  attempts in a 32-bit integer, \<open>backend-without-endpoints\<close>, and \<open>conflicting-policies\<close>, where
  of the policies claiming one slot only the first by name reports.
\<close>

section \<open>retry-without-budget\<close>

definition hasPerRetryTimeout :: "retry \<Rightarrow> bool" where
  "hasPerRetryTimeout r \<longleftrightarrow>
     (case ret_PerRetry r of
        None \<Rightarrow> False
      | Some per \<Rightarrow> (case per_Timeout per of None \<Rightarrow> False | Some t \<Rightarrow> t \<noteq> ''''))"

definition hasBackOffInterval :: "retry \<Rightarrow> bool" where
  "hasBackOffInterval r \<longleftrightarrow>
     (case ret_PerRetry r of
        None \<Rightarrow> False
      | Some per \<Rightarrow>
          (case per_BackOff per of
             None \<Rightarrow> False
           | Some backOff \<Rightarrow>
               (case bk_BaseInterval backOff of None \<Rightarrow> False | Some i \<Rightarrow> i \<noteq> '''') \<or>
               (case bk_MaxInterval backOff of None \<Rightarrow> False | Some i \<Rightarrow> i \<noteq> '''')))"

definition rwb_attempts :: "int32 \<Rightarrow> int32" where
  "rwb_attempts numRetries = numRetries + 1"

definition rwb_message :: "int32 \<Rightarrow> str" where
  "rwb_message numRetries =
     ''BackendTrafficPolicy sets spec.retry.numRetries to '' @ fmt_int32 numRetries @
     '' with no spec.retry.perRetry.timeout and no spec.retry.perRetry.backOff interval, so one request can become '' @
     fmt_int32 (rwb_attempts numRetries) @
     '' unbounded attempts and retries will amplify load on a backend that is already failing''"

definition rwb_checkFunc :: check_func where
  "rwb_checkFunc R lintCtx object =
     Some (case K8sObject object of
             BackendTrafficPolicy_v1alpha1 policy \<Rightarrow>
               (case btp_Retry policy of
                  None \<Rightarrow> []
                | Some r \<Rightarrow>
                    (case ret_NumRetries r of
                       None \<Rightarrow> []
                     | Some numRetries \<Rightarrow>
                         if numRetries = 0 then []
                         else if hasPerRetryTimeout r \<or> hasBackOffInterval r then []
                         else [\<lparr>Message = rwb_message numRetries\<rparr>]))
           | _ \<Rightarrow> [])"

definition rwb_template :: check_template where
  "rwb_template = \<lparr>tm_HumanName = ''Retry Without Budget'', tm_Key = ''retry-without-budget'',
     tm_Description =
       ''Flag BackendTrafficPolicies that set spec.retry.numRetries with no per-retry timeout '' @
       ''and no backoff interval, so retries can amplify load on a backend that is already failing'',
     tm_ObjectKinds = [BackendTrafficPolicy], tm_Check = rwb_checkFunc\<rparr>"

section \<open>backend-without-endpoints\<close>

definition backendType :: "backend \<Rightarrow> str" where
  "backendType backend = (case be_Type backend of None \<Rightarrow> BackendTypeEndpoints | Some t \<Rightarrow> t)"

definition bwe_message :: "runtime \<Rightarrow> backend \<Rightarrow> str" where
  "bwe_message R backend =
     ''Backend '' @ quote R (meta_Name (be_Meta backend)) @ '' is of type '' @ quote R BackendTypeEndpoints @
     '' but declares no endpoints; it programs a cluster with no members, so every backendRef resolving to it '' @
     ''fails at the gateway''"

definition bwe_checkFunc :: check_func where
  "bwe_checkFunc R lintCtx object =
     Some (case K8sObject object of
             Backend_v1alpha1 backend \<Rightarrow>
               if backendType backend = BackendTypeDynamicResolver then []
               else if length (be_Endpoints backend) > 0 then []
               else [\<lparr>Message = bwe_message R backend\<rparr>]
           | _ \<Rightarrow> [])"

definition bwe_template :: check_template where
  "bwe_template = \<lparr>tm_HumanName = ''Backend Without Endpoints'', tm_Key = ''backend-without-endpoints'',
     tm_Description =
       ''Flag Envoy Gateway Backends that declare no endpoints, so every backendRef '' @
       ''resolving to them has nothing to route to'',
     tm_ObjectKinds = [Object_Kinds.Backend], tm_Check = bwe_checkFunc\<rparr>"

section \<open>conflicting-policies\<close>

record target =
  tg_Group :: str
  tg_Kind :: str
  tg_Namespace :: str
  tg_Name :: str
  tg_Section :: str

definition target_slot :: "traffic_policy \<Rightarrow> policy_ref \<Rightarrow> target" where
  "target_slot policy ref =
     \<lparr>tg_Group = pol_Group ref, tg_Kind = pol_Kind ref, tg_Namespace = meta_Namespace (btp_Meta policy),
      tg_Name = pol_Name ref,
      tg_Section = (case pol_SectionName ref of Some s \<Rightarrow> s | None \<Rightarrow> '''')\<rparr>"

fun add_distinct :: "target set \<Rightarrow> target list \<Rightarrow> target list \<Rightarrow> target list" where
  "add_distinct seen targets [] = targets"
| "add_distinct seen targets (t # ts) =
     (if t \<in> seen then add_distinct seen targets ts
      else add_distinct (insert t seen) (targets @ [t]) ts)"

definition targetsOf :: "traffic_policy \<Rightarrow> target list" where
  "targetsOf policy =
     (let refs = (case btp_TargetRef policy of Some ref \<Rightarrow> [ref] | None \<Rightarrow> []) @ btp_TargetRefs policy
      in add_distinct {} [] (map (target_slot policy) refs))"

definition otherPoliciesTargeting :: "lint_context \<Rightarrow> nat \<Rightarrow> target \<Rightarrow> str list" where
  "otherPoliciesTargeting lintCtx self t =
     sort_strings (for_append (Objects lintCtx) (\<lambda>obj.
       case K8sObject obj of
         BackendTrafficPolicy_v1alpha1 other \<Rightarrow>
           if obj_Ptr obj = self then []
           else if list_ex (\<lambda>otherTarget. otherTarget = t) (targetsOf other)
           then [meta_Name (btp_Meta other)] else []
       | _ \<Rightarrow> []))"

definition isFirstByName :: "str \<Rightarrow> str list \<Rightarrow> bool" where
  "isFirstByName name rivals \<longleftrightarrow> \<not> list_ex (\<lambda>rival. rival < name) rivals"

definition describePolicies :: "runtime \<Rightarrow> str list \<Rightarrow> str go" where
  "describePolicies R names =
     (let quoted = map (\<lambda>n. ''BackendTrafficPolicy '' @ quote R n) names in
      if length quoted = 1 then Some (quoted ! 0) else join_last quoted '', '' '' and '')"

definition describeTarget :: "runtime \<Rightarrow> target \<Rightarrow> str" where
  "describeTarget R t =
     (if tg_Section t = '''' then tg_Kind t @ '' '' @ quote R (tg_Name t)
      else let slot = (if tg_Kind t = Gateway \<or> tg_Kind t = ListenerSet then ''listener'' else ''rule'')
           in slot @ '' '' @ quote R (tg_Section t) @ '' of '' @ tg_Kind t @ '' '' @ quote R (tg_Name t))"

definition cpo_message :: "runtime \<Rightarrow> str \<Rightarrow> target \<Rightarrow> str" where
  "cpo_message R rivals t =
     ''BackendTrafficPolicy and '' @ rivals @ '' both target '' @ describeTarget R t @
     ''; Envoy Gateway attaches only one BackendTrafficPolicy per target and rejects the rest as Conflicted, so '' @
     ''all but one are silently ignored, and which one wins depends on creation timestamps that the '' @
     ''manifests do not carry''"

definition cpo_target :: "runtime \<Rightarrow> lint_context \<Rightarrow> nat \<Rightarrow> traffic_policy \<Rightarrow> target \<Rightarrow> diagnostic list go" where
  "cpo_target R lintCtx self policy t =
     (let rivals = otherPoliciesTargeting lintCtx self t in
      if length rivals = 0 then Some []
      else if \<not> isFirstByName (meta_Name (btp_Meta policy)) rivals then Some []
      else go_bind (describePolicies R rivals) (\<lambda>names. Some [\<lparr>Message = cpo_message R names t\<rparr>]))"

definition cpo_checkFunc :: check_func where
  "cpo_checkFunc R lintCtx object =
     (case K8sObject object of
        BackendTrafficPolicy_v1alpha1 policy \<Rightarrow>
          for_go (targetsOf policy) (cpo_target R lintCtx (obj_Ptr object) policy)
      | _ \<Rightarrow> Some [])"

definition cpo_template :: check_template where
  "cpo_template = \<lparr>tm_HumanName = ''Conflicting BackendTrafficPolicies'', tm_Key = ''conflicting-policies'',
     tm_Description =
       ''Flag two BackendTrafficPolicies targeting the same object and section, where Envoy '' @
       ''Gateway attaches only one and silently rejects the rest as Conflicted'',
     tm_ObjectKinds = [BackendTrafficPolicy], tm_Check = cpo_checkFunc\<rparr>"

section \<open>The slots a policy claims and its rivals\<close>

definition policy_target_refs :: "traffic_policy \<Rightarrow> policy_ref list" where
  "policy_target_refs policy = (case btp_TargetRef policy of Some ref \<Rightarrow> [ref] | None \<Rightarrow> []) @ btp_TargetRefs policy"

lemma set_add_distinct: "set (add_distinct seen targets ts) = set targets \<union> (set ts - seen)"
  by (induction ts arbitrary: seen targets) auto

lemma distinct_add_distinct:
  "distinct targets \<Longrightarrow> set targets \<subseteq> seen \<Longrightarrow> distinct (add_distinct seen targets ts)"
proof (induction ts arbitrary: seen targets)
  case Nil
  then show ?case by simp
next
  case (Cons t ts)
  show ?case
  proof (cases "t \<in> seen")
    case True
    with Cons show ?thesis by simp
  next
    case False
    with Cons.prems have "distinct (targets @ [t])" "set (targets @ [t]) \<subseteq> insert t seen" by auto
    with Cons.IH [OF this] False show ?thesis by simp
  qed
qed

lemma set_targetsOf: "set (targetsOf policy) = target_slot policy ` set (policy_target_refs policy)"
  by (simp add: targetsOf_def policy_target_refs_def set_add_distinct image_Un)

lemma distinct_targetsOf: "distinct (targetsOf policy)"
  by (simp add: targetsOf_def distinct_add_distinct)

definition claims :: "lint_object \<Rightarrow> target \<Rightarrow> bool" where
  "claims obj t \<longleftrightarrow>
     (case K8sObject obj of BackendTrafficPolicy_v1alpha1 p \<Rightarrow> t \<in> set (targetsOf p) | _ \<Rightarrow> False)"

lemma set_rivals:
  "set (otherPoliciesTargeting ctx self t) =
     (\<lambda>obj. GetName (K8sObject obj)) ` {obj \<in> set (Objects ctx). obj_Ptr obj \<noteq> self \<and> claims obj t}"
proof -
  have "(case k of BackendTrafficPolicy_v1alpha1 other \<Rightarrow>
           if p = self then [] else if list_ex (\<lambda>otherTarget. otherTarget = t) (targetsOf other)
           then [meta_Name (btp_Meta other)] else [] | _ \<Rightarrow> []) =
     (if p \<noteq> self \<and> (case k of BackendTrafficPolicy_v1alpha1 p \<Rightarrow> t \<in> set (targetsOf p) | _ \<Rightarrow> False)
      then [GetName k] else [])" for k and p :: nat
    by (cases k) (auto simp: list_ex_iff)
  then have body: "(case K8sObject obj of BackendTrafficPolicy_v1alpha1 other \<Rightarrow>
           if obj_Ptr obj = self then [] else if list_ex (\<lambda>otherTarget. otherTarget = t) (targetsOf other)
           then [meta_Name (btp_Meta other)] else [] | _ \<Rightarrow> []) =
     (if obj_Ptr obj \<noteq> self \<and> claims obj t then [GetName (K8sObject obj)] else [])" for obj :: lint_object
    by (simp only: claims_def)
  show ?thesis
    unfolding otherPoliciesTargeting_def set_sort_strings body for_append_if' by auto
qed

lemma isFirstByName_iff: "isFirstByName name rivals \<longleftrightarrow> (\<forall>r\<in>set rivals. name \<le> r)"
  by (auto simp: isFirstByName_def list_ex_iff not_less)

definition reports_slot :: "lint_context \<Rightarrow> lint_object \<Rightarrow> target \<Rightarrow> bool" where
  "reports_slot ctx obj t \<longleftrightarrow>
     otherPoliciesTargeting ctx (obj_Ptr obj) t \<noteq> [] \<and>
     isFirstByName (GetName (K8sObject obj)) (otherPoliciesTargeting ctx (obj_Ptr obj) t)"

definition slot_message :: "runtime \<Rightarrow> lint_context \<Rightarrow> lint_object \<Rightarrow> target \<Rightarrow> str" where
  "slot_message R ctx obj t =
     cpo_message R (the (describePolicies R (otherPoliciesTargeting ctx (obj_Ptr obj) t))) t"

lemma describePolicies_total: "names \<noteq> [] \<Longrightarrow> \<exists>s. describePolicies R names = Some s"
  by (simp add: describePolicies_def join_last_def Let_def)

lemma cpo_target_eq:
  assumes "K8sObject obj = BackendTrafficPolicy_v1alpha1 policy"
  shows "cpo_target R ctx (obj_Ptr obj) policy t =
     Some (if reports_slot ctx obj t then [\<lparr>Message = slot_message R ctx obj t\<rparr>] else [])"
proof (cases "otherPoliciesTargeting ctx (obj_Ptr obj) t = []")
  case True
  then show ?thesis by (simp add: cpo_target_def reports_slot_def)
next
  case False
  then obtain s where "describePolicies R (otherPoliciesTargeting ctx (obj_Ptr obj) t) = Some s"
    using describePolicies_total by blast
  with False assms show ?thesis by (simp add: cpo_target_def reports_slot_def slot_message_def Let_def)
qed

lemma cpo_run:
  "cpo_checkFunc R ctx obj =
     Some (case K8sObject obj of
             BackendTrafficPolicy_v1alpha1 policy \<Rightarrow>
               map (\<lambda>t. \<lparr>Message = slot_message R ctx obj t\<rparr>) (filter (reports_slot ctx obj) (targetsOf policy))
           | _ \<Rightarrow> [])"
proof (cases "K8sObject obj")
  case (BackendTrafficPolicy_v1alpha1 p)
  have "for_go (targetsOf p) (cpo_target R ctx (obj_Ptr obj) p) =
      Some (map (\<lambda>t. \<lparr>Message = slot_message R ctx obj t\<rparr>) (filter (reports_slot ctx obj) (targetsOf p)))"
    using for_go_total [OF cpo_target_eq [OF BackendTrafficPolicy_v1alpha1], where xs = "targetsOf p"]
    by (simp add: for_append_if')
  with BackendTrafficPolicy_v1alpha1 show ?thesis by (simp add: cpo_checkFunc_def)
qed (simp_all add: cpo_checkFunc_def)

text \<open>
  A reference with its group left out and one that spells the Gateway API group out claim
  different slots here, although \<open>dangling-policy-target\<close> resolves both to the same target.
\<close>

lemma omitted_group_is_another_slot:
  "target_slot policy (ref\<lparr>pol_Group := []\<rparr>) \<noteq> target_slot policy (ref\<lparr>pol_Group := gateway_group\<rparr>)"
  by (simp add: target_slot_def gateway_group_def)

section \<open>The checks keep the contract\<close>

interpretation rwb: check_contract rwb_checkFunc "[BackendTrafficPolicy]"
proof
  fix R ctx and obj :: lint_object
  show "kind_of (K8sObject obj) \<notin> Some ` set [BackendTrafficPolicy] \<Longrightarrow> rwb_checkFunc R ctx obj = Some []"
    by (cases "K8sObject obj") (simp_all add: rwb_checkFunc_def kind_names)
qed (simp_all add: rwb_checkFunc_def)

interpretation bwe: check_contract bwe_checkFunc "[Object_Kinds.Backend]"
proof
  fix R S ctx and obj :: lint_object
  show "kind_of (K8sObject obj) \<notin> Some ` set [Object_Kinds.Backend] \<Longrightarrow> bwe_checkFunc R ctx obj = Some []"
    by (cases "K8sObject obj") (simp_all add: bwe_checkFunc_def kind_names)
  show "\<exists>ds. bwe_checkFunc R ctx obj = Some ds" by (simp add: bwe_checkFunc_def)
  assume "same_tables R S"
  then have "quote R = quote S" by (rule same_tables_quote)
  then show "bwe_checkFunc R ctx obj = bwe_checkFunc S ctx obj"
    by (simp only: bwe_checkFunc_def bwe_message_def)
qed

interpretation cpo: check_contract cpo_checkFunc "[BackendTrafficPolicy]"
proof
  fix R S ctx and obj :: lint_object
  show "kind_of (K8sObject obj) \<notin> Some ` set [BackendTrafficPolicy] \<Longrightarrow> cpo_checkFunc R ctx obj = Some []"
    by (cases "K8sObject obj") (simp_all add: cpo_checkFunc_def kind_names)
  show "\<exists>ds. cpo_checkFunc R ctx obj = Some ds" unfolding cpo_run by blast
  assume "same_tables R S"
  then have q: "quote R = quote S" by (rule same_tables_quote)
  then have "describePolicies R = describePolicies S" "describeTarget R = describeTarget S"
    by (intro ext, simp only: describePolicies_def, intro ext, simp only: describeTarget_def)
  then show "cpo_checkFunc R ctx obj = cpo_checkFunc S ctx obj"
    unfolding cpo_run slot_message_def cpo_message_def by (simp only:)
qed


section \<open>Properties\<close>

lemma retry_without_budget_iff:
  "rwb_checkFunc R ctx obj \<noteq> Some [] \<longleftrightarrow>
     (\<exists>policy r n. K8sObject obj = BackendTrafficPolicy_v1alpha1 policy \<and> btp_Retry policy = Some r \<and>
        ret_NumRetries r = Some n \<and> n \<noteq> 0 \<and>
        \<not> (\<exists>per t. ret_PerRetry r = Some per \<and> per_Timeout per = Some t \<and> t \<noteq> '''') \<and>
        \<not> (\<exists>per b i. ret_PerRetry r = Some per \<and> per_BackOff per = Some b \<and> i \<noteq> '''' \<and>
             (bk_BaseInterval b = Some i \<or> bk_MaxInterval b = Some i)))"
proof -
  have t: "hasPerRetryTimeout r \<longleftrightarrow> (\<exists>per t. ret_PerRetry r = Some per \<and> per_Timeout per = Some t \<and> t \<noteq> '''')" for r
    by (auto simp: hasPerRetryTimeout_def split: option.splits)
  have b: "hasBackOffInterval r \<longleftrightarrow> (\<exists>per b i. ret_PerRetry r = Some per \<and> per_BackOff per = Some b \<and> i \<noteq> '''' \<and>
             (bk_BaseInterval b = Some i \<or> bk_MaxInterval b = Some i))" for r
    by (auto simp: hasBackOffInterval_def split: option.splits)
  show ?thesis
    unfolding t [symmetric] b [symmetric] rwb_checkFunc_def
    by (cases "K8sObject obj") (auto split: option.split if_splits)
qed

lemma retry_attempts_wrap:
  "sint (rwb_attempts n) = (if sint n = 2147483647 then - 2147483648 else sint n + 1)"
proof -
  have "sint (n + 1) = signed_take_bit 31 (sint n + 1)"
    by (simp add: sint_word_ariths)
  moreover have "- 2147483648 \<le> sint n" "sint n < 2147483648"
    using sint_range_size [of n] by (simp_all add: word_size)
  ultimately show ?thesis
    by (auto simp: rwb_attempts_def signed_take_bit_int_eq_self)
qed

lemma backend_without_endpoints_iff:
  "bwe_checkFunc R ctx obj \<noteq> Some [] \<longleftrightarrow>
     (\<exists>b. K8sObject obj = Backend_v1alpha1 b \<and> be_Endpoints b = [] \<and>
        be_Type b \<noteq> Some BackendTypeDynamicResolver)"
  by (cases "K8sObject obj")
    (auto simp: bwe_checkFunc_def backendType_def api_constants split: option.splits)

text \<open>
  C40: the two checks that judge an Envoy Gateway object by its own fields.
  \<open>retry-without-budget\<close> reports exactly the policies that set \<open>numRetries\<close> to something
  other than 0 and bound the retries by nothing: no non-empty per-retry timeout, and no non-empty
  base or maximal backoff interval; the attempts its message counts are one more than
  \<open>numRetries\<close>, except for the largest 32-bit value, where they wrap to the smallest.
  \<open>backend-without-endpoints\<close> reports exactly the Backends with no endpoints, dynamic resolvers
  apart; a Backend without a type counts as an endpoints Backend.
\<close>

theorem envoy_field_findings:
  "(rwb_checkFunc R ctx obj \<noteq> Some [] \<longleftrightarrow>
     (\<exists>policy r n. K8sObject obj = BackendTrafficPolicy_v1alpha1 policy \<and> btp_Retry policy = Some r \<and>
        ret_NumRetries r = Some n \<and> n \<noteq> 0 \<and>
        \<not> (\<exists>per t. ret_PerRetry r = Some per \<and> per_Timeout per = Some t \<and> t \<noteq> '''') \<and>
        \<not> (\<exists>per b i. ret_PerRetry r = Some per \<and> per_BackOff per = Some b \<and> i \<noteq> '''' \<and>
             (bk_BaseInterval b = Some i \<or> bk_MaxInterval b = Some i)))) \<and>
   sint (rwb_attempts n) = (if sint n = 2147483647 then - 2147483648 else sint n + 1) \<and>
   (bwe_checkFunc R ctx obj \<noteq> Some [] \<longleftrightarrow>
     (\<exists>b. K8sObject obj = Backend_v1alpha1 b \<and> be_Endpoints b = [] \<and>
        be_Type b \<noteq> Some BackendTypeDynamicResolver))"
  by (intro conjI retry_without_budget_iff retry_attempts_wrap backend_without_endpoints_iff)

text \<open>
  C36: \<open>conflicting-policies\<close> never panics, and reports a policy exactly when one of the slots it
  claims (group, kind, its own namespace, name and section) is also claimed by another policy
  object, and by none whose name sorts before its own.
\<close>

theorem conflicting_policies_iff:
  "\<exists>ds. cpo_checkFunc R ctx obj = Some ds \<and>
     (ds \<noteq> [] \<longleftrightarrow>
       (\<exists>t. claims obj t \<and>
          (\<exists>other\<in>set (Objects ctx). obj_Ptr other \<noteq> obj_Ptr obj \<and> claims other t) \<and>
          \<not> (\<exists>other\<in>set (Objects ctx). obj_Ptr other \<noteq> obj_Ptr obj \<and> claims other t \<and>
               GetName (K8sObject other) < GetName (K8sObject obj))))"
proof -
  have slot: "reports_slot ctx obj t \<longleftrightarrow>
      (\<exists>other\<in>set (Objects ctx). obj_Ptr other \<noteq> obj_Ptr obj \<and> claims other t) \<and>
      \<not> (\<exists>other\<in>set (Objects ctx). obj_Ptr other \<noteq> obj_Ptr obj \<and> claims other t \<and>
           GetName (K8sObject other) < GetName (K8sObject obj))" for t
    unfolding reports_slot_def isFirstByName_iff set_empty [symmetric] set_rivals by (auto simp: not_less)
  show ?thesis
    unfolding slot [symmetric] cpo_run
    by (cases "K8sObject obj") (auto simp: claims_def filter_empty_conv)
qed

text \<open>
  C19: a slot claimed by several policies is reported by exactly one of them, when the objects
  are distinct and the claimants have distinct names (they are in one namespace).
\<close>

theorem contested_slot_reported_once:
  assumes "inj_on obj_Ptr (set (Objects ctx))"
    and "inj_on (\<lambda>obj. GetName (K8sObject obj)) {obj \<in> set (Objects ctx). claims obj t}"
    and "a \<in> set (Objects ctx)" and "b \<in> set (Objects ctx)" and "a \<noteq> b" and "claims a t" and "claims b t"
  shows "\<exists>!obj. obj \<in> set (Objects ctx) \<and> claims obj t \<and>
    (case K8sObject obj of
       BackendTrafficPolicy_v1alpha1 p \<Rightarrow> cpo_target R ctx (obj_Ptr obj) p t \<noteq> Some [] | _ \<Rightarrow> False)"
proof -
  let ?C = "{obj \<in> set (Objects ctx). claims obj t}" and ?name = "\<lambda>obj. GetName (K8sObject obj)"
  have reports: "(case K8sObject obj of
       BackendTrafficPolicy_v1alpha1 p \<Rightarrow> cpo_target R ctx (obj_Ptr obj) p t \<noteq> Some [] | _ \<Rightarrow> False) \<longleftrightarrow>
     (\<forall>other\<in>?C. ?name obj \<le> ?name other)" if "obj \<in> ?C" for obj
  proof -
    from that obtain p where p: "K8sObject obj = BackendTrafficPolicy_v1alpha1 p"
      by (auto simp: claims_def split: k8s_object.splits)
    have others: "{o' \<in> set (Objects ctx). obj_Ptr o' \<noteq> obj_Ptr obj \<and> claims o' t} = ?C - {obj}"
      using assms(1) that by (auto simp: inj_on_def)
    have "?C - {obj} \<noteq> {}" using assms(3-7) by blast
    then have "reports_slot ctx obj t \<longleftrightarrow> (\<forall>other\<in>?C. ?name obj \<le> ?name other)"
      unfolding reports_slot_def isFirstByName_iff set_empty [symmetric] set_rivals others by auto
    then show ?thesis by (simp add: p cpo_target_eq [OF p])
  qed
  have fin: "finite (?name ` ?C)" and ne: "?name ` ?C \<noteq> {}" using assms(3,6) by auto
  obtain m where m: "m \<in> ?C" "?name m = Min (?name ` ?C)" using Min_in [OF fin ne] by auto
  have least: "\<forall>other\<in>?C. ?name m \<le> ?name other" unfolding m(2) using Min_le [OF fin] by blast
  show ?thesis
  proof (rule ex1I [of _ m])
    show "m \<in> set (Objects ctx) \<and> claims m t \<and> (case K8sObject m of
       BackendTrafficPolicy_v1alpha1 p \<Rightarrow> cpo_target R ctx (obj_Ptr m) p t \<noteq> Some [] | _ \<Rightarrow> False)"
      using m(1) least reports [OF m(1)] by simp
  next
    fix obj
    assume a: "obj \<in> set (Objects ctx) \<and> claims obj t \<and> (case K8sObject obj of
       BackendTrafficPolicy_v1alpha1 p \<Rightarrow> cpo_target R ctx (obj_Ptr obj) p t \<noteq> Some [] | _ \<Rightarrow> False)"
    then have obj: "obj \<in> ?C" by simp
    with a reports [OF obj] have "\<forall>other\<in>?C. ?name obj \<le> ?name other" by simp
    with m(1) obj least have "?name obj = ?name m" by (intro antisym) blast+
    with inj_onD [OF assms(2) _ obj m(1)] show "obj = m" by blast
  qed
qed

definition policy_for :: "str \<Rightarrow> str \<Rightarrow> k8s_object" where
  "policy_for name route =
     BackendTrafficPolicy_v1alpha1 \<lparr>btp_Meta = meta ''infra'' name, btp_TargetRef = None,
       btp_TargetRefs = [\<lparr>pol_Group = gateway_group, pol_Kind = HTTPRoute, pol_Name = route, pol_SectionName = None\<rparr>],
       btp_TargetSelectors = [], btp_HealthCheck = None, btp_Retry = None\<rparr>"

definition web_slot :: target where
  "web_slot = \<lparr>tg_Group = gateway_group, tg_Kind = HTTPRoute, tg_Namespace = ''infra'', tg_Name = ''web'', tg_Section = ''''\<rparr>"

lemma claims_policy_for: "claims (load i (policy_for name ''web'')) web_slot"
  by (simp add: claims_def load_def policy_for_def set_targetsOf policy_target_refs_def target_slot_def web_slot_def meta_def)

theorem contested_slot_reported_once_witness:
  "\<exists>!obj. obj \<in> set (Objects (context_of [policy_for ''a'' ''web'', policy_for ''b'' ''web''])) \<and> claims obj web_slot \<and>
    (case K8sObject obj of
       BackendTrafficPolicy_v1alpha1 p \<Rightarrow>
         cpo_target forward_runtime (context_of [policy_for ''a'' ''web'', policy_for ''b'' ''web'']) (obj_Ptr obj) p web_slot
           \<noteq> Some [] | _ \<Rightarrow> False)"
proof (rule contested_slot_reported_once [where a = "load 0 (policy_for ''a'' ''web'')" and b = "load 1 (policy_for ''b'' ''web'')"])
  show "inj_on obj_Ptr (set (Objects (context_of [policy_for ''a'' ''web'', policy_for ''b'' ''web''])))"
    by (simp add: context_of_def load_def)
  show "inj_on (\<lambda>obj. GetName (K8sObject obj))
     {obj \<in> set (Objects (context_of [policy_for ''a'' ''web'', policy_for ''b'' ''web''])). claims obj web_slot}"
    by (rule inj_on_subset [of _ "set (Objects (context_of [policy_for ''a'' ''web'', policy_for ''b'' ''web'']))"])
      (auto simp: context_of_def load_def policy_for_def meta_def)
qed (simp_all add: context_of_def claims_policy_for, simp add: load_def)

end
