(* ===== verification/Builtin_Checks.thy ===== *)
theory Builtin_Checks
  imports Checks_Attachment Checks_References Checks_Rules Conflicting_Route_Match Checks_Listeners
    Checks_Health Checks_Policies
begin

text \<open>
  \<open>pkg/templates/all\<close>, which registers every check template, and \<open>pkg/builtinchecks\<close>, which
  embeds one configuration per check (\<open>yamls/*.yaml\<close>: name, template and scope; the description
  and remediation are report texts), lists them once and loads them into kube-linter's check
  registry. The embedded file system, \<open>yaml.Unmarshal\<close> and the registry are parameters.
\<close>

section \<open>The templates\<close>

definition all_templates :: "check_template list" where
  "all_templates =
     [awz_template, bwe_template, cl_template, cpo_template, crm_template,
      dbr_template, dcr_template, dgc_template, dls_template, dpr_template, dpt_template,
      dln_template, drn_template, fbc_template, gsn_template, hcf_template, hnm_template,
      hnp_template, lnf_template, mcg_template, mrg_template, pm_template, rwb_template,
      rnp_template, rsn_template, sbp_template, tlc_template]"

section \<open>The embedded configurations\<close>

record config_check =
  cc_Name :: str
  cc_Template :: str
  cc_ObjectKinds :: "str list"

definition cfg_all_weights_zero :: config_check where
  "cfg_all_weights_zero =
     \<lparr>cc_Name = ''all-weights-zero'', cc_Template = ''all-weights-zero'',
      cc_ObjectKinds = [''HTTPRoute'', ''GRPCRoute'', ''TCPRoute'', ''TLSRoute'', ''UDPRoute'']\<rparr>"

definition cfg_backend_without_endpoints :: config_check where
  "cfg_backend_without_endpoints =
     \<lparr>cc_Name = ''backend-without-endpoints'', cc_Template = ''backend-without-endpoints'',
      cc_ObjectKinds = [''Backend'']\<rparr>"

definition cfg_conflicting_listeners :: config_check where
  "cfg_conflicting_listeners =
     \<lparr>cc_Name = ''conflicting-listeners'', cc_Template = ''conflicting-listeners'',
      cc_ObjectKinds = [''Gateway'', ''ListenerSet'']\<rparr>"

definition cfg_conflicting_policies :: config_check where
  "cfg_conflicting_policies =
     \<lparr>cc_Name = ''conflicting-policies'', cc_Template = ''conflicting-policies'',
      cc_ObjectKinds = [''BackendTrafficPolicy'']\<rparr>"

definition cfg_conflicting_route_match :: config_check where
  "cfg_conflicting_route_match =
     \<lparr>cc_Name = ''conflicting-route-match'', cc_Template = ''conflicting-route-match'',
      cc_ObjectKinds = [''HTTPRoute'']\<rparr>"

definition cfg_dangling_backend_ref :: config_check where
  "cfg_dangling_backend_ref =
     \<lparr>cc_Name = ''dangling-backend-ref'', cc_Template = ''dangling-backend-ref'',
      cc_ObjectKinds = [''HTTPRoute'', ''GRPCRoute'', ''TCPRoute'', ''TLSRoute'', ''UDPRoute'']\<rparr>"

definition cfg_dangling_certificate_ref :: config_check where
  "cfg_dangling_certificate_ref =
     \<lparr>cc_Name = ''dangling-certificate-ref'', cc_Template = ''dangling-certificate-ref'',
      cc_ObjectKinds = [''Gateway'', ''ListenerSet'']\<rparr>"

definition cfg_dangling_gateway_class :: config_check where
  "cfg_dangling_gateway_class =
     \<lparr>cc_Name = ''dangling-gateway-class'', cc_Template = ''dangling-gateway-class'',
      cc_ObjectKinds = [''Gateway'']\<rparr>"

definition cfg_dangling_listener_set_parent :: config_check where
  "cfg_dangling_listener_set_parent =
     \<lparr>cc_Name = ''dangling-listener-set-parent'', cc_Template = ''dangling-listener-set-parent'',
      cc_ObjectKinds = [''ListenerSet'']\<rparr>"

definition cfg_dangling_parent_ref :: config_check where
  "cfg_dangling_parent_ref =
     \<lparr>cc_Name = ''dangling-parent-ref'', cc_Template = ''dangling-parent-ref'',
      cc_ObjectKinds = [''HTTPRoute'', ''GRPCRoute'', ''TCPRoute'', ''TLSRoute'', ''UDPRoute'']\<rparr>"

definition cfg_dangling_policy_target :: config_check where
  "cfg_dangling_policy_target =
     \<lparr>cc_Name = ''dangling-policy-target'', cc_Template = ''dangling-policy-target'',
      cc_ObjectKinds = [''BackendTrafficPolicy'']\<rparr>"

definition cfg_duplicate_listener_name :: config_check where
  "cfg_duplicate_listener_name =
     \<lparr>cc_Name = ''duplicate-listener-name'', cc_Template = ''duplicate-listener-name'',
      cc_ObjectKinds = [''Gateway'', ''ListenerSet'']\<rparr>"

definition cfg_duplicate_rule_name :: config_check where
  "cfg_duplicate_rule_name =
     \<lparr>cc_Name = ''duplicate-rule-name'', cc_Template = ''duplicate-rule-name'',
      cc_ObjectKinds = [''HTTPRoute'', ''GRPCRoute'', ''TCPRoute'', ''TLSRoute'', ''UDPRoute'']\<rparr>"

definition cfg_fqdn_backend_cold_start :: config_check where
  "cfg_fqdn_backend_cold_start =
     \<lparr>cc_Name = ''fqdn-backend-cold-start'', cc_Template = ''fqdn-backend-cold-start'',
      cc_ObjectKinds = [''BackendTrafficPolicy'']\<rparr>"

definition cfg_gateway_serves_no_routes :: config_check where
  "cfg_gateway_serves_no_routes =
     \<lparr>cc_Name = ''gateway-serves-no-routes'', cc_Template = ''gateway-serves-no-routes'',
      cc_ObjectKinds = [''Gateway'']\<rparr>"

definition cfg_health_check_without_failover :: config_check where
  "cfg_health_check_without_failover =
     \<lparr>cc_Name = ''health-check-without-failover'', cc_Template = ''health-check-without-failover'',
      cc_ObjectKinds = [''BackendTrafficPolicy'']\<rparr>"

definition cfg_hostname_never_matches :: config_check where
  "cfg_hostname_never_matches =
     \<lparr>cc_Name = ''hostname-never-matches'', cc_Template = ''hostname-never-matches'',
      cc_ObjectKinds = [''HTTPRoute'', ''GRPCRoute'', ''TCPRoute'', ''TLSRoute'', ''UDPRoute'']\<rparr>"

definition cfg_hostname_on_non_hostname_protocol :: config_check where
  "cfg_hostname_on_non_hostname_protocol =
     \<lparr>cc_Name = ''hostname-on-non-hostname-protocol'', cc_Template = ''hostname-on-non-hostname-protocol'',
      cc_ObjectKinds = [''Gateway'']\<rparr>"

definition cfg_listener_not_found :: config_check where
  "cfg_listener_not_found =
     \<lparr>cc_Name = ''listener-not-found'', cc_Template = ''listener-not-found'',
      cc_ObjectKinds = [''HTTPRoute'', ''GRPCRoute'', ''TCPRoute'', ''TLSRoute'', ''UDPRoute'']\<rparr>"

definition cfg_missing_certificate_grant :: config_check where
  "cfg_missing_certificate_grant =
     \<lparr>cc_Name = ''missing-certificate-grant'', cc_Template = ''missing-certificate-grant'',
      cc_ObjectKinds = [''Gateway'', ''ListenerSet'']\<rparr>"

definition cfg_missing_reference_grant :: config_check where
  "cfg_missing_reference_grant =
     \<lparr>cc_Name = ''missing-reference-grant'', cc_Template = ''missing-reference-grant'',
      cc_ObjectKinds = [''HTTPRoute'', ''GRPCRoute'', ''TCPRoute'', ''TLSRoute'', ''UDPRoute'']\<rparr>"

definition cfg_protocol_mismatch :: config_check where
  "cfg_protocol_mismatch =
     \<lparr>cc_Name = ''protocol-mismatch'', cc_Template = ''protocol-mismatch'',
      cc_ObjectKinds = [''HTTPRoute'', ''GRPCRoute'', ''TCPRoute'', ''TLSRoute'', ''UDPRoute'']\<rparr>"

definition cfg_retry_without_budget :: config_check where
  "cfg_retry_without_budget =
     \<lparr>cc_Name = ''retry-without-budget'', cc_Template = ''retry-without-budget'',
      cc_ObjectKinds = [''BackendTrafficPolicy'']\<rparr>"

definition cfg_route_not_permitted :: config_check where
  "cfg_route_not_permitted =
     \<lparr>cc_Name = ''route-not-permitted'', cc_Template = ''route-not-permitted'',
      cc_ObjectKinds = [''HTTPRoute'', ''GRPCRoute'', ''TCPRoute'', ''TLSRoute'', ''UDPRoute'']\<rparr>"

definition cfg_rule_serves_nothing :: config_check where
  "cfg_rule_serves_nothing =
     \<lparr>cc_Name = ''rule-serves-nothing'', cc_Template = ''rule-serves-nothing'',
      cc_ObjectKinds = [''HTTPRoute'', ''GRPCRoute'', ''TCPRoute'', ''TLSRoute'', ''UDPRoute'']\<rparr>"

definition cfg_service_backend_without_port :: config_check where
  "cfg_service_backend_without_port =
     \<lparr>cc_Name = ''service-backend-without-port'', cc_Template = ''service-backend-without-port'',
      cc_ObjectKinds = [''HTTPRoute'', ''GRPCRoute'', ''TCPRoute'', ''TLSRoute'', ''UDPRoute'']\<rparr>"

definition cfg_tls_listener_without_certificate :: config_check where
  "cfg_tls_listener_without_certificate =
     \<lparr>cc_Name = ''tls-listener-without-certificate'', cc_Template = ''tls-listener-without-certificate'',
      cc_ObjectKinds = [''Gateway'']\<rparr>"

definition builtin_configs :: "config_check list" where
  "builtin_configs =
     [cfg_all_weights_zero,
      cfg_backend_without_endpoints,
      cfg_conflicting_listeners,
      cfg_conflicting_policies,
      cfg_conflicting_route_match,
      cfg_dangling_backend_ref,
      cfg_dangling_certificate_ref,
      cfg_dangling_gateway_class,
      cfg_dangling_listener_set_parent,
      cfg_dangling_parent_ref,
      cfg_dangling_policy_target,
      cfg_duplicate_listener_name,
      cfg_duplicate_rule_name,
      cfg_fqdn_backend_cold_start,
      cfg_gateway_serves_no_routes,
      cfg_health_check_without_failover,
      cfg_hostname_never_matches,
      cfg_hostname_on_non_hostname_protocol,
      cfg_listener_not_found,
      cfg_missing_certificate_grant,
      cfg_missing_reference_grant,
      cfg_protocol_mismatch,
      cfg_retry_without_budget,
      cfg_route_not_permitted,
      cfg_rule_serves_nothing,
      cfg_service_backend_without_port,
      cfg_tls_listener_without_certificate]"

lemmas config_defs =
  cfg_all_weights_zero_def
  cfg_backend_without_endpoints_def
  cfg_conflicting_listeners_def
  cfg_conflicting_policies_def
  cfg_conflicting_route_match_def
  cfg_dangling_backend_ref_def
  cfg_dangling_certificate_ref_def
  cfg_dangling_gateway_class_def
  cfg_dangling_listener_set_parent_def
  cfg_dangling_parent_ref_def
  cfg_dangling_policy_target_def
  cfg_duplicate_listener_name_def
  cfg_duplicate_rule_name_def
  cfg_fqdn_backend_cold_start_def
  cfg_gateway_serves_no_routes_def
  cfg_health_check_without_failover_def
  cfg_hostname_never_matches_def
  cfg_hostname_on_non_hostname_protocol_def
  cfg_listener_not_found_def
  cfg_missing_certificate_grant_def
  cfg_missing_reference_grant_def
  cfg_protocol_mismatch_def
  cfg_retry_without_budget_def
  cfg_route_not_permitted_def
  cfg_rule_serves_nothing_def
  cfg_service_backend_without_port_def
  cfg_tls_listener_without_certificate_def

lemmas template_defs =
  awz_template_def
  bwe_template_def
  cl_template_def
  cpo_template_def
  crm_template_def
  dbr_template_def
  dcr_template_def
  dgc_template_def
  dls_template_def
  dpr_template_def
  dpt_template_def
  dln_template_def
  drn_template_def
  fbc_template_def
  gsn_template_def
  hcf_template_def
  hnm_template_def
  hnp_template_def
  lnf_template_def
  mcg_template_def
  mrg_template_def
  pm_template_def
  rwb_template_def
  rnp_template_def
  rsn_template_def
  sbp_template_def
  tlc_template_def


section \<open>Listing and loading them\<close>

type_synonym 'a result = "str + 'a"

record dir_entry =
  de_Name :: str
  de_IsDir :: bool

record embed_fs =
  fs_ReadDir :: "str \<Rightarrow> dir_entry list result"
  fs_ReadFile :: "str \<Rightarrow> str result"
  fs_Unmarshal :: "str \<Rightarrow> config_check result"

text \<open>\<open>filepath.Ext\<close>: from the last dot of the last path element.\<close>

definition Ext :: "str \<Rightarrow> str" where
  "Ext path =
     (let base = takeWhile (\<lambda>c. c \<noteq> CHR ''/'') (rev path) in
      if CHR ''.'' \<in> set base then CHR ''.'' # rev (takeWhile (\<lambda>c. c \<noteq> CHR ''.'') base) else '''')"

text \<open>The package variables: \<open>list\<close>, \<open>loadErr\<close> and whether \<open>loadOnce\<close> has run.\<close>

record builtin_state =
  bs_done :: bool
  bs_list :: "config_check list"
  bs_loadErr :: "str option"

definition initial_state :: builtin_state where
  "initial_state = \<lparr>bs_done = False, bs_list = [], bs_loadErr = None\<rparr>"

fun load_entries :: "embed_fs \<Rightarrow> builtin_state \<Rightarrow> dir_entry list \<Rightarrow> builtin_state" where
  "load_entries fs st [] = st"
| "load_entries fs st (entry # entries) =
     (if de_IsDir entry \<or> Ext (de_Name entry) \<noteq> ''.yaml'' then
        st\<lparr>bs_loadErr := Some (''found unexpected entry '' @ de_Name entry @ '' in yamls directory'')\<rparr>
      else (case fs_ReadFile fs (''yamls/'' @ de_Name entry) of
              Inl err \<Rightarrow> st\<lparr>bs_loadErr := Some (''loading file '' @ de_Name entry @ '': '' @ err)\<rparr>
            | Inr contents \<Rightarrow>
                (case fs_Unmarshal fs contents of
                   Inl err \<Rightarrow>
                     st\<lparr>bs_loadErr := Some (''unmarshalling default check from '' @ de_Name entry @ '': '' @ err)\<rparr>
                 | Inr chk \<Rightarrow> load_entries fs (st\<lparr>bs_list := bs_list st @ [chk]\<rparr>) entries)))"

definition load_once :: "embed_fs \<Rightarrow> builtin_state \<Rightarrow> builtin_state" where
  "load_once fs st =
     (if bs_done st then st
      else let st = st\<lparr>bs_done := True\<rparr> in
        (case fs_ReadDir fs ''yamls'' of
           Inl err \<Rightarrow> st\<lparr>bs_loadErr := Some (''reading embedded yaml files: '' @ err)\<rparr>
         | Inr fileEntries \<Rightarrow> load_entries fs st fileEntries))"

definition List_checks :: "embed_fs \<Rightarrow> builtin_state \<Rightarrow> config_check list result \<times> builtin_state" where
  "List_checks fs st =
     (let st = load_once fs st in
      (case bs_loadErr st of
         Some err \<Rightarrow> (Inl (''UNEXPECTED: failed to load built-in checks: '' @ err), st)
       | None \<Rightarrow> (Inr (bs_list st), st)))"

fun register_all ::
  "('r \<Rightarrow> config_check \<Rightarrow> str option \<times> 'r) \<Rightarrow> 'r \<Rightarrow> config_check list \<Rightarrow> str option \<times> 'r" where
  "register_all register registry [] = (None, registry)"
| "register_all register registry (chk # checks) =
     (case register registry chk of
        (Some err, registry) \<Rightarrow>
          (Some (''registering default check '' @ cc_Name chk @ '': '' @ err), registry)
      | (None, registry) \<Rightarrow> register_all register registry checks)"

definition LoadInto ::
  "embed_fs \<Rightarrow> ('r \<Rightarrow> config_check \<Rightarrow> str option \<times> 'r) \<Rightarrow> builtin_state \<Rightarrow> 'r \<Rightarrow> str option \<times> 'r \<times> builtin_state" where
  "LoadInto fs register st registry =
     (case List_checks fs st of
        (Inl err, st) \<Rightarrow> (Some err, registry, st)
      | (Inr checks, st) \<Rightarrow>
          (let (err, registry) = register_all register registry checks in (err, registry, st)))"

section \<open>Lemmas\<close>

definition entry_check :: "embed_fs \<Rightarrow> dir_entry \<Rightarrow> config_check option" where
  "entry_check fs entry =
     (if de_IsDir entry \<or> Ext (de_Name entry) \<noteq> ''.yaml'' then None
      else (case fs_ReadFile fs (''yamls/'' @ de_Name entry) of
              Inl _ \<Rightarrow> None
            | Inr contents \<Rightarrow> (case fs_Unmarshal fs contents of Inl _ \<Rightarrow> None | Inr chk \<Rightarrow> Some chk)))"

lemma load_entries_ok:
  "list_all (\<lambda>e. entry_check fs e \<noteq> None) entries \<Longrightarrow>
     load_entries fs st entries = st\<lparr>bs_list := bs_list st @ map (\<lambda>e. the (entry_check fs e)) entries\<rparr>"
  by (induction entries arbitrary: st) (auto simp: entry_check_def split: if_splits sum.splits)

lemma load_entries_bad:
  "bs_loadErr st = None \<Longrightarrow>
     bs_loadErr (load_entries fs st entries) = None \<longleftrightarrow> list_all (\<lambda>e. entry_check fs e \<noteq> None) entries"
  by (induction entries arbitrary: st) (simp_all add: entry_check_def split: sum.split)

lemma load_entries_done: "bs_done (load_entries fs st entries) = bs_done st"
  by (induction entries arbitrary: st) (simp_all split: sum.split)

lemma load_once_done: "bs_done (load_once fs st)"
  by (simp add: load_once_def Let_def load_entries_done split: sum.split)

lemma load_once_again: "load_once fs' (load_once fs st) = load_once fs st"
  by (subst load_once_def) (simp add: load_once_done)

lemma List_checks_state: "snd (List_checks fs st) = load_once fs st"
  by (simp add: List_checks_def Let_def split: option.split)

lemma template_contract: "t \<in> set all_templates \<Longrightarrow> check_contract (tm_Check t) (tm_ObjectKinds t)"
proof -
  have "\<forall>t\<in>set all_templates. check_contract (tm_Check t) (tm_ObjectKinds t)"
    unfolding all_templates_def template_defs list.set ball_simps check_template.select_convs
    by (intro conjI TrueI lnf.check_contract_axioms rnp.check_contract_axioms hnm.check_contract_axioms
        pm.check_contract_axioms dpr.check_contract_axioms fbc.check_contract_axioms hcf.check_contract_axioms
        dln.check_contract_axioms cl.check_contract_axioms tlc.check_contract_axioms hnp.check_contract_axioms
        gsn.check_contract_axioms rwb.check_contract_axioms bwe.check_contract_axioms cpo.check_contract_axioms
        dbr.check_contract_axioms dcr.check_contract_axioms dgc.check_contract_axioms dls.check_contract_axioms
        dpt.check_contract_axioms mrg.check_contract_axioms mcg.check_contract_axioms awz.check_contract_axioms
        rsn.check_contract_axioms sbp.check_contract_axioms drn.check_contract_axioms crm.check_contract_axioms)
  then show "t \<in> set all_templates \<Longrightarrow> check_contract (tm_Check t) (tm_ObjectKinds t)" by blast
qed

section \<open>Properties\<close>

text \<open>
  C9: every one of the 27 registered checks, on every object and context: it returns (no panic);
  it reports nothing on an object of a kind outside the ones it declares; and what it returns
  does not depend on the order in which Go ranges over maps.
\<close>

theorem every_check_contract:
  assumes "t \<in> set all_templates" and "range_ok R" and "range_ok S" and "same_tables R S"
  shows "(\<exists>ds. tm_Check t R ctx obj = Some ds) \<and>
    (kind_of (K8sObject obj) \<in> Some ` set (tm_ObjectKinds t) \<or> tm_Check t R ctx obj = Some []) \<and>
    tm_Check t R ctx obj = tm_Check t S ctx obj"
  using check_contract.total [OF template_contract [OF assms(1)] assms(2), of ctx obj]
    check_contract.off_scope [OF template_contract [OF assms(1)], of obj R ctx]
    check_contract.deterministic [OF template_contract [OF assms(1)] assms(4,2,3), of ctx obj]
  by blast

theorem every_check_contract_witness:
  "(\<exists>ds. tm_Check crm_template forward_runtime (context_of [edge, web ''web'' None]) (load 0 edge) = Some ds) \<and>
   (kind_of (K8sObject (load 0 edge)) \<in> Some ` set (tm_ObjectKinds crm_template) \<or>
     tm_Check crm_template forward_runtime (context_of [edge, web ''web'' None]) (load 0 edge) = Some []) \<and>
   tm_Check crm_template forward_runtime (context_of [edge, web ''web'' None]) (load 0 edge) =
     tm_Check crm_template backward_runtime (context_of [edge, web ''web'' None]) (load 0 edge)"
  by (rule every_check_contract)
    (simp_all add: all_templates_def range_ok_forward range_ok_backward same_tables_backward)

text \<open>
  C30: running a registered check only on the objects its scope selects, as the engine does, loses
  none of its findings, for objects that carry the group and kind of their decoded type.
\<close>

theorem scope_loses_no_finding:
  assumes "t \<in> set all_templates" and "list_all decoded objs"
  shows "for_go objs (tm_Check t R ctx) =
    for_go (filter (\<lambda>obj. scope_matches (tm_ObjectKinds t) (obj_GVK obj)) objs) (tm_Check t R ctx)"
  using check_contract.scope_suffices [OF template_contract [OF assms(1)] assms(2)] by simp

theorem scope_loses_no_finding_witness:
  "for_go [load 0 edge, load 1 (web ''web'' None)] (tm_Check hnm_template forward_runtime (context_of [])) =
    for_go (filter (\<lambda>obj. scope_matches (tm_ObjectKinds hnm_template) (obj_GVK obj))
      [load 0 edge, load 1 (web ''web'' None)]) (tm_Check hnm_template forward_runtime (context_of []))"
  by (rule scope_loses_no_finding) (simp_all add: all_templates_def decoded_load)

lemma configs_match:
  "list_all2 (\<lambda>cfg t. cc_Name cfg = tm_Key t \<and> cc_Template cfg = tm_Key t \<and> cc_ObjectKinds cfg = tm_ObjectKinds t)
     builtin_configs all_templates \<and>
   distinct (map cc_Name builtin_configs) \<and> distinct (map tm_Key all_templates)"
proof -
  have same: "list_all2 (\<lambda>cfg t. cc_Name cfg = tm_Key t \<and> cc_Template cfg = tm_Key t \<and> cc_ObjectKinds cfg = tm_ObjectKinds t)
     builtin_configs all_templates"
    by (simp add: builtin_configs_def all_templates_def config_defs template_defs RouteKinds_def kind_names)
  have names: "distinct (map cc_Name builtin_configs)"
    by (simp add: builtin_configs_def config_defs)
  have "map cc_Name builtin_configs = map tm_Key all_templates"
    using same by (auto simp: list_all2_conv_all_nth intro: nth_equalityI)
  with same names show ?thesis by simp
qed

lemma config_names: "map cc_Name builtin_configs = map tm_Key all_templates"
  using configs_match by (auto simp: list_all2_conv_all_nth intro: nth_equalityI)


text \<open>
  C38: \<open>List\<close> succeeds exactly when the directory reads and every entry of it is a \<open>.yaml\<close>
  file that reads and parses, and then returns the checks in directory order; the answer is
  computed once, so every later call returns the same one, whatever the file system holds then.
\<close>

theorem list_is_loaded_once:
  "fst (List_checks fs initial_state) \<in>
     (case fs_ReadDir fs ''yamls'' of
        Inl _ \<Rightarrow> range Inl
      | Inr entries \<Rightarrow>
          if list_all (\<lambda>e. entry_check fs e \<noteq> None) entries
          then {Inr (map (\<lambda>e. the (entry_check fs e)) entries)} else range Inl) \<and>
   fst (List_checks fs' (snd (List_checks fs initial_state))) = fst (List_checks fs initial_state)"
proof -
  let ?st = "initial_state\<lparr>bs_done := True\<rparr>"
  have "fst (List_checks fs initial_state) \<in>
     (case fs_ReadDir fs ''yamls'' of
        Inl _ \<Rightarrow> range Inl
      | Inr entries \<Rightarrow>
          if list_all (\<lambda>e. entry_check fs e \<noteq> None) entries
          then {Inr (map (\<lambda>e. the (entry_check fs e)) entries)} else range Inl)"
    using load_entries_bad [of ?st fs] load_entries_ok [of fs _ ?st]
    by (auto simp: List_checks_def load_once_def initial_state_def Let_def split: sum.split option.split)
  moreover have "fst (List_checks fs' (load_once fs initial_state)) = fst (List_checks fs initial_state)"
    by (simp add: List_checks_def load_once_again Let_def split: option.split)
  ultimately show ?thesis by (simp add: List_checks_state)
qed

end
