(* ===== verification/Lint_Scan.thy ===== *)
theory Lint_Scan
  imports Fixtures
begin

text \<open>
  \<open>pkg/command/lint/merge.go\<close> and \<open>scanned.go\<close>: the one context the checks see, and the
  summary of what a run looked at. \<open>CheckedByKind\<close> is a Go map that the summary line ranges
  over, so its text is a candidate for map-order dependence; \<open>summary_text_order\<close> shows it has none.
\<close>

section \<open>Merging contexts\<close>

definition mergeContexts :: "lint_context list \<Rightarrow> lint_context" where
  "mergeContexts contexts =
     foldl (\<lambda>merged ctx.
       \<lparr>Objects = Objects merged @ Objects ctx, InvalidObjects = InvalidObjects merged @ InvalidObjects ctx\<rparr>)
       \<lparr>Objects = [], InvalidObjects = []\<rparr> contexts"

section \<open>Counting\<close>

text \<open>
  Of an instantiated check the summary reads the kinds of its scope and its matcher, which
  kube-linter builds from them.
\<close>

record instantiated_check =
  ic_ObjectKinds :: "str list"
  ic_Matches :: matcher

record scan_summary =
  sc_Objects :: nat
  sc_Files :: nat
  sc_Checked :: nat
  sc_CheckedByKind :: "(str \<times> nat) list"
  sc_LooksFor :: "str list"
  sc_Unparsed :: nat

definition add_path :: "str \<Rightarrow> str set \<Rightarrow> str set" where
  "add_path path files = (if path \<noteq> '''' then insert path files else files)"

definition scan_object ::
  "instantiated_check list \<Rightarrow> scan_summary \<times> str set \<Rightarrow> lint_object \<Rightarrow> scan_summary \<times> str set" where
  "scan_object checks acc obj =
     (let (s, files) = acc;
          s = s\<lparr>sc_Objects := Suc (sc_Objects s)\<rparr>;
          files = add_path (obj_FilePath obj) files;
          gvk = obj_GVK obj
      in if list_ex (\<lambda>check. ic_Matches check gvk) checks
         then (s\<lparr>sc_Checked := Suc (sc_Checked s),
                 sc_CheckedByKind := count_add (gvk_Kind gvk) (sc_CheckedByKind s)\<rparr>, files)
         else (s, files))"

definition scan_invalid :: "scan_summary \<times> str set \<Rightarrow> invalid_object \<Rightarrow> scan_summary \<times> str set" where
  "scan_invalid acc obj =
     (let (s, files) = acc
      in (s\<lparr>sc_Unparsed := Suc (sc_Unparsed s)\<rparr>, add_path (inv_FilePath obj) files))"

definition scan_context ::
  "instantiated_check list \<Rightarrow> scan_summary \<times> str set \<Rightarrow> lint_context \<Rightarrow> scan_summary \<times> str set" where
  "scan_context checks acc ctx =
     foldl scan_invalid (foldl (scan_object checks) acc (Objects ctx)) (InvalidObjects ctx)"

definition scope_kinds :: "instantiated_check list \<Rightarrow> str list" where
  "scope_kinds checks =
     foldl (\<lambda>kinds check. foldl (\<lambda>kinds kind. List.insert kind kinds) kinds (ic_ObjectKinds check)) [] checks"

definition summarize :: "runtime \<Rightarrow> lint_context list \<Rightarrow> instantiated_check list \<Rightarrow> scan_summary" where
  "summarize R lintCtxs checks =
     (let looksFor = sort_strings (go_range R ''summarize'' (scope_kinds checks));
          (s, files) = foldl (scan_context checks)
            (\<lparr>sc_Objects = 0, sc_Files = 0, sc_Checked = 0, sc_CheckedByKind = [], sc_LooksFor = looksFor,
              sc_Unparsed = 0\<rparr>, {}) lintCtxs
      in s\<lparr>sc_Files := card files\<rparr>)"

section \<open>The summary line\<close>

definition objectNoun :: "nat \<Rightarrow> str" where
  "objectNoun n = (if n = 1 then ''object'' else ''objects'')"

definition plural :: "nat \<Rightarrow> str \<Rightarrow> str \<Rightarrow> str" where
  "plural n one many = (if n = 1 then fmt_nat n @ '' '' @ one else fmt_nat n @ '' '' @ many)"

definition were :: "nat \<Rightarrow> str" where
  "were n = (if n = 1 then ''was'' else ''were'')"

definition soleKind :: "runtime \<Rightarrow> (str \<times> nat) list \<Rightarrow> str" where
  "soleKind R counts =
     (case go_range R ''soleKind'' counts of
        (kind, n) # _ \<Rightarrow> fmt_nat n @ '' '' @ kind @ '' '' @ objectNoun n
      | [] \<Rightarrow> '''')"

definition kind_before :: "(str \<times> nat) list \<Rightarrow> str \<Rightarrow> str \<Rightarrow> bool" where
  "kind_before counts a b \<longleftrightarrow>
     (if lookup0 counts a \<noteq> lookup0 counts b then lookup0 counts a > lookup0 counts b else a < b)"

definition byKind :: "runtime \<Rightarrow> (str \<times> nat) list \<Rightarrow> str" where
  "byKind R counts =
     (let kinds = sort_slice (kind_before counts) (go_range R ''byKind'' (map fst counts))
      in Join (map (\<lambda>kind. fmt_nat (lookup0 counts kind) @ '' '' @ kind) kinds) '', '')"

definition joinKinds :: "str list \<Rightarrow> str" where
  "joinKinds kinds =
     (case kinds of
        [] \<Rightarrow> ''checkable objects''
      | [a] \<Rightarrow> a @ '' objects''
      | [a, b] \<Rightarrow> a @ '' or '' @ b @ '' objects''
      | _ \<Rightarrow> Join (butlast kinds) '', '' @ '' or '' @ last kinds @ '' objects'')"

definition summary_String :: "runtime \<Rightarrow> scan_summary \<Rightarrow> str" where
  "summary_String R s =
     (let loaded = plural (sc_Objects s) ''object'' ''objects'' @ '' loaded from '' @
                   plural (sc_Files s) ''file'' ''files'';
          line = (if sc_Checked s = 0 then
                    ''No '' @ joinKinds (sc_LooksFor s) @ '' found, so nothing was checked ('' @ loaded @ '').''
                  else if length (sc_CheckedByKind s) = 1 then
                    ''Checked '' @ soleKind R (sc_CheckedByKind s) @ '' ('' @ loaded @ '').''
                  else ''Checked '' @ plural (sc_Checked s) ''object'' ''objects'' @ '': '' @
                    byKind R (sc_CheckedByKind s) @ '' ('' @ loaded @ '').'')
      in if sc_Unparsed s > 0
         then line @ '' '' @ plural (sc_Unparsed s) ''object'' ''objects'' @ '' could not be parsed and '' @
              were (sc_Unparsed s) @ '' not checked; re-run with --verbose to see them.''
         else line)"

section \<open>Lemmas\<close>

lemma merge_objects: "Objects (mergeContexts cs) = concat (map Objects cs)"
    and merge_invalid: "InvalidObjects (mergeContexts cs) = concat (map InvalidObjects cs)"
proof -
  have "Objects (foldl (\<lambda>merged ctx.
       \<lparr>Objects = Objects merged @ Objects ctx, InvalidObjects = InvalidObjects merged @ InvalidObjects ctx\<rparr>) m cs) =
      Objects m @ concat (map Objects cs) \<and>
    InvalidObjects (foldl (\<lambda>merged ctx.
       \<lparr>Objects = Objects merged @ Objects ctx, InvalidObjects = InvalidObjects merged @ InvalidObjects ctx\<rparr>) m cs) =
      InvalidObjects m @ concat (map InvalidObjects cs)" for m :: lint_context
    by (induction cs arbitrary: m) simp_all
  then show "Objects (mergeContexts cs) = concat (map Objects cs)"
    "InvalidObjects (mergeContexts cs) = concat (map InvalidObjects cs)"
    by (simp_all add: mergeContexts_def)
qed

lemma merge_eqI:
  "concat (map Objects cs) = concat (map Objects ds) \<Longrightarrow>
   concat (map InvalidObjects cs) = concat (map InvalidObjects ds) \<Longrightarrow> mergeContexts cs = mergeContexts ds"
  by (rule lint_context.equality) (simp_all add: merge_objects merge_invalid)

definition is_checked :: "instantiated_check list \<Rightarrow> lint_object \<Rightarrow> bool" where
  "is_checked checks obj \<longleftrightarrow> list_ex (\<lambda>check. ic_Matches check (obj_GVK obj)) checks"

definition checked_kinds :: "instantiated_check list \<Rightarrow> lint_context list \<Rightarrow> str list" where
  "checked_kinds checks cs =
     map (\<lambda>obj. gvk_Kind (obj_GVK obj)) (filter (is_checked checks) (concat (map Objects cs)))"

definition paths_of :: "lint_context list \<Rightarrow> str set" where
  "paths_of cs = (obj_FilePath ` set (concat (map Objects cs)) \<union>
     inv_FilePath ` set (concat (map InvalidObjects cs))) - {''''}"

lemma scan_objects:
  "foldl (scan_object checks) (s, files) objs =
     (s\<lparr>sc_Objects := sc_Objects s + length objs,
        sc_Checked := sc_Checked s + length (filter (is_checked checks) objs),
        sc_CheckedByKind := count_keys (sc_CheckedByKind s)
          (map (\<lambda>obj. gvk_Kind (obj_GVK obj)) (filter (is_checked checks) objs))\<rparr>,
      files \<union> (obj_FilePath ` set objs - {''''}))"
  by (induction objs arbitrary: s files)
    (auto simp: scan_object_def is_checked_def add_path_def Let_def)

lemma scan_invalids:
  "foldl scan_invalid (s, files) objs =
     (s\<lparr>sc_Unparsed := sc_Unparsed s + length objs\<rparr>, files \<union> (inv_FilePath ` set objs - {''''}))"
  by (induction objs arbitrary: s files) (auto simp: scan_invalid_def add_path_def)

lemma count_keys_append: "count_keys m (xs @ ys) = count_keys (count_keys m xs) ys"
  by (induction xs arbitrary: m) simp_all

lemma scan_contexts:
  "foldl (scan_context checks) (s, files) cs =
     (s\<lparr>sc_Objects := sc_Objects s + length (concat (map Objects cs)),
        sc_Checked := sc_Checked s + length (checked_kinds checks cs),
        sc_CheckedByKind := count_keys (sc_CheckedByKind s) (checked_kinds checks cs),
        sc_Unparsed := sc_Unparsed s + length (concat (map InvalidObjects cs))\<rparr>,
      files \<union> paths_of cs)"
proof (induction cs arbitrary: s files)
  case Nil
  then show ?case by (simp add: checked_kinds_def paths_of_def)
next
  case (Cons c cs)
  show ?case
    unfolding foldl_Cons scan_context_def scan_objects scan_invalids Cons.IH [unfolded scan_context_def]
    by (auto simp: checked_kinds_def paths_of_def count_keys_append)
qed

lemma set_scope_kinds: "set (scope_kinds checks) = (\<Union>c\<in>set checks. set (ic_ObjectKinds c)) \<and> distinct (scope_kinds checks)"
proof -
  have inner: "set (foldl (\<lambda>kinds kind. List.insert kind kinds) ks xs) = set ks \<union> set xs \<and>
      (distinct ks \<longrightarrow> distinct (foldl (\<lambda>kinds kind. List.insert kind kinds) ks xs))" for ks xs :: "str list"
    by (induction xs arbitrary: ks) auto
  have "set (foldl (\<lambda>kinds check. foldl (\<lambda>kinds kind. List.insert kind kinds) kinds (ic_ObjectKinds check)) ks cs)
      = set ks \<union> (\<Union>c\<in>set cs. set (ic_ObjectKinds c)) \<and>
    (distinct ks \<longrightarrow> distinct (foldl (\<lambda>kinds check. foldl (\<lambda>kinds kind. List.insert kind kinds) kinds (ic_ObjectKinds check)) ks cs))" for ks cs
    by (induction cs arbitrary: ks) (auto simp: inner)
  from this [of "[]" checks] show ?thesis by (simp add: scope_kinds_def)
qed

lemma summarize_eq:
  "summarize R cs checks =
     \<lparr>sc_Objects = length (concat (map Objects cs)), sc_Files = card (paths_of cs),
      sc_Checked = length (checked_kinds checks cs),
      sc_CheckedByKind = count_keys [] (checked_kinds checks cs),
      sc_LooksFor = sort_strings (go_range R ''summarize'' (scope_kinds checks)),
      sc_Unparsed = length (concat (map InvalidObjects cs))\<rparr>"
  by (simp add: summarize_def scan_contexts)

interpretation kind_order: go_order "kind_before counts" for counts
  by unfold_locales (auto simp: kind_before_def split: if_splits)

lemma byKind_order: "range_ok R \<Longrightarrow> range_ok S \<Longrightarrow> byKind R counts = byKind S counts"
  unfolding byKind_def Let_def
  by (subst kind_order.sort_slice_perm [of _ "go_range S ''byKind'' (map fst counts)"]) (simp_all add: mset_go_range)

lemma soleKind_one: "range_ok R \<Longrightarrow> soleKind R [(k, n)] = fmt_nat n @ '' '' @ k @ '' '' @ objectNoun n"
proof -
  assume "range_ok R"
  then have "go_range R ''soleKind'' [(k, n)] = [(k, n)]"
    by (metis mset_go_range mset_single_iff mset.simps)
  then show ?thesis by (simp add: soleKind_def)
qed

lemma soleKind_order: "range_ok R \<Longrightarrow> range_ok S \<Longrightarrow> length counts = 1 \<Longrightarrow> soleKind R counts = soleKind S counts"
  by (cases counts) (auto simp: soleKind_one)

section \<open>Properties\<close>

text \<open>
  Merging forgets how the objects were spread over directories: contexts that hold the same
  objects in the same order, however grouped, merge into the same context, and merging in two
  stages is merging at once.
\<close>

lemma merge_forgets_directories:
  "Objects (mergeContexts cs) = concat (map Objects cs) \<and>
   InvalidObjects (mergeContexts cs) = concat (map InvalidObjects cs) \<and>
   mergeContexts (map mergeContexts css) = mergeContexts (concat css)"
proof -
  have "concat (map Objects (map mergeContexts css)) = concat (map Objects (concat css))"
    "concat (map InvalidObjects (map mergeContexts css)) = concat (map InvalidObjects (concat css))"
    by (induction css) (simp_all add: merge_objects merge_invalid)
  then have "mergeContexts (map mergeContexts css) = mergeContexts (concat css)" by (rule merge_eqI)
  then show ?thesis by (simp only: merge_objects merge_invalid simp_thms)
qed

text \<open>
  C29: the summary counts what it says: every object and every unparsed one, each non-empty file
  path once, an object as checked when some check's matcher accepts it, once however many do; the
  counts by kind add up to that number, with no entry for a kind no check saw; and the kinds
  looked for are the sorted, repetition-free union of the scopes.
\<close>

theorem summary_counts:
  assumes "range_ok R"
  shows "sc_Objects (summarize R cs checks) = length (concat (map Objects cs)) \<and>
    sc_Unparsed (summarize R cs checks) = length (concat (map InvalidObjects cs)) \<and>
    sc_Files (summarize R cs checks) = card (paths_of cs) \<and>
    sc_Checked (summarize R cs checks) = length (filter (is_checked checks) (concat (map Objects cs))) \<and>
    sum_list (map snd (sc_CheckedByKind (summarize R cs checks))) = sc_Checked (summarize R cs checks) \<and>
    (\<forall>kind. map_of (sc_CheckedByKind (summarize R cs checks)) kind =
       (let n = length (filter (\<lambda>obj. is_checked checks obj \<and> gvk_Kind (obj_GVK obj) = kind) (concat (map Objects cs)))
        in if n = 0 then None else Some n)) \<and>
    set (sc_LooksFor (summarize R cs checks)) = (\<Union>c\<in>set checks. set (ic_ObjectKinds c)) \<and>
    sorted (sc_LooksFor (summarize R cs checks)) \<and> distinct (sc_LooksFor (summarize R cs checks))"
proof -
  let ?L = "sort_strings (go_range R ''summarize'' (scope_kinds checks))"
  have looks: "set ?L = (\<Union>c\<in>set checks. set (ic_ObjectKinds c))"
    using set_scope_kinds [of checks] by (simp add: set_go_range [OF assms])
  have sorted: "sorted ?L" by (rule sort_strings_sorted)
  have distinct: "distinct ?L"
    using set_scope_kinds [of checks] distinct_go_range [OF assms]
    by (metis mset_sort_strings mset_eq_imp_distinct_iff)
  have kinds: "map_of (count_keys [] (checked_kinds checks cs)) kind =
       (let n = length (filter (\<lambda>obj. is_checked checks obj \<and> gvk_Kind (obj_GVK obj) = kind) (concat (map Objects cs)))
        in if n = 0 then None else Some n)" for kind
  proof -
    have "count_list (map (\<lambda>obj. gvk_Kind (obj_GVK obj)) (filter (is_checked checks) objs)) kind =
        length (filter (\<lambda>obj. is_checked checks obj \<and> gvk_Kind (obj_GVK obj) = kind) objs)" for objs
      by (induction objs) auto
    moreover have "map_of (count_keys [] xs) kind = (let n = count_list xs kind in if n = 0 then None else Some n)" for xs
      by (simp add: count_keys_map_of Let_def count_list_0_iff)
    ultimately show ?thesis by (simp only: checked_kinds_def)
  qed
  have total: "sum_list (map snd (count_keys [] (checked_kinds checks cs))) = length (checked_kinds checks cs)"
    using sum_counts [of "[]" "checked_kinds checks cs"] by simp
  have number: "length (checked_kinds checks cs) = length (filter (is_checked checks) (concat (map Objects cs)))"
    by (simp only: checked_kinds_def length_map)
  show ?thesis
    unfolding summarize_eq scan_summary.simps
    by (intro conjI allI refl looks sorted distinct kinds total number)
qed

theorem summary_counts_witness:
  "sc_Checked (summarize forward_runtime [context_of [edge, web ''web'' None]]
     [\<lparr>ic_ObjectKinds = [Gateway], ic_Matches = scope_matches [Gateway]\<rparr>]) =
   length (filter (is_checked [\<lparr>ic_ObjectKinds = [Gateway], ic_Matches = scope_matches [Gateway]\<rparr>])
     (concat (map Objects [context_of [edge, web ''web'' None]])))"
  using summary_counts [OF range_ok_forward, of "[context_of [edge, web ''web'' None]]"
      "[\<lparr>ic_ObjectKinds = [Gateway], ic_Matches = scope_matches [Gateway]\<rparr>]"] by blast

text \<open>
  The summary line does not depend on the order in which Go ranges over the maps it is
  built from.
\<close>

lemma summary_text_order:
  assumes "range_ok R" and "range_ok S"
  shows "summary_String R (summarize R cs checks) = summary_String S (summarize S cs checks)"
proof -
  have "sort_strings (go_range R ''summarize'' (scope_kinds checks)) =
      sort_strings (go_range S ''summarize'' (scope_kinds checks))"
    by (rule sort_strings_perm) (simp add: mset_go_range assms)
  then have same: "summarize R cs checks = summarize S cs checks" by (simp add: summarize_eq)
  show ?thesis
    unfolding same summary_String_def Let_def
    by (simp add: byKind_order [OF assms] soleKind_order [OF assms])
qed

lemma summary_text_order_witness:
  "summary_String forward_runtime (summarize forward_runtime [] []) =
     summary_String backward_runtime (summarize backward_runtime [] [])"
  by (rule summary_text_order [OF range_ok_forward range_ok_backward])

end
