(* ===== verification/Lint_Command.thy ===== *)
theory Lint_Command
  imports Builtin_Checks Lint_Scan
begin

text \<open>
  \<open>pkg/command/lint/command.go\<close>: the \<open>RunE\<close> of the lint command, with its early returns,
  warnings and writes, and the exit code \<open>cmd/gwlint/main.go\<close> makes of it. What the command
  calls of kube-linter, of the file system and of the output package are the fields of
  \<open>lint_env\<close>; nothing is assumed of them. An error is its text.
\<close>

record lint_report =
  rep_Check :: str
  rep_Remediation :: str
  rep_Diagnostic :: diagnostic
  rep_Object :: lint_object

record run_result =
  res_Reports :: "lint_report list"
  res_Version :: str

record lint_result =
  lr_Result :: run_result
  lr_Scanned :: scan_summary

record format_output =
  fo_Format :: str
  fo_Output :: str

text \<open>
  \<open>'r\<close> is kube-linter's check registry, \<open>'d\<close> an output destination. A formatter writes
  a result to a destination and returns an error or not.
\<close>

record ('r, 'd) lint_env =
  env_fs :: embed_fs
  env_Register :: "'r \<Rightarrow> config_check \<Rightarrow> str option \<times> 'r"
  env_NewRegistry :: 'r
  env_Stdin :: str
  env_GetAbsolutPath :: "str \<Rightarrow> str result"
  env_CreateContexts :: "str list \<Rightarrow> lint_context list result"
  env_Run :: "lint_context list \<Rightarrow> 'r \<Rightarrow> str list \<Rightarrow> run_result result"
  env_Load :: "'r \<Rightarrow> str \<Rightarrow> instantiated_check option"
  env_Pairs :: "str list \<Rightarrow> str list \<Rightarrow> format_output list result"
  env_Formatter :: "str \<Rightarrow> ('d \<Rightarrow> lint_result \<Rightarrow> str option) result"
  env_NewOutput :: "str \<Rightarrow> 'd result"
  env_Close :: "'d \<Rightarrow> str option"

record lint_flags =
  fl_failIfNoObjects :: bool
  fl_verbose :: bool
  fl_formats :: "str list"
  fl_outputs :: "str list"

text \<open>What the command prints to standard error, what it handed to formatters, and its error.\<close>

record outcome =
  oc_Stderr :: "str list"
  oc_Formatted :: "(format_output \<times> lint_result) list"
  oc_Err :: "str option"

fun absolute_args :: "('r, 'd) lint_env \<Rightarrow> str list \<Rightarrow> str list result" where
  "absolute_args env [] = Inr []"
| "absolute_args env (arg # args) =
     (if arg = env_Stdin env then map_sum (\<lambda>e. e) ((#) (env_Stdin env)) (absolute_args env args)
      else (case env_GetAbsolutPath env arg of
              Inl err \<Rightarrow> Inl err
            | Inr absArg \<Rightarrow> map_sum (\<lambda>e. e) ((#) absArg) (absolute_args env args)))"

text \<open>One iteration over the pairs: an unknown format returns at once, other failures are collected.\<close>

fun write_all ::
  "('r, 'd) lint_env \<Rightarrow> lint_result \<Rightarrow> str list \<Rightarrow> (format_output \<times> lint_result) list \<Rightarrow> format_output list \<Rightarrow>
     (str option \<times> str list \<times> (format_output \<times> lint_result) list)" where
  "write_all env scanned errs done [] = (None, errs, done)"
| "write_all env scanned errs done (pair # pairs) =
     (case env_Formatter env (fo_Format pair) of
        Inl err \<Rightarrow> (Some err, errs, done)
      | Inr formatter \<Rightarrow>
          (case env_NewOutput env (fo_Output pair) of
             Inl err \<Rightarrow>
               write_all env scanned
                 (errs @ [''failed to create output destination for '' @ fo_Format pair @ '': '' @ err]) done pairs
           | Inr dest \<Rightarrow>
               (case formatter dest scanned of
                  Some writeErr \<Rightarrow>
                    write_all env scanned (errs @ [''formatting failed for '' @ fo_Format pair @ '': '' @ writeErr])
                      (done @ [(pair, scanned)]) pairs
                | None \<Rightarrow>
                    (case env_Close env dest of
                       Some closeErr \<Rightarrow>
                         write_all env scanned
                           (errs @ [''failed to close output for '' @ fo_Format pair @ '': '' @ closeErr])
                           (done @ [(pair, scanned)]) pairs
                     | None \<Rightarrow> write_all env scanned errs (done @ [(pair, scanned)]) pairs))))"

definition newline :: str where "newline = [CHR 0x0A]"

definition write_error_text :: "str list \<Rightarrow> nat \<Rightarrow> str" where
  "write_error_text writeErrors pairs =
     ''failed to write '' @ fmt_nat (length writeErrors) @ '' of '' @ fmt_nat pairs @ '' output format(s):'' @ newline @
     concat (map (\<lambda>(i, err). ''  '' @ fmt_nat (i + 1) @ ''. '' @ err @ newline) (enumerate 0 writeErrors))"

definition load_warnings :: "lint_context list \<Rightarrow> str list" where
  "load_warnings lintCtxs =
     for_append lintCtxs (\<lambda>lintCtx. map (\<lambda>inv.
       ''Warning: failed to load object from '' @ inv_FilePath inv @ '': '' @ inv_LoadErr inv @ newline)
       (InvalidObjects lintCtx))"

text \<open>The part from the writing on: the run has a result, and \<open>warnings\<close> are printed.\<close>

definition report_result ::
  "('r, 'd) lint_env \<Rightarrow> lint_flags \<Rightarrow> str list \<Rightarrow> lint_result \<Rightarrow> outcome" where
  "report_result env flags warnings scanned =
     (case env_Pairs env (fl_formats flags) (fl_outputs flags) of
        Inl err \<Rightarrow> \<lparr>oc_Stderr = warnings, oc_Formatted = [], oc_Err = Some err\<rparr>
      | Inr pairs \<Rightarrow>
          (case write_all env scanned [] [] pairs of
             (Some err, _, done) \<Rightarrow> \<lparr>oc_Stderr = warnings, oc_Formatted = done, oc_Err = Some err\<rparr>
           | (None, writeErrors, done) \<Rightarrow>
               \<lparr>oc_Stderr = warnings, oc_Formatted = done,
                oc_Err =
                  (if length writeErrors > 0 then Some (write_error_text writeErrors (length pairs))
                   else if length (res_Reports (lr_Result scanned)) > 0
                   then Some (''found '' @ fmt_nat (length (res_Reports (lr_Result scanned))) @ '' lint errors'')
                   else None)\<rparr>))"

definition lint_contexts ::
  "runtime \<Rightarrow> ('r, 'd) lint_env \<Rightarrow> lint_flags \<Rightarrow> str \<Rightarrow> 'r \<Rightarrow> str list \<Rightarrow> lint_context list \<Rightarrow> outcome" where
  "lint_contexts R env flags version registry enabledChecks lintCtxs =
     (let lintCtxs = [mergeContexts lintCtxs];
          warnings = (if fl_verbose flags then load_warnings lintCtxs else [])
      in if \<not> list_ex (\<lambda>lintCtx. length (Objects lintCtx) > 0) lintCtxs then
           (if fl_failIfNoObjects flags
            then \<lparr>oc_Stderr = warnings, oc_Formatted = [], oc_Err = Some ''no valid objects found''\<rparr>
            else \<lparr>oc_Stderr = warnings @ [''Warning: no valid objects found.'' @ newline], oc_Formatted = [], oc_Err = None\<rparr>)
         else
           (case env_Run env lintCtxs registry enabledChecks of
              Inl err \<Rightarrow> \<lparr>oc_Stderr = warnings, oc_Formatted = [], oc_Err = Some err\<rparr>
            | Inr result \<Rightarrow>
                let instantiated = for_append enabledChecks (\<lambda>name.
                      case env_Load env registry name of Some chk \<Rightarrow> [chk] | None \<Rightarrow> []);
                    scanned = \<lparr>lr_Result = result\<lparr>res_Version := version\<rparr>,
                               lr_Scanned = summarize R lintCtxs instantiated\<rparr>
                in report_result env flags warnings scanned))"

definition RunE ::
  "runtime \<Rightarrow> ('r, 'd) lint_env \<Rightarrow> lint_flags \<Rightarrow> str \<Rightarrow> builtin_state \<Rightarrow> str list \<Rightarrow> outcome" where
  "RunE R env flags version st args =
     (case LoadInto (env_fs env) (env_Register env) st (env_NewRegistry env) of
        (Some err, _, _) \<Rightarrow> \<lparr>oc_Stderr = [], oc_Formatted = [], oc_Err = Some err\<rparr>
      | (None, registry, st) \<Rightarrow>
          (case fst (List_checks (env_fs env) st) of
             Inl err \<Rightarrow> \<lparr>oc_Stderr = [], oc_Formatted = [], oc_Err = Some err\<rparr>
           | Inr defaultChecks \<Rightarrow>
               let enabledChecks = map cc_Name defaultChecks in
               if length enabledChecks = 0 then
                 \<lparr>oc_Stderr = [''Warning: no checks enabled.'' @ newline], oc_Formatted = [], oc_Err = None\<rparr>
               else
                 (case absolute_args env args of
                    Inl err \<Rightarrow> \<lparr>oc_Stderr = [], oc_Formatted = [], oc_Err = Some err\<rparr>
                  | Inr absArgs \<Rightarrow>
                      (case env_CreateContexts env absArgs of
                         Inl err \<Rightarrow> \<lparr>oc_Stderr = [], oc_Formatted = [], oc_Err = Some err\<rparr>
                       | Inr lintCtxs \<Rightarrow> lint_contexts R env flags version registry enabledChecks lintCtxs))))"

definition main_exit :: "outcome \<Rightarrow> nat" where
  "main_exit oc = (if oc_Err oc \<noteq> None then 1 else 0)"

section \<open>Writing\<close>

text \<open>Every pair's format is known, its output opens, it is written and closed.\<close>

definition pair_written :: "('r, 'd) lint_env \<Rightarrow> lint_result \<Rightarrow> format_output \<Rightarrow> bool" where
  "pair_written env scanned pair \<longleftrightarrow>
     (\<exists>formatter dest. env_Formatter env (fo_Format pair) = Inr formatter \<and>
        env_NewOutput env (fo_Output pair) = Inr dest \<and> formatter dest scanned = None \<and> env_Close env dest = None)"

lemma write_all_ok:
  "fst (write_all env scanned errs done pairs) = None \<and> fst (snd (write_all env scanned errs done pairs)) = [] \<longleftrightarrow>
     errs = [] \<and> list_all (pair_written env scanned) pairs"
  by (induction pairs arbitrary: errs "done") (auto simp: pair_written_def split: sum.split option.split)

lemma write_all_done:
  "list_all (pair_written env scanned) pairs \<Longrightarrow>
     write_all env scanned errs done pairs = (None, errs, done @ map (\<lambda>pair. (pair, scanned)) pairs)"
  by (induction pairs arbitrary: "done") (auto simp: pair_written_def)

lemma absolute_args_eq:
  "absolute_args env args =
     (case List.find (\<lambda>arg. arg \<noteq> env_Stdin env \<and> isl (env_GetAbsolutPath env arg)) args of
        Some arg \<Rightarrow> Inl (projl (env_GetAbsolutPath env arg))
      | None \<Rightarrow> Inr (map (\<lambda>arg. if arg = env_Stdin env then arg else projr (env_GetAbsolutPath env arg)) args))"
  by (induction args) (auto split: sum.split option.split)

section \<open>The exit code\<close>

text \<open>
  When a run over a non-empty set exits with 0: exactly when the engine ran, produced no report, the
  format and output flags paired up, and every output was opened, written and closed. Otherwise the
  exit code is 1. A set without objects exits with 0 unless the flag says to fail.
\<close>

lemma lint_exit_eq:
  "main_exit (lint_contexts R env flags version registry enabledChecks lintCtxs) =
     (let merged = mergeContexts lintCtxs;
          instantiated = for_append enabledChecks (\<lambda>name.
            case env_Load env registry name of Some chk \<Rightarrow> [chk] | None \<Rightarrow> []) in
      if Objects merged = [] then (if fl_failIfNoObjects flags then 1 else 0)
      else (case env_Run env [merged] registry enabledChecks of
              Inl _ \<Rightarrow> 1
            | Inr result \<Rightarrow>
                (case env_Pairs env (fl_formats flags) (fl_outputs flags) of
                   Inl _ \<Rightarrow> 1
                 | Inr pairs \<Rightarrow>
                     if res_Reports result = [] \<and>
                        list_all (pair_written env \<lparr>lr_Result = result\<lparr>res_Version := version\<rparr>,
                          lr_Scanned = summarize R [merged] instantiated\<rparr>) pairs
                     then 0 else 1)))"
proof -
  have exit: "main_exit (report_result env flags warnings scanned) =
      (case env_Pairs env (fl_formats flags) (fl_outputs flags) of
         Inl _ \<Rightarrow> 1
       | Inr pairs \<Rightarrow> if res_Reports (lr_Result scanned) = [] \<and> list_all (pair_written env scanned) pairs then 0 else 1)"
    for warnings scanned
  proof (cases "env_Pairs env (fl_formats flags) (fl_outputs flags)")
    case (Inl err)
    then show ?thesis by (simp add: report_result_def main_exit_def)
  next
    case (Inr pairs)
    obtain e errs out where w: "write_all env scanned [] [] pairs = (e, errs, out)" by (metis prod_cases3)
    then have "e = None \<and> errs = [] \<longleftrightarrow> list_all (pair_written env scanned) pairs"
      using write_all_ok [of env scanned "[]" "[]" pairs] by simp
    with Inr w show ?thesis by (cases e) (auto simp: report_result_def main_exit_def)
  qed
  have lit: "main_exit \<lparr>oc_Stderr = a, oc_Formatted = b, oc_Err = e\<rparr> = (if e \<noteq> None then 1 else 0)" for a b e
    by (simp add: main_exit_def)
  show ?thesis
    unfolding lint_contexts_def Let_def
    by (cases "Objects (mergeContexts lintCtxs) = []";
        cases "env_Run env [mergeContexts lintCtxs] registry enabledChecks") (simp_all add: exit lit split: sum.split)
qed

text \<open>
  The verdict does not depend on how the files are spread over directories: contexts that
  hold the same objects in the same order give the same outcome, messages and writes included.
\<close>

lemma lint_ignores_directories:
  assumes "concat (map Objects cs) = concat (map Objects ds)"
    and "concat (map InvalidObjects cs) = concat (map InvalidObjects ds)"
  shows "lint_contexts R env flags version registry enabledChecks cs =
    lint_contexts R env flags version registry enabledChecks ds"
  unfolding lint_contexts_def merge_eqI [OF assms] by (rule refl)

end
