(* ===== verification/Command_Line.thy ===== *)
theory Command_Line
  imports Lint_Command
begin

text \<open>
  The program around \<open>RunE\<close>: the version (\<open>pkg/version\<close>), the scheme the decoder is built from
  (\<open>pkg/decoder\<close>), the plain output and the formatters and flags of the lint command
  (\<open>pkg/command/lint/command.go\<close>), the root command (\<open>pkg/command/root\<close>) and \<open>main\<close>. Cobra's parsing
  and dispatch, the installers of the API packages and kube-linter's output package are fields of
  the records \<open>decoder_env\<close>, \<open>output_pkg\<close>, \<open>text_style\<close> and \<open>cli_env\<close>.
\<close>

section \<open>Version\<close>

text \<open>The package variable, which \<open>-ldflags -X\<close> overwrites at build time.\<close>

definition version_var :: "str option \<Rightarrow> str" where
  "version_var ldflags = (case ldflags of Some v \<Rightarrow> v | None \<Rightarrow> ''dev'')"

definition version_Get :: "str option \<Rightarrow> str" where
  "version_Get ldflags = version_var ldflags"

section \<open>Decoder\<close>

text \<open>
  \<open>'s\<close> is a client-go scheme, \<open>'c\<close> a decoder. An installer changes the scheme and returns an
  error or not; \<open>AddToScheme\<close> of apimachinery's \<open>SchemeBuilder\<close> is what runs a list of them.
\<close>

type_synonym 's installer = "'s \<Rightarrow> str option \<times> 's"

record ('s, 'c) decoder_env =
  de_Scheme :: 's
  de_gatewayv1_Install :: "'s installer"
  de_gatewayv1b1_Install :: "'s installer"
  de_gatewayv1a2_Install :: "'s installer"
  de_gatewayv1a3_Install :: "'s installer"
  de_egv1a1_AddToScheme :: "'s installer"
  de_AddToScheme :: "'s installer list \<Rightarrow> 's installer"
  de_UniversalDeserializer :: "'s \<Rightarrow> 'c"

text \<open>The left of the sum is the text \<open>init\<close> panics with.\<close>

definition decoder_init :: "('s, 'c) decoder_env \<Rightarrow> str + 'c" where
  "decoder_init env =
     (let schemeBuilder =
            [de_gatewayv1_Install env, de_gatewayv1b1_Install env, de_gatewayv1a2_Install env,
             de_gatewayv1a3_Install env, de_egv1a1_AddToScheme env];
          (err, clientScheme) = de_AddToScheme env schemeBuilder (de_Scheme env)
      in case err of
           Some err \<Rightarrow> Inl (''gwlint: failed to add Gateway API/Envoy Gateway types to scheme: '' @ err)
         | None \<Rightarrow> Inr (de_UniversalDeserializer env clientScheme))"

section \<open>The plain output\<close>

record text_style =
  ts_bold :: "str \<Rightarrow> str"
  ts_red :: "str \<Rightarrow> str"
  ts_yellow :: "str \<Rightarrow> str"
  ts_GetK8sObjectName :: "lint_object \<Rightarrow> str"

text \<open>The body of the template's \<open>range\<close>, and its \<open>else\<close> when there are no reports.\<close>

definition plain_report :: "text_style \<Rightarrow> lint_report \<Rightarrow> str" where
  "plain_report style r =
     ts_bold style (obj_FilePath (rep_Object r)) @ '': (object: '' @
     ts_bold style (ts_GetK8sObjectName style (rep_Object r)) @ '') '' @
     ts_red style (Message (rep_Diagnostic r)) @ '' (check: '' @ ts_yellow style (rep_Check r) @
     '', remediation: '' @ ts_yellow style (rep_Remediation r) @ '')'' @ newline @ newline"

definition plain_text :: "runtime \<Rightarrow> text_style \<Rightarrow> lint_result \<Rightarrow> str" where
  "plain_text R style result =
     ''gwlint '' @ res_Version (lr_Result result) @ newline @ newline @
     (if res_Reports (lr_Result result) = [] then ''No lint errors found.'' @ newline
      else concat (map (plain_report style) (res_Reports (lr_Result result)))) @
     summary_String R (lr_Scanned result) @ newline"

section \<open>Formatters and flags\<close>

type_synonym 'd formatter = "'d \<Rightarrow> lint_result \<Rightarrow> str option"

record 'd output_pkg =
  op_JSONFormat :: str
  op_PlainFormat :: str
  op_FormatJSON :: "'d formatter"
  op_Write :: "'d \<Rightarrow> str \<Rightarrow> str option"
  op_FormatterByType :: "(str \<times> 'd formatter) list \<Rightarrow> str \<Rightarrow> 'd formatter result"
  op_GetEnabledFormatters :: "(str \<times> 'd formatter) list \<Rightarrow> str list"
  op_Pairs :: "str list \<Rightarrow> str list \<Rightarrow> str list \<Rightarrow> format_output list result"

definition plainTemplate :: "runtime \<Rightarrow> text_style \<Rightarrow> 'd output_pkg \<Rightarrow> 'd formatter" where
  "plainTemplate R style op out result = op_Write op out (plain_text R style result)"

definition formatters :: "runtime \<Rightarrow> text_style \<Rightarrow> 'd output_pkg \<Rightarrow> (str \<times> 'd formatter) list" where
  "formatters R style op =
     [(op_JSONFormat op, op_FormatJSON op), (op_PlainFormat op, plainTemplate R style op)]"

record flag_spec =
  fg_Name :: str
  fg_Shorthand :: str
  fg_Usage :: str

definition lint_flag_specs :: "runtime \<Rightarrow> text_style \<Rightarrow> 'd output_pkg \<Rightarrow> flag_spec list" where
  "lint_flag_specs R style op =
     [\<lparr>fg_Name = ''fail-if-no-objects-found'', fg_Shorthand = '''',
       fg_Usage = ''Return non-zero exit code if no valid objects are found or failed to parse''\<rparr>,
      \<lparr>fg_Name = ''verbose'', fg_Shorthand = ''v'', fg_Usage = ''Enable verbose logging''\<rparr>,
      \<lparr>fg_Name = ''format'', fg_Shorthand = '''',
       fg_Usage = ''Output format (can be repeated). Allowed values: '' @
         Join (op_GetEnabledFormatters op (formatters R style op)) '', ''\<rparr>,
      \<lparr>fg_Name = ''output'', fg_Shorthand = '''',
       fg_Usage = ''Output file path (can be repeated). Must match the number of --format flags. '' @
         ''If omitted, all outputs go to stdout''\<rparr>]"

definition lint_flag_defaults :: "'d output_pkg \<Rightarrow> lint_flags" where
  "lint_flag_defaults op =
     \<lparr>fl_failIfNoObjects = False, fl_verbose = False, fl_formats = [op_PlainFormat op], fl_outputs = []\<rparr>"

section \<open>Commands\<close>

record cli_command =
  cmd_Use :: str
  cmd_Short :: str
  cmd_Args :: "str list \<Rightarrow> bool"
  cmd_Flags :: "flag_spec list"

record root_command =
  rc_Use :: str
  rc_SilenceUsage :: bool
  rc_SilenceErrors :: bool
  rc_Commands :: "cli_command list"

definition lint_Command :: "runtime \<Rightarrow> text_style \<Rightarrow> 'd output_pkg \<Rightarrow> cli_command" where
  "lint_Command R style op =
     \<lparr>cmd_Use = ''lint'', cmd_Short = ''Lint Gateway API and Envoy Gateway YAML manifests'',
      cmd_Args = (\<lambda>args. 1 \<le> length args), cmd_Flags = lint_flag_specs R style op\<rparr>"

definition versionCommand :: cli_command where
  "versionCommand =
     \<lparr>cmd_Use = ''version'', cmd_Short = ''Print version and exit'', cmd_Args = (\<lambda>args. args = []), cmd_Flags = []\<rparr>"

definition root_Command ::
  "(str \<Rightarrow> str) \<Rightarrow> runtime \<Rightarrow> text_style \<Rightarrow> 'd output_pkg \<Rightarrow> cli_command \<Rightarrow> str \<Rightarrow> root_command" where
  "root_Command Base R style op kltemplates prog =
     \<lparr>rc_Use = Base prog, rc_SilenceUsage = True, rc_SilenceErrors = True,
      rc_Commands = [lint_Command R style op, kltemplates, versionCommand]\<rparr>"

section \<open>The process\<close>

text \<open>
  Cobra resolves the arguments to a command with its flags and arguments, or fails; a command whose
  argument check fails is an error too. An error is printed unless the root silences errors.
\<close>

record invocation =
  in_Command :: cli_command
  in_Flags :: lint_flags
  in_Args :: "str list"

record process =
  pr_Stdout :: "str list"
  pr_Formatted :: "(format_output \<times> lint_result) list"
  pr_Stderr :: "str list"
  pr_Exit :: nat

record ('r, 'd, 's, 'c) cli_env =
  ce_lint :: "('r, 'd) lint_env"
  ce_output :: "'d output_pkg"
  ce_style :: text_style
  ce_decoder :: "('s, 'c) decoder_env"
  ce_CreateContextsWithOptions :: "'c \<Rightarrow> str list \<Rightarrow> lint_context list result"
  ce_Base :: "str \<Rightarrow> str"
  ce_templates :: cli_command
  ce_RunTemplates :: "str list \<Rightarrow> process"
  ce_Parse :: "root_command \<Rightarrow> str list \<Rightarrow> invocation result"
  ce_ArgsError :: "cli_command \<Rightarrow> str list \<Rightarrow> str"

text \<open>The lint command's environment, with the program's own decoder and formatters in place.\<close>

definition lint_env_of ::
  "runtime \<Rightarrow> ('r, 'd, 's, 'c) cli_env \<Rightarrow> 'c \<Rightarrow> ('r, 'd) lint_env" where
  "lint_env_of R env dec =
     (let op = ce_output env; fs = formatters R (ce_style env) op
      in (ce_lint env)
           \<lparr>env_CreateContexts := ce_CreateContextsWithOptions env dec,
            env_Pairs := (\<lambda>formats outputs. op_Pairs op formats outputs (op_GetEnabledFormatters op fs)),
            env_Formatter := op_FormatterByType op fs\<rparr>)"

definition error_lines :: "root_command \<Rightarrow> str \<Rightarrow> str list" where
  "error_lines root err = (if rc_SilenceErrors root then [] else [''Error: '' @ err @ newline])"

definition version_Run :: "str option \<Rightarrow> process" where
  "version_Run ldflags =
     \<lparr>pr_Stdout = [version_Get ldflags @ newline], pr_Formatted = [], pr_Stderr = [], pr_Exit = 0\<rparr>"

definition failed :: "root_command \<Rightarrow> str \<Rightarrow> process" where
  "failed root err = \<lparr>pr_Stdout = [], pr_Formatted = [], pr_Stderr = error_lines root err, pr_Exit = 1\<rparr>"

definition lint_process :: "root_command \<Rightarrow> outcome \<Rightarrow> process" where
  "lint_process root oc =
     \<lparr>pr_Stdout = [], pr_Formatted = oc_Formatted oc,
      pr_Stderr = oc_Stderr oc @ (case oc_Err oc of None \<Rightarrow> [] | Some err \<Rightarrow> error_lines root err),
      pr_Exit = main_exit oc\<rparr>"

text \<open>\<open>main\<close>, after the \<open>init\<close> functions: \<open>Inl\<close> is a panic of \<open>decoder_init\<close>.\<close>

definition main_process ::
  "runtime \<Rightarrow> ('r, 'd, 's, 'c) cli_env \<Rightarrow> str option \<Rightarrow> str \<Rightarrow> str list \<Rightarrow> str + process" where
  "main_process R env ldflags prog args =
     (case decoder_init (ce_decoder env) of
        Inl msg \<Rightarrow> Inl msg
      | Inr dec \<Rightarrow>
          let root = root_Command (ce_Base env) R (ce_style env) (ce_output env) (ce_templates env) prog
          in Inr (case ce_Parse env root args of
                    Inl err \<Rightarrow> failed root err
                  | Inr call \<Rightarrow>
                      if \<not> cmd_Args (in_Command call) (in_Args call)
                      then failed root (ce_ArgsError env (in_Command call) (in_Args call))
                      else if cmd_Use (in_Command call) = ''lint''
                      then lint_process root (RunE R (lint_env_of R env dec) (in_Flags call) (version_Get ldflags)
                             initial_state (in_Args call))
                      else if cmd_Use (in_Command call) = ''version'' then version_Run ldflags
                      else ce_RunTemplates env (in_Args call)))"


section \<open>The decoder's scheme\<close>

text \<open>What \<open>AddToScheme\<close> is documented to do: run the installers in order and stop at the first error.\<close>

fun install_in_order :: "'s installer list \<Rightarrow> 's installer" where
  "install_in_order [] s = (None, s)"
| "install_in_order (f # fs) s = (case f s of (Some err, s) \<Rightarrow> (Some err, s) | (None, s) \<Rightarrow> install_in_order fs s)"

lemma install_in_order_ok:
  "(\<And>f s. f \<in> set fs \<Longrightarrow> fst (f s) = None) \<Longrightarrow> install_in_order fs s = (None, foldl (\<lambda>s f. snd (f s)) s fs)"
proof (induction fs arbitrary: s)
  case (Cons f fs)
  from Cons.prems [of f s] have "f s = (None, snd (f s))" by (cases "f s") simp
  with Cons show ?case by (auto split: prod.split option.split)
qed simp

text \<open>The decoder knows the types of all five groups, installed on client-go's own scheme.\<close>

lemma decoder_knows_every_group:
  fixes env :: "('s, 'c) decoder_env"
  assumes "de_AddToScheme env = install_in_order"
    and "\<And>f s. f \<in> {de_gatewayv1_Install env, de_gatewayv1b1_Install env, de_gatewayv1a2_Install env,
           de_gatewayv1a3_Install env, de_egv1a1_AddToScheme env} \<Longrightarrow> fst (f s) = None"
  shows "decoder_init env = Inr (de_UniversalDeserializer env
    (snd (de_egv1a1_AddToScheme env (snd (de_gatewayv1a3_Install env (snd (de_gatewayv1a2_Install env
      (snd (de_gatewayv1b1_Install env (snd (de_gatewayv1_Install env (de_Scheme env))))))))))))"
  using install_in_order_ok [of "[de_gatewayv1_Install env, de_gatewayv1b1_Install env, de_gatewayv1a2_Install env,
      de_gatewayv1a3_Install env, de_egv1a1_AddToScheme env]" "de_Scheme env"] assms(2)
  by (simp add: decoder_init_def assms(1))

section \<open>What a failing run prints\<close>

text \<open>Before anything is formatted, the only lines on standard error are warnings.\<close>

lemma report_result_stderr: "oc_Stderr (report_result env flags warnings scanned) = warnings"
  by (auto simp: report_result_def split: sum.split prod.split option.split)

lemma lint_contexts_stderr:
  "\<not> fl_verbose flags \<Longrightarrow> oc_Err (lint_contexts R env flags version registry names lintCtxs) \<noteq> None \<Longrightarrow>
     oc_Stderr (lint_contexts R env flags version registry names lintCtxs) = []"
  by (auto simp: lint_contexts_def Let_def report_result_stderr split: sum.split if_splits)

lemma RunE_stderr:
  "\<not> fl_verbose flags \<Longrightarrow> oc_Err (RunE R env flags version st args) \<noteq> None \<Longrightarrow>
     oc_Stderr (RunE R env flags version st args) = []"
  by (auto simp: RunE_def Let_def intro!: lint_contexts_stderr split: sum.splits if_splits prod.splits option.splits)


section \<open>What the plain output says\<close>

text \<open>A row ends in an empty line and the line for no findings does not, so the body tells the two apart.\<close>

lemma plain_text_clean_iff:
  "plain_text R style result =
     ''gwlint '' @ res_Version (lr_Result result) @ newline @ newline @ ''No lint errors found.'' @ newline @
     summary_String R (lr_Scanned result) @ newline \<longleftrightarrow>
   res_Reports (lr_Result result) = []"
proof (cases "res_Reports (lr_Result result)" rule: rev_cases)
  case (snoc rs r)
  have "concat (map (plain_report style) (rs @ [r])) \<noteq> ''No lint errors found.'' @ newline"
  proof
    assume eq: "concat (map (plain_report style) (rs @ [r])) = ''No lint errors found.'' @ newline"
    obtain s where "plain_report style r = s @ newline @ newline" by (auto simp: plain_report_def)
    then have "concat (map (plain_report style) (rs @ [r])) = (concat (map (plain_report style) rs) @ s) @ newline @ newline"
      by simp
    with eq have "last (butlast ((concat (map (plain_report style) rs) @ s) @ newline @ newline)) =
        last (butlast (''No lint errors found.'' @ newline))" by simp
    then show False by (simp add: newline_def butlast_append)
  qed
  with snoc show ?thesis by (simp add: plain_text_def)
qed (simp add: plain_text_def)

lemma write_all_formatted:
  "set (snd (snd (write_all env scanned errs done pairs))) \<subseteq> set done \<union> {x. snd x = scanned}"
proof (induction pairs arbitrary: errs "done")
  case (Cons pair pairs)
  have "set (snd (snd (write_all env scanned es (done @ [(pair, scanned)]) pairs))) \<subseteq> set done \<union> {x. snd x = scanned}" for es
    using Cons.IH [of es "done @ [(pair, scanned)]"] by auto
  with Cons.IH [of _ "done"] show ?case by (simp split: sum.split option.split)
qed simp

lemma report_result_formatted:
  assumes "x \<in> set (oc_Formatted (report_result env flags warnings scanned))"
  shows "snd x = scanned"
proof (cases "env_Pairs env (fl_formats flags) (fl_outputs flags)")
  case (Inl err)
  with assms show ?thesis by (simp add: report_result_def)
next
  case (Inr pairs)
  obtain e errs out where w: "write_all env scanned [] [] pairs = (e, errs, out)" by (metis prod_cases3)
  with assms Inr have "x \<in> set out" by (cases e) (simp_all add: report_result_def)
  with w write_all_formatted [of env scanned "[]" "[]" pairs] show ?thesis by auto
qed

lemma lint_contexts_formatted:
  assumes "(pair, scanned) \<in> set (oc_Formatted (lint_contexts R env flags version registry names lintCtxs))"
  shows "Objects (mergeContexts lintCtxs) \<noteq> [] \<and>
    (\<exists>result. env_Run env [mergeContexts lintCtxs] registry names = Inr result \<and>
       lr_Result scanned = result\<lparr>res_Version := version\<rparr>)"
  using assms
  by (auto simp: lint_contexts_def Let_def dest!: report_result_formatted split: sum.splits if_splits)

end
