(* ===== verification/Load_Order.thy ===== *)
theory Load_Order
  imports Builtin_Checks
begin

text \<open>
  How manifests are laid out and loaded: into which files they are split, what these are called, in
  which order files and documents are read, at which addresses the decoder puts the objects.
  \<open>same_manifests\<close> relates two contexts that hold the same manifests and differ in that alone, where no
  two objects are the same one (\<open>unique_identities\<close>). \<open>context_view\<close> is the contract of what a check
  computes from the whole context, \<open>view_check\<close> says that a check reads the context through such a
  view only, and \<open>order_free\<close> that its findings do not depend on the layout. Every check interprets
  \<open>order_free\<close>.
\<close>

section \<open>Permuted lists\<close>

lemma mset_for_append: "mset (for_append xs f) = (\<Sum>x\<in>#mset xs. mset (f x))"
  by (induction xs) auto

lemma mset_for_append_perm: "mset xs = mset ys \<Longrightarrow> mset (for_append xs f) = mset (for_append ys f)"
  by (simp only: mset_for_append)

lemma mset_for_append_cong:
  "(\<And>x. x \<in> set xs \<Longrightarrow> mset (f x) = mset (g x)) \<Longrightarrow> mset (for_append xs f) = mset (for_append xs g)"
  by (induction xs) auto

lemma perm_short: "mset xs = mset ys \<Longrightarrow> length xs \<le> 1 \<Longrightarrow> xs = ys"
  by (cases xs) auto

text \<open>Where only one element contributes, the concatenation does not depend on the order.\<close>

lemma for_append_single:
  assumes "mset xs = mset ys" and "length (filter (\<lambda>x. f x \<noteq> []) xs) \<le> 1"
  shows "for_append xs f = for_append ys f"
proof -
  let ?P = "\<lambda>x. f x \<noteq> []"
  have parts: "for_append zs f = for_append (filter ?P zs) f" for zs by (induction zs) auto
  have "filter ?P xs = filter ?P ys" using assms by (intro perm_short) simp_all
  then show ?thesis using parts [of xs] parts [of ys] by simp
qed

lemma find_filter: "List.find P xs = (case filter P xs of [] \<Rightarrow> None | x # _ \<Rightarrow> Some x)"
  by (induction xs) auto

lemma find_cong_filter: "filter P xs = filter P ys \<Longrightarrow> List.find P xs = List.find P ys"
  by (simp only: find_filter)

section \<open>Contexts of the same manifests\<close>

definition identity :: "k8s_object \<Rightarrow> str option \<times> str \<times> str" where
  "identity k = (kind_of k, GetNamespace k, GetName k)"

definition unique_identities :: "lint_context \<Rightarrow> bool" where
  "unique_identities ctx \<longleftrightarrow>
     distinct (map identity (filter (\<lambda>k. kind_of k \<noteq> None) (map K8sObject (Objects ctx)))) \<and>
     distinct (map obj_Ptr (Objects ctx))"

definition manifest_of :: "lint_object \<Rightarrow> group_version_kind \<times> k8s_object" where
  "manifest_of obj = (obj_GVK obj, K8sObject obj)"

definition same_manifests :: "lint_context \<Rightarrow> lint_context \<Rightarrow> bool" where
  "same_manifests ctx ctx' \<longleftrightarrow>
     mset (map manifest_of (Objects ctx)) = mset (map manifest_of (Objects ctx')) \<and>
     unique_identities ctx \<and> unique_identities ctx'"

lemma same_objects:
  assumes "same_manifests ctx ctx'"
  shows "mset (map K8sObject (Objects ctx)) = mset (map K8sObject (Objects ctx'))"
proof -
  have "image_mset snd (mset (map manifest_of (Objects ctx))) = image_mset snd (mset (map manifest_of (Objects ctx')))"
    using assms by (simp only: same_manifests_def)
  then show ?thesis by (simp add: multiset.map_comp comp_def manifest_of_def)
qed

lemma same_object_set: "same_manifests ctx ctx' \<Longrightarrow> K8sObject ` set (Objects ctx) = K8sObject ` set (Objects ctx')"
  using mset_eq_setD [OF same_objects] by simp

lemma for_append_objects: "for_append objs (\<lambda>obj. f (K8sObject obj)) = for_append (map K8sObject objs) f"
  by (simp add: comp_def)

lemma mset_for_append_objects:
  "same_manifests ctx ctx' \<Longrightarrow>
     mset (for_append (Objects ctx) (\<lambda>obj. f (K8sObject obj))) = mset (for_append (Objects ctx') (\<lambda>obj. f (K8sObject obj)))"
  unfolding for_append_objects by (intro mset_for_append_perm same_objects)

lemma filter_distinct_image:
  "distinct (map f (filter Q xs)) \<Longrightarrow> (\<And>k. P k \<Longrightarrow> Q k \<and> f k = i) \<Longrightarrow> length (filter P xs) \<le> 1"
proof (induction xs)
  case Nil
  then show ?case by simp
next
  case (Cons x xs)
  show ?case
  proof (cases "P x")
    case True
    with Cons.prems have "f y \<noteq> i" if "y \<in> set xs" "Q y" for y using that by fastforce
    with Cons.prems(2) have "filter P xs = []" by (auto simp: filter_empty_conv)
    with True show ?thesis by simp
  qed (use Cons in \<open>simp split: if_splits\<close>)
qed

text \<open>What objects of one identity contribute is contributed by one object.\<close>

lemma for_append_identity:
  assumes "same_manifests ctx ctx'" and "\<And>k. f k \<noteq> [] \<Longrightarrow> kind_of k \<noteq> None \<and> identity k = i"
  shows "for_append (Objects ctx) (\<lambda>obj. f (K8sObject obj)) = for_append (Objects ctx') (\<lambda>obj. f (K8sObject obj))"
  unfolding for_append_objects
proof (rule for_append_single [OF same_objects [OF assms(1)]])
  show "length (filter (\<lambda>k. f k \<noteq> []) (map K8sObject (Objects ctx))) \<le> 1"
    using assms unfolding same_manifests_def unique_identities_def
    by (intro filter_distinct_image [where f = identity and Q = "\<lambda>k. kind_of k \<noteq> None" and i = i]) auto
qed

lemma identity_inj: "unique_identities ctx \<Longrightarrow>
    inj_on identity {k \<in> K8sObject ` set (Objects ctx). kind_of k \<noteq> None}"
  unfolding unique_identities_def by (auto simp: distinct_map Collect_conj_eq Int_commute intro: inj_on_subset)

text \<open>Where identities are unique, the address of an object says no more than its manifest.\<close>

lemma pointer_iff:
  assumes "unique_identities ctx" and "obj \<in> set (Objects ctx)" and "other \<in> set (Objects ctx)"
    and "kind_of (K8sObject obj) \<noteq> None"
  shows "obj_Ptr other = obj_Ptr obj \<longleftrightarrow> K8sObject other = K8sObject obj"
proof
  assume "obj_Ptr other = obj_Ptr obj"
  with assms(1-3) show "K8sObject other = K8sObject obj"
    by (auto simp: unique_identities_def distinct_map dest: inj_onD)
next
  assume same: "K8sObject other = K8sObject obj"
  have "distinct (map (identity \<circ> K8sObject) (filter (\<lambda>obj. kind_of (K8sObject obj) \<noteq> None) (Objects ctx)))"
    using assms(1) by (simp add: unique_identities_def filter_map comp_def)
  then have "inj_on (identity \<circ> K8sObject) {obj \<in> set (Objects ctx). kind_of (K8sObject obj) \<noteq> None}"
    by (simp add: distinct_map)
  with same assms(2-4) have "other = obj" unfolding inj_on_def by auto
  then show "obj_Ptr other = obj_Ptr obj" by simp
qed

section \<open>Views of the context\<close>

locale context_view =
  fixes view :: "lint_context \<Rightarrow> 'v"
  assumes view_order: "same_manifests ctx ctx' \<Longrightarrow> view ctx = view ctx'"

locale order_free =
  fixes check :: check_func
  assumes order_free: "same_manifests ctx ctx' \<Longrightarrow>
    obj \<in> set (Objects ctx) \<Longrightarrow> obj' \<in> set (Objects ctx') \<Longrightarrow> K8sObject obj = K8sObject obj' \<Longrightarrow>
    map_option mset (check R ctx obj) = map_option mset (check R ctx' obj')"

locale view_check = context_view view for view :: "lint_context \<Rightarrow> 'v" +
  fixes check :: check_func
  assumes reads_view: "view ctx = view ctx' \<Longrightarrow> K8sObject obj = K8sObject obj' \<Longrightarrow> check R ctx obj = check R ctx' obj'"

sublocale view_check \<subseteq> order_free check
  by unfold_locales (simp add: reads_view [OF view_order])

text \<open>An index is a view, and so is one that keeps lists where each list is of one object.\<close>

sublocale object_index \<subseteq> context_view index
proof
  fix ctx ctx'
  assume "same_manifests ctx ctx'"
  moreover have "index c = \<Union> (entries ` K8sObject ` set (Objects c))" for c by (simp add: index_eq image_image)
  ultimately show "index ctx = index ctx'" by (simp only: same_object_set)
qed

interpretation no_view: context_view "\<lambda>_. ()"
  by unfold_locales simp

lemma parent_entry_identity:
  "r \<in> parent_entries k \<Longrightarrow> kind_of k \<noteq> None \<and> identity k = (Some (ref_Kind r), ref_Namespace r, ref_Name r)"
  by (cases k) (auto simp: parent_entries_def identity_def)

interpretation listeners_view: context_view ListenersByOwner
proof
  fix ctx ctx'
  assume order: "same_manifests ctx ctx'"
  have "filter (\<lambda>l. li_Owner l = r) (all_listeners ctx) = filter (\<lambda>l. li_Owner l = r) (all_listeners ctx')" for r
    unfolding all_listeners_def filter_for_append
  proof (rule for_append_identity [OF order, where i = "(Some (ref_Kind r), ref_Namespace r, ref_Name r)"])
    fix k
    assume "filter (\<lambda>l. li_Owner l = r) (ListenersOf k) \<noteq> []"
    then have "r \<in> parent_entries k" by (auto simp: filter_empty_conv dest: ListenersOf_owner)
    then show "kind_of k \<noteq> None \<and> identity k = (Some (ref_Kind r), ref_Namespace r, ref_Name r)"
      by (rule parent_entry_identity)
  qed
  then show "ListenersByOwner ctx = ListenersByOwner ctx'" by (intro ext) (simp only: li.lookup_eq)
qed

section \<open>Checks that read the context through one view\<close>

interpretation lnf_order: view_check ListenersByOwner lnf_checkFunc
  by unfold_locales (simp add: lnf_checkFunc_def split: option.split)

interpretation rnp_order: view_check ListenersByOwner rnp_checkFunc
  by unfold_locales (simp add: rnp_checkFunc_def split: option.split)

interpretation hnm_order: view_check ListenersByOwner hnm_checkFunc
  by unfold_locales (simp add: hnm_checkFunc_def split: option.split)

interpretation pm_order: view_check ListenersByOwner pm_checkFunc
  by unfold_locales (simp add: pm_checkFunc_def split: option.split)

interpretation dpr_order: view_check GatewaysAndListenerSets dpr_checkFunc
  by unfold_locales (simp add: dpr_checkFunc_def split: option.split)

interpretation dbr_order: view_check BackendTargets dbr_checkFunc
  by unfold_locales (simp only: dbr.check_refs)

interpretation dcr_order: view_check CertificateSecrets dcr_checkFunc
  by unfold_locales (simp only: dcr.check_refs)

interpretation dgc_order: view_check GatewayClasses dgc_checkFunc
  by unfold_locales (simp only: dgc.check_refs)

interpretation dls_order: view_check dls_gateways dls_checkFunc
  by unfold_locales (simp only: dls.check_refs)

interpretation dpt_order: view_check policyTargets dpt_checkFunc
  by unfold_locales (simp only: dpt.check_refs)

text \<open>Checks on one object alone.\<close>

interpretation awz_order: view_check "\<lambda>_. ()" awz_checkFunc
  by unfold_locales (simp add: awz_checkFunc_def split: option.split)

interpretation rsn_order: view_check "\<lambda>_. ()" rsn_checkFunc
  by unfold_locales (simp add: rsn_checkFunc_def split: option.split)

interpretation sbp_order: view_check "\<lambda>_. ()" sbp_checkFunc
  by unfold_locales (simp add: sbp_checkFunc_def split: option.split)

interpretation drn_order: view_check "\<lambda>_. ()" drn_checkFunc
  by unfold_locales (simp add: drn_checkFunc_def split: option.split)

interpretation dln_order: view_check "\<lambda>_. ()" dln_checkFunc
  by unfold_locales (simp add: dln_checkFunc_def)

interpretation cl_order: view_check "\<lambda>_. ()" cl_checkFunc
  by unfold_locales (simp add: cl_checkFunc_def)

interpretation tlc_order: view_check "\<lambda>_. ()" tlc_checkFunc
  by unfold_locales (simp only: tlc.check_refs)

interpretation hnp_order: view_check "\<lambda>_. ()" hnp_checkFunc
  by unfold_locales (simp only: hnp.check_refs)

interpretation rwb_order: view_check "\<lambda>_. ()" rwb_checkFunc
  by unfold_locales (simp add: rwb_checkFunc_def)

interpretation bwe_order: view_check "\<lambda>_. ()" bwe_checkFunc
  by unfold_locales (simp add: bwe_checkFunc_def)

text \<open>The grants, the idle Gateways and the rival policies are views up to the order of lists.\<close>

interpretation grants_view: context_view "\<lambda>ctx. (grants_of ctx, CertificateSecrets ctx)"
proof
  fix ctx ctx'
  assume "same_manifests ctx ctx'"
  from same_object_set [OF this] secrets_index.view_order [OF this]
  show "(grants_of ctx, CertificateSecrets ctx) = (grants_of ctx', CertificateSecrets ctx')" by (simp only: grants_of_def)
qed

interpretation mrg_order: view_check "\<lambda>ctx. (grants_of ctx, CertificateSecrets ctx)" mrg_checkFunc
proof
  fix ctx ctx' R and obj obj' :: lint_object
  assume "(grants_of ctx, CertificateSecrets ctx) = (grants_of ctx', CertificateSecrets ctx')"
  then have grants: "grants_of ctx = grants_of ctx'" by simp
  then have "set (grants_in (grantsByNamespace ctx) ns) = set (grants_in (grantsByNamespace ctx') ns)" for ns
    by (simp only: set_grants_in)
  then have "(grants_in (grantsByNamespace ctx) ns = []) = (grants_in (grantsByNamespace ctx') ns = [])" for ns
    by (metis set_empty)
  moreover have "permits (grants_in (grantsByNamespace ctx) ns) ref = permits (grants_in (grantsByNamespace ctx') ns) ref"
    for ns ref by (simp only: permits_granted granted_def grants)
  moreover assume "K8sObject obj = K8sObject obj'"
  ultimately show "mrg_checkFunc R ctx obj = mrg_checkFunc R ctx' obj'" by (simp only: mrg.check_refs)
qed

interpretation mcg_order: view_check "\<lambda>ctx. (grants_of ctx, CertificateSecrets ctx)" mcg_checkFunc
proof
  fix ctx ctx' R and obj obj' :: lint_object
  assume "(grants_of ctx, CertificateSecrets ctx) = (grants_of ctx', CertificateSecrets ctx')"
  then have "describedNamespaces ctx (referenceGrants ctx) = describedNamespaces ctx' (referenceGrants ctx')"
    "permitted (referenceGrants ctx) ref = permitted (referenceGrants ctx') ref" for ref
    by (simp_all add: describedNamespaces_def set_referenceGrants permitted_granted granted_def)
  moreover assume "K8sObject obj = K8sObject obj'"
  ultimately show "mcg_checkFunc R ctx obj = mcg_checkFunc R ctx' obj'" by (simp only: mcg.check_refs)
qed

lemma Routes_of_order: "same_manifests ctx ctx' \<Longrightarrow> mset (Routes_of ctx) = mset (Routes_of ctx')"
  unfolding Routes_of_def by (rule mset_for_append_objects)

lemma set_Routes_order: "same_manifests ctx ctx' \<Longrightarrow> set (Routes_of ctx) = set (Routes_of ctx')"
  by (metis Routes_of_order mset_eq_setD)

lemma listenerSetsOf_eq:
  "listenerSetsOf ctx gw = {mk_ref ListenerSet (meta_Namespace (ls_Meta ls)) (meta_Name (ls_Meta ls)) | ls.
     ListenerSet_v1 ls \<in> K8sObject ` set (Objects ctx) \<and> ListenerSetParent ls = gw}"
  unfolding listenerSetsOf_def
  by (subst foldl_union [where g = "\<lambda>obj. {mk_ref ListenerSet (meta_Namespace (ls_Meta ls)) (meta_Name (ls_Meta ls)) | ls.
     K8sObject obj = ListenerSet_v1 ls \<and> ListenerSetParent ls = gw}"])
    (auto split: k8s_object.splits, (metis image_eqI)+)

interpretation gsn_view: context_view "\<lambda>ctx. (set (Routes_of ctx), listenerSetsOf ctx)"
proof
  fix ctx ctx'
  assume "same_manifests ctx ctx'"
  from set_Routes_order [OF this] same_object_set [OF this]
  show "(set (Routes_of ctx), listenerSetsOf ctx) = (set (Routes_of ctx'), listenerSetsOf ctx')"
    by (simp add: fun_eq_iff listenerSetsOf_eq)
qed

interpretation gsn_order: view_check "\<lambda>ctx. (set (Routes_of ctx), listenerSetsOf ctx)" gsn_checkFunc
proof
  fix ctx ctx' R and obj obj' :: lint_object
  assume "(set (Routes_of ctx), listenerSetsOf ctx) = (set (Routes_of ctx'), listenerSetsOf ctx')"
  then have "set (Routes_of ctx) = set (Routes_of ctx')" and sets: "listenerSetsOf ctx = listenerSetsOf ctx'" by simp_all
  moreover from this(1) have "(Routes_of ctx = []) = (Routes_of ctx' = [])" by (metis set_empty)
  ultimately have "idle_gateway ctx = idle_gateway ctx'"
    by (intro ext) (simp add: idle_gateway_def attach_points_def)
  moreover assume "K8sObject obj = K8sObject obj'"
  ultimately show "gsn_checkFunc R ctx obj = gsn_checkFunc R ctx' obj'" by (simp only: gsn.check_refs)
qed

text \<open>The rivals of a policy are the other policies, by address in the code and by manifest here.\<close>

definition rival_names :: "lint_context \<Rightarrow> k8s_object \<Rightarrow> target \<Rightarrow> str list" where
  "rival_names ctx k t =
     sort_strings (for_append (Objects ctx) (\<lambda>obj.
       case K8sObject obj of
         BackendTrafficPolicy_v1alpha1 other \<Rightarrow>
           if K8sObject obj = k then [] else if t \<in> set (targetsOf other) then [meta_Name (btp_Meta other)] else []
       | _ \<Rightarrow> []))"

lemma rivals_by_manifest:
  assumes "unique_identities ctx" and "obj \<in> set (Objects ctx)" and "kind_of (K8sObject obj) \<noteq> None"
  shows "otherPoliciesTargeting ctx (obj_Ptr obj) t = rival_names ctx (K8sObject obj) t"
proof -
  have "for_append (Objects ctx) (\<lambda>other. case K8sObject other of
         BackendTrafficPolicy_v1alpha1 p \<Rightarrow> if obj_Ptr other = obj_Ptr obj then []
           else if list_ex (\<lambda>s. s = t) (targetsOf p) then [meta_Name (btp_Meta p)] else []
       | _ \<Rightarrow> []) =
     for_append (Objects ctx) (\<lambda>other. case K8sObject other of
         BackendTrafficPolicy_v1alpha1 p \<Rightarrow> if K8sObject other = K8sObject obj then []
           else if t \<in> set (targetsOf p) then [meta_Name (btp_Meta p)] else []
       | _ \<Rightarrow> [])"
    by (intro arg_cong [where f = concat] map_cong refl)
      (simp add: pointer_iff [OF assms(1,2) _ assms(3)] list_ex_iff split: k8s_object.split)
  then show ?thesis by (simp only: otherPoliciesTargeting_def rival_names_def)
qed

lemma rival_names_order: "same_manifests ctx ctx' \<Longrightarrow> rival_names ctx k t = rival_names ctx' k t"
  unfolding rival_names_def by (rule sort_strings_perm) (rule mset_for_append_objects)

interpretation cpo_order: order_free cpo_checkFunc
proof
  fix ctx ctx' R and obj obj' :: lint_object
  assume order: "same_manifests ctx ctx'" and objs: "obj \<in> set (Objects ctx)" "obj' \<in> set (Objects ctx')"
    and same: "K8sObject obj = K8sObject obj'"
  show "map_option mset (cpo_checkFunc R ctx obj) = map_option mset (cpo_checkFunc R ctx' obj')"
  proof (cases "K8sObject obj")
    case (BackendTrafficPolicy_v1alpha1 p)
    then have "kind_of (K8sObject obj) \<noteq> None" by simp
    with objs same order have "otherPoliciesTargeting ctx (obj_Ptr obj) = otherPoliciesTargeting ctx' (obj_Ptr obj')"
      by (intro ext) (simp add: same_manifests_def rivals_by_manifest rival_names_order [OF order])
    with same show ?thesis
      by (simp only: cpo_run reports_slot_def [abs_def] slot_message_def)
  qed (simp_all add: cpo_run flip: same)
qed

lemma load_object: "K8sObject (load ptr k) = k"
  by (simp add: load_def)

lemma crm_pair_manifest: "crm_pair R idx self obj = crm_pair R idx self (load 0 (K8sObject obj))"
  by (simp only: crm_pair_def asCandidate_def load_object)

interpretation crm_order: order_free crm_checkFunc
proof
  fix ctx ctx' R and obj obj' :: lint_object
  assume order: "same_manifests ctx ctx'" and same: "K8sObject obj = K8sObject obj'"
  have "asCandidate R obj = asCandidate R obj'" by (simp only: asCandidate_def same)
  moreover have "mset (for_append (Objects ctx) (crm_pair R idx self)) = mset (for_append (Objects ctx') (crm_pair R idx self))"
    for idx self
    using mset_for_append_objects [OF order, of "\<lambda>k. crm_pair R idx self (load 0 k)"]
    by (simp only: crm_pair_manifest [symmetric])
  ultimately show "map_option mset (crm_checkFunc R ctx obj) = map_option mset (crm_checkFunc R ctx' obj')"
    by (simp add: crm_checkFunc_def listeners_view.view_order [OF order] Let_def split: option.split)
qed

section \<open>The coverage of policies\<close>

lemma route_object: "r \<in> set (Routes_of ctx) \<Longrightarrow> \<exists>k. k \<in> K8sObject ` set (Objects ctx) \<and> AsRoute k = Some r"
  by (fastforce simp: Routes_of_def split: option.splits)

lemma policyRouteKey_inj:
  assumes "unique_identities ctx"
  shows "inj_on policyRouteKeyOf (set (Routes_of ctx))"
proof (rule inj_onI)
  fix r s
  assume "r \<in> set (Routes_of ctx)" "s \<in> set (Routes_of ctx)" and key: "policyRouteKeyOf r = policyRouteKeyOf s"
  then obtain k l where k: "k \<in> K8sObject ` set (Objects ctx)" "AsRoute k = Some r"
    and l: "l \<in> K8sObject ` set (Objects ctx)" "AsRoute l = Some s"
    using route_object by meson
  from key have "identity k = identity l"
    using AsRoute_kind [OF k(2)] AsRoute_kind [OF l(2)] AsRoute_meta [OF k(2)] AsRoute_meta [OF l(2)]
    by (simp add: identity_def policyRouteKeyOf_def)
  moreover have "kind_of k \<noteq> None" "kind_of l \<noteq> None"
    using AsRoute_kind [OF k(2)] AsRoute_kind [OF l(2)] by simp_all
  ultimately have "k = l" using identity_inj [OF assms] k(1) l(1) by (auto dest: inj_onD)
  with k(2) l(2) show "r = s" by simp
qed

lemma mset_add_unseen:
  assumes "inj_on policyRouteKeyOf (set rs)"
  shows "mset (add_unseen seen routes rs) = mset routes + mset_set {r \<in> set rs. policyRouteKeyOf r \<notin> seen}"
proof -
  obtain new where new: "add_unseen seen routes rs = routes @ new" "set new \<subseteq> set rs"
    "distinct (map policyRouteKeyOf new)" "policyRouteKeyOf ` set new = policyRouteKeyOf ` set rs - seen"
    using add_unseen_append by blast
  have "r \<in> set new \<longleftrightarrow> r \<in> set rs \<and> policyRouteKeyOf r \<notin> seen" for r
  proof -
    have "r \<in> set new \<longleftrightarrow> r \<in> set rs \<and> policyRouteKeyOf r \<in> policyRouteKeyOf ` set new"
      using assms new(2) by (auto dest: inj_onD)
    then show ?thesis unfolding new(4) by blast
  qed
  then have "{r \<in> set rs. policyRouteKeyOf r \<notin> seen} = set new" by blast
  moreover have "distinct new" using new(3) by (simp add: distinct_map)
  ultimately show ?thesis by (simp add: new(1) mset_set_set)
qed

lemma routesAttachedToParent_order:
  "same_manifests ctx ctx' \<Longrightarrow>
     mset (routesAttachedToParent ctx kind ns name lis) = mset (routesAttachedToParent ctx' kind ns name lis)"
  unfolding routesAttachedToParent_def by (intro mset_for_append_perm Routes_of_order)

lemma set_routesAttached_order:
  "same_manifests ctx ctx' \<Longrightarrow>
     set (routesAttachedToParent ctx kind ns name lis) = set (routesAttachedToParent ctx' kind ns name lis)"
  by (metis routesAttachedToParent_order mset_eq_setD)

lemma routesAttachedToGateway_order:
  assumes order: "same_manifests ctx ctx'"
  shows "mset (routesAttachedToGateway ctx ns name lis) = mset (routesAttachedToGateway ctx' ns name lis)"
proof -
  let ?via = "\<lambda>ctx. for_append (listenerSetsBelongingTo ctx ns name) (\<lambda>ls.
     routesAttachedToParent ctx ListenerSet (ref_Namespace ls) (ref_Name ls) None)"
  have "set (listenerSetsBelongingTo ctx ns name) = set (listenerSetsBelongingTo ctx' ns name)"
    by (simp only: set_listenerSetsBelongingTo same_object_set [OF order])
  then have via: "set (?via ctx) = set (?via ctx')"
    by (simp add: set_routesAttached_order [OF order])
  have "inj_on policyRouteKeyOf (set (?via ctx))"
    using order policyRouteKey_inj [of ctx]
    by (auto simp: same_manifests_def set_routesAttachedToParent intro: inj_on_subset)
  then show ?thesis
    using via by (simp add: routesAttachedToGateway_def Let_def mset_add_unseen
        routesAttachedToParent_order [OF order] set_routesAttached_order [OF order])
qed

lemma named_route_order:
  assumes order: "same_manifests ctx ctx'"
  shows "List.find (\<lambda>route. rt_Kind route = kind \<and> rt_Namespace route = ns \<and> rt_Name route = name) (Routes_of ctx) =
    List.find (\<lambda>route. rt_Kind route = kind \<and> rt_Namespace route = ns \<and> rt_Name route = name) (Routes_of ctx')"
proof (rule find_cong_filter)
  let ?P = "\<lambda>route. rt_Kind route = kind \<and> rt_Namespace route = ns \<and> rt_Name route = name"
  show "filter ?P (Routes_of ctx) = filter ?P (Routes_of ctx')"
    unfolding Routes_of_def filter_for_append
  proof (rule for_append_identity [OF order, where i = "(Some kind, ns, name)"])
    fix k
    assume "filter ?P (case AsRoute k of Some route \<Rightarrow> [route] | None \<Rightarrow> []) \<noteq> []"
    then obtain route where "AsRoute k = Some route" "?P route" by (auto split: option.splits if_splits)
    then show "kind_of k \<noteq> None \<and> identity k = (Some kind, ns, name)"
      using AsRoute_kind AsRoute_meta by (simp add: identity_def)
  qed
qed

lemma coverage_order:
  assumes order: "same_manifests ctx ctx'"
  shows "mset (BackendTrafficPolicyCoverage R ctx policy) = mset (BackendTrafficPolicyCoverage R ctx' policy)"
proof -
  have targeted: "mset (routesTargetedBy ctx ns target) = mset (routesTargetedBy ctx' ns target)" for ns target
    by (simp add: routesTargetedBy_def named_route_order [OF order] routesAttachedToGateway_order [OF order]
        routesAttachedToParent_order [OF order])
  have selected: "mset (routesSelectedBy R ctx ns sel) = mset (routesSelectedBy R ctx' ns sel)" for ns sel
    unfolding routesSelectedBy_def
    by (auto split: option.split intro: mset_for_append_perm [OF Routes_of_order [OF order]])
  show ?thesis
    unfolding BackendTrafficPolicyCoverage_def mset_append Let_def
    by (intro arg_cong2 [where f = "(+)"] mset_for_append_cong) (simp_all add: targeted selected)
qed

lemma covered_of_inj: "inj covered_of"
proof (rule injI)
  fix c d
  assume "covered_of c = covered_of d"
  then show "c = d" by (cases c; cases d) (auto simp: covered_of_def target_of_def intro: targetRef.equality)
qed

lemma policyCoverage_order:
  assumes "same_manifests ctx ctx'"
  shows "mset (policyCoverage R ctx policy) = mset (policyCoverage R ctx' policy)"
proof -
  have "image_mset covered_of (mset (policyCoverage R ctx policy)) = image_mset covered_of (mset (policyCoverage R ctx' policy))"
    using coverage_order [OF assms, of R policy] unfolding coverage_copies_lemma [symmetric] by simp
  then have "image_mset (inv covered_of \<circ> covered_of) (mset (policyCoverage R ctx policy)) =
      image_mset (inv covered_of \<circ> covered_of) (mset (policyCoverage R ctx' policy))"
    by (simp only: multiset.map_comp [symmetric])
  then show ?thesis by (simp only: inv_o_cancel [OF covered_of_inj] multiset.map_id)
qed

lemma ex_image_iff: "(\<exists>x\<in>S. \<exists>y. f x = C y \<and> f x \<noteq> k \<and> P y) \<longleftrightarrow> (\<exists>y. C y \<in> f ` S \<and> C y \<noteq> k \<and> P y)"
  by (auto simp: image_iff) metis+

lemma displaced_manifest:
  assumes "unique_identities ctx" and "obj \<in> set (Objects ctx)" and "kind_of (K8sObject obj) \<noteq> None"
  shows "displaced R ctx counts (obj_Ptr obj) route rule \<longleftrightarrow>
    (\<exists>other. BackendTrafficPolicy_v1alpha1 other \<in> K8sObject ` set (Objects ctx) \<and>
       BackendTrafficPolicy_v1alpha1 other \<noteq> K8sObject obj \<and> counts other \<and>
       (\<exists>c\<in>set (BackendTrafficPolicyCoverage R ctx other).
          \<not> cov_Inherited c \<and> policyRouteKeyOf (cov_Route c) = policyRouteKeyOf route \<and>
          SectionCoversRule (cov_RuleSection c) rule))"
  unfolding displaced_def ex_image_iff [symmetric]
  by (intro bex_cong refl) (simp add: pointer_iff [OF assms(1,2) _ assms(3)])

lemma displaced_order:
  assumes order: "same_manifests ctx ctx'" and "obj \<in> set (Objects ctx)" and "obj' \<in> set (Objects ctx')"
    and same: "K8sObject obj = K8sObject obj'" and known: "kind_of (K8sObject obj) \<noteq> None"
  shows "displaced R ctx counts (obj_Ptr obj) route rule = displaced R ctx' counts (obj_Ptr obj') route rule"
proof -
  have "set (BackendTrafficPolicyCoverage R ctx p) = set (BackendTrafficPolicyCoverage R ctx' p)" for p
    by (metis coverage_order [OF order] mset_eq_setD)
  note coverage = this
  have unique: "unique_identities ctx" "unique_identities ctx'" using order by (simp_all add: same_manifests_def)
  note manifest = displaced_manifest [OF unique(1) assms(2) known]
    displaced_manifest [OF unique(2) assms(3) known [unfolded same]]
  show ?thesis unfolding manifest by (simp only: coverage same [symmetric] same_object_set [OF order])
qed

interpretation backend_view: context_view findBackend
proof
  fix ctx ctx'
  assume order: "same_manifests ctx ctx'"
  have "filter (\<lambda>b. meta_Namespace (be_Meta b) = ns \<and> meta_Name (be_Meta b) = name) (backends_of ctx) =
      filter (\<lambda>b. meta_Namespace (be_Meta b) = ns \<and> meta_Name (be_Meta b) = name) (backends_of ctx')" for ns name
    unfolding backends_of_def filter_for_append
    by (rule for_append_identity [OF order, where i = "(Some Backend, ns, name)"])
      (auto simp: identity_def split: k8s_object.splits if_splits)
  then show "findBackend ctx = findBackend ctx'"
    by (intro ext) (simp only: findBackend_def find_filter)
qed

lemma bound_backend_order: "same_manifests ctx ctx' \<Longrightarrow> bound_backend ctx = bound_backend ctx'"
  by (intro ext) (simp only: bound_backend_def backend_view.view_order)

lemma policy_kind: "K8sObject obj = BackendTrafficPolicy_v1alpha1 p \<Longrightarrow> kind_of (K8sObject obj) \<noteq> None"
  by simp

interpretation fbc_order: order_free fbc_checkFunc
proof
  fix ctx ctx' R and obj obj' :: lint_object
  assume order: "same_manifests ctx ctx'" and objs: "obj \<in> set (Objects ctx)" "obj' \<in> set (Objects ctx')"
    and same: "K8sObject obj = K8sObject obj'"
  show "map_option mset (fbc_checkFunc R ctx obj) = map_option mset (fbc_checkFunc R ctx' obj')"
  proof (cases "K8sObject obj")
    case (BackendTrafficPolicy_v1alpha1 p)
    note displaced = displaced_order [OF order objs same policy_kind [OF this]]
    have "cold_start R ctx (obj_Ptr obj) = cold_start R ctx' (obj_Ptr obj')"
      by (intro ext) (simp only: cold_start_def isOverridden_iff displaced bound_backend_order [OF order])
    moreover have "cold_start_message R ctx = cold_start_message R ctx'"
      by (intro ext) (simp only: cold_start_message_def bound_backend_order [OF order])
    moreover have "mset (for_append (policyCoverage R ctx p) f) = mset (for_append (policyCoverage R ctx' p) f)"
      for f :: "coveredRoute \<Rightarrow> diagnostic list"
      by (rule mset_for_append_perm [OF policyCoverage_order [OF order]])
    ultimately show ?thesis
      unfolding fbc_run same [symmetric] BackendTrafficPolicy_v1alpha1 by simp
  qed (simp_all add: fbc_run same [symmetric])
qed

interpretation hcf_order: order_free hcf_checkFunc
proof
  fix ctx ctx' R and obj obj' :: lint_object
  assume order: "same_manifests ctx ctx'" and objs: "obj \<in> set (Objects ctx)" "obj' \<in> set (Objects ctx')"
    and same: "K8sObject obj = K8sObject obj'"
  show "map_option mset (hcf_checkFunc R ctx obj) = map_option mset (hcf_checkFunc R ctx' obj')"
  proof (cases "K8sObject obj")
    case (BackendTrafficPolicy_v1alpha1 p)
    note displaced = displaced_order [OF order objs same policy_kind [OF this]]
    have sole: "sole_endpoint ctx = sole_endpoint ctx'"
      by (intro ext) (simp only: sole_endpoint_def bound_backend_order [OF order])
    have "no_failover R ctx (obj_Ptr obj) = no_failover R ctx' (obj_Ptr obj')"
      by (intro ext) (simp only: no_failover_def MoreSpecific_iff displaced sole)
    then show ?thesis
      unfolding hcf_run same [symmetric] BackendTrafficPolicy_v1alpha1 sole by (simp add: coverage_order [OF order])
  qed (simp_all add: hcf_run same [symmetric])
qed

section \<open>Properties\<close>

lemma template_order: "t \<in> set all_templates \<Longrightarrow> order_free (tm_Check t)"
proof -
  have "\<forall>t\<in>set all_templates. order_free (tm_Check t)"
    unfolding all_templates_def template_defs list.set ball_simps check_template.select_convs
    by (intro conjI TrueI lnf_order.order_free_axioms rnp_order.order_free_axioms hnm_order.order_free_axioms
        pm_order.order_free_axioms dpr_order.order_free_axioms fbc_order.order_free_axioms
        hcf_order.order_free_axioms dln_order.order_free_axioms cl_order.order_free_axioms
        tlc_order.order_free_axioms hnp_order.order_free_axioms gsn_order.order_free_axioms
        rwb_order.order_free_axioms bwe_order.order_free_axioms cpo_order.order_free_axioms
        dbr_order.order_free_axioms dcr_order.order_free_axioms dgc_order.order_free_axioms
        dls_order.order_free_axioms dpt_order.order_free_axioms mrg_order.order_free_axioms
        mcg_order.order_free_axioms awz_order.order_free_axioms rsn_order.order_free_axioms
        sbp_order.order_free_axioms drn_order.order_free_axioms crm_order.order_free_axioms)
  then show "t \<in> set all_templates \<Longrightarrow> order_free (tm_Check t)" by blast
qed

text \<open>
  C10: the findings of each of the 27 checks on a manifest, as a multiset, depend on the manifests of
  the set alone, not on the files they are in, the order these are loaded in or the addresses the
  objects get, as long as no two objects of the set have the same kind, namespace and name.
\<close>

theorem findings_ignore_layout:
  assumes "t \<in> set all_templates" and "same_manifests ctx ctx'"
    and "obj \<in> set (Objects ctx)" and "obj' \<in> set (Objects ctx')" and "K8sObject obj = K8sObject obj'"
  shows "map_option mset (tm_Check t R ctx obj) = map_option mset (tm_Check t R ctx' obj')"
  by (rule order_free.order_free [OF template_order [OF assms(1)] assms(2-5)])

text \<open>A policy on two routes through a Gateway, with a DNS backend, in two orders.\<close>

definition dns_backend :: "str \<Rightarrow> str \<Rightarrow> k8s_object" where
  "dns_backend name host = Backend_v1alpha1 \<lparr>be_Meta = meta ''infra'' name, be_Type = None,
     be_Endpoints = [\<lparr>ep_FQDN = Some \<lparr>fqdn_Hostname = host, fqdn_Port = 443\<rparr>, ep_IP = None, ep_Unix = None\<rparr>]\<rparr>"

definition ip_backend :: "str \<Rightarrow> k8s_object" where
  "ip_backend name = Backend_v1alpha1 \<lparr>be_Meta = meta ''infra'' name, be_Type = None,
     be_Endpoints = [\<lparr>ep_FQDN = None, ep_IP = Some \<lparr>ip_Address = ''10.0.0.1'', ip_Port = 443\<rparr>, ep_Unix = None\<rparr>]\<rparr>"

definition envoy_route :: "str \<Rightarrow> str \<Rightarrow> k8s_object" where
  "envoy_route name to = HTTPRoute_v1 (http ''infra'' name [] [to_parent ''edge'' None]
     [simple_rule None [to_envoy_backend to]])"

definition on_gateway :: "str \<Rightarrow> str \<Rightarrow> k8s_object" where
  "on_gateway name gw =
     BackendTrafficPolicy_v1alpha1 \<lparr>btp_Meta = meta ''infra'' name, btp_TargetRef = None,
       btp_TargetRefs = [\<lparr>pol_Group = gateway_group, pol_Kind = Gateway, pol_Name = gw, pol_SectionName = None\<rparr>],
       btp_TargetSelectors = [], btp_HealthCheck = None, btp_Retry = None\<rparr>"

definition loaded_as :: "lint_object list \<Rightarrow> lint_context" where
  "loaded_as objs = \<lparr>Objects = objs, InvalidObjects = []\<rparr>"

definition dns_objects :: "lint_object list" where
  "dns_objects = [load 0 (on_gateway ''policy'' ''edge''), load 1 (envoy_route ''a'' ''dns''),
     load 2 (envoy_route ''b'' ''dns''), load 3 (dns_backend ''dns'' ''origin.example.com'')]"

definition dns_reloaded :: "lint_object list" where
  "dns_reloaded = [load 9 (dns_backend ''dns'' ''origin.example.com''), load 8 (envoy_route ''b'' ''dns''),
     load 7 (envoy_route ''a'' ''dns''), load 6 (on_gateway ''policy'' ''edge'')]"

lemma dns_same: "same_manifests (loaded_as dns_objects) (loaded_as dns_reloaded)"
proof -
  have "unique_identities (loaded_as dns_objects)" "unique_identities (loaded_as dns_reloaded)" by code_simp+
  moreover have "mset (map manifest_of dns_objects) = mset (map manifest_of dns_reloaded)"
    by (simp add: dns_objects_def dns_reloaded_def manifest_of_def load_def)
  ultimately show ?thesis by (simp add: same_manifests_def loaded_as_def)
qed

theorem findings_ignore_layout_witness:
  "map_option mset (fbc_checkFunc forward_runtime (loaded_as dns_objects) (hd dns_objects)) =
   map_option mset (fbc_checkFunc forward_runtime (loaded_as dns_reloaded) (last dns_reloaded))"
proof -
  have fbc: "fbc_template \<in> set all_templates" "tm_Check fbc_template = fbc_checkFunc"
    by (simp_all add: all_templates_def fbc_template_def)
  have "hd dns_objects \<in> set (Objects (loaded_as dns_objects))" "last dns_reloaded \<in> set (Objects (loaded_as dns_reloaded))"
    "K8sObject (hd dns_objects) = K8sObject (last dns_reloaded)"
    by (simp_all add: loaded_as_def dns_objects_def dns_reloaded_def load_def)
  then show ?thesis using findings_ignore_layout [OF fbc(1) dns_same] unfolding fbc(2) by blast
qed

text \<open>
  The condition is needed: of two Backends of one name the first one loaded is judged, so that the
  order of two files decides whether the check reports.
\<close>

lemma fbc_silent_iff:
  "K8sObject obj = BackendTrafficPolicy_v1alpha1 p \<Longrightarrow>
   fbc_checkFunc R ctx obj = Some [] \<longleftrightarrow>
     hasHealthCheck p \<or> list_all (\<lambda>c. list_all (\<lambda>ref. \<not> (sectionCoversRule (cr_ruleSection c) (br_Rule ref) \<and>
        \<not> (cr_inherited c \<and> isOverridden R ctx (cr_route c) (br_Rule ref) (obj_Ptr obj)) \<and>
        (case bound_backend ctx (cr_route c) ref of None \<Rightarrow> False | Some b \<Rightarrow> fqdnHostnames b \<noteq> [])))
      (rt_BackendRefs (cr_route c))) (policyCoverage R ctx p)"
  by (auto simp: fbc_run list_all_iff filter_empty_conv cold_start_def split: option.splits)

definition twice_loaded :: "lint_object list" where
  "twice_loaded = [load 0 (on_gateway ''policy'' ''edge''), load 1 (envoy_route ''a'' ''dup''),
     load 2 (dns_backend ''dup'' ''origin.example.com''), load 3 (ip_backend ''dup'')]"

lemma duplicates_follow_load_order:
  "fbc_checkFunc forward_runtime (loaded_as twice_loaded) (hd twice_loaded) \<noteq> Some []"
  "fbc_checkFunc forward_runtime (loaded_as (rev twice_loaded)) (hd twice_loaded) = Some []"
proof -
  have policy: "K8sObject (hd twice_loaded) = on_gateway ''policy'' ''edge''" by code_simp
  note silent = fbc_silent_iff [OF policy [unfolded on_gateway_def]]
  show "fbc_checkFunc forward_runtime (loaded_as twice_loaded) (hd twice_loaded) \<noteq> Some []"
    unfolding silent by code_simp
  show "fbc_checkFunc forward_runtime (loaded_as (rev twice_loaded)) (hd twice_loaded) = Some []"
    unfolding silent by code_simp
qed

end
