(* ===== verification/Engine_Run.thy ===== *)
theory Engine_Run
  imports Command_Line Load_Order
begin

text \<open>
  A whole run. \<open>embedded_ok\<close> says that the embedded files hold the configurations they do and that
  the registry takes them; \<open>engine_spec\<close> is the documented behaviour of kube-linter's \<open>run.Run\<close>:
  for each registered configuration among the enabled ones, the template it names is run on every
  object its scope matches and its annotations do not exempt, and each diagnostic is a report. From
  these, what the lint command's exit code says about the manifests.
\<close>

section \<open>What a run enables\<close>

lemma register_all_ok:
  "(\<And>r c. fst (register r c) = None) \<Longrightarrow>
     register_all register registry checks = (None, foldl (\<lambda>r c. snd (register r c)) registry checks)"
proof (induction checks arbitrary: registry)
  case Nil
  then show ?case by simp
next
  case (Cons c checks)
  from Cons.prems obtain r' where "register registry c = (None, r')" by (metis prod.collapse)
  with Cons show ?case by simp
qed

definition embedded_ok :: "('r, 'd) lint_env \<Rightarrow> bool" where
  "embedded_ok env \<longleftrightarrow>
     (\<exists>entries. fs_ReadDir (env_fs env) ''yamls'' = Inr entries \<and>
        map (entry_check (env_fs env)) entries = map Some builtin_configs) \<and>
     (\<forall>r c. fst (env_Register env r c) = None)"

definition filled_registry :: "('r, 'd) lint_env \<Rightarrow> 'r" where
  "filled_registry env = foldl (\<lambda>r c. snd (env_Register env r c)) (env_NewRegistry env) builtin_configs"

lemma embedded_load:
  assumes "fs_ReadDir fs ''yamls'' = Inr entries" and "map (entry_check fs) entries = map Some builtin_configs"
  shows "load_once fs initial_state = \<lparr>bs_done = True, bs_list = builtin_configs, bs_loadErr = None\<rparr>"
proof -
  have "None \<notin> set (map (entry_check fs) entries)" unfolding assms(2) by auto
  then have ok: "list_all (\<lambda>e. entry_check fs e \<noteq> None) entries"
    unfolding list_all_iff set_map by (metis imageI)
  have "map the (map (entry_check fs) entries) = builtin_configs" unfolding assms(2) by simp
  then have "map (\<lambda>e. the (entry_check fs e)) entries = builtin_configs" by (simp add: comp_def)
  with load_entries_ok [OF ok, of "initial_state\<lparr>bs_done := True\<rparr>"] assms(1) show ?thesis
    by (simp add: load_once_def initial_state_def)
qed

lemma RunE_enabled:
  assumes "embedded_ok env"
  shows "RunE R env flags version initial_state args =
    (case absolute_args env args of
       Inl err \<Rightarrow> \<lparr>oc_Stderr = [], oc_Formatted = [], oc_Err = Some err\<rparr>
     | Inr absArgs \<Rightarrow>
         (case env_CreateContexts env absArgs of
            Inl err \<Rightarrow> \<lparr>oc_Stderr = [], oc_Formatted = [], oc_Err = Some err\<rparr>
          | Inr lintCtxs \<Rightarrow>
              lint_contexts R env flags version (filled_registry env) (map tm_Key all_templates) lintCtxs))"
proof -
  obtain entries where e: "fs_ReadDir (env_fs env) ''yamls'' = Inr entries"
      "map (entry_check (env_fs env)) entries = map Some builtin_configs"
    and reg: "\<And>r c. fst (env_Register env r c) = None"
    using assms unfolding embedded_ok_def by blast
  let ?st = "\<lparr>bs_done = True, bs_list = builtin_configs, bs_loadErr = None\<rparr>"
  have "load_once (env_fs env) ?st = ?st" by (simp add: load_once_def)
  with embedded_load [OF e] have "List_checks (env_fs env) initial_state = (Inr builtin_configs, ?st)"
    "List_checks (env_fs env) ?st = (Inr builtin_configs, ?st)" by (simp_all add: List_checks_def)
  moreover have "all_templates \<noteq> []" by (simp add: all_templates_def)
  ultimately show ?thesis
    unfolding filled_registry_def by (simp add: RunE_def LoadInto_def register_all_ok [OF reg] config_names)
qed

section \<open>What the engine reports\<close>

definition engine_reports ::
  "runtime \<Rightarrow> (lint_object \<Rightarrow> str \<Rightarrow> bool) \<Rightarrow> lint_context \<Rightarrow> (str \<times> lint_object \<times> diagnostic) set" where
  "engine_reports R ignored ctx =
     {(cc_Name cfg, obj, d) | cfg t obj ds d.
        cfg \<in> set builtin_configs \<and> t \<in> set all_templates \<and> tm_Key t = cc_Template cfg \<and>
        obj \<in> set (Objects ctx) \<and> scope_matches (cc_ObjectKinds cfg) (obj_GVK obj) \<and>
        \<not> ignored obj (cc_Name cfg) \<and> tm_Check t R ctx obj = Some ds \<and> d \<in> set ds}"

definition engine_spec :: "runtime \<Rightarrow> ('r, 'd) lint_env \<Rightarrow> (lint_object \<Rightarrow> str \<Rightarrow> bool) \<Rightarrow> bool" where
  "engine_spec R env ignored \<longleftrightarrow>
     (\<forall>ctx. \<exists>result. env_Run env [ctx] (filled_registry env) (map cc_Name builtin_configs) = Inr result \<and>
        (\<lambda>r. (rep_Check r, rep_Object r, rep_Diagnostic r)) ` set (res_Reports result) = engine_reports R ignored ctx)"

lemma list_all2_members:
  "list_all2 P xs ys \<Longrightarrow> x \<in> set xs \<Longrightarrow> \<exists>y\<in>set ys. P x y"
  "list_all2 P xs ys \<Longrightarrow> y \<in> set ys \<Longrightarrow> \<exists>x\<in>set xs. P x y"
  by (induction rule: list_all2_induct) auto

lemma config_of_template:
  assumes "t \<in> set all_templates"
  shows "\<exists>cfg\<in>set builtin_configs. cc_Template cfg = tm_Key t"
    and "cfg \<in> set builtin_configs \<Longrightarrow> cc_Template cfg = tm_Key t \<Longrightarrow>
           cc_Name cfg = tm_Key t \<and> cc_ObjectKinds cfg = tm_ObjectKinds t"
proof -
  let ?fits = "\<lambda>cfg t. cc_Name cfg = tm_Key t \<and> cc_Template cfg = tm_Key t \<and> cc_ObjectKinds cfg = tm_ObjectKinds t"
  have all2: "list_all2 ?fits builtin_configs all_templates" and keys: "distinct (map tm_Key all_templates)"
    using configs_match by blast+
  show "\<exists>cfg\<in>set builtin_configs. cc_Template cfg = tm_Key t"
    using list_all2_members(2) [OF all2 assms] by blast
  assume "cfg \<in> set builtin_configs" and key: "cc_Template cfg = tm_Key t"
  then obtain t' where t': "t' \<in> set all_templates" "?fits cfg t'"
    using list_all2_members(1) [OF all2] by blast
  with key assms keys have "t' = t" by (metis distinct_map inj_onD)
  with t'(2) show "cc_Name cfg = tm_Key t \<and> cc_ObjectKinds cfg = tm_ObjectKinds t" by simp
qed

text \<open>Nothing is reported exactly when every check is silent on every object it is not exempt from.\<close>

lemma engine_reports_empty:
  assumes "list_all decoded (Objects ctx)" and "range_ok R"
  shows "engine_reports R ignored ctx = {} \<longleftrightarrow>
    (\<forall>obj\<in>set (Objects ctx). \<forall>t\<in>set all_templates. ignored obj (tm_Key t) \<or> tm_Check t R ctx obj = Some [])"
    (is "?empty \<longleftrightarrow> ?silent")
proof
  assume empty: ?empty
  show ?silent
  proof (intro ballI)
    fix obj t
    assume obj: "obj \<in> set (Objects ctx)" and t: "t \<in> set all_templates"
    note contract = template_contract [OF t]
    obtain cfg where cfg: "cfg \<in> set builtin_configs" "cc_Template cfg = tm_Key t"
      using config_of_template(1) [OF t] by blast
    note fits = config_of_template(2) [OF t cfg]
    obtain ds where ds: "tm_Check t R ctx obj = Some ds" using check_contract.total [OF contract assms(2)] by blast
    show "ignored obj (tm_Key t) \<or> tm_Check t R ctx obj = Some []"
    proof (rule ccontr)
      assume "\<not> ?thesis"
      then obtain d where d: "\<not> ignored obj (tm_Key t)" "d \<in> set ds" using ds by (cases ds) auto
      from \<open>\<not> ?thesis\<close> have "kind_of (K8sObject obj) \<in> Some ` set (tm_ObjectKinds t)"         using check_contract.off_scope [OF contract] by blast
      moreover have "decoded obj" using assms(1) obj by (simp add: list_all_iff)
      ultimately have "scope_matches (tm_ObjectKinds t) (obj_GVK obj)" using decoded_in_scope by blast
      with cfg t obj d ds fits have "(cc_Name cfg, obj, d) \<in> engine_reports R ignored ctx"
        unfolding engine_reports_def by (auto intro!: exI [of _ cfg] exI [of _ t])
      with empty show False by simp
    qed
  qed
next
  assume silent: ?silent
  show ?empty
  proof (rule equals0I)
    fix x
    assume "x \<in> engine_reports R ignored ctx"
    then obtain cfg t obj ds d where x: "cfg \<in> set builtin_configs" "t \<in> set all_templates"
      "cc_Template cfg = tm_Key t" "obj \<in> set (Objects ctx)" "\<not> ignored obj (cc_Name cfg)"
      "tm_Check t R ctx obj = Some ds" "d \<in> set ds"
      unfolding engine_reports_def by auto
    have "\<not> ignored obj (tm_Key t)" using config_of_template(2) [OF x(2,1,3)] x(5) by simp
    with silent x(2,4) have "tm_Check t R ctx obj = Some []" by blast
    with x(6,7) show False by simp
  qed
qed

text \<open>The same manifests in another layout get the same reports.\<close>

definition reported_manifests ::
  "runtime \<Rightarrow> (lint_object \<Rightarrow> str \<Rightarrow> bool) \<Rightarrow> lint_context \<Rightarrow> (str \<times> (group_version_kind \<times> k8s_object) \<times> diagnostic) set" where
  "reported_manifests R ignored ctx =
     (\<lambda>(name, obj, d). (name, manifest_of obj, d)) ` engine_reports R ignored ctx"

definition by_manifest :: "(lint_object \<Rightarrow> str \<Rightarrow> bool) \<Rightarrow> bool" where
  "by_manifest ignored \<longleftrightarrow> (\<forall>o1 o2. manifest_of o1 = manifest_of o2 \<longrightarrow> ignored o1 = ignored o2)"

lemma same_manifests_sym: "same_manifests ctx ctx' \<Longrightarrow> same_manifests ctx' ctx"
  by (simp add: same_manifests_def)

lemma reported_manifests_subset:
  assumes same: "same_manifests ctx ctx'" and ignored: "by_manifest ignored"
  shows "reported_manifests R ignored ctx \<subseteq> reported_manifests R ignored ctx'"
proof
  fix x
  assume "x \<in> reported_manifests R ignored ctx"
  then obtain cfg t obj ds d where x: "x = (cc_Name cfg, manifest_of obj, d)"
    and cfg: "cfg \<in> set builtin_configs" and t: "t \<in> set all_templates" "tm_Key t = cc_Template cfg"
    and obj: "obj \<in> set (Objects ctx)" "scope_matches (cc_ObjectKinds cfg) (obj_GVK obj)" "\<not> ignored obj (cc_Name cfg)"
    and d: "tm_Check t R ctx obj = Some ds" "d \<in> set ds"
    unfolding reported_manifests_def engine_reports_def by auto
  have "set (map manifest_of (Objects ctx)) = set (map manifest_of (Objects ctx'))"
    using same unfolding same_manifests_def by (metis mset_eq_setD)
  with obj(1) have "manifest_of obj \<in> manifest_of ` set (Objects ctx')" by (metis image_set imageI)
  then obtain obj' where obj': "obj' \<in> set (Objects ctx')" "manifest_of obj' = manifest_of obj" by auto
  then have k: "K8sObject obj = K8sObject obj'" "obj_GVK obj' = obj_GVK obj" by (simp_all add: manifest_of_def)
  note findings = order_free.order_free [OF template_order [OF t(1)] same obj(1) obj'(1) k(1), of R]
  then obtain ds' where "tm_Check t R ctx' obj' = Some ds'" "mset ds' = mset ds"
    using d(1) by (cases "tm_Check t R ctx' obj'") auto
  note ds' = this
  have "\<not> ignored obj' (cc_Name cfg)" "scope_matches (cc_ObjectKinds cfg) (obj_GVK obj')" "d \<in> set ds'"
    using ignored obj(2,3) obj'(2) k(2) ds'(2) d(2) unfolding by_manifest_def by (metis, metis, metis mset_eq_setD)
  with cfg t obj'(1) ds'(1) have "(cc_Name cfg, obj', d) \<in> engine_reports R ignored ctx'"
    unfolding engine_reports_def by (intro CollectI exI [of _ cfg] exI [of _ t] exI [of _ obj'] exI [of _ ds'] exI [of _ d]) simp
  then show "x \<in> reported_manifests R ignored ctx'"
    unfolding reported_manifests_def x obj'(2) [symmetric] by force
qed

lemma reported_manifests_layout:
  assumes "same_manifests ctx ctx'" and "by_manifest ignored"
  shows "reported_manifests R ignored ctx = reported_manifests R ignored ctx'"
  using reported_manifests_subset [OF assms] reported_manifests_subset [OF same_manifests_sym [OF assms(1)] assms(2)]
  by blast

lemma reported_manifests_empty: "reported_manifests R ignored ctx = {} \<longleftrightarrow> engine_reports R ignored ctx = {}"
  by (simp add: reported_manifests_def)

section \<open>The verdict of a run\<close>

text \<open>
  The hypotheses under which a run is judged by its checks alone: the arguments resolve to
  contexts, the flags pair up, and every output opens, is written and closes.
\<close>

definition inputs_load :: "('r, 'd) lint_env \<Rightarrow> str list \<Rightarrow> lint_context list \<Rightarrow> bool" where
  "inputs_load env args lintCtxs \<longleftrightarrow>
     (\<exists>absArgs. absolute_args env args = Inr absArgs \<and> env_CreateContexts env absArgs = Inr lintCtxs)"

definition outputs_written :: "('r, 'd) lint_env \<Rightarrow> lint_flags \<Rightarrow> bool" where
  "outputs_written env flags \<longleftrightarrow>
     (\<exists>pairs. env_Pairs env (fl_formats flags) (fl_outputs flags) = Inr pairs \<and>
        (\<forall>scanned. list_all (pair_written env scanned) pairs))"

lemma verdict_reports:
  assumes "embedded_ok env" and "engine_spec R env ignored" and "inputs_load env args lintCtxs"
    and "outputs_written env flags" and "Objects (mergeContexts lintCtxs) \<noteq> []"
  shows "main_exit (RunE R env flags version initial_state args) = 0 \<longleftrightarrow>
    engine_reports R ignored (mergeContexts lintCtxs) = {}"
proof -
  let ?ctx = "mergeContexts lintCtxs"
  obtain absArgs where args: "absolute_args env args = Inr absArgs" "env_CreateContexts env absArgs = Inr lintCtxs"
    using assms(3) unfolding inputs_load_def by blast
  obtain pairs where pairs: "env_Pairs env (fl_formats flags) (fl_outputs flags) = Inr pairs"
    "\<And>scanned. list_all (pair_written env scanned) pairs"
    using assms(4) unfolding outputs_written_def by blast
  obtain result where run: "env_Run env [?ctx] (filled_registry env) (map tm_Key all_templates) = Inr result"
    and reports: "(\<lambda>r. (rep_Check r, rep_Object r, rep_Diagnostic r)) ` set (res_Reports result) = engine_reports R ignored ?ctx"
    using assms(2) unfolding engine_spec_def config_names by blast
  have "RunE R env flags version initial_state args =
      lint_contexts R env flags version (filled_registry env) (map tm_Key all_templates) lintCtxs"
    by (simp add: RunE_enabled [OF assms(1)] args)
  then have "main_exit (RunE R env flags version initial_state args) = 0 \<longleftrightarrow> res_Reports result = []"
    using assms(5) run pairs by (simp add: lint_exit_eq Let_def)
  moreover have "res_Reports result = [] \<longleftrightarrow> engine_reports R ignored ?ctx = {}"
    unfolding reports [symmetric] by simp
  ultimately show ?thesis by blast
qed

lemma verdict_eq:
  assumes "embedded_ok env" and "engine_spec R env ignored" and "inputs_load env args lintCtxs"
    and "outputs_written env flags" and "range_ok R"
    and "ctx = mergeContexts lintCtxs" and "Objects ctx \<noteq> []" and "list_all decoded (Objects ctx)"
  shows "main_exit (RunE R env flags version initial_state args) = 0 \<longleftrightarrow>
    (\<forall>obj\<in>set (Objects ctx). \<forall>t\<in>set all_templates. ignored obj (tm_Key t) \<or> tm_Check t R ctx obj = Some [])"
  using verdict_reports [OF assms(1-4)] engine_reports_empty [OF assms(8,5)] assms(6,7) by blast

lemma main_exit_eqI: "(main_exit oc = 0 \<longleftrightarrow> main_exit oc' = 0) \<Longrightarrow> main_exit oc = main_exit oc'"
  by (auto simp: main_exit_def split: if_splits)

text \<open>A clean exit leaves every check silent on every object, where none is exempted.\<close>

lemma clean_exit_silent:
  assumes "embedded_ok env" and "engine_spec R env (\<lambda>_ _. False)" and "inputs_load env args lintCtxs"
    and "outputs_written env flags" and "range_ok R"
    and "ctx = mergeContexts lintCtxs" and "list_all decoded (Objects ctx)"
    and "main_exit (RunE R env flags version initial_state args) = 0"
    and "obj \<in> set (Objects ctx)" and "t \<in> set all_templates"
  shows "tm_Check t R ctx obj = Some []"
proof -
  have "Objects ctx \<noteq> []" using assms(9) by auto
  from verdict_eq [OF assms(1-6) this assms(7)] assms(8-10) show ?thesis by blast
qed


section \<open>An object no check can read\<close>

text \<open>
  The matchers of the Gateway API kinds ignore the version, so an object of a version the decoder
  does not know, which decodes to an unstructured object, is in their scope. The summary counts it
  as checked, although each of the 27 checks passes over it by its type.
\<close>

definition configured :: "config_check list \<Rightarrow> instantiated_check list" where
  "configured cfgs = map (\<lambda>cfg. \<lparr>ic_ObjectKinds = cc_ObjectKinds cfg, ic_Matches = scope_matches (cc_ObjectKinds cfg)\<rparr>) cfgs"

lemma unserved_version_counts_as_checked:
  assumes "K8sObject obj = Unstructured u"
    and "obj_GVK obj = \<lparr>gvk_Group = gateway_group, gvk_Version = ''v1alpha2'', gvk_Kind = Gateway\<rparr>"
    and "ctx = \<lparr>Objects = [obj], InvalidObjects = []\<rparr>"
  shows "(\<forall>t\<in>set all_templates. tm_Check t R ctx obj = Some []) \<and>
    sc_Checked (summarize R [ctx] (configured builtin_configs)) = 1"
proof
  show "\<forall>t\<in>set all_templates. tm_Check t R ctx obj = Some []"
    using check_contract.off_scope [OF template_contract, of _ obj R ctx] assms(1) by simp
  have "cfg_dangling_gateway_class \<in> set builtin_configs" by (simp add: builtin_configs_def)
  moreover have "cc_ObjectKinds cfg_dangling_gateway_class = [Gateway]"
    by (simp add: cfg_dangling_gateway_class_def Gateway_def)
  then have "scope_matches (cc_ObjectKinds cfg_dangling_gateway_class) (obj_GVK obj)"
    by (simp add: scope_matches_def assms(2) lookup_registered_gateway_kind gatewayAPIMatcher_def)
  ultimately have "is_checked (configured builtin_configs) obj"
    unfolding is_checked_def configured_def list_ex_iff by (auto intro!: bexI)
  then show "sc_Checked (summarize R [ctx] (configured builtin_configs)) = 1"
    by (simp add: summarize_eq checked_kinds_def assms(3))
qed


section \<open>Objects that failed to parse\<close>

text \<open>
  \<open>--fail-if-no-objects-found\<close> does not fail a run in which some objects failed to parse, if any
  other loaded: only a set without a single valid object fails.
\<close>

lemma unparsed_objects_do_not_fail:
  assumes "fl_failIfNoObjects flags" and "ctx = mergeContexts lintCtxs"
    and "Objects ctx \<noteq> []" and "InvalidObjects ctx \<noteq> []" and "outputs_written env flags"
    and "env_Run env [ctx] registry names = Inr result" and "res_Reports result = []"
  shows "main_exit (lint_contexts R env flags version registry names lintCtxs) = 0"
proof -
  obtain pairs where "env_Pairs env (fl_formats flags) (fl_outputs flags) = Inr pairs"
    "\<And>scanned. list_all (pair_written env scanned) pairs"
    using assms(5) unfolding outputs_written_def by blast
  with assms(3,6,7) show ?thesis by (simp add: lint_exit_eq Let_def assms(2))
qed

end
