(* ===== verification/Sample_Run.thy ===== *)
theory Sample_Run
  imports Attachment_Spec Engine_Run
begin

text \<open>
  Concrete values of what the program leaves to others, for the witnesses: a file system with the
  embedded files, a registry and an engine (\<open>sample_env\<close>), and a small set of manifests on which
  all 27 checks are silent (\<open>clean_context\<close>).
\<close>

section \<open>A concrete engine\<close>

text \<open>
  An instance of the parameters: the 27 files, each read as its own path, a registry that keeps what
  is registered, and an engine that runs each enabled configuration on the objects of its scope.
\<close>

definition yaml_entry :: "config_check \<Rightarrow> dir_entry" where
  "yaml_entry cfg = \<lparr>de_Name = cc_Name cfg @ ''.yaml'', de_IsDir = False\<rparr>"

definition yaml_fs :: embed_fs where
  "yaml_fs =
     \<lparr>fs_ReadDir = (\<lambda>_. Inr (map yaml_entry builtin_configs)),
      fs_ReadFile = Inr,
      fs_Unmarshal = (\<lambda>s. case List.find (\<lambda>cfg. ''yamls/'' @ cc_Name cfg @ ''.yaml'' = s) builtin_configs of
        Some cfg \<Rightarrow> Inr cfg | None \<Rightarrow> Inl ''not a check'')\<rparr>"

lemma yaml_files_parse: "map (entry_check yaml_fs) (map yaml_entry builtin_configs) = map Some builtin_configs"
  by code_simp

definition run_config :: "runtime \<Rightarrow> lint_context \<Rightarrow> config_check \<Rightarrow> lint_report list" where
  "run_config R ctx cfg =
     for_append all_templates (\<lambda>t. if tm_Key t \<noteq> cc_Template cfg then [] else
       for_append (Objects ctx) (\<lambda>obj. if \<not> scope_matches (cc_ObjectKinds cfg) (obj_GVK obj) then [] else
         (case tm_Check t R ctx obj of
            None \<Rightarrow> []
          | Some ds \<Rightarrow> map (\<lambda>d. \<lparr>rep_Check = cc_Name cfg, rep_Remediation = '''', rep_Diagnostic = d, rep_Object = obj\<rparr>) ds)))"

definition sample_env :: "runtime \<Rightarrow> lint_context list result \<Rightarrow> (config_check list, nat) lint_env" where
  "sample_env R loaded =
     \<lparr>env_fs = yaml_fs, env_Register = (\<lambda>cfgs cfg. (None, cfgs @ [cfg])), env_NewRegistry = [], env_Stdin = ''-'',
      env_GetAbsolutPath = (\<lambda>arg. Inr (''/'' @ arg)),
      env_CreateContexts = (\<lambda>_. loaded),
      env_Run = (\<lambda>ctxs cfgs names. Inr
        \<lparr>res_Reports = for_append ctxs (\<lambda>ctx.
           for_append (filter (\<lambda>cfg. cc_Name cfg \<in> set names) cfgs) (run_config R ctx)), res_Version = ''''\<rparr>),
      env_Load = (\<lambda>_ _. None), env_Pairs = (\<lambda>formats _. Inr (map (\<lambda>f. \<lparr>fo_Format = f, fo_Output = ''''\<rparr>) formats)),
      env_Formatter = (\<lambda>_. Inr (\<lambda>_ _. None)), env_NewOutput = (\<lambda>_. Inr 0), env_Close = (\<lambda>_. None)\<rparr>"

lemma sample_embedded: "embedded_ok (sample_env R loaded)"
proof -
  have "fs_ReadDir yaml_fs ''yamls'' = Inr (map yaml_entry builtin_configs)" by (simp add: yaml_fs_def)
  with yaml_files_parse show ?thesis unfolding embedded_ok_def by (simp only: sample_env_def lint_env.simps) auto
qed

lemma foldl_append_singletons: "foldl (\<lambda>xs x. xs @ [x]) ys xs = ys @ xs"
  by (induction xs arbitrary: ys) simp_all

lemma sample_registry: "filled_registry (sample_env R loaded) = builtin_configs"
  by (simp add: filled_registry_def sample_env_def foldl_append_singletons)

lemma set_run_config:
  "(\<lambda>r. (rep_Check r, rep_Object r, rep_Diagnostic r)) ` set (run_config R ctx cfg) =
     {(cc_Name cfg, obj, d) | t obj ds d. t \<in> set all_templates \<and> tm_Key t = cc_Template cfg \<and> obj \<in> set (Objects ctx) \<and>
        scope_matches (cc_ObjectKinds cfg) (obj_GVK obj) \<and> tm_Check t R ctx obj = Some ds \<and> d \<in> set ds}"
proof -
  have reported: "r \<in> set (run_config R ctx cfg) \<longleftrightarrow>
      (\<exists>t obj ds d. t \<in> set all_templates \<and> tm_Key t = cc_Template cfg \<and> obj \<in> set (Objects ctx) \<and>
        scope_matches (cc_ObjectKinds cfg) (obj_GVK obj) \<and> tm_Check t R ctx obj = Some ds \<and> d \<in> set ds \<and>
        r = \<lparr>rep_Check = cc_Name cfg, rep_Remediation = [], rep_Diagnostic = d, rep_Object = obj\<rparr>)" for r
  proof -
    have unless: "x \<in> set (if b then [] else xs) \<longleftrightarrow> \<not> b \<and> x \<in> set xs" for x :: lint_report and b xs by simp
    have mem: "x \<in> set (for_append ys f) \<longleftrightarrow> (\<exists>y. y \<in> set ys \<and> x \<in> set (f y))"
      for x :: lint_report and ys and f by auto
    have found: "x \<in> set (case c of None \<Rightarrow> [] | Some ds \<Rightarrow> map f ds) \<longleftrightarrow> (\<exists>ds d. c = Some ds \<and> d \<in> set ds \<and> x = f d)"
      for x :: lint_report and c and f :: "diagnostic \<Rightarrow> lint_report"
      by (cases c) auto
    show ?thesis unfolding run_config_def mem unless found by blast
  qed
  show ?thesis
  proof (rule set_eqI, rule iffI)
    fix x
    assume "x \<in> (\<lambda>r. (rep_Check r, rep_Object r, rep_Diagnostic r)) ` set (run_config R ctx cfg)"
    then show "x \<in> {(cc_Name cfg, obj, d) | t obj ds d. t \<in> set all_templates \<and> tm_Key t = cc_Template cfg \<and>
        obj \<in> set (Objects ctx) \<and> scope_matches (cc_ObjectKinds cfg) (obj_GVK obj) \<and>
        tm_Check t R ctx obj = Some ds \<and> d \<in> set ds}"
      unfolding image_iff Bex_def reported by auto blast
  next
    fix x
    assume "x \<in> {(cc_Name cfg, obj, d) | t obj ds d. t \<in> set all_templates \<and> tm_Key t = cc_Template cfg \<and>
        obj \<in> set (Objects ctx) \<and> scope_matches (cc_ObjectKinds cfg) (obj_GVK obj) \<and>
        tm_Check t R ctx obj = Some ds \<and> d \<in> set ds}"
    then show "x \<in> (\<lambda>r. (rep_Check r, rep_Object r, rep_Diagnostic r)) ` set (run_config R ctx cfg)"
      unfolding image_iff Bex_def reported by fastforce
  qed
qed

lemma sample_engine: "engine_spec R (sample_env R loaded) (\<lambda>_ _. False)"
  unfolding engine_spec_def sample_registry
proof
  fix ctx
  let ?triple = "\<lambda>r. (rep_Check r, rep_Object r, rep_Diagnostic r)"
  have "?triple ` set (for_append builtin_configs (run_config R ctx)) =
      (\<Union>cfg\<in>set builtin_configs. ?triple ` set (run_config R ctx cfg))" by auto
  also have "\<dots> = engine_reports R (\<lambda>_ _. False) ctx"
    unfolding set_run_config engine_reports_def by blast
  finally have "?triple ` set (for_append builtin_configs (run_config R ctx)) = engine_reports R (\<lambda>_ _. False) ctx" .
  moreover have "filter (\<lambda>cfg. cc_Name cfg \<in> set (map cc_Name builtin_configs)) builtin_configs = builtin_configs"
    by (simp add: filter_id_conv)
  ultimately show "\<exists>result. env_Run (sample_env R loaded) [ctx] builtin_configs (map cc_Name builtin_configs) = Inr result \<and>
      ?triple ` set (res_Reports result) = engine_reports R (\<lambda>_ _. False) ctx"
    by (simp add: sample_env_def del: set_map)
qed


section \<open>A clean set of manifests\<close>

text \<open>The Gateway \<open>edge\<close>, a GRPCRoute naming its listener, and the Service the route sends to.\<close>

definition rpc :: k8s_object where
  "rpc = GRPCRoute_v1
     \<lparr>grpc_Meta = meta ''infra'' ''rpc'', grpc_Hostnames = [''rpc.example.com''],
      grpc_ParentRefs = [to_parent ''edge'' (Some ''http'')],
      grpc_Rules = [\<lparr>gr_Name = None, gr_Filters = [], gr_BackendRefs = [\<lparr>wb_BackendRef = to_backend ''rpc'' (Some 9000) None\<rparr>]\<rparr>]\<rparr>"

definition clean_context :: lint_context where
  "clean_context = context_of [edge, rpc, Service_v1 (meta ''infra'' ''rpc'')]"

definition rpc_route :: Route where
  "rpc_route = (case AsRoute rpc of Some r \<Rightarrow> r | None \<Rightarrow> newRoute [] (meta [] []) [] [] [])"

lemma rpc_is_route: "AsRoute (K8sObject (load 1 rpc)) = Some rpc_route"
  by (simp add: rpc_route_def rpc_def load_def)

lemma clean_selected:
  "ListenersFor (ListenersByOwner clean_context) (resolve_parent rpc_route (to_parent ''edge'' (Some ''http''))) =
     [mk_listener (mk_ref Gateway ''infra'' ''edge'') Gateway (listener ''http'' (Some ''*.example.com'') 80 HTTPProtocolType)]"
  by code_simp

lemma rpc_attaches: "p \<in> set (ParentsOf rpc_route) \<Longrightarrow> attaches clean_context rpc_route p"
proof -
  let ?p = "resolve_parent rpc_route (to_parent ''edge'' (Some ''http''))"
  let ?l = "mk_listener (mk_ref Gateway ''infra'' ''edge'') Gateway (listener ''http'' (Some ''*.example.com'') 80 HTTPProtocolType)"
  have "admits rpc_route ?l \<and> carries rpc_route ?l \<and> HostnamesIntersect ?l (rt_Hostnames rpc_route)" by code_simp
  then have "attaches clean_context rpc_route ?p" unfolding attaches_iff clean_selected by simp
  moreover have "ParentsOf rpc_route = [?p]" by code_simp
  ultimately show "p \<in> set (ParentsOf rpc_route) \<Longrightarrow> ?thesis" by simp
qed

lemma rpc_attachment_silent:
  "check \<in> {lnf_checkFunc, rnp_checkFunc, hnm_checkFunc, pm_checkFunc, dpr_checkFunc} \<Longrightarrow>
     check R clean_context (load 1 rpc) = Some []"
  using attachment_checks_silent [OF rpc_is_route, of R clean_context] rpc_attaches attaches_silent by blast

lemma rpc_silent:
  "awz_checkFunc forward_runtime clean_context (load 1 rpc) = Some []"
  "rsn_checkFunc forward_runtime clean_context (load 1 rpc) = Some []"
  "sbp_checkFunc forward_runtime clean_context (load 1 rpc) = Some []"
  "drn_checkFunc forward_runtime clean_context (load 1 rpc) = Some []"
  "mrg_checkFunc forward_runtime clean_context (load 1 rpc) = Some []"
  by code_simp+

lemma edge_silent:
  "dcr_checkFunc forward_runtime clean_context (load 0 edge) = Some []"
  "mcg_checkFunc forward_runtime clean_context (load 0 edge) = Some []"
  "dln_checkFunc forward_runtime clean_context (load 0 edge) = Some []"
  "cl_checkFunc forward_runtime clean_context (load 0 edge) = Some []"
  "tlc_checkFunc forward_runtime clean_context (load 0 edge) = Some []"
  "hnp_checkFunc forward_runtime clean_context (load 0 edge) = Some []"
  by code_simp+

lemma edge_class_silent: "dgc_checkFunc R clean_context (load 0 edge) = Some []"
  by (rule dgc.silent_without_targets) code_simp

lemma rpc_backend_silent: "dbr_checkFunc R clean_context (load 1 rpc) = Some []"
proof -
  have "rt_BackendRefs rpc_route = [\<lparr>br_Rule = None, br_Ref = to_backend ''rpc'' (Some 9000) None\<rparr>]"
    "rt_Namespace rpc_route = ''infra''" by code_simp+
  moreover have known: "mk_ref ''Service'' ''infra'' ''rpc'' \<in> BackendTargets clean_context" by code_simp
  moreover have "(''Service'', ''infra'') \<in> kind_scope ` BackendTargets clean_context"
    using imageI [OF known, of kind_scope] by (simp add: kind_scope_def)
  ultimately show ?thesis
    by (simp add: dbr_checkFunc_def rpc_is_route Let_def backendref_Kind_def backendref_Namespace_def to_backend_def
        del: One_nat_def)
qed

lemma edge_serves: "gsn_checkFunc R clean_context (load 0 edge) = Some []"
proof -
  let ?gw = "gateway_with ''infra'' ''edge'' [listener ''http'' (Some ''*.example.com'') 80 HTTPProtocolType]"
  let ?p = "resolve_parent rpc_route (to_parent ''edge'' (Some ''http''))"
  have "Routes_of clean_context = [rpc_route]" "ParentsOf rpc_route = [?p]" "par_Group ?p = gateway_group"
    "parent_ref ?p \<in> attach_points clean_context ?gw" by code_simp+
  then have "\<not> idle_gateway clean_context ?gw" unfolding idle_gateway_def by simp
  moreover have "gateways_of (K8sObject (load 0 edge)) = [?gw]" by (simp add: gateways_of_def load_def edge_def)
  ultimately show ?thesis by (simp add: gsn.check_refs)
qed

text \<open>All 27 checks are silent on all three objects: those above, and the rest as out of scope.\<close>

lemma clean_gateway_checks:
  "\<forall>t\<in>set all_templates. Gateway \<in> set (tm_ObjectKinds t) \<longrightarrow>
     tm_Check t forward_runtime clean_context (load 0 edge) = Some []"
  unfolding all_templates_def list.set ball_simps template_defs check_template.simps RouteKinds_def kind_names
  by (simp add: edge_silent edge_class_silent edge_serves)

lemma clean_route_checks:
  "\<forall>t\<in>set all_templates. GRPCRoute \<in> set (tm_ObjectKinds t) \<longrightarrow>
     tm_Check t forward_runtime clean_context (load 1 rpc) = Some []"
  unfolding all_templates_def list.set ball_simps template_defs check_template.simps RouteKinds_def kind_names
  by (simp add: rpc_attachment_silent rpc_silent rpc_backend_silent del: One_nat_def)

lemma clean_silent:
  assumes "t \<in> set all_templates" and "obj \<in> set (Objects clean_context)"
  shows "tm_Check t forward_runtime clean_context obj = Some []"
proof -
  have objs: "Objects clean_context = [load 0 edge, load 1 rpc, load 2 (Service_v1 (meta ''infra'' ''rpc''))]"
    by (simp add: clean_context_def context_of_def numeral_2_eq_2)
  have off: "tm_Check t R ctx obj = Some []" if "kind_of (K8sObject obj) \<notin> Some ` set (tm_ObjectKinds t)" for R ctx
    using check_contract.off_scope [OF template_contract [OF assms(1)] that] .
  from assms(2) consider "obj = load 0 edge" | "obj = load 1 rpc" | "obj = load 2 (Service_v1 (meta ''infra'' ''rpc''))"
    unfolding objs by auto
  then show ?thesis
  proof cases
    case 1
    then have "kind_of (K8sObject obj) = Some Gateway" by (simp add: load_def edge_def)
    with 1 off clean_gateway_checks assms(1) show ?thesis by fastforce
  next
    case 2
    then have "kind_of (K8sObject obj) = Some GRPCRoute" by (simp add: load_def rpc_def)
    with 2 off clean_route_checks assms(1) show ?thesis by fastforce
  next
    case 3
    then have "kind_of (K8sObject obj) = None" by (simp add: load_def)
    with off show ?thesis by simp
  qed
qed


section \<open>A concrete command line\<close>

text \<open>Installers that count, the two formats, and a parser that takes the first word as the command.\<close>

definition counting_decoder :: "(nat, nat) decoder_env" where
  "counting_decoder =
     \<lparr>de_Scheme = 0, de_gatewayv1_Install = (\<lambda>n. (None, Suc n)), de_gatewayv1b1_Install = (\<lambda>n. (None, Suc n)),
      de_gatewayv1a2_Install = (\<lambda>n. (None, Suc n)), de_gatewayv1a3_Install = (\<lambda>n. (None, Suc n)),
      de_egv1a1_AddToScheme = (\<lambda>n. (None, Suc n)), de_AddToScheme = install_in_order, de_UniversalDeserializer = id\<rparr>"

definition sample_output :: "nat output_pkg" where
  "sample_output =
     \<lparr>op_JSONFormat = ''json'', op_PlainFormat = ''plain'', op_FormatJSON = (\<lambda>_ _. None), op_Write = (\<lambda>_ _. None),
      op_FormatterByType = (\<lambda>fs name. case map_of fs name of Some f \<Rightarrow> Inr f | None \<Rightarrow> Inl ''unknown format''),
      op_GetEnabledFormatters = map fst,
      op_Pairs = (\<lambda>formats _ _. Inr (map (\<lambda>f. \<lparr>fo_Format = f, fo_Output = ''''\<rparr>) formats))\<rparr>"

definition sample_cli :: "runtime \<Rightarrow> lint_context list result \<Rightarrow> (config_check list, nat, nat, nat) cli_env" where
  "sample_cli R loaded =
     \<lparr>ce_lint = sample_env R loaded, ce_output = sample_output,
      ce_style = \<lparr>ts_bold = id, ts_red = id, ts_yellow = id, ts_GetK8sObjectName = (\<lambda>obj. GetName (K8sObject obj))\<rparr>,
      ce_decoder = counting_decoder, ce_CreateContextsWithOptions = (\<lambda>_ _. loaded), ce_Base = id,
      ce_templates = \<lparr>cmd_Use = ''templates'', cmd_Short = '''', cmd_Args = (\<lambda>_. True), cmd_Flags = []\<rparr>,
      ce_RunTemplates = (\<lambda>_. \<lparr>pr_Stdout = [], pr_Formatted = [], pr_Stderr = [], pr_Exit = 0\<rparr>),
      ce_Parse = (\<lambda>root args. case List.find (\<lambda>c. args \<noteq> [] \<and> cmd_Use c = hd args) (rc_Commands root) of
        Some c \<Rightarrow> Inr \<lparr>in_Command = c, in_Flags = lint_flag_defaults sample_output, in_Args = tl args\<rparr>
      | None \<Rightarrow> Inl ''unknown command''),
      ce_ArgsError = (\<lambda>_ _. ''wrong number of arguments'')\<rparr>"

lemma sample_decoder: "decoder_init counting_decoder = Inr 5"
  by (subst decoder_knows_every_group) (auto simp: counting_decoder_def)

text \<open>The contexts of \<open>lint manifests\<close> fail to load: the process exits with 1 and prints nothing at all.\<close>

lemma missing_file_run:
  "main_process forward_runtime (sample_cli forward_runtime (Inl ''no such file'')) None ''gwlint'' [''lint'', ''manifests''] =
     Inr \<lparr>pr_Stdout = [], pr_Formatted = [], pr_Stderr = [], pr_Exit = 1\<rparr>"
proof -
  let ?cli = "sample_cli forward_runtime (Inl ''no such file'')"
  let ?env = "lint_env_of forward_runtime ?cli 5"
  have "embedded_ok ?env"
    using sample_embedded by (simp add: embedded_ok_def lint_env_of_def sample_cli_def Let_def)
  moreover have "absolute_args ?env [''manifests''] = Inr [''/manifests'']"
    "env_CreateContexts ?env absArgs = Inl ''no such file''" for absArgs
    by (simp_all add: lint_env_of_def sample_cli_def sample_env_def Let_def)
  ultimately have run: "RunE forward_runtime ?env flags version initial_state [''manifests''] =
      \<lparr>oc_Stderr = [], oc_Formatted = [], oc_Err = Some ''no such file''\<rparr>" for flags version
    by (simp add: RunE_enabled)
  have "decoder_init (ce_decoder ?cli) = Inr 5" using sample_decoder by (simp add: sample_cli_def)
  moreover have "ce_Parse ?cli (root_Command b R style op kl prog) [''lint'', ''manifests''] =
      Inr \<lparr>in_Command = lint_Command R style op, in_Flags = lint_flag_defaults sample_output, in_Args = [''manifests'']\<rparr>"
    for b R style kl prog and op :: "nat output_pkg"
    by (simp add: sample_cli_def root_Command_def lint_Command_def)
  ultimately show ?thesis
    by (simp add: main_process_def Let_def run lint_Command_def lint_process_def error_lines_def root_Command_def main_exit_def)
qed

end
