(* ===== verification/Completion.thy ===== *)
theory Completion
  imports Builtin_Checks
begin

text \<open>
  What can be done about a dangling reference. The five checks for them report a reference whose
  target is absent from a part of the cluster the manifests describe; \<open>completion\<close> lists a bare
  manifest for each such target, and adding these leaves all five checks with nothing to report, on
  the objects there were and on the ones added: no finding is one that manifests cannot answer, and
  answering one does not give rise to another.
\<close>

section \<open>The targets that are absent\<close>

definition missing_targets ::
  "(k8s_object \<Rightarrow> 'r list) \<Rightarrow> (k8s_object \<Rightarrow> 'r \<Rightarrow> bool) \<Rightarrow> (k8s_object \<Rightarrow> 'r \<Rightarrow> 'k) \<Rightarrow> lint_context \<Rightarrow> 'k list" where
  "missing_targets refs reports target ctx =
     for_append (Objects ctx) (\<lambda>obj. map (target (K8sObject obj)) (filter (reports (K8sObject obj)) (refs (K8sObject obj))))"

definition missing_backends :: "lint_context \<Rightarrow> ObjectRef list" where
  "missing_backends ctx = missing_targets route_backends (\<lambda>k b.
     ResolvableBackendKind (backendref_Group b) (backendref_Kind b) \<and>
     kind_scope (backend_ref_of k b) \<in> kind_scope ` BackendTargets ctx \<and> backend_ref_of k b \<notin> BackendTargets ctx)
     backend_ref_of ctx"

definition missing_secrets :: "lint_context \<Rightarrow> ObjectRef list" where
  "missing_secrets ctx = missing_targets TerminatingCertificateRefs (\<lambda>k ref.
     ResolvableCertificateKind (cr_Group ref) (cr_Kind ref) \<and>
     ref_Namespace (cert_ref_of ref) \<in> ref_Namespace ` CertificateSecrets ctx \<and>
     cert_ref_of ref \<notin> CertificateSecrets ctx) (\<lambda>k ref. cert_ref_of ref) ctx"

definition missing_classes :: "lint_context \<Rightarrow> str list" where
  "missing_classes ctx = missing_targets gateways_of (\<lambda>k gw.
     gw_ClassName gw \<noteq> '''' \<and> () \<in> (\<lambda>_. ()) ` GatewayClasses ctx \<and> gw_ClassName gw \<notin> GatewayClasses ctx)
     (\<lambda>k gw. gw_ClassName gw) ctx"

definition missing_gateways :: "lint_context \<Rightarrow> ObjectRef list" where
  "missing_gateways ctx = missing_targets listener_sets_of (\<lambda>k ls.
     named_gateway ls \<and> ref_Namespace (ListenerSetParent ls) \<in> ref_Namespace ` dls_gateways ctx \<and>
     ListenerSetParent ls \<notin> dls_gateways ctx) (\<lambda>k ls. ListenerSetParent ls) ctx"

definition missing_policy_targets :: "lint_context \<Rightarrow> ObjectRef list" where
  "missing_policy_targets ctx = missing_targets policy_refs (\<lambda>k ref.
     judged_target ref \<and> kind_scope (target_ref_of k ref) \<in> kind_scope ` policyTargets ctx \<and>
     target_ref_of k ref \<notin> policyTargets ctx) target_ref_of ctx"

section \<open>Manifests for them\<close>

definition bare_meta :: "ObjectRef \<Rightarrow> object_meta" where
  "bare_meta ref =
     \<lparr>meta_Name = ref_Name ref, meta_Namespace = ref_Namespace ref, meta_Labels = [], meta_Created = None\<rparr>"

definition bare_gateway :: "ObjectRef \<Rightarrow> gateway" where
  "bare_gateway ref = \<lparr>gw_Meta = bare_meta ref, gw_ClassName = '''', gw_Listeners = []\<rparr>"

definition backend_manifest :: "ObjectRef \<Rightarrow> k8s_object" where
  "backend_manifest ref =
     (if ref_Kind ref = KindBackend
      then Backend_v1alpha1 \<lparr>be_Meta = bare_meta ref, be_Type = None, be_Endpoints = []\<rparr>
      else Service_v1 (bare_meta ref))"

definition target_manifest :: "ObjectRef \<Rightarrow> k8s_object" where
  "target_manifest ref =
     (let m = bare_meta ref; stream = \<lparr>str_Meta = m, str_ParentRefs = [], str_Rules = []\<rparr> in
      if ref_Kind ref = Gateway then Gateway_v1 (bare_gateway ref)
      else if ref_Kind ref = ListenerSet then ListenerSet_v1
        \<lparr>ls_Meta = m, ls_ParentRef = \<lparr>pg_Group = None, pg_Kind = None, pg_Namespace = None, pg_Name = ''''\<rparr>, ls_Listeners = []\<rparr>
      else if ref_Kind ref = HTTPRoute then HTTPRoute_v1 \<lparr>http_Meta = m, http_Hostnames = [], http_ParentRefs = [], http_Rules = []\<rparr>
      else if ref_Kind ref = GRPCRoute then GRPCRoute_v1 \<lparr>grpc_Meta = m, grpc_Hostnames = [], grpc_ParentRefs = [], grpc_Rules = []\<rparr>
      else if ref_Kind ref = TCPRoute then TCPRoute_v1 stream
      else if ref_Kind ref = TLSRoute then TLSRoute_v1 \<lparr>tls_Meta = m, tls_Hostnames = [], tls_ParentRefs = [], tls_Rules = []\<rparr>
      else UDPRoute_v1 stream)"

text \<open>
  The Gateway a ListenerSet asks for is added as v1beta1: like one of v1 it answers the ListenerSet,
  but it does not describe a namespace to the check on policy targets, which reads v1 alone.
\<close>

definition completion :: "lint_context \<Rightarrow> k8s_object list" where
  "completion ctx =
     map backend_manifest (missing_backends ctx) @
     map (\<lambda>ref. Secret_v1 (bare_meta ref)) (missing_secrets ctx) @
     map (\<lambda>name. GatewayClass_v1 (bare_meta (mk_ref GatewayClass '''' name))) (missing_classes ctx) @
     map (\<lambda>ref. Gateway_v1beta1 (bare_gateway ref)) (missing_gateways ctx) @
     map target_manifest (missing_policy_targets ctx)"

definition completed :: "lint_context \<Rightarrow> lint_context" where
  "completed ctx = ctx\<lparr>Objects := Objects ctx @ map (load 0) (completion ctx)\<rparr>"

lemma set_missing:
  "set (missing_targets refs reports target ctx) =
     {target k r | k r. k \<in> K8sObject ` set (Objects ctx) \<and> r \<in> set (refs k) \<and> reports k r}"
  by (auto simp: missing_targets_def)

lemma objects_completed:
  "K8sObject ` set (Objects (completed ctx)) = K8sObject ` set (Objects ctx) \<union> set (completion ctx)"
  by (simp add: completed_def image_Un image_image load_def)

lemmas bare_simps = bare_meta_def bare_gateway_def backend_manifest_def target_manifest_def
lemmas entry_defs = backend_entries_def secret_entries_def class_entries_def gateway_entries_def
  policy_target_entries_def parent_entries_def

section \<open>Completing silences\<close>

context dangling_check
begin

lemma completed_silent:
  assumes objects: "K8sObject ` set (Objects ctx') = K8sObject ` set (Objects ctx) \<union> extra"
    and added: "known ctx' = known ctx \<union> set (missing_targets refs (reports ctx) target ctx) \<union> others"
    and described: "scope ` others \<subseteq> scope ` known ctx"
    and bare: "\<And>k r. k \<in> extra \<Longrightarrow> r \<in> set (refs k) \<Longrightarrow> \<not> judged k r"
    and obj: "obj \<in> set (Objects ctx')"
  shows "check R ctx' obj = Some []"
proof (rule ccontr)
  let ?k = "K8sObject obj"
  assume "check R ctx' obj \<noteq> Some []"
  then obtain r where r: "r \<in> set (refs ?k)" "reports ctx' ?k r" unfolding ref_reports_iff by blast
  have "scope ` set (missing_targets refs (reports ctx) target ctx) \<subseteq> scope ` known ctx"
    by (auto simp: set_missing reports_eq)
  with r(2) added described have "reports ctx ?k r" unfolding reports_eq by blast
  moreover have "?k \<in> K8sObject ` set (Objects ctx)"
    using obj objects bare [OF _ r(1)] r(2) by (auto simp: reports_eq)
  ultimately have "target ?k r \<in> known ctx'" using added r(1) by (auto simp: set_missing)
  with r(2) show False by (simp add: reports_eq)
qed

end

section \<open>What the added manifests are\<close>

lemma ref_eqI: "ref_Kind r = k \<Longrightarrow> mk_ref k (ref_Namespace r) (ref_Name r) = r"
  by (cases r) (simp add: mk_ref_def)

lemma kind_strings:
  "Gateway = ''Gateway''" "ListenerSet = ''ListenerSet''" "HTTPRoute = ''HTTPRoute''" "GRPCRoute = ''GRPCRoute''"
  "TCPRoute = ''TCPRoute''" "TLSRoute = ''TLSRoute''" "UDPRoute = ''UDPRoute''"
  by (simp_all add: kind_names)

lemma missing_backend_kind: "ref \<in> set (missing_backends ctx) \<Longrightarrow> ref_Kind ref \<in> {''Service'', KindBackend}"
  by (auto simp: missing_backends_def set_missing ResolvableBackendKind_def backend_ref_of_def split: if_splits)

lemma missing_secret_kind: "ref \<in> set (missing_secrets ctx) \<Longrightarrow> ref_Kind ref = SecretKind"
  by (auto simp: missing_secrets_def set_missing ResolvableCertificateKind_def cert_ref_of_def)

lemma missing_gateway_kind: "ref \<in> set (missing_gateways ctx) \<Longrightarrow> ref_Kind ref = Gateway"
  by (auto simp: missing_gateways_def set_missing ListenerSetParent_def)

lemma missing_policy_target_kind:
  "ref \<in> set (missing_policy_targets ctx) \<Longrightarrow> ref_Kind ref \<in> set (Gateway # ListenerSet # RouteKinds)"
  by (auto simp: missing_policy_targets_def set_missing judged_target_def target_ref_of_def)

lemma backend_manifest_entries:
  assumes "ref_Kind ref \<in> {''Service'', KindBackend}"
  shows "backend_entries (backend_manifest ref) = {ref}" "secret_entries (backend_manifest ref) = {}"
    "class_entries (backend_manifest ref) = {}" "gateway_entries (backend_manifest ref) = {}"
    "policy_target_entries (backend_manifest ref) = {}"
  using assms by (auto simp: entry_defs bare_simps ref_eqI KindBackend_def)

lemma target_manifest_entries:
  assumes "ref_Kind ref \<in> set (Gateway # ListenerSet # RouteKinds)"
  shows "backend_entries (target_manifest ref) = {}" "secret_entries (target_manifest ref) = {}"
    "class_entries (target_manifest ref) = {}"
    "gateway_entries (target_manifest ref) = (if ref_Kind ref = Gateway then {ref} else {})"
    "policy_target_entries (target_manifest ref) = {ref}"
  using assms
  by (auto simp: entry_defs bare_simps ref_eqI RouteKinds_def kind_strings route_builders)

lemma other_manifest_entries:
  "backend_entries (Secret_v1 m) = {}" "secret_entries (Secret_v1 m) = {mk_ref SecretKind (meta_Namespace m) (meta_Name m)}"
  "class_entries (Secret_v1 m) = {}" "gateway_entries (Secret_v1 m) = {}" "policy_target_entries (Secret_v1 m) = {}"
  "backend_entries (GatewayClass_v1 m) = {}" "secret_entries (GatewayClass_v1 m) = {}"
  "class_entries (GatewayClass_v1 m) = {meta_Name m}" "gateway_entries (GatewayClass_v1 m) = {}"
  "policy_target_entries (GatewayClass_v1 m) = {}"
  "backend_entries (Gateway_v1beta1 g) = {}" "secret_entries (Gateway_v1beta1 g) = {}"
  "class_entries (Gateway_v1beta1 g) = {}"
  "gateway_entries (Gateway_v1beta1 g) = {mk_ref Gateway (meta_Namespace (gw_Meta g)) (meta_Name (gw_Meta g))}"
  "policy_target_entries (Gateway_v1beta1 g) = {}"
  by (simp_all add: entry_defs)

text \<open>None of them refers to anything.\<close>

lemma bare_manifests:
  assumes "k \<in> set (completion ctx)"
  shows "route_backends k = []" "TerminatingCertificateRefs k = []"
    "gw \<in> set (gateways_of k) \<Longrightarrow> gw_ClassName gw = ''''"
    "ls \<in> set (listener_sets_of k) \<Longrightarrow> \<not> named_gateway ls"
    "policy_refs k = []"
  using assms
  by (auto simp: completion_def backend_manifest_def target_manifest_def Let_def bare_gateway_def route_backends_def
      TerminatingCertificateRefs_def gateways_of_def listener_sets_of_def listener_set_of_def policy_refs_def policy_of_def
      named_gateway_def route_builders)

context object_index
begin

lemma index_completed: "index (completed ctx) = index ctx \<union> \<Union> (entries ` set (completion ctx))"
  by (auto simp: index_eq completed_def load_def)

end

lemma backends_completed: "BackendTargets (completed ctx) = BackendTargets ctx \<union> set (missing_backends ctx)"
  unfolding backends_index.index_completed
  by (auto simp: completion_def other_manifest_entries backend_manifest_entries [OF missing_backend_kind]
      target_manifest_entries [OF missing_policy_target_kind])

lemma secrets_completed: "CertificateSecrets (completed ctx) = CertificateSecrets ctx \<union> set (missing_secrets ctx)"
  unfolding secrets_index.index_completed
  by (auto simp: completion_def other_manifest_entries backend_manifest_entries [OF missing_backend_kind]
      target_manifest_entries [OF missing_policy_target_kind] bare_meta_def ref_eqI [OF missing_secret_kind])

lemma classes_completed: "GatewayClasses (completed ctx) = GatewayClasses ctx \<union> set (missing_classes ctx)"
  unfolding classes_index.index_completed
  by (auto simp: completion_def other_manifest_entries backend_manifest_entries [OF missing_backend_kind]
      target_manifest_entries [OF missing_policy_target_kind] bare_meta_def)

lemma gateways_completed:
  "dls_gateways (completed ctx) = dls_gateways ctx \<union> set (missing_gateways ctx) \<union>
     {ref \<in> set (missing_policy_targets ctx). ref_Kind ref = Gateway}"
  unfolding gateways_index.index_completed
  by (auto simp: completion_def other_manifest_entries backend_manifest_entries [OF missing_backend_kind]
      target_manifest_entries [OF missing_policy_target_kind] bare_gateway_def bare_meta_def ref_eqI [OF missing_gateway_kind])

lemma policy_targets_completed: "policyTargets (completed ctx) = policyTargets ctx \<union> set (missing_policy_targets ctx)"
  unfolding policy_targets_index.index_completed
  by (auto simp: completion_def other_manifest_entries backend_manifest_entries [OF missing_backend_kind]
      target_manifest_entries [OF missing_policy_target_kind])

text \<open>A Gateway added for a policy lies in a namespace of which a v1 Gateway is known.\<close>

lemma policy_gateway_described:
  assumes "ref \<in> set (missing_policy_targets ctx)" and "ref_Kind ref = Gateway"
  shows "ref_Namespace ref \<in> ref_Namespace ` dls_gateways ctx"
proof -
  have "kind_scope ref \<in> kind_scope ` policyTargets ctx"
    using assms(1) by (auto simp: missing_policy_targets_def set_missing)
  then obtain known where known: "known \<in> policyTargets ctx" "ref_Kind known = Gateway" "ref_Namespace known = ref_Namespace ref"
    using assms(2) by (auto simp: kind_scope_def)
  from known(1) obtain obj where obj: "obj \<in> set (Objects ctx)" "known \<in> policy_target_entries (K8sObject obj)"
    unfolding policy_targets_index.index_iff by blast
  from obj(2) known(2) have "known \<in> gateway_entries (K8sObject obj)"
    by (cases "K8sObject obj") (auto simp: policy_target_entries_def parent_entries_def gateway_entries_def kind_strings route_builders)
  with obj(1) known(3) show ?thesis unfolding gateways_index.index_eq by (metis UN_I image_eqI)
qed

section \<open>Properties\<close>

lemma five_silent:
  assumes "obj \<in> set (Objects (completed ctx))"
  shows "dbr_checkFunc R (completed ctx) obj = Some []" "dcr_checkFunc R (completed ctx) obj = Some []"
    "dgc_checkFunc R (completed ctx) obj = Some []" "dls_checkFunc R (completed ctx) obj = Some []"
    "dpt_checkFunc R (completed ctx) obj = Some []"
proof -
  note bare = bare_manifests [of _ ctx]
  show "dbr_checkFunc R (completed ctx) obj = Some []"
    using backends_completed by (intro dbr.completed_silent [OF objects_completed _ _ _ assms, where others = "{}"])
      (auto simp: missing_backends_def bare)
  show "dcr_checkFunc R (completed ctx) obj = Some []"
    using secrets_completed by (intro dcr.completed_silent [OF objects_completed _ _ _ assms, where others = "{}"])
      (auto simp: missing_secrets_def bare)
  show "dgc_checkFunc R (completed ctx) obj = Some []"
    using classes_completed by (intro dgc.completed_silent [OF objects_completed _ _ _ assms, where others = "{}"])
      (auto simp: missing_classes_def bare)
  show "dls_checkFunc R (completed ctx) obj = Some []"
    using gateways_completed
    by (intro dls.completed_silent [OF objects_completed _ _ _ assms,
          where others = "{ref \<in> set (missing_policy_targets ctx). ref_Kind ref = Gateway}"])
      (auto simp: missing_gateways_def bare policy_gateway_described)
  show "dpt_checkFunc R (completed ctx) obj = Some []"
    using policy_targets_completed by (intro dpt.completed_silent [OF objects_completed _ _ _ assms, where others = "{}"])
      (auto simp: missing_policy_targets_def bare)
qed

text \<open>Where the five checks are silent already, nothing is missing.\<close>

lemma missing_targets_Nil_iff:
  "missing_targets refs reports target ctx = [] \<longleftrightarrow>
     (\<forall>obj\<in>set (Objects ctx). \<forall>r\<in>set (refs (K8sObject obj)). \<not> reports (K8sObject obj) r)"
  by (simp add: missing_targets_def filter_empty_conv)

lemma completion_Nil_iff:
  "completion ctx = [] \<longleftrightarrow> (\<forall>obj\<in>set (Objects ctx).
     \<forall>check\<in>{dbr_checkFunc, dcr_checkFunc, dgc_checkFunc, dls_checkFunc, dpt_checkFunc}. check R ctx obj = Some [])"
  unfolding completion_def missing_backends_def missing_secrets_def missing_classes_def missing_gateways_def
    missing_policy_targets_def append_is_Nil_conv map_is_Nil_conv missing_targets_Nil_iff ball_simps
    dbr.check_refs dcr.check_refs dgc.check_refs dls.check_refs dpt.check_refs option.inject map_is_Nil_conv filter_empty_conv
  by blast

text \<open>
  C11: every set of manifests can be completed. Adding to it the manifests \<open>completion\<close> lists, one for
  each target some finding names, leaves the five checks for dangling references silent on every
  object of the completed set, the added ones included; and nothing is listed exactly when they were
  silent to begin with.
\<close>

theorem dangling_findings_can_be_answered:
  "(\<forall>obj\<in>set (Objects (completed ctx)).
      \<forall>check\<in>{dbr_checkFunc, dcr_checkFunc, dgc_checkFunc, dls_checkFunc, dpt_checkFunc}.
        check R (completed ctx) obj = Some []) \<and>
   (completion ctx = [] \<longleftrightarrow> (\<forall>obj\<in>set (Objects ctx).
      \<forall>check\<in>{dbr_checkFunc, dcr_checkFunc, dgc_checkFunc, dls_checkFunc, dpt_checkFunc}. check R ctx obj = Some []))"
  using five_silent completion_Nil_iff [of ctx R] by blast

text \<open>The route \<open>web\<close> needs a Service \<open>web\<close> in a set that describes Services of its namespace.\<close>

theorem dangling_findings_can_be_answered_witness:
  "completion (context_of [web ''web'' None, Service_v1 (meta ''infra'' ''other'')]) =
     [Service_v1 (bare_meta (mk_ref ''Service'' ''infra'' ''web''))] \<and>
   dbr_checkFunc forward_runtime (completed (context_of [web ''web'' None, Service_v1 (meta ''infra'' ''other'')])) (load 0 (web ''web'' None)) = Some []"
proof
  let ?ctx = "context_of [web ''web'' None, Service_v1 (meta ''infra'' ''other'')]"
  show "completion ?ctx = [Service_v1 (bare_meta (mk_ref ''Service'' ''infra'' ''web''))]" by code_simp
  have "load 0 (web ''web'' None) \<in> set (Objects (completed ?ctx))"
    by (simp add: completed_def context_of_def)
  then show "dbr_checkFunc forward_runtime (completed ?ctx) (load 0 (web ''web'' None)) = Some []"
    using dangling_findings_can_be_answered [where ctx = ?ctx and R = forward_runtime] by blast
qed

end
