(* ===== verification/Spec2Isabelle.thy ===== *)
theory Spec2Isabelle
  imports Sample_Run Completion
begin

text \<open>
  A model of \<open>gwlint\<close>, a linter for Gateway API and Envoy Gateway manifests written in Go on top
  of kube-linter's engine, and the theorems that say what its checks report.

  \<^bold>\<open>The program.\<close> \<open>cmd/gwlint\<close> assembles a root command (\<open>pkg/command/root\<close>) of which \<open>lint\<close>
  (\<open>pkg/command/lint\<close>) does the work: it loads the embedded check configurations
  (\<open>pkg/builtinchecks\<close>), decodes the manifests into contexts (with the types \<open>pkg/decoder\<close>
  registers), merges these into one, hands it to kube-linter's engine, and writes the report with a
  summary of what was looked at. The engine runs every check on every object whose group, version
  and kind one of the check's kinds matches (\<open>pkg/objectkinds\<close>). The 27 checks
  (\<open>pkg/templates/*\<close>) are functions of the whole context and one object, built on shared views of
  the objects (\<open>pkg/gatewayapi\<close>).

  \<^bold>\<open>The theories.\<close>
  \<^item> \<open>Prelude\<close>: panics as options, loops, Go's \<open>sort.Slice\<close>; the locale \<open>go_order\<close> says when a
    comparator determines the result. \<open>Go_Lib\<close>: Go maps as association lists, the parameters
    \<open>runtime\<close> (Unicode tables, the label selector parser, the order in which a map is ranged over).
    \<open>Go_Strings\<close>: \<open>%q\<close>, \<open>%d\<close>, \<open>strings.Join\<close>, \<open>strings.ToLower\<close>. \<open>Unquote\<close>: a reader of \<open>%q\<close>, with
    the proof that it inverts the printer on every byte string.
  \<^item> \<open>Objects\<close>: the API types, reduced to the fields read, and the lint context.
    \<open>Object_Kinds\<close>: \<open>pkg/objectkinds\<close> and the matching of scopes.
  \<^item> \<open>Routes\<close> (\<open>route.go\<close>, \<open>rules.go\<close>, \<open>rulenames.go\<close>), \<open>Parents\<close> (\<open>parent.go\<close>, \<open>gateway.go\<close>,
    \<open>gatewayclass.go\<close>, \<open>gatewaylistener.go\<close>, \<open>listenerselect.go\<close>), \<open>Attach\<close> (\<open>attach.go\<close>),
    \<open>Certificates\<close> (\<open>certificate.go\<close>), \<open>Route_Match\<close> (\<open>routematch.go\<close>), \<open>Policy_Coverage\<close>
    (\<open>policycoverage.go\<close>): the shared views. The locales \<open>object_index\<close> and \<open>listener_index\<close>
    state what an index of the context promises; each index of the program interprets one.
  \<^item> \<open>Check_Contract\<close>: what the engine relies on of a check (\<open>check_contract\<close>) and the shapes checks
    have (\<open>route_check\<close>, \<open>parent_check\<close>, \<open>ref_check\<close>, \<open>dangling_check\<close>), each a sublocale of the one
    before it. Every one of the 27 checks interprets one of them. \<open>Fixtures\<close>: manifests for witnesses.
  \<^item> \<open>Checks_Attachment\<close>: the five checks on parentRefs. \<open>Attachment_Spec\<close>: the specification
    \<open>attaches\<close> that the five refine together, and the gap they leave. \<open>Checks_References\<close>: the dangling
    references and the two ReferenceGrant checks. \<open>Checks_Rules\<close> and \<open>Conflicting_Route_Match\<close>: rules
    and matches. \<open>Checks_Listeners\<close>: the checks on one Gateway or ListenerSet. \<open>Fqdn_Coverage\<close>,
    \<open>Checks_Health\<close>, \<open>Checks_Policies\<close>: the checks on Envoy Gateway objects.
  \<^item> \<open>Builtin_Checks\<close> (\<open>pkg/templates/all\<close>, \<open>pkg/builtinchecks\<close>), \<open>Lint_Scan\<close> (\<open>merge.go\<close>,
    \<open>scanned.go\<close>), \<open>Lint_Command\<close> (\<open>RunE\<close> of \<open>command.go\<close>), \<open>Command_Line\<close> (the plain template,
    formatters, flags and commands; \<open>pkg/command/root\<close>, \<open>pkg/version\<close>, \<open>pkg/decoder\<close>, \<open>main.go\<close>).
  \<^item> \<open>Load_Order\<close>: contexts of the same manifests in other files, another order, at other addresses;
    the locales \<open>context_view\<close>, \<open>view_check\<close> and \<open>order_free\<close>, the last interpreted by every check.
    \<open>Completion\<close>: the manifests that answer every dangling reference.
  \<^item> \<open>Engine_Run\<close>: a whole run under the documented behaviour of kube-linter's engine
    (\<open>engine_spec\<close>), and what its exit code says. \<open>Sample_Run\<close>: concrete parameters and a clean set of
    manifests, on which the witnesses run. This theory holds what spans components.

  \<^bold>\<open>How the model corresponds to the code.\<close> A Go function keeps its name, or has the check's
  prefix where two packages use one name (\<open>lnf_checkFunc\<close> is \<open>listenernotfound.checkFunc\<close>). A check
  is a \<open>check_func\<close>: runtime, context, object to a list of diagnostics, \<open>None\<close> for a panic. Messages are
  modelled to the byte. A loop that only appends is \<open>for_append\<close>, one whose body can panic is
  \<open>for_go\<close>, one that keeps state is a \<open>fun\<close>; all recursion is structural, so no fuel is needed
  and every function is total. A Go map that is ranged over goes through \<open>range_order\<close>, a parameter
  constrained only to enumerate the keys, so a theorem that two runtimes agree says that the
  result does not depend on the map order. 32-bit integers are words. Pointers to policies are the
  \<open>obj_Ptr\<close> of their object.

  \<^bold>\<open>What the theorems show.\<close> For each check, when it reports and, where it can panic, that it does
  not; what the checks promise each other (one attachment finding per parentRef, one report per
  conflict); against specifications: when hostnames meet (a concrete host both sides cover), when
  two match keys are equal (the same conditions), when listeners clash, what a Gateway policy
  covers; that the two copies of the coverage and of the ReferenceGrant logic agree; for all 27
  checks, totality, scope and independence of map order, so that the engine's scoping loses no
  finding; that configurations and templates fit; what the summary counts. For all 27 checks, too:
  findings depend on the manifests alone and not on how they are laid out in files and loaded, as long
  as no two are the same object, and every dangling reference can be answered by adding its target
  without raising another such finding. Across components: the
  five attachment checks together decide attachment; the command exits with 0 exactly when all 27
  checks are silent on the merged set, the plain report says so exactly then, and a clean exit means
  that routes attach and their references resolve; a failing run prints no reason.

  \<^bold>\<open>Hypotheses.\<close> \<open>range_ok\<close> (a map range enumerates the map) and \<open>same_tables\<close> (two runs of one
  binary) on the runtime; \<open>unique_identities\<close> (no object twice) on manifests and \<open>by_manifest\<close> (an
  exemption is an annotation) on exemptions, where two layouts are compared; \<open>decoded\<close> (an object's type fits its group and kind) on client-go's decoder;
  \<open>engine_spec\<close> on kube-linter's \<open>run.Run\<close>, \<open>embedded_ok\<close> on the embedded files and the registry,
  \<open>inputs_load\<close> and \<open>outputs_written\<close> on the file system. \<open>Sample_Run\<close> shows each can hold. The other
  calls of the program into kube-linter, cobra and the API packages are fields of \<open>lint_env\<close>,
  \<open>cli_env\<close>, \<open>output_pkg\<close> and \<open>decoder_env\<close>, of which nothing is assumed.

  \<^bold>\<open>Not modelled.\<close> Code that is not in the repository: kube-linter's engine, its templates command and
  JSON formatter, cobra's parsing, client-go's decoding; and the descriptions and remediations in the
  YAML files, which no code of the repository reads.
\<close>

section \<open>Monotonicity of the dangling-reference checks\<close>

text \<open>
  C32: adding manifests never makes one of the five checks for dangling references report an
  object it did not report before, as long as what is added lies in namespaces and kinds the set
  already described: the more of the cluster the checks see, the fewer references look dangling.
\<close>

theorem more_manifests_fewer_dangling:
  assumes "set (Objects ctx) \<subseteq> set (Objects ctx')"
    and "kind_scope ` BackendTargets ctx' \<subseteq> kind_scope ` BackendTargets ctx"
    and "ref_Namespace ` CertificateSecrets ctx' \<subseteq> ref_Namespace ` CertificateSecrets ctx"
    and "GatewayClasses ctx' = {} \<or> GatewayClasses ctx \<noteq> {}"
    and "ref_Namespace ` dls_gateways ctx' \<subseteq> ref_Namespace ` dls_gateways ctx"
    and "kind_scope ` policyTargets ctx' \<subseteq> kind_scope ` policyTargets ctx"
    and "check \<in> {dbr_checkFunc, dcr_checkFunc, dgc_checkFunc, dls_checkFunc, dpt_checkFunc}"
    and "check R ctx obj = Some []"
  shows "check R ctx' obj = Some []"
proof -
  have "(\<lambda>_. ()) ` GatewayClasses ctx' \<subseteq> (\<lambda>_. ()) ` GatewayClasses ctx"
    using assms(4) by auto
  note antitone = dbr.findings_antitone [OF assms(1,2)] dcr.findings_antitone [OF assms(1,3)]
    dgc.findings_antitone [OF assms(1) this] dls.findings_antitone [OF assms(1,5)]
    dpt.findings_antitone [OF assms(1,6)]
  from assms(7) consider "check = dbr_checkFunc" | "check = dcr_checkFunc" | "check = dgc_checkFunc"
    | "check = dls_checkFunc" | "check = dpt_checkFunc" by blast
  then show ?thesis using assms(8) antitone by cases blast+
qed

text \<open>A policy on the route \<open>web\<close>, judged in a set with the route and in one with another route too.\<close>

theorem more_manifests_fewer_dangling_witness:
  "dpt_checkFunc forward_runtime (context_of [web ''web'' None, web ''more'' None]) (load 2 (policy_for ''p'' ''web'')) = Some []"
proof (rule more_manifests_fewer_dangling [where ctx = "context_of [web ''web'' None]"])
  show "dpt_checkFunc forward_runtime (context_of [web ''web'' None]) (load 2 (policy_for ''p'' ''web'')) = Some []"
    by code_simp
  show "kind_scope ` policyTargets (context_of [web ''web'' None, web ''more'' None]) \<subseteq>
      kind_scope ` policyTargets (context_of [web ''web'' None])"
    by code_simp
  show "ref_Namespace ` dls_gateways (context_of [web ''web'' None, web ''more'' None]) \<subseteq>
      ref_Namespace ` dls_gateways (context_of [web ''web'' None])"
    by code_simp
  show "kind_scope ` BackendTargets (context_of [web ''web'' None, web ''more'' None]) \<subseteq>
      kind_scope ` BackendTargets (context_of [web ''web'' None])"
    by code_simp
  show "ref_Namespace ` CertificateSecrets (context_of [web ''web'' None, web ''more'' None]) \<subseteq>
      ref_Namespace ` CertificateSecrets (context_of [web ''web'' None])"
    by code_simp
  show "GatewayClasses (context_of [web ''web'' None, web ''more'' None]) = {} \<or>
      GatewayClasses (context_of [web ''web'' None]) \<noteq> {}"
    by code_simp
qed (simp_all add: context_of_def)

section \<open>What a run enables\<close>


definition plain_flags :: lint_flags where
  "plain_flags = \<lparr>fl_failIfNoObjects = False, fl_verbose = False, fl_formats = [''plain''], fl_outputs = []\<rparr>"

lemma sample_inputs: "inputs_load (sample_env R (Inr ctxs)) [''-'', ''manifests''] ctxs"
  by (simp add: inputs_load_def sample_env_def)

lemma sample_outputs: "outputs_written (sample_env R loaded) flags"
  by (simp add: outputs_written_def sample_env_def list_all_iff pair_written_def)


section \<open>What the exit code says\<close>


lemma clean_merged: "mergeContexts [clean_context] = clean_context"
  by (simp add: mergeContexts_def clean_context_def context_of_def)

lemma clean_decoded: "Objects clean_context \<noteq> []" "list_all decoded (Objects clean_context)"
  by (auto simp: clean_context_def context_of_def decoded_load)




section \<open>The layout of the manifests\<close>



text \<open>
  C21: the plain report and the exit code agree. Whatever result the lint command hands to a
  formatter, where the outputs are written, the plain template prints the version, the line
  \<open>No lint errors found.\<close> and the summary, and nothing else, exactly when the command exits with 0.
\<close>

theorem plain_report_agrees_with_exit:
  assumes "outputs_written env flags"
    and "(pair, scanned) \<in> set (oc_Formatted (lint_contexts R env flags version registry names lintCtxs))"
  shows "plain_text R style scanned =
      ''gwlint '' @ version @ newline @ newline @ ''No lint errors found.'' @ newline @
      summary_String R (lr_Scanned scanned) @ newline \<longleftrightarrow>
    main_exit (lint_contexts R env flags version registry names lintCtxs) = 0"
proof -
  obtain result where loaded: "Objects (mergeContexts lintCtxs) \<noteq> []"
    and run: "env_Run env [mergeContexts lintCtxs] registry names = Inr result"
    and scanned: "lr_Result scanned = result\<lparr>res_Version := version\<rparr>"
    using lint_contexts_formatted [OF assms(2)] by blast
  obtain pairs where "env_Pairs env (fl_formats flags) (fl_outputs flags) = Inr pairs"
    "\<And>scanned. list_all (pair_written env scanned) pairs"
    using assms(1) unfolding outputs_written_def by blast
  with loaded run have "main_exit (lint_contexts R env flags version registry names lintCtxs) = 0 \<longleftrightarrow> res_Reports result = []"
    by (simp add: lint_exit_eq Let_def)
  moreover have "res_Version (lr_Result scanned) = version" "res_Reports (lr_Result scanned) = res_Reports result"
    by (simp_all add: scanned)
  ultimately show ?thesis using plain_text_clean_iff [of R style scanned] by simp
qed

definition clean_result :: lint_result where
  "clean_result =
     \<lparr>lr_Result = \<lparr>res_Reports = [], res_Version = ''dev''\<rparr>, lr_Scanned = summarize forward_runtime [clean_context] []\<rparr>"

lemma clean_formatted:
  "(\<lparr>fo_Format = ''plain'', fo_Output = ''''\<rparr>, clean_result) \<in> set (oc_Formatted
     (lint_contexts forward_runtime (sample_env forward_runtime (Inr [clean_context])) plain_flags ''dev''
       [] (map tm_Key all_templates) [clean_context]))"
proof -
  have none: "for_append ts ((\<lambda>_. []) \<circ> f) = ([] :: instantiated_check list)"
    for ts :: "check_template list" and f :: "check_template \<Rightarrow> str"
    by (induction ts) simp_all
  show ?thesis
    using clean_decoded(1)
    by (simp add: lint_contexts_def clean_merged Let_def report_result_def sample_env_def plain_flags_def clean_result_def)
      (simp only: none)
qed

theorem plain_report_agrees_with_exit_witness:
  "main_exit (lint_contexts forward_runtime (sample_env forward_runtime (Inr [clean_context])) plain_flags ''dev''
     [] (map tm_Key all_templates) [clean_context]) = 0"
proof -
  have "plain_text forward_runtime style clean_result = ''gwlint '' @ ''dev'' @ newline @ newline @ ''No lint errors found.'' @ newline @
      summary_String forward_runtime (lr_Scanned clean_result) @ newline" for style
    by (simp add: plain_text_def clean_result_def)
  then show ?thesis using plain_report_agrees_with_exit [OF sample_outputs clean_formatted] by blast
qed

section \<open>What a failing run prints\<close>



end
